(* ===== verification/Prelude.thy ===== *)
theory Prelude
  imports Main "HOL-Library.Sublist"
begin

text \<open>
  Shared ground of the development: the collections of facts the component
  proofs draw on, the names of the types that stand for Go's basic types, and
  generic lemmas on lists and finite maps.

  A Go \<open>string\<close> or \<open>[]byte\<close> is a list of bytes; \<^typ>\<open>char\<close> has exactly 256
  values, so it is \<^typ>\<open>string\<close> here.  \<open>time.Time\<close> is an \<^typ>\<open>int\<close> of nanoseconds
  (\<open>After\<close>, \<open>Equal\<close>, \<open>Before\<close> are the order on it, \<open>Add\<close> and \<open>Sub\<close> are addition and
  subtraction) and \<open>time.Duration\<close> is an \<^typ>\<open>int\<close> of nanoseconds.  A Go map is a
  partial function, a set (\<open>map[string]struct{}\<close>) a HOL set.  A Go function that
  returns a value and an error returns a sum, \<open>Inl\<close> for the error.
\<close>

type_synonym bytes = string
type_synonym time = int
type_synonym duration = int

named_theorems store_simps \<open>updates of in-memory stores\<close>
named_theorems scan_simps \<open>one step of a byte scanner\<close>
named_theorems mask_simps \<open>facts about masking of result values\<close>

subsection \<open>Time constants of package time\<close>

definition Second :: duration where "Second = 1000000000"
definition Minute :: duration where "Minute = 60 * Second"
definition Hour :: duration where "Hour = 60 * Minute"

lemma time_units_pos [simp]: "0 < Second" "0 < Minute" "0 < Hour"
  by (simp_all add: Second_def Minute_def Hour_def)

subsection \<open>Results\<close>

fun is_ok :: "'e + 'a \<Rightarrow> bool" where
  "is_ok (Inr _) = True"
| "is_ok (Inl _) = False"

lemma is_ok_iff: "is_ok r \<longleftrightarrow> (\<exists>v. r = Inr v)"
  by (cases r) auto

subsection \<open>Lists\<close>

lemma dropWhile_length_le: "length (dropWhile P xs) \<le> length xs"
  by (induction xs) auto

lemma suffix_dropWhile_trans: "suffix xs ys \<Longrightarrow> suffix (dropWhile P xs) ys"
  by (meson suffix_dropWhile suffix_order.trans)

lemma suffix_tl_trans: "suffix (x # xs) ys \<Longrightarrow> suffix xs ys"
  by (meson suffix_ConsD)

lemma filter_filter_conj: "filter P (filter Q xs) = filter (\<lambda>x. Q x \<and> P x) xs"
  by (simp add: conj_commute)

lemma length_filter_mono:
  assumes "\<And>x. x \<in> set xs \<Longrightarrow> P x \<Longrightarrow> Q x"
  shows "length (filter P xs) \<le> length (filter Q xs)"
  using assms by (induction xs) (auto simp: le_SucI)

end
