(* ===== verification/GoStrings.thy ===== *)
theory GoStrings
  imports Prelude
begin

text \<open>
  The functions of Go's packages \<open>unicode/utf8\<close>, \<open>strings\<close> and \<open>net\<close> that the
  program calls on strings.  Go decodes a string into runes as UTF-8, an
  invalid byte counting as \<open>U+FFFD\<close> of width one; \<open>utf8_chunks\<close> keeps every rune
  with the bytes it was read from.  The case table of Unicode above ASCII is not
  written out: \<open>ToLower\<close> takes it as the argument \<open>ul\<close>.
\<close>

subsection \<open>UTF-8 decoding (package unicode/utf8)\<close>

type_synonym rune = nat

definition RuneError :: rune where "RuneError = 65533"

definition byte_of :: "char \<Rightarrow> nat" where "byte_of c = of_char c"

definition cont_byte :: "char \<Rightarrow> bool" where
  "cont_byte c \<longleftrightarrow> 128 \<le> byte_of c \<and> byte_of c \<le> 191"

definition byte_in :: "nat \<Rightarrow> nat \<Rightarrow> char \<Rightarrow> bool" where
  "byte_in lo hi c \<longleftrightarrow> lo \<le> byte_of c \<and> byte_of c \<le> hi"

text \<open>\<open>utf8.DecodeRuneInString\<close> on a non-empty string: the rune and its width.\<close>

definition decode2 :: "nat \<Rightarrow> string \<Rightarrow> rune \<times> nat" where
  "decode2 b0 cs = (case cs of
     c1 # _ \<Rightarrow> if cont_byte c1 then ((b0 - 192) * 64 + (byte_of c1 - 128), 2) else (RuneError, 1)
   | _ \<Rightarrow> (RuneError, 1))"

definition decode3 :: "nat \<Rightarrow> nat \<Rightarrow> nat \<Rightarrow> string \<Rightarrow> rune \<times> nat" where
  "decode3 b0 lo hi cs = (case cs of
     c1 # c2 # _ \<Rightarrow> if byte_in lo hi c1 \<and> cont_byte c2
       then ((b0 - 224) * 4096 + (byte_of c1 - 128) * 64 + (byte_of c2 - 128), 3)
       else (RuneError, 1)
   | _ \<Rightarrow> (RuneError, 1))"

definition decode4 :: "nat \<Rightarrow> nat \<Rightarrow> nat \<Rightarrow> string \<Rightarrow> rune \<times> nat" where
  "decode4 b0 lo hi cs = (case cs of
     c1 # c2 # c3 # _ \<Rightarrow> if byte_in lo hi c1 \<and> cont_byte c2 \<and> cont_byte c3
       then ((b0 - 240) * 262144 + (byte_of c1 - 128) * 4096
               + (byte_of c2 - 128) * 64 + (byte_of c3 - 128), 4)
       else (RuneError, 1)
   | _ \<Rightarrow> (RuneError, 1))"

definition decode_rune :: "char \<Rightarrow> string \<Rightarrow> rune \<times> nat" where
  "decode_rune c cs = (let b0 = byte_of c in
     if b0 < 128 then (b0, 1)
     else if b0 < 194 then (RuneError, 1)
     else if b0 \<le> 223 then decode2 b0 cs
     else if b0 = 224 then decode3 b0 160 191 cs
     else if b0 = 237 then decode3 b0 128 159 cs
     else if b0 \<le> 239 then decode3 b0 128 191 cs
     else if b0 = 240 then decode4 b0 144 191 cs
     else if b0 \<le> 243 then decode4 b0 128 191 cs
     else if b0 = 244 then decode4 b0 128 143 cs
     else (RuneError, 1))"

lemma decode_rune_width: "1 \<le> snd (decode_rune c cs)"
  by (auto simp: decode_rune_def decode2_def decode3_def decode4_def Let_def split: list.splits)

function utf8_chunks :: "string \<Rightarrow> (rune \<times> string) list" where
  "utf8_chunks [] = []"
| "utf8_chunks (c # cs) = (case decode_rune c cs of
     (r, w) \<Rightarrow> (r, take w (c # cs)) # utf8_chunks (drop (w - 1) cs))"
  by pat_completeness auto
termination
  by (relation "measure length") auto

lemma utf8_chunks_concat: "concat (map snd (utf8_chunks s)) = s"
proof (induction s rule: utf8_chunks.induct)
  case (2 c cs)
  obtain r w where rw: "decode_rune c cs = (r, w)" by fastforce
  with decode_rune_width[of c cs] obtain v where w: "w = Suc v" by (cases w) auto
  from 2[OF rw[symmetric]] rw w show ?case by simp
qed simp

definition ascii :: "char \<Rightarrow> bool" where "ascii c \<longleftrightarrow> byte_of c < 128"

lemma utf8_chunks_ascii:
  "list_all ascii s \<Longrightarrow> utf8_chunks s = map (\<lambda>c. (byte_of c, [c])) s"
  by (induction s) (auto simp: decode_rune_def ascii_def)

text \<open>An ASCII byte always starts a rune: it is never read as the rest of a longer one.\<close>

lemma decode_rune_before_ascii:
  assumes "ascii d"
  shows "decode_rune c (cs @ d # b) = decode_rune c cs"
proof -
  have d: "\<not> cont_byte d" "byte_of d < 128" using assms by (auto simp: ascii_def cont_byte_def)
  have 2: "decode2 b0 (cs @ d # b) = decode2 b0 cs" for b0
    using d by (cases cs) (auto simp: decode2_def)
  have 3: "decode3 b0 lo hi (cs @ d # b) = decode3 b0 lo hi cs" if "128 \<le> lo" for b0 lo hi
    using d that by (auto simp: decode3_def byte_in_def split: list.splits simp: neq_Nil_conv Cons_eq_append_conv)
  have 4: "decode4 b0 lo hi (cs @ d # b) = decode4 b0 lo hi cs" if "128 \<le> lo" for b0 lo hi
    using d that by (auto simp: decode4_def byte_in_def split: list.splits simp: neq_Nil_conv Cons_eq_append_conv)
  show ?thesis by (simp add: decode_rune_def Let_def 2 3 4)
qed

lemma decode_rune_width_le: "snd (decode_rune c cs) \<le> Suc (length cs)"
  by (auto simp: decode_rune_def decode2_def decode3_def decode4_def Let_def split: list.splits)

lemma decode_rune_low: "fst (decode_rune c cs) < 128 \<Longrightarrow> ascii c"
  by (auto simp: decode_rune_def decode2_def decode3_def decode4_def byte_in_def RuneError_def ascii_def
      Let_def split: list.splits if_splits)

lemma utf8_chunks_shape:
  "(r, bs) \<in> set (utf8_chunks s) \<Longrightarrow> bs \<noteq> [] \<and> (r < 128 \<or> ascii (hd bs) \<longrightarrow> r = byte_of (hd bs) \<and> bs = [hd bs])"
proof (induction s rule: utf8_chunks.induct)
  case (2 c cs)
  obtain r' w where rw: "decode_rune c cs = (r', w)" by fastforce
  have "ascii c \<Longrightarrow> r' = byte_of c \<and> w = 1" using rw by (simp add: decode_rune_def ascii_def Let_def)
  moreover have "r' < 128 \<Longrightarrow> ascii c" using decode_rune_low[of c cs] rw by simp
  moreover have "1 \<le> w" using decode_rune_width[of c cs] rw by simp
  ultimately show ?case using 2 rw by (auto simp: take_Cons')
qed simp

lemma utf8_chunks_append:
  assumes "ascii d"
  shows "utf8_chunks (a @ d # b) = utf8_chunks a @ utf8_chunks (d # b)"
proof (induction a rule: utf8_chunks.induct)
  case (2 c cs)
  obtain r w where rw: "decode_rune c cs = (r, w)" by fastforce
  have w: "1 \<le> w" "w \<le> Suc (length cs)"
    using decode_rune_width[of c cs] decode_rune_width_le[of c cs] rw by auto
  have "decode_rune c (cs @ d # b) = (r, w)" using decode_rune_before_ascii[OF assms] rw by simp
  then show ?case using 2[OF rw[symmetric]] rw w by (simp add: take_Cons')
qed simp

lemma utf8_chunks_ascii_prefix:
  "list_all ascii p \<Longrightarrow> utf8_chunks (p @ b) = map (\<lambda>c. (byte_of c, [c])) p @ utf8_chunks b"
  by (induction p) (auto simp: decode_rune_def ascii_def)

lemma utf8_chunks_ascii_word:
  assumes "list_all ascii p" "p \<noteq> []"
  shows "utf8_chunks (a @ p @ b) = utf8_chunks a @ map (\<lambda>c. (byte_of c, [c])) p @ utf8_chunks b"
proof -
  obtain d q where p: "p = d # q" using assms(2) by (cases p) auto
  have "utf8_chunks (a @ p @ b) = utf8_chunks a @ utf8_chunks (p @ b)"
    using utf8_chunks_append[of d a "q @ b"] assms(1) by (simp add: p)
  then show ?thesis using utf8_chunks_ascii_prefix[OF assms(1), of b] by simp
qed

text \<open>Every run of chunks decodes to itself.\<close>

lemma decode_take:
  "snd (decode2 b0 cs) \<le> Suc k \<Longrightarrow> decode2 b0 (take k cs) = decode2 b0 cs"
  "snd (decode3 b0 lo hi cs) \<le> Suc k \<Longrightarrow> decode3 b0 lo hi (take k cs) = decode3 b0 lo hi cs"
  "snd (decode4 b0 lo hi cs) \<le> Suc k \<Longrightarrow> decode4 b0 lo hi (take k cs) = decode4 b0 lo hi cs"
proof -
  consider "k = 0" | "k = 1" | "k = 2" | j where "k = Suc (Suc (Suc j))"
    by (metis One_nat_def Suc_1 not0_implies_Suc)
  note k = this
  show "snd (decode2 b0 cs) \<le> Suc k \<Longrightarrow> decode2 b0 (take k cs) = decode2 b0 cs"
    by (cases rule: k) (auto simp: decode2_def take_Cons' numeral_2_eq_2 split: list.splits if_splits)
  show "snd (decode3 b0 lo hi cs) \<le> Suc k \<Longrightarrow> decode3 b0 lo hi (take k cs) = decode3 b0 lo hi cs"
    by (cases rule: k) (auto simp: decode3_def take_Cons' numeral_2_eq_2 split: list.splits if_splits)
  show "snd (decode4 b0 lo hi cs) \<le> Suc k \<Longrightarrow> decode4 b0 lo hi (take k cs) = decode4 b0 lo hi cs"
    by (cases rule: k) (auto simp: decode4_def take_Cons' numeral_2_eq_2 split: list.splits if_splits)
qed

lemma decode_rune_take:
  "snd (decode_rune c cs) \<le> Suc k \<Longrightarrow> decode_rune c (take k cs) = decode_rune c cs"
  by (simp add: decode_rune_def Let_def decode_take split: if_splits)

lemma utf8_chunks_tail:
  "utf8_chunks s = a @ m \<Longrightarrow> utf8_chunks (concat (map snd m)) = m"
proof (induction a arbitrary: s)
  case Nil
  then show ?case using utf8_chunks_concat[of s] by simp
next
  case (Cons x a)
  then obtain c cs where "s = c # cs" by (cases s) auto
  with Cons show ?case by (auto split: prod.splits)
qed

lemma utf8_chunks_head:
  "utf8_chunks s = m @ b \<Longrightarrow> utf8_chunks (concat (map snd m)) = m"
proof (induction m arbitrary: s)
  case (Cons x m)
  then obtain c cs where s: "s = c # cs" by (cases s) auto
  obtain r w where rw: "decode_rune c cs = (r, w)" by fastforce
  have w: "1 \<le> w" "w \<le> Suc (length cs)"
    using decode_rune_width[of c cs] decode_rune_width_le[of c cs] rw by auto
  have x: "x = (r, c # take (w - 1) cs)" and m: "utf8_chunks (drop (w - 1) cs) = m @ b"
    using Cons.prems rw w(1) by (auto simp: s take_Cons')
  let ?t = "concat (map snd m)"
  have "drop (w - 1) cs = ?t @ concat (map snd b)"
    using utf8_chunks_concat[of "drop (w - 1) cs"] unfolding m by simp
  then have cs: "cs = take (w - 1) cs @ ?t @ concat (map snd b)" by (metis append_take_drop_id)
  then have tk: "take (w - 1) cs @ ?t = take (w - 1 + length ?t) cs"
    using w(2) by (metis add_diff_cancel_left' append.assoc append_eq_conv_conj length_append length_take min_absorb2 Suc_eq_plus1 le_diff_conv)
  have "decode_rune c (take (w - 1) cs @ ?t) = (r, w)"
    unfolding tk using rw w by (subst decode_rune_take) auto
  then show ?case using Cons.IH[OF m] w x by (simp add: take_Cons')
qed simp

text \<open>\<open>utf8.AppendRune\<close>: surrogates and values out of range encode as \<open>U+FFFD\<close>.\<close>

definition encode_wide :: "rune \<Rightarrow> string" where
  "encode_wide r =
     (if r < 2048 then [char_of (192 + r div 64), char_of (128 + r mod 64)]
      else if r < 65536 then
        [char_of (224 + r div 4096), char_of (128 + r div 64 mod 64), char_of (128 + r mod 64)]
      else [char_of (240 + r div 262144), char_of (128 + r div 4096 mod 64),
            char_of (128 + r div 64 mod 64), char_of (128 + r mod 64)])"

definition encode_rune :: "rune \<Rightarrow> string" where
  "encode_rune r =
     (if r < 128 then [char_of r]
      else if r > 1114111 \<or> (55296 \<le> r \<and> r \<le> 57343) then encode_wide RuneError
      else encode_wide r)"

lemma char_of_byte_of [simp]: "char_of (byte_of c) = c"
  by (simp add: byte_of_def)

lemma encode_ascii: "ascii c \<Longrightarrow> encode_rune (byte_of c) = [c]"
  by (simp add: encode_rune_def ascii_def)

subsection \<open>Case (package strings)\<close>

definition ascii_lower :: "rune \<Rightarrow> rune" where
  "ascii_lower r = (if 65 \<le> r \<and> r \<le> 90 then r + 32 else r)"

definition lower_rune :: "(rune \<Rightarrow> rune) \<Rightarrow> rune \<Rightarrow> rune" where
  "lower_rune ul r = (if r < 128 then ascii_lower r else ul r)"

definition ToLower :: "(rune \<Rightarrow> rune) \<Rightarrow> string \<Rightarrow> string" where
  "ToLower ul s = concat (map (\<lambda>(r, _). encode_rune (lower_rune ul r)) (utf8_chunks s))"

definition lower_char :: "char \<Rightarrow> char" where
  "lower_char c = (if 65 \<le> byte_of c \<and> byte_of c \<le> 90 then char_of (byte_of c + 32) else c)"

lemma ToLower_ascii:
  assumes "list_all ascii s"
  shows "ToLower ul s = map lower_char s"
proof -
  have "encode_rune (lower_rune ul (byte_of c)) = [lower_char c]" if "ascii c" for c
    using that by (auto simp: lower_rune_def ascii_lower_def lower_char_def ascii_def encode_rune_def)
  then have "concat (map (\<lambda>c. encode_rune (lower_rune ul (byte_of c))) s) = map lower_char s"
    using assms by (induction s) auto
  then show ?thesis
    using assms by (simp add: ToLower_def utf8_chunks_ascii comp_def)
qed

lemma ToLower_Nil [simp]: "ToLower ul [] = []"
  by (simp add: ToLower_def)

text \<open>
  \<open>strings.EqualFold\<close> against an ASCII word none of whose letters folds with a rune
  outside ASCII (all but \<open>k\<close> and \<open>s\<close>).
\<close>

definition EqualFold_ascii :: "string \<Rightarrow> string \<Rightarrow> bool" where
  "EqualFold_ascii s t \<longleftrightarrow> map lower_char s = map lower_char t"

subsection \<open>Prefixes, suffixes, substrings (package strings)\<close>

definition HasPrefix :: "string \<Rightarrow> string \<Rightarrow> bool" where
  "HasPrefix s p \<longleftrightarrow> take (length p) s = p"

definition TrimPrefix :: "string \<Rightarrow> string \<Rightarrow> string" where
  "TrimPrefix s p = (if HasPrefix s p then drop (length p) s else s)"

definition HasSuffix :: "string \<Rightarrow> string \<Rightarrow> bool" where
  "HasSuffix s p \<longleftrightarrow> length p \<le> length s \<and> drop (length s - length p) s = p"

definition TrimSuffix :: "string \<Rightarrow> string \<Rightarrow> string" where
  "TrimSuffix s p = (if HasSuffix s p then take (length s - length p) s else s)"

fun Contains :: "string \<Rightarrow> string \<Rightarrow> bool" where
  "Contains [] p = (p = [])"
| "Contains (c # cs) p = (HasPrefix (c # cs) p \<or> Contains cs p)"

lemma HasPrefix_iff: "HasPrefix s p \<longleftrightarrow> (\<exists>t. s = p @ t)"
  unfolding HasPrefix_def by (metis append_eq_conv_conj append_take_drop_id)

lemma HasSuffix_iff: "HasSuffix s p \<longleftrightarrow> (\<exists>t. s = t @ p)"
  unfolding HasSuffix_def
  by (metis append_take_drop_id append_eq_conv_conj diff_add_inverse2 le_add2 length_append)

lemma TrimSuffix_append [simp]: "TrimSuffix (s @ p) p = s"
  by (auto simp: TrimSuffix_def HasSuffix_def)

lemma TrimSuffix_cases: "s = TrimSuffix s p \<or> s = TrimSuffix s p @ p"
  by (auto simp: TrimSuffix_def HasSuffix_iff)

lemma TrimPrefix_append [simp]: "TrimPrefix (p @ s) p = s"
  by (simp add: TrimPrefix_def HasPrefix_def)

lemma Contains_iff: "Contains s p \<longleftrightarrow> (\<exists>a b. s = a @ p @ b)"
proof (induction s)
  case (Cons c cs)
  show ?case
  proof
    assume "Contains (c # cs) p"
    then consider "HasPrefix (c # cs) p" | "Contains cs p" by auto
    then show "\<exists>a b. c # cs = a @ p @ b"
    proof cases
      case 1 then show ?thesis by (metis HasPrefix_iff append_Nil)
    next
      case 2 then show ?thesis using Cons by (metis append_Cons)
    qed
  next
    assume "\<exists>a b. c # cs = a @ p @ b"
    then obtain a b where ab: "c # cs = a @ p @ b" by blast
    show "Contains (c # cs) p"
    proof (cases a)
      case Nil with ab have "HasPrefix (c # cs) p" by (auto simp: HasPrefix_iff)
      then show ?thesis by simp
    next
      case (Cons d a') with ab \<open>Contains cs p = (\<exists>a b. cs = a @ p @ b)\<close> show ?thesis by auto
    qed
  qed
qed auto

subsection \<open>White space (unicode.IsSpace, strings.TrimSpace, strings.Fields)\<close>

definition IsSpace :: "rune \<Rightarrow> bool" where
  "IsSpace r \<longleftrightarrow>
     (if r < 256 then (9 \<le> r \<and> r \<le> 13) \<or> r = 32 \<or> r = 133 \<or> r = 160
      else r = 5760 \<or> (8192 \<le> r \<and> r \<le> 8202) \<or> r = 8232 \<or> r = 8233 \<or> r = 8239
         \<or> r = 8287 \<or> r = 12288)"

definition chunk_space :: "rune \<times> string \<Rightarrow> bool" where
  "chunk_space ch \<longleftrightarrow> IsSpace (fst ch)"

definition TrimSpace :: "string \<Rightarrow> string" where
  "TrimSpace s = concat (map snd
     (rev (dropWhile chunk_space (rev (dropWhile chunk_space (utf8_chunks s))))))"

fun fields_of :: "(rune \<times> string) list \<Rightarrow> string \<Rightarrow> string list" where
  "fields_of [] cur = (if cur = [] then [] else [cur])"
| "fields_of (ch # chs) cur =
     (if chunk_space ch then (if cur = [] then fields_of chs [] else cur # fields_of chs [])
      else fields_of chs (cur @ snd ch))"

definition Fields :: "string \<Rightarrow> string list" where
  "Fields s = fields_of (utf8_chunks s) []"

fun Join :: "string list \<Rightarrow> string \<Rightarrow> string" where
  "Join [] sep = []"
| "Join [x] sep = x"
| "Join (x # y # xs) sep = x @ sep @ Join (y # xs) sep"

text \<open>A word of ASCII bytes that are not spaces lies inside one field.\<close>

definition word_char :: "char \<Rightarrow> bool" where
  "word_char c \<longleftrightarrow> ascii c \<and> \<not> IsSpace (byte_of c)"

lemma fields_of_word:
  "list_all word_char p \<Longrightarrow> fields_of (map (\<lambda>c. (byte_of c, [c])) p @ B) cur = fields_of B (cur @ p)"
  by (induction p arbitrary: cur) (auto simp: word_char_def chunk_space_def)

lemma fields_of_current: "cur \<noteq> [] \<Longrightarrow> \<exists>f \<in> set (fields_of B cur). \<exists>t. f = cur @ t"
proof (induction B arbitrary: cur)
  case (Cons x B)
  show ?case
  proof (cases "chunk_space x")
    case True then show ?thesis using Cons.prems by auto
  next
    case False
    have "cur @ snd x \<noteq> []" using Cons.prems by simp
    then obtain f t where "f \<in> set (fields_of B (cur @ snd x))" "f = (cur @ snd x) @ t"
      using Cons.IH[of "cur @ snd x"] by blast
    then show ?thesis using False by (intro bexI[of _ f]) auto
  qed
qed simp

lemma fields_of_contains:
  assumes "list_all word_char p" "p \<noteq> []"
  shows "\<exists>f \<in> set (fields_of (A @ map (\<lambda>c. (byte_of c, [c])) p @ B) cur). \<exists>u t. f = u @ p @ t"
proof (induction A arbitrary: cur)
  case Nil
  then show ?case using fields_of_current[of "cur @ p" B] assms fields_of_word by fastforce
next
  case (Cons x A)
  show ?case
    using Cons[of "[]"] Cons[of "cur @ snd x"] by auto
qed

lemma Join_contains: "f \<in> set fs \<Longrightarrow> \<exists>u t. Join fs sep = u @ f @ t"
proof (induction fs sep rule: Join.induct)
  case (3 x y xs sep)
  show ?case
  proof (cases "f = x")
    case True then show ?thesis by (metis Join.simps(3) append_Nil)
  next
    case False
    then obtain u t where "Join (y # xs) sep = u @ f @ t" using 3 by auto
    then show ?thesis by (metis Join.simps(3) append.assoc)
  qed
qed (auto intro: exI[of _ "[]"])

lemma Join_Fields_contains:
  assumes "list_all word_char p" "p \<noteq> []" "Contains s p"
  shows "Contains (Join (Fields s) sep) p"
proof -
  obtain a b where s: "s = a @ p @ b" using assms(3) Contains_iff by blast
  have "list_all ascii p" using assms(1) by (auto simp: list_all_iff word_char_def)
  then have "Fields s = fields_of (utf8_chunks a @ map (\<lambda>c. (byte_of c, [c])) p @ utf8_chunks b) []"
    using utf8_chunks_ascii_word[of p a b] assms(2) by (simp add: s Fields_def)
  then obtain f u t where "f \<in> set (Fields s)" "f = u @ p @ t"
    using fields_of_contains[OF assms(1,2)] by metis
  moreover obtain v w where "Join (Fields s) sep = v @ f @ w"
    using Join_contains[OF \<open>f \<in> set (Fields s)\<close>] by blast
  ultimately have "Join (Fields s) sep = (v @ u) @ p @ (t @ w)" by simp
  then show ?thesis unfolding Contains_iff by blast
qed

text \<open>Runes and bytes that survive the functions above.\<close>

lemma dropWhile_keeps: "x \<in> set xs \<Longrightarrow> \<not> P x \<Longrightarrow> x \<in> set (dropWhile P xs)"
  by (induction xs) auto

lemma utf8_chunks_byte: "ascii c \<Longrightarrow> c \<in> set s \<Longrightarrow> (byte_of c, [c]) \<in> set (utf8_chunks s)"
  using utf8_chunks_ascii_word[of "[c]"] by (auto dest!: split_list)

lemma TrimSpace_keeps:
  assumes "word_char c" "c \<in> set s"
  shows "c \<in> set (TrimSpace s)"
proof -
  have "(byte_of c, [c]) \<in> set (utf8_chunks s)" "\<not> chunk_space (byte_of c, [c])"
    using assms utf8_chunks_byte by (auto simp: word_char_def chunk_space_def)
  then have "(byte_of c, [c]) \<in> set (dropWhile chunk_space (rev (dropWhile chunk_space (utf8_chunks s))))"
    by (intro dropWhile_keeps) (auto intro: dropWhile_keeps)
  then show ?thesis
    unfolding TrimSpace_def set_concat set_map set_rev by (rule UN_I[OF imageI]) simp
qed

lemma TrimSuffix_keeps: "c \<in> set s \<Longrightarrow> c \<notin> set p \<Longrightarrow> c \<in> set (TrimSuffix s p)"
  using TrimSuffix_cases[of s p] by (metis Un_iff set_append)

lemma ToLower_keeps:
  assumes "ascii c" "c \<in> set s"
  shows "lower_char c \<in> set (ToLower ul s)"
proof -
  have "encode_rune (lower_rune ul (byte_of c)) = [lower_char c]"
    using assms(1) by (auto simp: lower_rune_def ascii_lower_def lower_char_def ascii_def encode_rune_def)
  then show ?thesis using utf8_chunks_byte[OF assms] by (force simp: ToLower_def)
qed

lemma Join_Fields_keeps:
  assumes "word_char c" "c \<in> set s"
  shows "c \<in> set (Join (Fields s) sep)"
proof -
  have "Contains s [c]" using assms(2) by (auto simp: Contains_iff dest!: split_list)
  then have "Contains (Join (Fields s) sep) [c]" using Join_Fields_contains[of "[c]"] assms(1) by simp
  then show ?thesis by (auto simp: Contains_iff)
qed

text \<open>The runes of a string are white space, or runes of what \<open>TrimSpace\<close> leaves.\<close>

lemma TrimSpace_parts:
  obtains a m b where "utf8_chunks s = a @ m @ b" "list_all chunk_space a" "list_all chunk_space b"
    "TrimSpace s = concat (map snd m)" "utf8_chunks (TrimSpace s) = m"
proof -
  let ?t = "dropWhile chunk_space (utf8_chunks s)"
  have 1: "utf8_chunks s = takeWhile chunk_space (utf8_chunks s) @ ?t" by simp
  have "rev ?t = takeWhile chunk_space (rev ?t) @ dropWhile chunk_space (rev ?t)" by simp
  then have 2: "?t = rev (dropWhile chunk_space (rev ?t)) @ rev (takeWhile chunk_space (rev ?t))"
    by (metis rev_append rev_rev_ident)
  let ?m = "rev (dropWhile chunk_space (rev ?t))"
  have "utf8_chunks (concat (map snd ?t)) = ?m @ rev (takeWhile chunk_space (rev ?t))"
    using utf8_chunks_tail[OF 1] 2 by metis
  then have 3: "utf8_chunks (TrimSpace s) = ?m"
    unfolding TrimSpace_def by (rule utf8_chunks_head)
  show ?thesis
    by (rule that[of "takeWhile chunk_space (utf8_chunks s)" ?m "rev (takeWhile chunk_space (rev ?t))"])
       (use 1 2 3 in \<open>auto simp: TrimSpace_def list_all_iff dest: set_takeWhileD\<close>)
qed

lemma TrimSpace_runes:
  "list_all (\<lambda>ch. chunk_space ch \<or> ch \<in> set (utf8_chunks (TrimSpace s))) (utf8_chunks s)"
proof -
  obtain a m b where "utf8_chunks s = a @ m @ b" "list_all chunk_space a" "list_all chunk_space b"
    "utf8_chunks (TrimSpace s) = m" by (rule TrimSpace_parts)
  then show ?thesis by (auto simp: list_all_iff)
qed

text \<open>\<open>strings.TrimRight\<close> with an ASCII cutset.\<close>

definition TrimRight :: "string \<Rightarrow> char list \<Rightarrow> string" where
  "TrimRight s cutset = rev (dropWhile (\<lambda>c. c \<in> set cutset) (rev s))"

subsection \<open>Host and port (net.SplitHostPort)\<close>

definition LastIndexByte :: "string \<Rightarrow> char \<Rightarrow> nat option" where
  "LastIndexByte s c = (let t = takeWhile (\<lambda>d. d \<noteq> c) (rev s) in
     if length t = length s then None else Some (length s - length t - 1))"

definition IndexByte :: "string \<Rightarrow> char \<Rightarrow> nat option" where
  "IndexByte s c = (let t = takeWhile (\<lambda>d. d \<noteq> c) s in
     if length t = length s then None else Some (length t))"

definition split_tail :: "string \<Rightarrow> nat \<Rightarrow> string \<Rightarrow> nat \<Rightarrow> nat \<Rightarrow> (string \<times> string) option" where
  "split_tail hp i host j k =
     (if CHR ''['' \<in> set (drop j hp) then None
      else if CHR '']'' \<in> set (drop k hp) then None
      else Some (host, drop (i + 1) hp))"

definition SplitHostPort :: "string \<Rightarrow> (string \<times> string) option" where
  "SplitHostPort hp = (case LastIndexByte hp (CHR '':'') of
     None \<Rightarrow> None
   | Some i \<Rightarrow>
      if hd hp = CHR ''['' then
        (case IndexByte hp (CHR '']'') of
           None \<Rightarrow> None
         | Some e \<Rightarrow> if e + 1 = i then split_tail hp i (take (e - 1) (drop 1 hp)) 1 (e + 1)
                     else None)
      else
        (let host = take i hp in
         if CHR '':'' \<in> set host then None else split_tail hp i host 0 0))"

lemma LastIndexByte_colon:
  "CHR '':'' \<notin> set p \<Longrightarrow> LastIndexByte (h @ CHR '':'' # p) (CHR '':'') = Some (length h)"
proof -
  assume a: "CHR '':'' \<notin> set p"
  have "takeWhile (\<lambda>d. d \<noteq> CHR '':'') (rev (h @ CHR '':'' # p)) = rev p"
    using a by (subst rev_append, subst rev.simps, subst append_assoc, subst takeWhile_append2) auto
  then show ?thesis by (simp add: LastIndexByte_def Let_def)
qed

text \<open>A host name or an IPv4 address followed by a port splits at the colon.\<close>

lemma SplitHostPort_plain:
  assumes "h \<noteq> []" "list_all (\<lambda>c. c \<notin> set '':[]'') h" "list_all (\<lambda>c. c \<notin> set '':[]'') p"
  shows "SplitHostPort (h @ CHR '':'' # p) = Some (h, p)"
proof -
  have p: "CHR '':'' \<notin> set p" "CHR ''['' \<notin> set p" "CHR '']'' \<notin> set p"
    and h: "CHR '':'' \<notin> set h" "CHR ''['' \<notin> set h" "CHR '']'' \<notin> set h"
    using assms(2,3) by (auto simp: list_all_iff)
  have "hd (h @ CHR '':'' # p) \<noteq> CHR ''[''"
    using assms(1) h(2) by (metis hd_append2 hd_in_set)
  then show ?thesis
    using p h LastIndexByte_colon[OF p(1), of h] by (simp add: SplitHostPort_def split_tail_def)
qed

end
