(* ===== verification/SqlScan.thy ===== *)
theory SqlScan
  imports GoStrings
begin

text \<open>
  The byte scanners of \<open>internal/sqlpolicy/classifier.go\<close>.  The code walks an index
  through the statement and only ever looks ahead of it, so a scanner is a function
  on the rest of the statement from that index; a skip function maps the rest where
  a lexeme starts to the rest after it.  \<open>lex\<close> is a reference tokenizer: it partitions a
  statement into quoted strings, quoted identifiers, comments and single bytes, and the
  scanners are shown to be functions of its tokens.
\<close>

subsection \<open>Lexical tests\<close>

abbreviation backslash :: char where "backslash \<equiv> CHR 0x5C"
abbreviation squote :: char where "squote \<equiv> CHR 0x27"
abbreviation newline :: char where "newline \<equiv> CHR 0x0A"
abbreviation backtick :: char where "backtick \<equiv> CHR 0x60"
abbreviation dquote :: char where "dquote \<equiv> CHR 0x22"

definition isSpaceByte :: "char \<Rightarrow> bool" where
  "isSpaceByte ch \<longleftrightarrow> ch = CHR '' '' \<or> ch = CHR 0x09 \<or> ch = newline \<or> ch = CHR 0x0D \<or> ch = CHR 0x0C"

definition isQuote :: "char \<Rightarrow> bool" where
  "isQuote c \<longleftrightarrow> c = squote \<or> c = dquote"

fun isBlockCommentEnd :: "string \<Rightarrow> bool" where
  "isBlockCommentEnd (a # b # _) \<longleftrightarrow> a = CHR ''*'' \<and> b = CHR ''/''"
| "isBlockCommentEnd _ \<longleftrightarrow> False"

fun isDashDashComment :: "string \<Rightarrow> bool" where
  "isDashDashComment (a # b # next # _) \<longleftrightarrow> a = CHR ''-'' \<and> b = CHR ''-'' \<and>
     (next = CHR '' '' \<or> next = CHR 0x09 \<or> next = newline \<or> next = CHR 0x0D \<or> next = CHR 0x0C)"
| "isDashDashComment _ \<longleftrightarrow> False"

fun isVersionedComment :: "string \<Rightarrow> bool" where
  "isVersionedComment (a # b # c # _) \<longleftrightarrow> a = CHR ''/'' \<and> b = CHR ''*'' \<and> c = CHR ''!''"
| "isVersionedComment _ \<longleftrightarrow> False"

fun isBlockComment :: "string \<Rightarrow> bool" where
  "isBlockComment (a # b # r) \<longleftrightarrow> a = CHR ''/'' \<and> b = CHR ''*'' \<and> \<not> isVersionedComment (a # b # r)"
| "isBlockComment _ \<longleftrightarrow> False"

subsection \<open>Skipping a lexeme\<close>

text \<open>The inner loops of \<open>scanSQL\<close> and \<open>hasTrailingStatementTerminator\<close>.\<close>

fun skip_string :: "char \<Rightarrow> string \<Rightarrow> string" where
  "skip_string quote [] = []"
| "skip_string quote [c] = []"
| "skip_string quote (c # d # r) =
     (if c = backslash then skip_string quote r
      else if c = quote then d # r
      else skip_string quote (d # r))"

definition skip_identifier :: "string \<Rightarrow> string" where
  "skip_identifier s = drop 1 (dropWhile (\<lambda>c. c \<noteq> backtick) s)"

fun skip_comment :: "string \<Rightarrow> string" where
  "skip_comment [] = []"
| "skip_comment [c] = [c]"
| "skip_comment (c # d # r) = (if isBlockCommentEnd (c # d # r) then r else skip_comment (d # r))"

text \<open>The functions of the same job in the call scanner.\<close>

fun skipQuotedString :: "char \<Rightarrow> string \<Rightarrow> string" where
  "skipQuotedString quote [] = []"
| "skipQuotedString quote [c] = []"
| "skipQuotedString quote (c # d # r) =
     (if c = backslash then skipQuotedString quote r
      else if c = quote then (if d = quote then skipQuotedString quote r else d # r)
      else skipQuotedString quote (d # r))"

fun skipQuotedIdentifier :: "string \<Rightarrow> string" where
  "skipQuotedIdentifier [] = []"
| "skipQuotedIdentifier [c] = []"
| "skipQuotedIdentifier (c # d # r) =
     (if c = backtick then (if d = backtick then skipQuotedIdentifier r else d # r)
      else skipQuotedIdentifier (d # r))"

definition skipLineComment :: "string \<Rightarrow> string" where
  "skipLineComment s = dropWhile (\<lambda>c. c \<noteq> newline) s"

fun skipBlockComment :: "string \<Rightarrow> string" where
  "skipBlockComment [] = []"
| "skipBlockComment [c] = []"
| "skipBlockComment (c # d # r) =
     (if isBlockCommentEnd (c # d # r) then r else skipBlockComment (d # r))"

text \<open>A skip function returns a suffix of what it is given.\<close>

lemma skip_suffix [scan_simps]:
  "suffix (skip_string q s) s" "suffix (skip_identifier s) s" "suffix (skip_comment s) s"
  "suffix (skipQuotedString q s) s" "suffix (skipQuotedIdentifier s) s"
  "suffix (skipLineComment s) s" "suffix (skipBlockComment s) s"
proof -
  show "suffix (skip_string q s) s"
    by (induction q s rule: skip_string.induct) (auto intro: suffix_ConsI)
  show "suffix (skip_identifier s) s"
    unfolding skip_identifier_def by (meson suffix_drop suffix_dropWhile suffix_order.trans)
  show "suffix (skip_comment s) s"
    by (induction s rule: skip_comment.induct) (auto intro: suffix_ConsI)
  show "suffix (skipQuotedString q s) s"
    by (induction q s rule: skipQuotedString.induct) (auto intro: suffix_ConsI)
  show "suffix (skipQuotedIdentifier s) s"
    by (induction s rule: skipQuotedIdentifier.induct) (auto intro: suffix_ConsI)
  show "suffix (skipLineComment s) s"
    unfolding skipLineComment_def by (rule suffix_dropWhile)
  show "suffix (skipBlockComment s) s"
    by (induction s rule: skipBlockComment.induct) (auto intro: suffix_ConsI)
qed

lemmas skip_length = skip_suffix[THEN suffix_length_le]

lemma skip_length_drop:
  "length (skipLineComment (drop n s)) \<le> length s"
  "length (skipBlockComment (drop n s)) \<le> length s"
  "length (skip_comment (drop n s)) \<le> length s"
  by (metis skip_length length_drop diff_le_self le_trans)+

lemmas scan_lengths = skip_length skip_length_drop

subsection \<open>The scanners\<close>

function scanSQL :: "string \<Rightarrow> string" where
  "scanSQL [] = []"
| "scanSQL (c # cs) =
     (if isQuote c then CHR ''?'' # scanSQL (skip_string c cs)
      else if c = backtick then
        takeWhile (\<lambda>d. d \<noteq> backtick) cs @ scanSQL (skip_identifier cs)
      else if isDashDashComment (c # cs) then CHR '' '' # scanSQL (skipLineComment (drop 1 cs))
      else if c = CHR ''#'' then CHR '' '' # scanSQL (skipLineComment cs)
      else if isBlockComment (c # cs) then CHR '' '' # scanSQL (skip_comment (drop 1 cs))
      else c # scanSQL cs)"
  by pat_completeness auto
termination
  by (relation "measure length") (auto simp: less_Suc_eq_le scan_lengths)

text \<open>The loop of \<open>hasTrailingStatementTerminator\<close>: its variable \<open>last\<close> at the end.\<close>

function trailing_byte :: "char \<Rightarrow> string \<Rightarrow> char" where
  "trailing_byte lst [] = lst"
| "trailing_byte lst (c # cs) =
     (if isQuote c then trailing_byte (CHR ''?'') (skip_string c cs)
      else if c = backtick then trailing_byte backtick (skip_identifier cs)
      else if isDashDashComment (c # cs) then trailing_byte lst (skipLineComment (drop 1 cs))
      else if c = CHR ''#'' then trailing_byte lst (skipLineComment cs)
      else if isBlockComment (c # cs) then trailing_byte lst (skip_comment (drop 1 cs))
      else trailing_byte (if isSpaceByte c then lst else c) cs)"
  by pat_completeness auto
termination
  by (relation "measure (length \<circ> snd)") (auto simp: less_Suc_eq_le scan_lengths)

definition hasTrailingStatementTerminator :: "string \<Rightarrow> bool" where
  "hasTrailingStatementTerminator s \<longleftrightarrow> trailing_byte (CHR 0x00) s = CHR '';''"

function callEndAt :: "nat \<Rightarrow> nat \<Rightarrow> string \<Rightarrow> nat option" where
  "callEndAt depth idx [] = None"
| "callEndAt depth idx (c # cs) =
     (if isQuote c then
        (let r = skipQuotedString c cs in callEndAt depth (idx + (length (c # cs) - length r)) r)
      else if c = backtick then
        (let r = skipQuotedIdentifier cs in callEndAt depth (idx + (length (c # cs) - length r)) r)
      else if isDashDashComment (c # cs) then
        (let r = skipLineComment (drop 1 cs) in callEndAt depth (idx + (length (c # cs) - length r)) r)
      else if c = CHR ''#'' then
        (let r = skipLineComment cs in callEndAt depth (idx + (length (c # cs) - length r)) r)
      else if isBlockComment (c # cs) then
        (let r = skipBlockComment (drop 1 cs) in callEndAt depth (idx + (length (c # cs) - length r)) r)
      else if c = CHR ''('' then callEndAt (depth + 1) (idx + 1) cs
      else if c = CHR '')'' then
        (if depth = 0 then None
         else if depth - 1 = 0 then Some (idx + 1)
         else callEndAt (depth - 1) (idx + 1) cs)
      else callEndAt depth (idx + 1) cs)"
  by pat_completeness auto
termination
  by (relation "measure (\<lambda>(depth, idx, s). length s)") (auto simp: less_Suc_eq_le scan_lengths)

definition toLowerASCII :: "char \<Rightarrow> char" where
  "toLowerASCII ch = (if 65 \<le> byte_of ch \<and> byte_of ch \<le> 90 then char_of (byte_of ch + 32) else ch)"

function compactSQLSyntax :: "string \<Rightarrow> string" where
  "compactSQLSyntax [] = []"
| "compactSQLSyntax (c # cs) =
     (if isSpaceByte c then compactSQLSyntax cs
      else if isDashDashComment (c # cs) then compactSQLSyntax (skipLineComment (drop 1 cs))
      else if c = CHR ''#'' then compactSQLSyntax (skipLineComment cs)
      else if isBlockComment (c # cs) then compactSQLSyntax (skipBlockComment (drop 1 cs))
      else toLowerASCII c # compactSQLSyntax cs)"
  by pat_completeness auto
termination
  by (relation "measure length") (auto simp: less_Suc_eq_le scan_lengths)

text \<open>\<open>offset\<close> is Go's \<open>int\<close>; \<open>source[offset:end]\<close> is the slice.\<close>

definition compactSQLCallAt :: "string \<Rightarrow> int \<Rightarrow> string" where
  "compactSQLCallAt source offset =
     (if offset < 0 \<or> offset \<ge> int (length source) then []
      else case callEndAt 0 (nat offset) (drop (nat offset) source) of
        None \<Rightarrow> []
      | Some e \<Rightarrow> compactSQLSyntax (take (e - nat offset) (drop (nat offset) source)))"

definition normalize :: "string \<Rightarrow> string" where
  "normalize statement = Join (Fields (scanSQL statement)) '' ''"

definition trimStatementTerminator :: "string \<Rightarrow> string" where
  "trimStatementTerminator statement = TrimSpace (TrimSuffix (TrimSpace statement) '';'')"

subsection \<open>A reference tokenizer\<close>

datatype token =
    TString char string   \<comment> \<open>a quoted string: its quote and the text after it\<close>
  | TIdent string         \<comment> \<open>a quoted identifier: the text after its opening quote\<close>
  | TComment string       \<comment> \<open>a comment with its delimiters\<close>
  | TByte char

fun token_text :: "token \<Rightarrow> string" where
  "token_text (TString q t) = q # t"
| "token_text (TIdent t) = backtick # t"
| "token_text (TComment t) = t"
| "token_text (TByte c) = [c]"

text \<open>\<open>consumed s r\<close> is the part of \<open>s\<close> before its suffix \<open>r\<close>.\<close>

definition consumed :: "string \<Rightarrow> string \<Rightarrow> string" where
  "consumed s r = take (length s - length r) s"

lemma consumed_append: "suffix r s \<Longrightarrow> consumed s r @ r = s"
  by (auto simp: consumed_def suffix_def)

function lex :: "string \<Rightarrow> token list" where
  "lex [] = []"
| "lex (c # cs) =
     (if isQuote c then TString c (consumed cs (skip_string c cs)) # lex (skip_string c cs)
      else if c = backtick then TIdent (consumed cs (skip_identifier cs)) # lex (skip_identifier cs)
      else if isDashDashComment (c # cs) then
        TComment (consumed (c # cs) (skipLineComment (drop 1 cs))) # lex (skipLineComment (drop 1 cs))
      else if c = CHR ''#'' then
        TComment (consumed (c # cs) (skipLineComment cs)) # lex (skipLineComment cs)
      else if isBlockComment (c # cs) then
        TComment (consumed (c # cs) (skip_comment (drop 1 cs))) # lex (skip_comment (drop 1 cs))
      else TByte c # lex cs)"
  by pat_completeness auto
termination
  by (relation "measure length") (auto simp: less_Suc_eq_le scan_lengths)

fun scan_token :: "token \<Rightarrow> string" where
  "scan_token (TString q t) = ''?''"
| "scan_token (TIdent t) = takeWhile (\<lambda>d. d \<noteq> backtick) t"
| "scan_token (TComment t) = '' ''"
| "scan_token (TByte c) = [c]"

text \<open>How a token changes the variable \<open>last\<close> of \<open>hasTrailingStatementTerminator\<close>.\<close>

fun last_token :: "char \<Rightarrow> token \<Rightarrow> char" where
  "last_token lst (TString q t) = CHR ''?''"
| "last_token lst (TIdent t) = backtick"
| "last_token lst (TComment t) = lst"
| "last_token lst (TByte c) = (if isSpaceByte c then lst else c)"

lemma suffix_drop_Cons: "suffix r (drop n cs) \<Longrightarrow> suffix r (c # cs)"
  by (meson suffix_drop suffix_order.trans suffix_ConsI)

lemma consumed_comment [simp]:
  "consumed (c # cs) (skipLineComment (drop n cs)) @ skipLineComment (drop n cs) = c # cs"
  "consumed (c # cs) (skipLineComment cs) @ skipLineComment cs = c # cs"
  "consumed (c # cs) (skip_comment (drop n cs)) @ skip_comment (drop n cs) = c # cs"
  by (intro consumed_append suffix_drop_Cons[where n = n] suffix_ConsI skip_suffix)+

lemma consumed_skip [simp]:
  "consumed cs (skip_string q cs) @ skip_string q cs = cs"
  "consumed cs (skip_identifier cs) @ skip_identifier cs = cs"
  by (intro consumed_append skip_suffix)+

lemma lex_text: "concat (map token_text (lex s)) = s"
  by (induction s rule: lex.induct) simp_all

lemma consumed_drop: "consumed cs (drop k cs) = take k cs"
  by (cases "k \<le> length cs") (simp_all add: consumed_def)

lemma takeWhile_take: "takeWhile P (take (Suc (length (takeWhile P cs))) cs) = takeWhile P cs"
  by (induction cs) auto

lemma identifier_name:
  "takeWhile (\<lambda>d. d \<noteq> backtick) (consumed cs (skip_identifier cs)) = takeWhile (\<lambda>d. d \<noteq> backtick) cs"
  by (simp add: skip_identifier_def dropWhile_eq_drop consumed_drop takeWhile_take)

lemma scanSQL_lex: "scanSQL s = concat (map scan_token (lex s))"
  by (induction s rule: lex.induct) (simp_all add: identifier_name)

lemma trailing_lex: "trailing_byte lst s = foldl last_token lst (lex s)"
  by (induction lst s rule: trailing_byte.induct) simp_all

text \<open>Tokens with the contents of string literals and comments erased.\<close>

fun erase :: "token \<Rightarrow> token" where
  "erase (TString q t) = TString squote []"
| "erase (TIdent t) = TIdent (takeWhile (\<lambda>d. d \<noteq> backtick) t)"
| "erase (TComment t) = TComment []"
| "erase (TByte c) = TByte c"

lemma scan_token_erase [simp]: "scan_token (erase t) = scan_token t"
  by (cases t) (auto simp: takeWhile_eq_all_conv dest: set_takeWhileD)

lemma last_token_erase [simp]: "last_token lst (erase t) = last_token lst t"
  by (cases t) auto

text \<open>
  C24.  Scanning is lossless and lexical: the tokens of a statement are its bytes in
  order, and both what the classifier matches on and whether the statement ends
  in a terminator depend on the tokens only, with the contents of string literals
  and of comments erased.
\<close>

theorem scan_by_tokens:
  "concat (map token_text (lex s)) = s
   \<and> (map erase (lex s) = map erase (lex s') \<longrightarrow>
        normalize s = normalize s'
        \<and> hasTrailingStatementTerminator s = hasTrailingStatementTerminator s')"
proof -
  have "scanSQL x = concat (map scan_token (map erase (lex x)))" for x
    by (simp add: scanSQL_lex comp_def)
  moreover have "trailing_byte l x = foldl last_token l (map erase (lex x))" for l x
    by (simp add: trailing_lex foldl_map)
  ultimately show ?thesis
    by (metis lex_text normalize_def hasTrailingStatementTerminator_def)
qed

theorem scan_by_tokens_witness:
  "normalize ''select 'a;b' -- x'' = normalize ''select 'c' -- y''
   \<and> hasTrailingStatementTerminator ''select 'a;b' -- x'' = hasTrailingStatementTerminator ''select 'c' -- y''"
proof -
  have "map erase (lex ''select 'a;b' -- x'') = map erase (lex ''select 'c' -- y'')" by code_simp
  then show ?thesis by (rule scan_by_tokens [THEN conjunct2, THEN mp])
qed

end
