(* ===== verification/SqlPolicy.thy ===== *)
theory SqlPolicy
  imports SqlScan
begin

text \<open>
  \<open>internal/sqlpolicy/classifier.go\<close>: the decision on one text statement.  The TiDB
  parser is not part of the repository: it is the argument \<open>ParseSQL\<close>, from a
  statement to the parsed statements or an error.  Of its syntax trees the model has
  what the classifier reads: a \<^emph>\<open>node\<close> has a kind, with the fields the visitor or
  \<open>expressionContext\<close> looks at, and its children in the order \<open>Accept\<close> visits them.
\<close>

subsection \<open>The view of the syntax tree\<close>

datatype select_kind = SelectStmtKindSelect | SelectStmtKindTable | SelectStmtKindValues

datatype lock_type = SelectLockNone | SelectLockOther

datatype expr =
    ColumnNameExpr
  | ValueExpr
  | FuncCallExpr (FnName: string) (nargs: nat) (fn_Schema: string)
  | VariableExpr (IsSystem: bool) (ExplicitScope: bool) (var_Name: string)
  | AggregateFuncExpr (agg_F: string) (Distinct: bool) (OriginTextPosition: int)
  | WindowFuncExpr
  | OtherExpr

datatype select_field = WildCard | FieldExpr expr

record SelectInfo =
  sel_Kind :: select_kind
  sel_hasInto :: bool
  sel_LockInfo :: "lock_type option"
  sel_Fields :: "select_field list option"

datatype node_kind = SelectNode SelectInfo | TableName string | ColumnName string | ExprNode expr | OtherNode

datatype node = Node node_kind "node list"

datatype stmt = SetStmt | UseStmt string | SelectStmt SelectInfo "node list" | OtherStmt

type_synonym parser = "string \<Rightarrow> stmt list option"

subsection \<open>Decisions\<close>

datatype DecisionKind = AllowRead | AllowOperationalRead | AllowSetup | Reject

datatype ExpressionKind = ExpressionUnknown | ExpressionColumn | ExpressionLiteral
  | ExpressionSafeBuiltin | ExpressionCountStar

record ExpressionContext =
  ec_Kind :: ExpressionKind
  ec_FunctionName :: string
  ec_SafeBuiltin :: bool

record Decision =
  dec_Kind :: DecisionKind
  dec_Reason :: string
  dec_ExpressionContext :: "ExpressionContext list"

record ClassifierConfig =
  cc_AllowedSchemas :: "string list"
  cc_AllowDefaultSetup :: bool

record StaticClassifier =
  allowedSchemas :: "string set"
  allowDefaultSetup :: bool

definition NewClassifier :: "ClassifierConfig \<Rightarrow> StaticClassifier" where
  "NewClassifier config = \<lparr>allowedSchemas = set (cc_AllowedSchemas config),
                           allowDefaultSetup = cc_AllowDefaultSetup config\<rparr>"

definition decide :: "DecisionKind \<Rightarrow> string \<Rightarrow> Decision" where
  "decide k r = \<lparr>dec_Kind = k, dec_Reason = r, dec_ExpressionContext = []\<rparr>"

lemma decide_sel [simp]:
  "dec_Kind (decide k r) = k" "dec_Reason (decide k r) = r" "dec_ExpressionContext (decide k r) = []"
  by (simp_all add: decide_def)

subsection \<open>Names\<close>

definition isSystemSchema :: "(rune \<Rightarrow> rune) \<Rightarrow> string \<Rightarrow> bool" where
  "isSystemSchema ul schema \<longleftrightarrow> ToLower ul schema \<in>
     {''information_schema'', ''performance_schema'', ''mysql'', ''sys''}"

definition isSafeBuiltinFunction :: "(rune \<Rightarrow> rune) \<Rightarrow> string \<Rightarrow> bool" where
  "isSafeBuiltinFunction ul name \<longleftrightarrow> ToLower ul name \<in> {''now'', ''database''}"

definition isOperationalVariable :: "(rune \<Rightarrow> rune) \<Rightarrow> string \<Rightarrow> bool" where
  "isOperationalVariable ul name \<longleftrightarrow> ToLower ul name \<in>
     {''version'', ''version_comment'', ''max_allowed_packet'', ''character_set_client'',
      ''character_set_connection'', ''character_set_results'', ''collation_connection''}"

definition AggFuncCount :: string where "AggFuncCount = ''count''"

definition isAllowedCountAggregate :: "string \<Rightarrow> string \<Rightarrow> bool \<Rightarrow> int \<Rightarrow> bool" where
  "isAllowedCountAggregate source f distinct' pos \<longleftrightarrow>
     \<not> (\<not> EqualFold_ascii f AggFuncCount \<or> distinct') \<and> compactSQLCallAt source pos = ''count(*)''"

definition hasSelectLock :: "SelectInfo \<Rightarrow> bool" where
  "hasSelectLock s \<longleftrightarrow> (case sel_LockInfo s of None \<Rightarrow> False | Some t \<Rightarrow> t \<noteq> SelectLockNone)"

subsection \<open>Expression contexts of the SELECT list\<close>

definition unknownContext :: ExpressionContext where
  "unknownContext = \<lparr>ec_Kind = ExpressionUnknown, ec_FunctionName = '''', ec_SafeBuiltin = False\<rparr>"

fun expressionContext :: "(rune \<Rightarrow> rune) \<Rightarrow> string \<Rightarrow> expr \<Rightarrow> ExpressionContext" where
  "expressionContext ul source ColumnNameExpr =
     \<lparr>ec_Kind = ExpressionColumn, ec_FunctionName = '''', ec_SafeBuiltin = False\<rparr>"
| "expressionContext ul source ValueExpr =
     \<lparr>ec_Kind = ExpressionLiteral, ec_FunctionName = '''', ec_SafeBuiltin = False\<rparr>"
| "expressionContext ul source (FuncCallExpr fn n schema) =
     (if isSafeBuiltinFunction ul fn \<and> n = 0 \<and> schema = ''''
      then \<lparr>ec_Kind = ExpressionSafeBuiltin, ec_FunctionName = fn, ec_SafeBuiltin = True\<rparr>
      else unknownContext)"
| "expressionContext ul source (VariableExpr system scope name) =
     (if system \<and> \<not> scope \<and> isOperationalVariable ul name
      then \<lparr>ec_Kind = ExpressionSafeBuiltin, ec_FunctionName = ''@@'' @ ToLower ul name, ec_SafeBuiltin = True\<rparr>
      else unknownContext)"
| "expressionContext ul source (AggregateFuncExpr f d pos) =
     (if isAllowedCountAggregate source f d pos
      then \<lparr>ec_Kind = ExpressionCountStar, ec_FunctionName = AggFuncCount, ec_SafeBuiltin = True\<rparr>
      else unknownContext)"
| "expressionContext ul source WindowFuncExpr = unknownContext"
| "expressionContext ul source OtherExpr = unknownContext"

text \<open>The loop over the fields returns no contexts at the first wildcard.\<close>

fun fieldContexts :: "(rune \<Rightarrow> rune) \<Rightarrow> string \<Rightarrow> select_field list \<Rightarrow> ExpressionContext list \<Rightarrow> ExpressionContext list" where
  "fieldContexts ul source [] contexts = contexts"
| "fieldContexts ul source (WildCard # fs) contexts = []"
| "fieldContexts ul source (FieldExpr e # fs) contexts =
     fieldContexts ul source fs (contexts @ [expressionContext ul source e])"

definition expressionContexts :: "(rune \<Rightarrow> rune) \<Rightarrow> SelectInfo \<Rightarrow> string \<Rightarrow> ExpressionContext list" where
  "expressionContexts ul s source = (case sel_Fields s of
     None \<Rightarrow> []
   | Some fs \<Rightarrow> if fs = [] then [] else fieldContexts ul source fs [])"

subsection \<open>The safety visitor\<close>

record selectSafetyVisitor =
  sv_source :: string
  sv_unsafeRead :: bool
  sv_disallowedFunction :: bool

text \<open>\<open>Enter\<close> returns whether the children are skipped, and the visitor's state.\<close>

fun Enter :: "(rune \<Rightarrow> rune) \<Rightarrow> node_kind \<Rightarrow> selectSafetyVisitor \<Rightarrow> bool \<times> selectSafetyVisitor" where
  "Enter ul (SelectNode s) v =
     (False, if sel_hasInto s \<or> hasSelectLock s then v\<lparr>sv_unsafeRead := True\<rparr> else v)"
| "Enter ul (TableName schema) v =
     (False, if isSystemSchema ul schema then v\<lparr>sv_unsafeRead := True\<rparr> else v)"
| "Enter ul (ColumnName schema) v =
     (False, if isSystemSchema ul schema then v\<lparr>sv_unsafeRead := True\<rparr> else v)"
| "Enter ul (ExprNode (FuncCallExpr fn n schema)) v = (True, v\<lparr>sv_disallowedFunction := True\<rparr>)"
| "Enter ul (ExprNode (AggregateFuncExpr f d pos)) v =
     (True, if \<not> isAllowedCountAggregate (sv_source v) f d pos then v\<lparr>sv_disallowedFunction := True\<rparr> else v)"
| "Enter ul (ExprNode WindowFuncExpr) v = (True, v\<lparr>sv_disallowedFunction := True\<rparr>)"
| "Enter ul (ExprNode e) v = (False, v)"
| "Enter ul OtherNode v = (False, v)"

text \<open>\<open>Accept\<close> of the parser: \<open>Enter\<close>, then the children unless they are skipped, then
  \<open>Leave\<close>, which here does nothing and never stops the walk.\<close>

fun Accept :: "(rune \<Rightarrow> rune) \<Rightarrow> node \<Rightarrow> selectSafetyVisitor \<Rightarrow> selectSafetyVisitor" where
  "Accept ul (Node k ch) v = (case Enter ul k v of
     (skip, v') \<Rightarrow> if skip then v' else fold (Accept ul) ch v')"

subsection \<open>Operational reads and setup statements\<close>

definition operational_probes :: "string list" where
  "operational_probes = [''select 1'', ''select now()'', ''select database()'', ''select @@version'',
     ''select @@version_comment'', ''select @@max_allowed_packet'', ''select @@character_set_client'',
     ''select @@character_set_connection'', ''select @@character_set_results'',
     ''select @@collation_connection'']"

definition isOperationalRead :: "string \<Rightarrow> bool" where
  "isOperationalRead lower \<longleftrightarrow>
     TrimSuffix (TrimSuffix lower '';'') '' limit 1'' \<in> set operational_probes"

definition charset_rune :: "rune \<Rightarrow> bool" where
  "charset_rune ch \<longleftrightarrow> (97 \<le> ch \<and> ch \<le> 122) \<or> (48 \<le> ch \<and> ch \<le> 57) \<or> ch = 95"

definition isSimpleCharsetValue :: "string \<Rightarrow> bool" where
  "isSimpleCharsetValue value \<longleftrightarrow> value \<noteq> [] \<and> list_all (\<lambda>(ch, _). charset_rune ch) (utf8_chunks value)"

definition isAllowedSetup :: "string \<Rightarrow> bool" where
  "isAllowedSetup lower =
     (if Contains lower '','' then False
      else if HasPrefix lower ''set names '' then
        isSimpleCharsetValue (TrimSpace (TrimPrefix lower ''set names ''))
      else if HasPrefix lower ''set character_set_results'' then
        (let value = TrimSpace (TrimPrefix lower ''set character_set_results'');
             value = TrimSpace (TrimPrefix value ''='')
         in isSimpleCharsetValue value \<or> value = ''null'' \<or> value = ''default'')
      else False)"

subsection \<open>The classifier\<close>

definition classifySet :: "StaticClassifier \<Rightarrow> string \<Rightarrow> Decision" where
  "classifySet c lower =
     (if allowDefaultSetup c \<and> isAllowedSetup lower then decide AllowSetup ''allowed_setup''
      else decide Reject ''unsupported_statement'')"

definition classifyUseName :: "StaticClassifier \<Rightarrow> string \<Rightarrow> Decision" where
  "classifyUseName c schema =
     (if TrimSpace schema \<in> allowedSchemas c then decide AllowSetup ''allowed_schema''
      else decide Reject ''schema_not_allowed'')"

definition classifySelect ::
  "(rune \<Rightarrow> rune) \<Rightarrow> SelectInfo \<Rightarrow> node list \<Rightarrow> string \<Rightarrow> string \<Rightarrow> Decision" where
  "classifySelect ul s ch lower source =
     (let contexts = expressionContexts ul s source in
      if isOperationalRead lower then
        (decide AllowOperationalRead ''allowed_operational_read'')\<lparr>dec_ExpressionContext := contexts\<rparr>
      else if sel_Kind s \<noteq> SelectStmtKindSelect then decide Reject ''unsupported_statement''
      else
        let safety = Accept ul (Node (SelectNode s) ch)
                       \<lparr>sv_source = source, sv_unsafeRead = False, sv_disallowedFunction = False\<rparr>
        in if sv_unsafeRead safety then decide Reject ''unsafe_read''
           else if sv_disallowedFunction safety then decide Reject ''routine_not_allowed''
           else (decide AllowRead ''read_only'')\<lparr>dec_ExpressionContext := contexts\<rparr>)"

definition lowered :: "(rune \<Rightarrow> rune) \<Rightarrow> string \<Rightarrow> string" where
  "lowered ul statement = (let lower = ToLower ul (normalize statement) in
     if hasTrailingStatementTerminator statement then trimStatementTerminator lower else lower)"

definition Classify :: "(rune \<Rightarrow> rune) \<Rightarrow> parser \<Rightarrow> StaticClassifier \<Rightarrow> string \<Rightarrow> Decision" where
  "Classify ul ParseSQL c statement =
     (let normalized = normalize statement in
      if normalized = '''' then decide Reject ''empty_statement''
      else if Contains normalized ''/*!'' then decide Reject ''executable_comment''
      else let lower = lowered ul statement in
      case ParseSQL statement of
        None \<Rightarrow> decide Reject ''parse_error''
      | Some parsed \<Rightarrow>
          if length parsed \<noteq> 1 then decide Reject ''multiple_statements''
          else case hd parsed of
            SetStmt \<Rightarrow> classifySet c lower
          | UseStmt db \<Rightarrow> classifyUseName c db
          | SelectStmt s ch \<Rightarrow> classifySelect ul s ch lower statement
          | OtherStmt \<Rightarrow> decide Reject ''unsupported_statement'')"

end
