(* ===== verification/SqlPolicyProperties.thy ===== *)
theory SqlPolicyProperties
  imports SqlPolicy
begin

text \<open>
  What the SQL policy of \<open>internal/sqlpolicy/classifier.go\<close> promises: the reads it
  forwards are exactly the statements whose visible nodes are safe, the origin-free
  probes are a finite list of texts, the setup statements carry nothing but a
  character set name, and executable comments never pass.
\<close>

subsection \<open>The visitor decides a property of the visible nodes\<close>

fun opaque :: "node_kind \<Rightarrow> bool" where
  "opaque (ExprNode (FuncCallExpr _ _ _)) = True"
| "opaque (ExprNode (AggregateFuncExpr _ _ _)) = True"
| "opaque (ExprNode WindowFuncExpr) = True"
| "opaque _ = False"

text \<open>The kinds of the nodes of a tree that are not arguments of a call.\<close>

fun visible_kinds :: "node \<Rightarrow> node_kind list" where
  "visible_kinds (Node k ch) = k # (if opaque k then [] else concat (map visible_kinds ch))"

fun touches_server :: "(rune \<Rightarrow> rune) \<Rightarrow> node_kind \<Rightarrow> bool" where
  "touches_server ul (SelectNode s) \<longleftrightarrow> sel_hasInto s \<or> hasSelectLock s"
| "touches_server ul (TableName schema) \<longleftrightarrow> isSystemSchema ul schema"
| "touches_server ul (ColumnName schema) \<longleftrightarrow> isSystemSchema ul schema"
| "touches_server ul _ \<longleftrightarrow> False"

fun calls_routine :: "string \<Rightarrow> node_kind \<Rightarrow> bool" where
  "calls_routine source (ExprNode (FuncCallExpr _ _ _)) \<longleftrightarrow> True"
| "calls_routine source (ExprNode (AggregateFuncExpr f d pos)) \<longleftrightarrow> \<not> isAllowedCountAggregate source f d pos"
| "calls_routine source (ExprNode WindowFuncExpr) \<longleftrightarrow> True"
| "calls_routine source _ \<longleftrightarrow> False"

definition plain_read :: "(rune \<Rightarrow> rune) \<Rightarrow> string \<Rightarrow> node \<Rightarrow> bool" where
  "plain_read ul source t \<longleftrightarrow>
     list_all (\<lambda>k. \<not> touches_server ul k \<and> \<not> calls_routine source k) (visible_kinds t)"

lemma Enter_flags:
  "Enter ul k v = (opaque k, v\<lparr>sv_unsafeRead := sv_unsafeRead v \<or> touches_server ul k,
     sv_disallowedFunction := sv_disallowedFunction v \<or> calls_routine (sv_source v) k\<rparr>)"
  by (cases "(ul, k, v)" rule: Enter.cases) auto

lemma Accept_flags:
  "Accept ul t v = v\<lparr>sv_unsafeRead := sv_unsafeRead v \<or> list_ex (touches_server ul) (visible_kinds t),
     sv_disallowedFunction := sv_disallowedFunction v \<or> list_ex (calls_routine (sv_source v)) (visible_kinds t)\<rparr>"
proof (induction t arbitrary: v)
  case (Node k ch)
  have fold: "fold (Accept ul) cs v = v\<lparr>sv_unsafeRead := sv_unsafeRead v \<or>
      list_ex (touches_server ul) (concat (map visible_kinds cs)),
      sv_disallowedFunction := sv_disallowedFunction v \<or>
      list_ex (calls_routine (sv_source v)) (concat (map visible_kinds cs))\<rparr>"
    if "set cs \<subseteq> set ch" for cs v
    using that by (induction cs arbitrary: v) (simp_all add: Node.IH disj_assoc)
  show ?case
    by (simp add: Enter_flags fold[OF order_refl] disj_assoc)
qed

lemma classifySelect_kind:
  "dec_Kind (classifySelect ul s ch lower source) =
     (if isOperationalRead lower then AllowOperationalRead
      else if sel_Kind s = SelectStmtKindSelect \<and> plain_read ul source (Node (SelectNode s) ch)
      then AllowRead else Reject)"
  by (simp add: classifySelect_def Let_def Accept_flags plain_read_def list_all_iff list_ex_iff)

lemma fieldContexts_elem:
  "ctx \<in> set (fieldContexts ul source fs acc) \<Longrightarrow>
     ctx \<in> set acc \<or> (\<exists>e. FieldExpr e \<in> set fs \<and> ctx = expressionContext ul source e)"
  by (induction ul source fs acc rule: fieldContexts.induct) auto

definition select_exprs :: "SelectInfo \<Rightarrow> expr list" where
  "select_exprs s = concat (map (\<lambda>f. case f of WildCard \<Rightarrow> [] | FieldExpr e \<Rightarrow> [e])
     (case sel_Fields s of None \<Rightarrow> [] | Some fs \<Rightarrow> fs))"

lemma expressionContexts_fields:
  "ctx \<in> set (expressionContexts ul s source) \<Longrightarrow>
     \<exists>e \<in> set (select_exprs s). ctx = expressionContext ul source e"
proof (cases "sel_Fields s")
  case (Some fs)
  assume "ctx \<in> set (expressionContexts ul s source)"
  then obtain e where "FieldExpr e \<in> set fs" "ctx = expressionContext ul source e"
    using Some by (auto simp: expressionContexts_def split: if_splits dest: fieldContexts_elem)
  then show ?thesis using Some by (force simp: select_exprs_def)
qed (simp add: expressionContexts_def)

subsection \<open>Branches of Classify\<close>

definition screened :: "string \<Rightarrow> bool" where
  "screened s \<longleftrightarrow> normalize s \<noteq> '''' \<and> \<not> Contains (normalize s) ''/*!''"

lemma Classify_screened:
  "Classify ul P c s =
     (if screened s then
        (case P s of
           Some [SetStmt] \<Rightarrow> classifySet c (lowered ul s)
         | Some [UseStmt db] \<Rightarrow> classifyUseName c db
         | Some [SelectStmt i ch] \<Rightarrow> classifySelect ul i ch (lowered ul s) s
         | Some [OtherStmt] \<Rightarrow> decide Reject ''unsupported_statement''
         | Some _ \<Rightarrow> decide Reject ''multiple_statements''
         | None \<Rightarrow> decide Reject ''parse_error'')
      else decide Reject (if normalize s = '''' then ''empty_statement'' else ''executable_comment''))"
  by (auto simp: Classify_def screened_def Let_def length_Suc_conv split: option.splits list.splits stmt.splits)

lemma classifySet_kind [simp]: "dec_Kind (classifySet c l) = (if allowDefaultSetup c \<and> isAllowedSetup l then AllowSetup else Reject)"
  by (simp add: classifySet_def)

lemma classifyUseName_kind [simp]: "dec_Kind (classifyUseName c db) = (if TrimSpace db \<in> allowedSchemas c then AllowSetup else Reject)"
  by (simp add: classifyUseName_def)

text \<open>
  C11.  A statement is forwarded as a read of user data exactly when it passes the
  textual screen, parses to one SELECT statement that is not an operational
  probe, and no visible node of its tree writes a result elsewhere, takes a lock, names a
  system schema or calls a routine other than an unqualified COUNT(*).
\<close>

theorem AllowRead_iff_plain_read:
  "dec_Kind (Classify ul ParseSQL c s) = AllowRead \<longleftrightarrow>
     screened s \<and> \<not> isOperationalRead (lowered ul s) \<and>
     (\<exists>i ch. ParseSQL s = Some [SelectStmt i ch] \<and> sel_Kind i = SelectStmtKindSelect \<and>
             plain_read ul s (Node (SelectNode i) ch))"
  by (auto simp: Classify_screened classifySelect_kind split: option.splits list.splits stmt.splits)

definition read_select :: SelectInfo where
  "read_select = \<lparr>sel_Kind = SelectStmtKindSelect, sel_hasInto = False, sel_LockInfo = None,
     sel_Fields = Some [FieldExpr (AggregateFuncExpr ''COUNT'' False 7)]\<rparr>"

definition count_tree :: "node list" where
  "count_tree = [Node (ExprNode (AggregateFuncExpr ''COUNT'' False 7)) [Node (ExprNode ValueExpr) []],
                 Node (TableName ''hr'') []]"

definition count_parser :: parser where
  "count_parser statement = Some [SelectStmt read_select count_tree]"

definition count_classifier :: StaticClassifier where
  "count_classifier = NewClassifier \<lparr>cc_AllowedSchemas = [''hr''], cc_AllowDefaultSetup = True\<rparr>"

text \<open>The expressions of the SELECT list are nodes the walk visits.\<close>

definition fields_in_tree :: "SelectInfo \<Rightarrow> node list \<Rightarrow> bool" where
  "fields_in_tree i ch \<longleftrightarrow>
     list_all (\<lambda>e. ExprNode e \<in> set (visible_kinds (Node (SelectNode i) ch))) (select_exprs i)"

text \<open>
  In a read of user data whose SELECT list is part of its tree, the only
  expressions annotated as safe to show without an origin are the unqualified
  COUNT(*) and the operational variables.
\<close>

lemma AllowRead_contexts:
  assumes "dec_Kind (Classify ul ParseSQL c s) = AllowRead"
    and fields: "\<And>i ch. ParseSQL s = Some [SelectStmt i ch] \<Longrightarrow> fields_in_tree i ch"
    and "ctx \<in> set (dec_ExpressionContext (Classify ul ParseSQL c s))" and "ec_SafeBuiltin ctx"
  shows "ec_Kind ctx = ExpressionCountStar \<and> ec_FunctionName ctx = ''count'' \<or>
         (\<exists>name. isOperationalVariable ul name \<and> ec_FunctionName ctx = ''@@'' @ ToLower ul name)"
proof -
  obtain i ch where p: "ParseSQL s = Some [SelectStmt i ch]" "screened s"
    "\<not> isOperationalRead (lowered ul s)" "plain_read ul s (Node (SelectNode i) ch)"
    "sel_Kind i = SelectStmtKindSelect"
    using assms(1) by (auto simp: Classify_screened classifySelect_kind split: option.splits list.splits stmt.splits if_splits)
  have dec: "dec_ExpressionContext (Classify ul ParseSQL c s) = expressionContexts ul i s"
    using p by (simp add: Classify_screened classifySelect_def Let_def Accept_flags plain_read_def
        list_all_iff list_ex_iff)
  obtain e where e: "e \<in> set (select_exprs i)" "ctx = expressionContext ul s e"
    using expressionContexts_fields[OF assms(3)[unfolded dec]] by blast
  then have "ExprNode e \<in> set (visible_kinds (Node (SelectNode i) ch))"
    using fields[OF p(1)] by (simp add: fields_in_tree_def list_all_iff)
  then have "\<not> calls_routine s (ExprNode e)"
    using p(4) unfolding plain_read_def list_all_iff by blast
  then show ?thesis
    using assms(4) e(2) by (cases e) (auto simp: unknownContext_def AggFuncCount_def split: if_splits)
qed

lemma AllowRead_contexts_witness:
  "isAllowedCountAggregate ''select COUNT( * ) from t'' ''COUNT'' False 7 \<and>
   list_all (\<lambda>ctx. ec_Kind ctx = ExpressionCountStar \<and> ec_FunctionName ctx = ''count'' \<or>
      (\<exists>name. isOperationalVariable id name \<and> ec_FunctionName ctx = ''@@'' @ ToLower id name))
    (dec_ExpressionContext (Classify id count_parser count_classifier ''select COUNT( * ) from t''))"
proof -
  have k: "dec_Kind (Classify id count_parser count_classifier ''select COUNT( * ) from t'') = AllowRead"
    by code_simp
  have c: "dec_ExpressionContext (Classify id count_parser count_classifier ''select COUNT( * ) from t'')
      = [\<lparr>ec_Kind = ExpressionCountStar, ec_FunctionName = ''count'', ec_SafeBuiltin = True\<rparr>]"
    by code_simp
  have a: "isAllowedCountAggregate ''select COUNT( * ) from t'' ''COUNT'' False 7" by code_simp
  have f: "fields_in_tree read_select count_tree" by code_simp
  show ?thesis
    unfolding list_all_iff
    by (rule conjI[OF a], rule ballI, rule AllowRead_contexts[OF k])
       (auto simp: c f count_parser_def)
qed

subsection \<open>Executable comments\<close>

lemma normalize_contains:
  assumes "list_all word_char p" "p \<noteq> []" "lex s = xs @ map TByte p @ ys"
  shows "Contains (normalize s) p"
proof -
  have "scanSQL s = concat (map scan_token xs) @ p @ concat (map scan_token ys)"
    using assms(3) by (simp add: scanSQL_lex comp_def)
  then have "Contains (scanSQL s) p" by (auto simp: Contains_iff)
  then show ?thesis unfolding normalize_def using Join_Fields_contains assms(1,2) by blast
qed

text \<open>
  Whatever the parser makes of it, a statement with an executable comment
  outside its string literals, quoted identifiers and ordinary comments is rejected.
\<close>

lemma executable_comment_rejected:
  assumes "lex s = xs @ map TByte ''/*!'' @ ys"
  shows "Classify ul ParseSQL c s = decide Reject ''executable_comment''"
proof -
  have "list_all word_char ''/*!''" by code_simp
  then have "Contains (normalize s) ''/*!''" using normalize_contains assms by blast
  moreover from this have "normalize s \<noteq> ''''" by (auto simp: Contains_iff)
  ultimately show ?thesis by (simp add: Classify_screened screened_def)
qed

lemma executable_comment_rejected_witness:
  "Classify id count_parser count_classifier ''set '/*' /*!40101 x*/'' = decide Reject ''executable_comment''"
proof -
  have "lex ''set '/*' /*!40101 x*/'' = take 6 (lex ''set '/*' /*!40101 x*/'') @ map TByte ''/*!''
          @ drop 9 (lex ''set '/*' /*!40101 x*/'')"
    by code_simp
  then show ?thesis by (rule executable_comment_rejected)
qed

subsection \<open>Operational reads\<close>

definition probe_forms :: "string \<Rightarrow> string list" where
  "probe_forms p = [p, p @ '';'', p @ '' limit 1'', p @ '' limit 1;'']"

lemma TrimSuffix_twice:
  "t = TrimSuffix (TrimSuffix t a) b \<or> t = TrimSuffix (TrimSuffix t a) b @ a \<or>
   t = TrimSuffix (TrimSuffix t a) b @ b \<or> t = TrimSuffix (TrimSuffix t a) b @ b @ a"
proof -
  obtain u where u: "u = TrimSuffix t a" by simp
  have "t = u \<or> t = u @ a" "u = TrimSuffix u b \<or> u = TrimSuffix u b @ b"
    unfolding u by (rule TrimSuffix_cases)+
  then show ?thesis unfolding u[symmetric] by (metis append.assoc)
qed

lemma isOperationalRead_iff:
  "isOperationalRead t \<longleftrightarrow> t \<in> set (concat (map probe_forms operational_probes))"
proof
  assume "isOperationalRead t"
  then have p: "TrimSuffix (TrimSuffix t '';'') '' limit 1'' \<in> set operational_probes"
    by (simp add: isOperationalRead_def)
  have "t \<in> set (probe_forms (TrimSuffix (TrimSuffix t '';'') '' limit 1''))"
    using TrimSuffix_twice[of t "'';''" "'' limit 1''"] by (simp add: probe_forms_def)
  with p show "t \<in> set (concat (map probe_forms operational_probes))" by auto
next
  have "list_all isOperationalRead (concat (map probe_forms operational_probes))" by code_simp
  then show "t \<in> set (concat (map probe_forms operational_probes)) \<Longrightarrow> isOperationalRead t"
    unfolding list_all_iff by blast
qed

text \<open>
  A statement is forwarded as an operational read exactly when it passes the
  screen, is one SELECT, and its lowered text is one of the forty forms of the ten
  probes (with or without a final LIMIT 1 and semicolon).
\<close>

lemma AllowOperationalRead_iff_probe:
  "dec_Kind (Classify ul ParseSQL c s) = AllowOperationalRead \<longleftrightarrow>
     screened s \<and> (\<exists>i ch. ParseSQL s = Some [SelectStmt i ch]) \<and>
     lowered ul s \<in> set (concat (map probe_forms operational_probes))"
  by (auto simp: Classify_screened classifySelect_kind isOperationalRead_iff simp del: set_concat
      split: option.splits list.splits stmt.splits)

text \<open>A column whose quoted name reads like a probe is taken for one.\<close>

definition quoted_name_tree :: parser where
  "quoted_name_tree statement = Some [SelectStmt
     (read_select\<lparr>sel_Fields := Some [FieldExpr ColumnNameExpr]\<rparr>)
     [Node (ExprNode ColumnNameExpr) [Node (ColumnName '''') []]]]"

lemma quoted_name_operational:
  "dec_Kind (Classify id quoted_name_tree count_classifier ''select `now()`'') = AllowOperationalRead"
  by code_simp

subsection \<open>Setup statements\<close>

definition setup_rune :: "rune \<times> string \<Rightarrow> bool" where
  "setup_rune ch \<longleftrightarrow> charset_rune (fst ch) \<or> IsSpace (fst ch) \<or> fst ch = 61"

lemma value_runes: "list_all setup_rune (utf8_chunks (TrimSpace s)) \<Longrightarrow> list_all setup_rune (utf8_chunks s)"
  using TrimSpace_runes[of s] by (auto simp: list_all_iff setup_rune_def chunk_space_def)

lemma prefix_runes:
  assumes "HasPrefix l p" "list_all (\<lambda>c. ascii c \<and> setup_rune (byte_of c, [c])) p"
    "list_all setup_rune (utf8_chunks (TrimPrefix l p))"
  shows "list_all setup_rune (utf8_chunks l)"
proof -
  obtain r where l: "l = p @ r" using assms(1) HasPrefix_iff by blast
  have "list_all ascii p" using assms(2) by (simp add: list_all_iff)
  then show ?thesis
    using assms(2,3) utf8_chunks_ascii_prefix[of p r] by (auto simp: l list_all_iff setup_rune_def)
qed

lemma isAllowedSetup_runes:
  assumes "isAllowedSetup l"
  shows "list_all setup_rune (utf8_chunks l)"
proof -
  have simple: "list_all setup_rune (utf8_chunks v)"
    if "isSimpleCharsetValue v \<or> v = ''null'' \<or> v = ''default''" for v
  proof -
    have w: "list_all setup_rune (utf8_chunks ''null'')" "list_all setup_rune (utf8_chunks ''default'')"
      by code_simp+
    have "list_all setup_rune (utf8_chunks v)" if "isSimpleCharsetValue v"
      using that by (auto simp: isSimpleCharsetValue_def list_all_iff setup_rune_def)
    then show ?thesis using that w by blast
  qed
  let ?word = "list_all (\<lambda>c. ascii c \<and> setup_rune (byte_of c, [c]))"
  have pre: "?word ''set names ''" "?word ''set character_set_results''" "?word ''=''" by code_simp+
  show ?thesis
  proof (cases "HasPrefix l ''set names ''")
    case True
    then have "isSimpleCharsetValue (TrimSpace (TrimPrefix l ''set names ''))"
      using assms by (simp add: isAllowedSetup_def split: if_splits)
    then show ?thesis using prefix_runes[OF True pre(1)] value_runes simple by blast
  next
    case False
    define r where "r = TrimSpace (TrimPrefix l ''set character_set_results'')"
    have p: "HasPrefix l ''set character_set_results''"
      and v: "list_all setup_rune (utf8_chunks (TrimSpace (TrimPrefix r ''='')))"
      using assms False by (auto simp: isAllowedSetup_def Let_def r_def split: if_splits intro!: simple)
    have "list_all setup_rune (utf8_chunks r)"
      using prefix_runes[OF _ pre(3)] value_runes[OF v] by (cases "HasPrefix r ''=''") (auto simp: TrimPrefix_def)
    then show ?thesis using prefix_runes[OF p pre(2)] value_runes unfolding r_def by blast
  qed
qed

text \<open>A quoted string leaves its mark in the lowered text.\<close>

lemma lowered_string_mark:
  assumes "TString q t \<in> set (lex s)"
  shows "CHR ''?'' \<in> set (lowered ul s)"
proof -
  have w: "word_char (CHR ''?'')" "ascii (CHR ''?'')" "lower_char (CHR ''?'') = CHR ''?''" by code_simp+
  have "CHR ''?'' \<in> set (scanSQL s)"
    using assms unfolding scanSQL_lex by (auto intro!: bexI[of _ "TString q t"])
  then have "CHR ''?'' \<in> set (normalize s)" unfolding normalize_def by (rule Join_Fields_keeps[OF w(1)])
  then have "CHR ''?'' \<in> set (ToLower ul (normalize s))" using ToLower_keeps[OF w(2)] w(3) by metis
  then show ?thesis
    unfolding lowered_def trimStatementTerminator_def Let_def
    by (auto intro!: TrimSpace_keeps[OF w(1)] TrimSuffix_keeps)
qed

definition no_string_literal :: "string \<Rightarrow> bool" where
  "no_string_literal s \<longleftrightarrow> list_all (\<lambda>t. case t of TString _ _ \<Rightarrow> False | _ \<Rightarrow> True) (lex s)"

text \<open>
  C20.  A statement is forwarded as setup only when it passes the screen and either
  selects a configured schema, or is a SET allowed by the configuration that holds no
  string literal and whose lowered text is made of lower-case letters, digits,
  underscores, equals signs and white space: no list, variable, call or second
  statement can ride on it.
\<close>

theorem AllowSetup_harmless:
  "dec_Kind (Classify ul ParseSQL (NewClassifier cfg) s) = AllowSetup \<longrightarrow>
     screened s \<and>
     ((\<exists>db. ParseSQL s = Some [UseStmt db] \<and> TrimSpace db \<in> set (cc_AllowedSchemas cfg)) \<or>
      (ParseSQL s = Some [SetStmt] \<and> cc_AllowDefaultSetup cfg \<and> no_string_literal s \<and>
       list_all setup_rune (utf8_chunks (lowered ul s))))"
proof
  assume a: "dec_Kind (Classify ul ParseSQL (NewClassifier cfg) s) = AllowSetup"
  then consider (use_db) db where "screened s" "ParseSQL s = Some [UseStmt db]" "TrimSpace db \<in> set (cc_AllowedSchemas cfg)"
    | (set_var) "screened s" "ParseSQL s = Some [SetStmt]" "cc_AllowDefaultSetup cfg" "isAllowedSetup (lowered ul s)"
    by (auto simp: Classify_screened classifySelect_kind NewClassifier_def
        split: option.splits list.splits stmt.splits if_splits)
  then show "screened s \<and>
     ((\<exists>db. ParseSQL s = Some [UseStmt db] \<and> TrimSpace db \<in> set (cc_AllowedSchemas cfg)) \<or>
      (ParseSQL s = Some [SetStmt] \<and> cc_AllowDefaultSetup cfg \<and> no_string_literal s \<and>
       list_all setup_rune (utf8_chunks (lowered ul s))))"
  proof cases
    case set_var
    have r: "list_all setup_rune (utf8_chunks (lowered ul s))" by (rule isAllowedSetup_runes[OF set_var(4)])
    have "\<not> setup_rune (byte_of (CHR ''?''), ''?'')" "ascii (CHR ''?'')" by code_simp+
    then have "CHR ''?'' \<notin> set (lowered ul s)"
      using r utf8_chunks_byte by (auto simp: list_all_iff)
    then have "no_string_literal s"
      using lowered_string_mark by (auto simp: no_string_literal_def list_all_iff split: token.splits)
    then show ?thesis using set_var r by simp
  qed blast
qed

theorem AllowSetup_harmless_witness:
  "dec_Kind (Classify id (\<lambda>_. Some [SetStmt]) count_classifier ''SET NAMES utf8mb4;'') = AllowSetup
   \<and> no_string_literal ''SET NAMES utf8mb4;''"
proof -
  have k: "dec_Kind (Classify id (\<lambda>_. Some [SetStmt]) count_classifier ''SET NAMES utf8mb4;'') = AllowSetup"
    by code_simp
  from AllowSetup_harmless[THEN mp, OF k[unfolded count_classifier_def]] show ?thesis using k by simp
qed

end
