(* ===== verification/Tokens.thy ===== *)
theory Tokens
  imports GoStrings
begin

text \<open>
  Random tokens: \<open>randomToken\<close>, which \<open>internal/otp/store.go\<close> and
  \<open>internal/authhttp/session.go\<close> each define with the same body, over Go's
  \<open>io.ReadFull\<close> and \<open>base64.RawURLEncoding\<close>.  An \<open>io.Reader\<close> of random bytes is the
  list of the bytes it has yet to deliver; it fails once the list is exhausted.
  The lemmas show that a token determines the random bytes it was made from, so
  encoding loses none of their entropy.
\<close>

subsection \<open>encoding/base64, RawURLEncoding\<close>

definition b64_alphabet :: string where
  "b64_alphabet = ''ABCDEFGHIJKLMNOPQRSTUVWXYZabcdefghijklmnopqrstuvwxyz0123456789-_''"

fun sextets :: "nat list \<Rightarrow> nat list" where
  "sextets [] = []"
| "sextets [a] = [a div 4, a mod 4 * 16]"
| "sextets [a, b] = [a div 4, a mod 4 * 16 + b div 16, b mod 16 * 4]"
| "sextets (a # b # c # r) =
     a div 4 # (a mod 4 * 16 + b div 16) # (b mod 16 * 4 + c div 64) # c mod 64 # sextets r"

fun unsextets :: "nat list \<Rightarrow> nat list" where
  "unsextets (p # q # r # s # t) =
     (p * 4 + q div 16) # (q mod 16 * 16 + r div 4) # (r mod 4 * 64 + s) # unsextets t"
| "unsextets [p, q, r] = [p * 4 + q div 16, q mod 16 * 16 + r div 4]"
| "unsextets [p, q] = [p * 4 + q div 16]"
| "unsextets _ = []"

definition EncodeToString :: "bytes \<Rightarrow> string" where
  "EncodeToString bs = map (\<lambda>n. b64_alphabet ! n) (sextets (map byte_of bs))"

lemma byte_of_less [simp]: "byte_of c < 256"
  by (simp add: byte_of_def)

lemma inj_byte_of: "inj byte_of"
  by (rule inj_on_inverseI[where g = char_of]) simp

lemma unsextets_sextets:
  "\<forall>b \<in> set bs. b < 256 \<Longrightarrow> unsextets (sextets bs) = bs"
proof (induction bs rule: sextets.induct)
  case (4 a b c r)
  have d: "b div 16 < 16" "c div 64 < 4" using 4(2) by auto
  then have "(a mod 4 * 16 + b div 16) div 16 = a mod 4"
    "(a mod 4 * 16 + b div 16) mod 16 = b div 16"
    "(b mod 16 * 4 + c div 64) div 4 = b mod 16"
    "(b mod 16 * 4 + c div 64) mod 4 = c div 64"
    by simp_all
  with 4 show ?case by simp
qed auto

lemma sextets_less: "\<forall>b \<in> set bs. b < 256 \<Longrightarrow> n \<in> set (sextets bs) \<Longrightarrow> n < 64"
proof (induction bs rule: sextets.induct)
  case (2 a) then show ?case by auto
next
  case (3 a b)
  then have "a mod 4 * 16 + b div 16 < 64" "b mod 16 * 4 < 64" by auto
  with 3 show ?case by auto
next
  case (4 a b c r)
  then have "a mod 4 * 16 + b div 16 < 64" "b mod 16 * 4 + c div 64 < 64" by auto
  with 4 show ?case by auto
qed auto

lemma length_sextets: "length (sextets bs) = (4 * length bs + 2) div 3"
  by (induction bs rule: sextets.induct) auto

lemma length_EncodeToString: "length (EncodeToString bs) = (4 * length bs + 2) div 3"
  by (simp add: EncodeToString_def length_sextets)

lemma b64_alphabet_nth_inj: "inj_on (\<lambda>n. b64_alphabet ! n) {..<64}"
proof (rule inj_onI)
  have d: "distinct b64_alphabet" and l: "length b64_alphabet = 64"
    by (simp_all add: b64_alphabet_def)
  fix m n assume "m \<in> {..<64}" "n \<in> {..<64}" "b64_alphabet ! m = b64_alphabet ! n"
  then show "m = n" using d l by (simp add: nth_eq_iff_index_eq)
qed

lemma EncodeToString_inj: "EncodeToString bs = EncodeToString bs' \<Longrightarrow> bs = bs'"
proof -
  have s: "set (sextets (map byte_of xs)) \<subseteq> {..<64}" for xs
    using sextets_less[of "map byte_of xs"] by auto
  have r: "unsextets (sextets (map byte_of xs)) = map byte_of xs" for xs
    by (rule unsextets_sextets) auto
  assume "EncodeToString bs = EncodeToString bs'"
  then have "sextets (map byte_of bs) = sextets (map byte_of bs')"
    using inj_on_map_eq_map[of "\<lambda>n. b64_alphabet ! n" "sextets (map byte_of bs)" "sextets (map byte_of bs')"]
      b64_alphabet_nth_inj s[of bs] s[of bs']
    by (auto simp: EncodeToString_def intro: inj_on_subset)
  then have "map byte_of bs = map byte_of bs'" by (metis r)
  then show "bs = bs'" using inj_byte_of by (simp add: inj_map_eq_map)
qed

lemma EncodeToString_charset:
  assumes "c \<in> set (EncodeToString bs)"
  shows "c \<in> set b64_alphabet"
proof -
  obtain n where n: "n \<in> set (sextets (map byte_of bs))" "c = b64_alphabet ! n"
    using assms by (auto simp: EncodeToString_def)
  then have "n < 64" using sextets_less[of "map byte_of bs" n] by auto
  moreover have "length b64_alphabet = 64" by (simp add: b64_alphabet_def)
  ultimately show ?thesis using n(2) by (metis nth_mem)
qed

subsection \<open>io.ReadFull and randomToken\<close>

type_synonym reader = bytes

datatype read_error = EOF | ErrUnexpectedEOF

definition ReadFull :: "reader \<Rightarrow> nat \<Rightarrow> (read_error + bytes) \<times> reader" where
  "ReadFull rd n =
     (if n \<le> length rd then (Inr (take n rd), drop n rd)
      else if rd = [] then (Inl EOF, []) else (Inl ErrUnexpectedEOF, []))"

definition randomToken :: "reader \<Rightarrow> nat \<Rightarrow> (read_error + string) \<times> reader" where
  "randomToken random n = (case ReadFull random n of
     (Inl err, rd) \<Rightarrow> (Inl err, rd)
   | (Inr bs, rd) \<Rightarrow> (Inr (EncodeToString bs), rd))"

lemma randomToken_ok:
  "n \<le> length rd \<Longrightarrow> randomToken rd n = (Inr (EncodeToString (take n rd)), drop n rd)"
  by (simp add: randomToken_def ReadFull_def)

lemma randomToken_fail:
  "length rd < n \<Longrightarrow> \<exists>e. randomToken rd n = (Inl e, [])"
  by (simp add: randomToken_def ReadFull_def)

lemma randomToken_cases:
  obtains (ok) "n \<le> length rd" "randomToken rd n = (Inr (EncodeToString (take n rd)), drop n rd)"
  | (fail) e where "length rd < n" "randomToken rd n = (Inl e, [])"
  using randomToken_ok randomToken_fail by (metis not_le)

lemma randomToken_Inr:
  "randomToken rd n = (Inr t, rd') \<longleftrightarrow>
     n \<le> length rd \<and> t = EncodeToString (take n rd) \<and> rd' = drop n rd"
  by (cases rule: randomToken_cases[of n rd]) auto

text \<open>
  A token is a faithful image of its random bytes: two tokens of the same
  size are equal exactly when the bytes drawn are, and a token of \<open>n\<close> bytes has
  \<open>\<lceil>4 n / 3\<rceil>\<close> characters of the URL alphabet.
\<close>

lemma randomToken_faithful:
  assumes "randomToken rd n = (Inr t, rd1)" and "randomToken rd' n = (Inr t', rd1')"
  shows "(t = t' \<longleftrightarrow> take n rd = take n rd') \<and> length t = (4 * n + 2) div 3
    \<and> set t \<subseteq> set b64_alphabet \<and> rd = take n rd @ rd1"
  using assms EncodeToString_inj EncodeToString_charset
  by (auto simp: randomToken_Inr length_EncodeToString min_def)

lemma randomToken_faithful_witness:
  "randomToken ''abcd'' 3 = (Inr ''YWJj'', ''d'') \<and> ''YWJj'' \<noteq> ''YWJk''
     \<and> set ''YWJj'' \<subseteq> set b64_alphabet"
proof -
  have a: "randomToken ''abcd'' 3 = (Inr ''YWJj'', ''d'')"
    and b: "randomToken ''abdd'' 3 = (Inr ''YWJk'', ''d'')"
    by code_simp+
  show ?thesis using a randomToken_faithful[OF a b] by blast
qed

end
