(* ===== verification/RateWindow.thy ===== *)
theory RateWindow
  imports Prelude
begin

text \<open>
  The contract of the sliding-window counters of \<open>internal/otp/store.go\<close>.  A bucket
  map sends a key to the times of its recent events.  The locale
  \<open>sliding_window\<close> states what a pruning routine must do to such a map; the
  lemmas in it relate the bucket of a key to the full history of its events and
  are proved once for both routines of the store.
\<close>

type_synonym buckets = "string \<rightharpoonup> time list"

definition entries :: "buckets \<Rightarrow> string \<Rightarrow> time list" where
  "entries m k = (case m k of None \<Rightarrow> [] | Some ts \<Rightarrow> ts)"

lemma entries_upd [store_simps]: "entries (m(k \<mapsto> ts)) k' = (if k' = k then ts else entries m k')"
  by (simp add: entries_def)

lemma entries_empty [store_simps]: "entries Map.empty k = []"
  by (simp add: entries_def)

text \<open>The events of a history that a window of length \<open>W\<close> ending at \<open>now\<close> still counts.\<close>

definition in_window :: "duration \<Rightarrow> time \<Rightarrow> time list \<Rightarrow> time list" where
  "in_window W now ts = filter (\<lambda>t. now - W \<le> t) ts"

lemma in_window_append [simp]: "in_window W now (xs @ ys) = in_window W now xs @ in_window W now ys"
  by (simp add: in_window_def)

lemma in_window_Nil [simp]: "in_window W now [] = []"
  by (simp add: in_window_def)

lemma in_window_now: "0 \<le> W \<Longrightarrow> in_window W now [now] = [now]"
  by (simp add: in_window_def)

lemma in_window_idem [simp]: "in_window W now (in_window W now xs) = in_window W now xs"
  by (simp add: in_window_def)

definition covers :: "duration \<Rightarrow> buckets \<Rightarrow> string \<Rightarrow> time \<Rightarrow> time list \<Rightarrow> bool" where
  "covers W m k now H \<longleftrightarrow> in_window W now (entries m k) = in_window W now H"

lemma covers_later:
  assumes "covers W m k now H" and "now \<le> now'"
  shows "covers W m k now' H"
proof -
  have "in_window W now' xs = in_window W now' (in_window W now xs)" for xs
    using assms(2) unfolding in_window_def filter_filter_conj by (intro filter_cong) auto
  then show ?thesis using assms(1) unfolding covers_def by metis
qed

lemma covers_start: "entries m k = [] \<Longrightarrow> covers W m k now []"
  by (simp add: covers_def)

text \<open>No window of length \<open>W\<close> holds more than \<open>limit\<close> events of the history.\<close>

definition rate_ok :: "duration \<Rightarrow> nat \<Rightarrow> time list \<Rightarrow> bool" where
  "rate_ok W limit H \<longleftrightarrow> (\<forall>a. length (filter (\<lambda>t. a \<le> t \<and> t \<le> a + W) H) \<le> limit)"

lemma rate_ok_Nil [simp]: "rate_ok W limit []"
  by (simp add: rate_ok_def)

lemma rate_ok_snoc:
  assumes "rate_ok W limit H" and "length (in_window W now H) < limit"
  shows "rate_ok W limit (H @ [now])"
  unfolding rate_ok_def
proof
  fix a
  show "length (filter (\<lambda>t. a \<le> t \<and> t \<le> a + W) (H @ [now])) \<le> limit"
  proof (cases "a \<le> now \<and> now \<le> a + W")
    case True
    then have "length (filter (\<lambda>t. a \<le> t \<and> t \<le> a + W) H) \<le> length (in_window W now H)"
      unfolding in_window_def by (intro length_filter_mono) auto
    with assms(2) True show ?thesis by simp
  next
    case False
    with assms(1) show ?thesis by (auto simp: rate_ok_def)
  qed
qed

locale sliding_window =
  fixes recent :: "duration \<Rightarrow> buckets \<Rightarrow> string \<Rightarrow> time \<Rightarrow> time list \<times> buckets"
  assumes recent_kept: "fst (recent W m k now) = in_window W now (entries m k)"
    and recent_entries:
      "entries (snd (recent W m k now)) k' =
         (if k' = k then fst (recent W m k now) else entries m k')"
begin

lemma count:
  "covers W m k now H \<Longrightarrow> length (fst (recent W m k now)) = length (in_window W now H)"
  by (simp add: recent_kept covers_def)

lemma prune_covers: "covers W m k' now H \<Longrightarrow> covers W (snd (recent W m k now)) k' now H"
  by (cases "k' = k") (simp_all add: covers_def recent_entries recent_kept)

lemma record_covers:
  assumes "covers W m k now H" and "0 \<le> W"
  shows "covers W ((snd (recent W m k now))(k \<mapsto> fst (recent W m k now) @ [now])) k now (H @ [now])"
  using assms by (simp add: covers_def recent_kept store_simps)

lemma record_other:
  assumes "covers W m k' now H" and "k' \<noteq> k"
  shows "covers W ((snd (recent W m k now))(k \<mapsto> ts)) k' now H"
  using assms by (simp add: covers_def recent_entries store_simps)

end

end
