(* ===== verification/LocalAuth.thy ===== *)
theory LocalAuth
  imports Prelude
begin

text \<open>
  \<open>internal/auth/auth.go\<close>: the browser identity and the local username/password
  provider.  The locale \<open>flow_provider\<close> is the Go interface \<open>auth.FlowProvider\<close> as
  the browser handler uses it; \<open>LocalProvider\<close> is its interpretation.
\<close>

record User =
  user_ID :: string
  user_DisplayName :: string

record LocalUser =
  lu_Username :: string
  lu_Password :: string
  lu_DisplayName :: string

datatype auth_error = ErrInvalidCredentials

type_synonym LocalProvider = "string \<rightharpoonup> LocalUser"

definition NewLocalProvider :: "LocalUser list \<Rightarrow> LocalProvider" where
  "NewLocalProvider users = foldl (\<lambda>m user. m(lu_Username user \<mapsto> user)) Map.empty users"

text \<open>\<open>subtle.ConstantTimeCompare(x, y) == 1\<close>: equal length and equal bytes.\<close>

definition ConstantTimeEq :: "bytes \<Rightarrow> bytes \<Rightarrow> bool" where
  "ConstantTimeEq x y \<longleftrightarrow> x = y"

definition Authenticate :: "LocalProvider \<Rightarrow> string \<Rightarrow> string \<Rightarrow> auth_error + User" where
  "Authenticate p username password = (case p username of
     None \<Rightarrow> Inl ErrInvalidCredentials
   | Some user \<Rightarrow>
       if \<not> ConstantTimeEq (lu_Password user) password then Inl ErrInvalidCredentials
       else Inr \<lparr>user_ID = lu_Username user,
                 user_DisplayName = (if lu_DisplayName user = [] then lu_Username user
                                     else lu_DisplayName user)\<rparr>)"

lemma provider_fold:
  "foldl (\<lambda>m user. m(lu_Username user \<mapsto> user)) m us u =
     (case find (\<lambda>x. lu_Username x = u) (rev us) of None \<Rightarrow> m u | Some x \<Rightarrow> Some x)"
  by (induction us arbitrary: m rule: rev_induct) (auto simp: foldl_append)

lemma NewLocalProvider_find:
  "NewLocalProvider us u = find (\<lambda>x. lu_Username x = u) (rev us)"
  unfolding NewLocalProvider_def provider_fold by (auto split: option.splits)

lemma find_distinct:
  assumes "distinct (map f xs)"
  shows "find (\<lambda>x. f x = k) xs = Some x \<longleftrightarrow> x \<in> set xs \<and> f x = k"
  using assms by (induction xs) (auto simp: rev_image_eqI)

lemma NewLocalProvider_distinct:
  assumes "distinct (map lu_Username us)"
  shows "NewLocalProvider us u = Some x \<longleftrightarrow> x \<in> set us \<and> lu_Username x = u"
  using find_distinct[of lu_Username "rev us" u x] assms
  by (simp add: NewLocalProvider_find rev_map[symmetric])

subsection \<open>The interface auth.FlowProvider\<close>

locale flow_provider =
  fixes authenticate :: "string \<Rightarrow> string \<Rightarrow> auth_error + User"
    and account :: "string \<Rightarrow> (string \<times> User) option"
  assumes authenticate_iff:
    "authenticate u pw = Inr user \<longleftrightarrow> account u = Some (pw, user)"
    and account_ID: "account u = Some (pw, user) \<Longrightarrow> user_ID user = u"
begin

lemma authenticated_ID: "authenticate u pw = Inr user \<Longrightarrow> user_ID user = u"
  by (auto simp: authenticate_iff intro: account_ID)

lemma one_password: "authenticate u pw = Inr user \<Longrightarrow> authenticate u pw' = Inr user' \<Longrightarrow> pw' = pw \<and> user' = user"
  by (simp add: authenticate_iff)

lemma failure_uniform: "\<not> is_ok (authenticate u pw) \<Longrightarrow> authenticate u pw = Inl ErrInvalidCredentials"
  by (cases "authenticate u pw") (auto intro: auth_error.exhaust)

end

definition display_name :: "LocalUser \<Rightarrow> string" where
  "display_name x = (if lu_DisplayName x = [] then lu_Username x else lu_DisplayName x)"

definition local_account :: "LocalUser list \<Rightarrow> string \<Rightarrow> (string \<times> User) option" where
  "local_account us u = map_option
     (\<lambda>x. (lu_Password x, \<lparr>user_ID = lu_Username x, user_DisplayName = display_name x\<rparr>))
     (find (\<lambda>x. lu_Username x = u) (rev us))"

interpretation local: flow_provider "Authenticate (NewLocalProvider us)" "local_account us" for us
proof
  show "Authenticate (NewLocalProvider us) u pw = Inr user \<longleftrightarrow> local_account us u = Some (pw, user)"
    for u pw user
    by (auto simp: Authenticate_def NewLocalProvider_find local_account_def display_name_def
        ConstantTimeEq_def split: option.splits)
  show "local_account us u = Some (pw, user) \<Longrightarrow> user_ID user = u" for u pw user
    by (auto simp: local_account_def find_Some_iff)
qed

lemma Authenticate_configured_iff:
  assumes "distinct (map lu_Username us)"
  shows "Authenticate (NewLocalProvider us) u pw = Inr user \<longleftrightarrow>
      (\<exists>x \<in> set us. lu_Username x = u \<and> lu_Password x = pw
         \<and> user = \<lparr>user_ID = u, user_DisplayName = display_name x\<rparr>)"
proof -
  have "Authenticate (NewLocalProvider us) u pw = Inr user \<longleftrightarrow>
      (\<exists>x. NewLocalProvider us u = Some x \<and> lu_Password x = pw
         \<and> user = \<lparr>user_ID = lu_Username x, user_DisplayName = display_name x\<rparr>)"
    by (auto simp: Authenticate_def ConstantTimeEq_def display_name_def split: option.splits)
  then show ?thesis unfolding NewLocalProvider_distinct[OF assms] by auto
qed

text \<open>
  With distinct usernames a login succeeds exactly for a configured pair of
  username and password, and yields that user's identity; every other attempt,
  unknown user and wrong password alike, gives the one error.
\<close>

lemma Authenticate_configured:
  assumes "distinct (map lu_Username us)"
  shows "(Authenticate (NewLocalProvider us) u pw = Inr user \<longleftrightarrow>
      (\<exists>x \<in> set us. lu_Username x = u \<and> lu_Password x = pw
         \<and> user = \<lparr>user_ID = u, user_DisplayName = display_name x\<rparr>))
    \<and> (\<not> (\<exists>x \<in> set us. lu_Username x = u \<and> lu_Password x = pw) \<longrightarrow>
         Authenticate (NewLocalProvider us) u pw = Inl ErrInvalidCredentials)"
proof (cases "NewLocalProvider us u")
  case None
  then have "\<forall>x \<in> set us. lu_Username x \<noteq> u"
    using NewLocalProvider_distinct[OF assms, of u] by auto
  with None show ?thesis by (auto simp: Authenticate_def)
next
  case (Some a)
  note found = NewLocalProvider_distinct[OF assms, of u]
  from Some have a: "a \<in> set us" "lu_Username a = u" by (simp_all add: found)
  have uniq: "(\<exists>x \<in> set us. lu_Username x = u \<and> P x) \<longleftrightarrow> P a" for P
    using Some found a by (metis option.inject)
  show ?thesis
    using Some a by (simp add: uniq Authenticate_def ConstantTimeEq_def display_name_def) blast
qed

lemma Authenticate_configured_witness:
  "Authenticate (NewLocalProvider [\<lparr>lu_Username = ''alice'', lu_Password = ''pw'', lu_DisplayName = []\<rparr>])
     ''alice'' ''pw'' = Inr \<lparr>user_ID = ''alice'', user_DisplayName = ''alice''\<rparr>"
proof -
  let ?us = "[\<lparr>lu_Username = ''alice'', lu_Password = ''pw'', lu_DisplayName = []\<rparr>]"
  have "distinct (map lu_Username ?us)" by simp
  from Authenticate_configured[OF this, of "''alice''" "''pw''"] show ?thesis
    by (simp add: display_name_def)
qed

end
