(* ===== verification/OtpStore.thy ===== *)
theory OtpStore
  imports Tokens RateWindow LocalAuth
begin

text \<open>
  \<open>internal/otp/store.go\<close>: the in-memory store of one-time MySQL credentials.  The
  mutex makes every operation atomic, so each is a function from the state of the
  store to its result and the next state; \<open>now\<close> is the one reading of the clock the
  operation makes.  \<open>clearBytes\<close> on a credential that is then deleted has no effect
  that can be observed and shows only where the credential stays, in \<open>RecordFailure\<close>.
\<close>

subsection \<open>Data\<close>

datatype otp_error = ErrCredentialNotFound | ErrCredentialExpired | ErrCredentialLocked
  | ErrSourceRateLimited | ErrIssuanceRateLimited | ErrRandom read_error

record Credential =
  cred_Username :: string
  cred_Password :: string
  cred_ExpiresAt :: time

record PendingCredential_rec =
  pc_Username :: string
  pc_User :: User
  pc_ExpiresAt :: time
  pc_AuthVerifierMaterial :: bytes

record StoreConfig =
  oc_TTL :: duration
  oc_CredentialFailureLimit :: int
  oc_SourceFailureLimit :: int
  oc_SourceFailureWindow :: duration
  oc_CredentialIssuanceUserLimit :: int
  oc_CredentialIssuanceSessionLimit :: int
  oc_CredentialIssuanceWindow :: duration
  oc_CredentialUsernameBytes :: int
  oc_CredentialPasswordBytes :: int

record storedCredential =
  sc_user :: User
  sc_password :: bytes
  sc_expiresAt :: time
  sc_failures :: int
  sc_locked :: bool

record Store =
  st_random :: reader
  st_config :: StoreConfig
  st_credentials :: "string \<rightharpoonup> storedCredential"
  st_sources :: buckets
  st_userIssues :: buckets
  st_sessionIssues :: buckets

definition clearBytes :: "bytes \<Rightarrow> bytes" where
  "clearBytes bs = map (\<lambda>_. CHR 0x00) bs"

subsection \<open>Construction\<close>

definition default_if_nonpos :: "int \<Rightarrow> int \<Rightarrow> int" where
  "default_if_nonpos v d = (if v \<le> 0 then d else v)"

definition normalize_config :: "StoreConfig \<Rightarrow> StoreConfig" where
  "normalize_config c = \<lparr>
     oc_TTL = default_if_nonpos (oc_TTL c) (10 * Minute),
     oc_CredentialFailureLimit = default_if_nonpos (oc_CredentialFailureLimit c) 5,
     oc_SourceFailureLimit = default_if_nonpos (oc_SourceFailureLimit c) 20,
     oc_SourceFailureWindow = default_if_nonpos (oc_SourceFailureWindow c) (10 * Minute),
     oc_CredentialIssuanceUserLimit = default_if_nonpos (oc_CredentialIssuanceUserLimit c) 10,
     oc_CredentialIssuanceSessionLimit = default_if_nonpos (oc_CredentialIssuanceSessionLimit c) 5,
     oc_CredentialIssuanceWindow = default_if_nonpos (oc_CredentialIssuanceWindow c) (10 * Minute),
     oc_CredentialUsernameBytes = default_if_nonpos (oc_CredentialUsernameBytes c) 12,
     oc_CredentialPasswordBytes = default_if_nonpos (oc_CredentialPasswordBytes c) 24\<rparr>"

text \<open>\<open>random\<close> is \<open>config.Random\<close>, or \<open>rand.Reader\<close> when that is nil.\<close>

definition NewStore :: "StoreConfig \<Rightarrow> reader \<Rightarrow> Store" where
  "NewStore config random = \<lparr>
     st_random = random, st_config = normalize_config config,
     st_credentials = Map.empty, st_sources = Map.empty,
     st_userIssues = Map.empty, st_sessionIssues = Map.empty\<rparr>"

subsection \<open>Sliding windows\<close>

definition recentSourceFailuresLocked ::
  "duration \<Rightarrow> buckets \<Rightarrow> string \<Rightarrow> time \<Rightarrow> time list \<times> buckets" where
  "recentSourceFailuresLocked window sources sourceAddr now =
     (let windowStart = now + (- window);
          failures = (case sources sourceAddr of None \<Rightarrow> [] | Some ts \<Rightarrow> ts);
          kept = filter (\<lambda>failure. failure > windowStart \<or> failure = windowStart) failures
      in if kept = [] then ([], sources(sourceAddr := None))
         else (kept, sources(sourceAddr \<mapsto> kept)))"

definition recentIssuanceLocked ::
  "duration \<Rightarrow> buckets \<Rightarrow> string \<Rightarrow> time \<Rightarrow> time list \<times> buckets" where
  "recentIssuanceLocked window buckets key now =
     (let windowStart = now + (- window);
          issues = (case buckets key of None \<Rightarrow> [] | Some ts \<Rightarrow> ts);
          kept = filter (\<lambda>issuedAt. issuedAt > windowStart \<or> issuedAt = windowStart) issues
      in if kept = [] then ([], buckets(key := None))
         else (kept, buckets(key \<mapsto> kept)))"

lemma window_test: "filter (\<lambda>t. t > now + - W \<or> t = now + - W) ts = in_window W now ts"
  unfolding in_window_def by (rule filter_cong) auto

definition prune :: "duration \<Rightarrow> buckets \<Rightarrow> string \<Rightarrow> time \<Rightarrow> time list \<times> buckets" where
  "prune W m k now = (let kept = in_window W now (entries m k) in
     if kept = [] then ([], m(k := None)) else (kept, m(k \<mapsto> kept)))"

lemma recent_prune:
  "recentSourceFailuresLocked = prune" "recentIssuanceLocked = prune"
  by (intro ext, simp only: recentSourceFailuresLocked_def recentIssuanceLocked_def prune_def
      window_test entries_def Let_def)+

lemma prune_window: "sliding_window prune"
  by unfold_locales (auto simp: prune_def Let_def entries_def)

interpretation failures: sliding_window recentSourceFailuresLocked
  unfolding recent_prune by (rule prune_window)

interpretation issues: sliding_window recentIssuanceLocked
  unfolding recent_prune by (rule prune_window)

definition issuanceLimitedLocked ::
  "duration \<Rightarrow> buckets \<Rightarrow> string \<Rightarrow> int \<Rightarrow> time \<Rightarrow> bool \<times> buckets" where
  "issuanceLimitedLocked window buckets key limit now =
     (case recentIssuanceLocked window buckets key now of
        (kept, buckets') \<Rightarrow> (int (length kept) \<ge> limit, buckets'))"

definition sourceLimitedLocked :: "string \<Rightarrow> time \<Rightarrow> Store \<Rightarrow> bool \<times> Store" where
  "sourceLimitedLocked sourceAddr now s =
     (case recentSourceFailuresLocked (oc_SourceFailureWindow (st_config s)) (st_sources s) sourceAddr now of
        (kept, sources') \<Rightarrow>
          (int (length kept) \<ge> oc_SourceFailureLimit (st_config s), s\<lparr>st_sources := sources'\<rparr>))"

subsection \<open>Operations\<close>

definition record_issue :: "duration \<Rightarrow> buckets \<Rightarrow> string \<Rightarrow> time \<Rightarrow> buckets" where
  "record_issue window buckets key now =
     (case recentIssuanceLocked window buckets key now of
        (kept, buckets') \<Rightarrow> buckets'(key \<mapsto> kept @ [now]))"

definition Issue :: "User \<Rightarrow> string \<Rightarrow> time \<Rightarrow> Store \<Rightarrow> (otp_error + Credential) \<times> Store" where
  "Issue user sessionID now s =
     (let cfg = st_config s; W = oc_CredentialIssuanceWindow cfg;
          (ulim, ui) = issuanceLimitedLocked W (st_userIssues s) (user_ID user)
                         (oc_CredentialIssuanceUserLimit cfg) now;
          s = s\<lparr>st_userIssues := ui\<rparr>
      in if ulim then (Inl ErrIssuanceRateLimited, s)
      else let (slim, si) = issuanceLimitedLocked W (st_sessionIssues s) sessionID
                              (oc_CredentialIssuanceSessionLimit cfg) now;
               s = s\<lparr>st_sessionIssues := si\<rparr>
      in if slim then (Inl ErrIssuanceRateLimited, s)
      else case randomToken (st_random s) (nat (oc_CredentialUsernameBytes cfg)) of
        (Inl err, rd) \<Rightarrow> (Inl (ErrRandom err), s\<lparr>st_random := rd\<rparr>)
      | (Inr username, rd) \<Rightarrow>
      (case randomToken rd (nat (oc_CredentialPasswordBytes cfg)) of
        (Inl err, rd) \<Rightarrow> (Inl (ErrRandom err), s\<lparr>st_random := rd\<rparr>)
      | (Inr password, rd) \<Rightarrow>
          let expiresAt = now + oc_TTL cfg in
          (Inr \<lparr>cred_Username = username, cred_Password = password, cred_ExpiresAt = expiresAt\<rparr>,
           s\<lparr>st_random := rd,
             st_credentials := (st_credentials s)(username \<mapsto>
               \<lparr>sc_user = user, sc_password = password, sc_expiresAt = expiresAt,
                sc_failures = 0, sc_locked = False\<rparr>),
             st_userIssues := record_issue W (st_userIssues s) (user_ID user) now,
             st_sessionIssues := record_issue W (st_sessionIssues s) sessionID now\<rparr>)))"

definition PendingCredential ::
  "string \<Rightarrow> string \<Rightarrow> time \<Rightarrow> Store \<Rightarrow> (otp_error + PendingCredential_rec) \<times> Store" where
  "PendingCredential username sourceAddr now s =
     (let (limited, s) = sourceLimitedLocked sourceAddr now s in
      if limited then (Inl ErrSourceRateLimited, s)
      else case st_credentials s username of
        None \<Rightarrow> (Inl ErrCredentialNotFound, s)
      | Some credential \<Rightarrow>
          if now > sc_expiresAt credential \<or> now = sc_expiresAt credential then
            (Inl ErrCredentialExpired, s\<lparr>st_credentials := (st_credentials s)(username := None)\<rparr>)
          else if sc_locked credential then (Inl ErrCredentialLocked, s)
          else (Inr \<lparr>pc_Username = username, pc_User = sc_user credential,
                     pc_ExpiresAt = sc_expiresAt credential,
                     pc_AuthVerifierMaterial = sc_password credential\<rparr>, s))"

definition Consume :: "string \<Rightarrow> time \<Rightarrow> Store \<Rightarrow> (otp_error + User) \<times> Store" where
  "Consume username now s =
     (case st_credentials s username of
        None \<Rightarrow> (Inl ErrCredentialNotFound, s)
      | Some credential \<Rightarrow>
          if now > sc_expiresAt credential \<or> now = sc_expiresAt credential then
            (Inl ErrCredentialExpired, s\<lparr>st_credentials := (st_credentials s)(username := None)\<rparr>)
          else if sc_locked credential then (Inl ErrCredentialLocked, s)
          else (Inr (sc_user credential), s\<lparr>st_credentials := (st_credentials s)(username := None)\<rparr>))"

definition fail_credential :: "int \<Rightarrow> storedCredential \<Rightarrow> storedCredential" where
  "fail_credential limit c =
     (let c = c\<lparr>sc_failures := sc_failures c + 1\<rparr> in
      if sc_failures c \<ge> limit then c\<lparr>sc_locked := True, sc_password := clearBytes (sc_password c)\<rparr>
      else c)"

definition RecordFailure :: "string \<Rightarrow> string \<Rightarrow> time \<Rightarrow> Store \<Rightarrow> Store" where
  "RecordFailure username sourceAddr now s =
     (let (kept, sources') = recentSourceFailuresLocked (oc_SourceFailureWindow (st_config s))
                               (st_sources s) sourceAddr now;
          s = s\<lparr>st_sources := sources'(sourceAddr \<mapsto> kept @ [now])\<rparr>
      in case st_credentials s username of
           None \<Rightarrow> s
         | Some credential \<Rightarrow>
             s\<lparr>st_credentials := (st_credentials s)
                (username \<mapsto> fail_credential (oc_CredentialFailureLimit (st_config s)) credential)\<rparr>)"

end
