(* ===== verification/OtpTraces.thy ===== *)
theory OtpTraces
  imports OtpStore
begin

text \<open>
  What the credential store of \<open>OtpStore\<close> guarantees over whole runs.  A run is a
  sequence of store operations, each with the time the clock read; its log keeps
  the results.  \<open>trace\<close> is the same as a relation built one operation at a time, for
  rule induction.  The invariants relate the state of the store to the log; the
  properties are single use, authenticity and expiry, lockout, and the limits on
  issuance and on failed attempts per source.
\<close>

subsection \<open>Effect of each operation\<close>

abbreviation issue_window :: "Store \<Rightarrow> duration" where
  "issue_window s \<equiv> oc_CredentialIssuanceWindow (st_config s)"

abbreviation source_window :: "Store \<Rightarrow> duration" where
  "source_window s \<equiv> oc_SourceFailureWindow (st_config s)"

definition fresh_credential :: "User \<Rightarrow> Credential \<Rightarrow> storedCredential" where
  "fresh_credential user c = \<lparr>sc_user = user, sc_password = cred_Password c,
     sc_expiresAt = cred_ExpiresAt c, sc_failures = 0, sc_locked = False\<rparr>"

lemma Issue_frame [store_simps]:
  "st_config (snd (Issue user sid now s)) = st_config s"
  "st_sources (snd (Issue user sid now s)) = st_sources s"
  by (auto simp: Issue_def Let_def split: prod.splits sum.splits)

lemma Issue_Inl:
  assumes "Issue user sid now s = (Inl e, s')"
  shows "st_credentials s' = st_credentials s"
    and "st_userIssues s' = snd (recentIssuanceLocked (issue_window s) (st_userIssues s) (user_ID user) now)"
    and "st_sessionIssues s' = st_sessionIssues s \<or>
         st_sessionIssues s' = snd (recentIssuanceLocked (issue_window s) (st_sessionIssues s) sid now)"
  using assms
  by (auto simp: Issue_def Let_def issuanceLimitedLocked_def split: prod.splits if_splits sum.splits)

lemma Issue_Inr:
  assumes "Issue user sid now s = (Inr c, s')"
  shows "st_credentials s' = (st_credentials s)(cred_Username c \<mapsto> fresh_credential user c)"
    and "cred_ExpiresAt c = now + oc_TTL (st_config s)"
    and "int (length (fst (recentIssuanceLocked (issue_window s) (st_userIssues s) (user_ID user) now)))
           < oc_CredentialIssuanceUserLimit (st_config s)"
    and "int (length (fst (recentIssuanceLocked (issue_window s) (st_sessionIssues s) sid now)))
           < oc_CredentialIssuanceSessionLimit (st_config s)"
    and "st_userIssues s' = record_issue (issue_window s)
           (snd (recentIssuanceLocked (issue_window s) (st_userIssues s) (user_ID user) now))
           (user_ID user) now"
    and "st_sessionIssues s' = record_issue (issue_window s)
           (snd (recentIssuanceLocked (issue_window s) (st_sessionIssues s) sid now)) sid now"
  using assms
  by (auto simp: Issue_def Let_def issuanceLimitedLocked_def fresh_credential_def
      split: prod.splits if_splits sum.splits)

lemma Issue_tokens:
  assumes "Issue user sid now s = (Inr c, s')"
  shows "\<exists>rd. randomToken (st_random s) (nat (oc_CredentialUsernameBytes (st_config s)))
             = (Inr (cred_Username c), rd)
         \<and> randomToken rd (nat (oc_CredentialPasswordBytes (st_config s)))
             = (Inr (cred_Password c), st_random s')"
  using assms
  by (auto simp: Issue_def Let_def split: prod.splits if_splits sum.splits)

lemma Pending_frame [store_simps]:
  "st_config (snd (PendingCredential u src now s)) = st_config s"
  "st_userIssues (snd (PendingCredential u src now s)) = st_userIssues s"
  "st_sessionIssues (snd (PendingCredential u src now s)) = st_sessionIssues s"
  "st_sources (snd (PendingCredential u src now s)) =
     snd (recentSourceFailuresLocked (source_window s) (st_sources s) src now)"
  by (auto simp: PendingCredential_def sourceLimitedLocked_def Let_def split: prod.splits option.splits)

lemma Pending_credentials:
  "st_credentials (snd (PendingCredential u src now s)) = st_credentials s
   \<or> (\<exists>c. st_credentials s u = Some c \<and> sc_expiresAt c \<le> now \<and>
        st_credentials (snd (PendingCredential u src now s)) = (st_credentials s)(u := None))"
  by (auto simp: PendingCredential_def sourceLimitedLocked_def Let_def split: prod.splits option.splits)

lemma Pending_Inr:
  assumes "PendingCredential u src now s = (Inr pc, s')"
  shows "\<exists>c. st_credentials s u = Some c \<and> now < sc_expiresAt c \<and> \<not> sc_locked c
    \<and> pc = \<lparr>pc_Username = u, pc_User = sc_user c, pc_ExpiresAt = sc_expiresAt c,
            pc_AuthVerifierMaterial = sc_password c\<rparr>
    \<and> st_credentials s' = st_credentials s"
  using assms
  by (auto simp: PendingCredential_def sourceLimitedLocked_def Let_def
      split: prod.splits option.splits if_splits)

lemma Pending_limited:
  "fst (PendingCredential u src now s) = Inl ErrSourceRateLimited \<longleftrightarrow>
     oc_SourceFailureLimit (st_config s)
       \<le> int (length (fst (recentSourceFailuresLocked (source_window s) (st_sources s) src now)))"
  by (auto simp: PendingCredential_def sourceLimitedLocked_def Let_def
      split: prod.splits option.splits)

lemma Consume_frame [store_simps]:
  "st_config (snd (Consume u now s)) = st_config s"
  "st_sources (snd (Consume u now s)) = st_sources s"
  "st_userIssues (snd (Consume u now s)) = st_userIssues s"
  "st_sessionIssues (snd (Consume u now s)) = st_sessionIssues s"
  "st_random (snd (Consume u now s)) = st_random s"
  by (auto simp: Consume_def split: option.splits)

lemma Consume_credentials:
  "st_credentials (snd (Consume u now s)) = st_credentials s
   \<or> st_credentials (snd (Consume u now s)) = (st_credentials s)(u := None)"
  by (auto simp: Consume_def split: option.splits)

lemma Consume_Inr:
  assumes "Consume u now s = (Inr user, s')"
  shows "\<exists>c. st_credentials s u = Some c \<and> now < sc_expiresAt c \<and> \<not> sc_locked c
    \<and> user = sc_user c \<and> st_credentials s' = (st_credentials s)(u := None)"
  using assms by (auto simp: Consume_def split: option.splits if_splits)

lemma RecordFailure_frame [store_simps]:
  "st_config (RecordFailure u src now s) = st_config s"
  "st_userIssues (RecordFailure u src now s) = st_userIssues s"
  "st_sessionIssues (RecordFailure u src now s) = st_sessionIssues s"
  "st_credentials (RecordFailure u src now s) = (st_credentials s)
     (u := map_option (fail_credential (oc_CredentialFailureLimit (st_config s))) (st_credentials s u))"
  "st_sources (RecordFailure u src now s) =
     (snd (recentSourceFailuresLocked (source_window s) (st_sources s) src now))
       (src \<mapsto> fst (recentSourceFailuresLocked (source_window s) (st_sources s) src now) @ [now])"
  by (auto simp: RecordFailure_def Let_def split: prod.splits option.splits)

lemma fail_credential_simps [store_simps]:
  "sc_user (fail_credential l c) = sc_user c"
  "sc_expiresAt (fail_credential l c) = sc_expiresAt c"
  "sc_failures (fail_credential l c) = sc_failures c + 1"
  "sc_locked (fail_credential l c) \<longleftrightarrow> sc_locked c \<or> l \<le> sc_failures c + 1"
  "sc_password (fail_credential l c) =
     (if l \<le> sc_failures c + 1 then clearBytes (sc_password c) else sc_password c)"
  by (simp_all add: fail_credential_def Let_def)

subsection \<open>Runs\<close>

datatype otp_op = OpIssue User string | OpPending string string | OpConsume string
  | OpFailure string string

datatype otp_result = RIssued "otp_error + Credential" | RPending "otp_error + PendingCredential_rec"
  | RConsumed "otp_error + User" | RRecorded

type_synonym otp_event = "time \<times> otp_op \<times> otp_result"

fun exec :: "otp_op \<Rightarrow> time \<Rightarrow> Store \<Rightarrow> otp_result \<times> Store" where
  "exec (OpIssue user sid) now s = map_prod RIssued id (Issue user sid now s)"
| "exec (OpPending u src) now s = map_prod RPending id (PendingCredential u src now s)"
| "exec (OpConsume u) now s = map_prod RConsumed id (Consume u now s)"
| "exec (OpFailure u src) now s = (RRecorded, RecordFailure u src now s)"

fun run :: "Store \<Rightarrow> (time \<times> otp_op) list \<Rightarrow> otp_event list \<times> Store" where
  "run s [] = ([], s)"
| "run s ((now, op) # ops) =
     (let (r, s1) = exec op now s; (log, s2) = run s1 ops in ((now, op, r) # log, s2))"

inductive trace :: "Store \<Rightarrow> otp_event list \<Rightarrow> Store \<Rightarrow> bool" for s0 where
  start: "trace s0 [] s0"
| step: "trace s0 log s \<Longrightarrow> exec op now s = (r, s') \<Longrightarrow> trace s0 (log @ [(now, op, r)]) s'"

inductive_cases exec_trace_snoc: "trace s0 (log @ [e]) s"

lemma trace_Cons: "trace s1 log s2 \<Longrightarrow> exec op now s0 = (r, s1) \<Longrightarrow> trace s0 ((now, op, r) # log) s2"
proof (induction rule: trace.induct)
  case start
  then show ?case using trace.step[OF trace.start, of op now s0 r s1] by simp
next
  case (step log s op' now' r' s')
  then show ?case using trace.step[of s0 "(now, op, r) # log" s op' now' r' s'] by simp
qed

lemma run_trace: "run s0 ops = (log, s) \<Longrightarrow> trace s0 log s"
proof (induction ops arbitrary: s0 log)
  case (Cons e ops)
  obtain now op where e: "e = (now, op)" by fastforce
  then show ?case
    using Cons by (auto split: prod.splits intro!: trace_Cons)
qed (auto intro: trace.start)

text \<open>The rule of induction the proofs below use: one case for each operation.\<close>

lemma trace_op_induct [consumes 1, case_names start issue no_issue pending consume failure]:
  assumes "trace s0 log s"
    and "P [] s0"
    and "\<And>log s user sid now c s'. trace s0 log s \<Longrightarrow> P log s \<Longrightarrow> Issue user sid now s = (Inr c, s') \<Longrightarrow>
           P (log @ [(now, OpIssue user sid, RIssued (Inr c))]) s'"
    and "\<And>log s user sid now e s'. trace s0 log s \<Longrightarrow> P log s \<Longrightarrow> Issue user sid now s = (Inl e, s') \<Longrightarrow>
           P (log @ [(now, OpIssue user sid, RIssued (Inl e))]) s'"
    and "\<And>log s u src now r s'. trace s0 log s \<Longrightarrow> P log s \<Longrightarrow> PendingCredential u src now s = (r, s') \<Longrightarrow>
           P (log @ [(now, OpPending u src, RPending r)]) s'"
    and "\<And>log s u now r s'. trace s0 log s \<Longrightarrow> P log s \<Longrightarrow> Consume u now s = (r, s') \<Longrightarrow>
           P (log @ [(now, OpConsume u, RConsumed r)]) s'"
    and "\<And>log s u src now. trace s0 log s \<Longrightarrow> P log s \<Longrightarrow>
           P (log @ [(now, OpFailure u src, RRecorded)]) (RecordFailure u src now s)"
  shows "P log s"
  using assms(1)
proof (induction rule: trace.induct)
  case (step log s op now r s')
  show ?case
  proof (cases op)
    case (OpIssue user sid)
    obtain x s1 where "Issue user sid now s = (x, s1)" by fastforce
    then show ?thesis using step OpIssue assms(3,4) by (cases x) auto
  next
    case (OpPending u src)
    obtain x s1 where "PendingCredential u src now s = (x, s1)" by fastforce
    then show ?thesis using step OpPending assms(5) by auto
  next
    case (OpConsume u)
    obtain x s1 where "Consume u now s = (x, s1)" by fastforce
    then show ?thesis using step OpConsume assms(6) by auto
  next
    case (OpFailure u src)
    then show ?thesis using step assms(7) by auto
  qed
qed (rule assms(2))

lemma trace_config: "trace s0 log s \<Longrightarrow> st_config s = st_config s0"
proof (induction rule: trace_op_induct)
  case (issue log s user sid now c s') then show ?case by (metis Issue_frame(1) snd_conv)
next
  case (no_issue log s user sid now e s') then show ?case by (metis Issue_frame(1) snd_conv)
next
  case (pending log s u src now r s') then show ?case by (metis Pending_frame(1) snd_conv)
next
  case (consume log s u now r s') then show ?case by (metis Consume_frame(1) snd_conv)
qed (simp_all add: store_simps)

end
