(* ===== verification/OtpProperties.thy ===== *)
theory OtpProperties
  imports OtpTraces
begin

text \<open>
  The guarantees of the credential store: single use; the store as a refinement of a
  specification that reads the log alone (\<open>spec\<close>); cleared material on lockout; and
  the sliding-window limits on issuance and on failed attempts.  Theorems about
  elapsed time assume a clock that does not run backwards (\<open>ordered\<close>), as Go's
  monotonic clock reading guarantees.
\<close>

subsection \<open>Reading a log\<close>

fun is_issue_of :: "string \<Rightarrow> otp_event \<Rightarrow> bool" where
  "is_issue_of u (_, _, RIssued (Inr c)) \<longleftrightarrow> cred_Username c = u"
| "is_issue_of u _ \<longleftrightarrow> False"

fun is_consume_of :: "string \<Rightarrow> otp_event \<Rightarrow> bool" where
  "is_consume_of u (_, OpConsume u', RConsumed (Inr _)) \<longleftrightarrow> u' = u"
| "is_consume_of u _ \<longleftrightarrow> False"

definition count_events :: "(otp_event \<Rightarrow> bool) \<Rightarrow> otp_event list \<Rightarrow> nat" where
  "count_events P log = length (filter P log)"

lemma count_events_simps [simp]:
  "count_events P [] = 0"
  "count_events P (log @ [e]) = count_events P log + (if P e then 1 else 0)"
  by (simp_all add: count_events_def)

definition ordered :: "otp_event list \<Rightarrow> time \<Rightarrow> bool" where
  "ordered log now \<longleftrightarrow> sorted (map fst log @ [now])"

lemma ordered_snoc: "ordered (log @ [(t, op, r)]) now \<longleftrightarrow> ordered log t \<and> t \<le> now"
  by (auto simp: ordered_def sorted_append)

lemma ordered_later: "ordered log t \<Longrightarrow> t \<le> now \<Longrightarrow> ordered log now"
  by (auto simp: ordered_def sorted_append)

subsection \<open>Single use\<close>

definition held :: "Store \<Rightarrow> string \<Rightarrow> nat" where
  "held s u = (if st_credentials s u = None then 0 else 1)"

lemma single_use_inv:
  "trace s0 log s \<Longrightarrow>
   count_events (is_consume_of u) log + held s u \<le> count_events (is_issue_of u) log + held s0 u"
proof (induction rule: trace_op_induct)
  case (issue log s user sid now c s')
  then show ?case by (auto simp: held_def Issue_Inr(1)[OF issue.hyps(2)] split: if_splits)
next
  case (no_issue log s user sid now e s')
  then show ?case by (simp add: held_def Issue_Inl(1)[OF no_issue.hyps(2)])
next
  case (pending log s v src now r s')
  then show ?case using Pending_credentials[of v src now s] by (auto simp: held_def split: if_splits)
next
  case (consume log s v now r s')
  show ?case
  proof (cases r)
    case (Inl e)
    with consume Consume_credentials[of v now s] show ?thesis
      by (auto simp: held_def split: if_splits)
  next
    case (Inr user)
    with consume show ?thesis by (auto simp: held_def split: if_splits dest!: Consume_Inr)
  qed
next
  case (failure log s v src now)
  then show ?case by (auto simp: held_def store_simps split: if_splits)
qed simp

text \<open>
  C15.  One-time credentials are single-use: in any run of the store, whatever the
  interleaving of its operations, a username is consumed successfully no more
  often than it was issued.
\<close>

theorem consume_at_most_issued:
  "count_events (is_consume_of u) (fst (run (NewStore config random) ops))
     \<le> count_events (is_issue_of u) (fst (run (NewStore config random) ops))"
proof -
  obtain log s where "run (NewStore config random) ops = (log, s)" by fastforce
  with single_use_inv[OF run_trace[OF this], of u] show ?thesis
    by (simp add: held_def NewStore_def)
qed

subsection \<open>Refinement of a specification over the log\<close>

text \<open>
  The specification: the credential a username stands for is the last one issued under
  it, with the number of failures recorded since, until it is consumed.
\<close>

fun spec_step :: "string \<Rightarrow> otp_event \<Rightarrow> (User \<times> Credential \<times> nat) option
    \<Rightarrow> (User \<times> Credential \<times> nat) option" where
  "spec_step u (_, OpIssue user _, RIssued (Inr c)) st =
     (if cred_Username c = u then Some (user, c, 0) else st)"
| "spec_step u (_, OpConsume u', RConsumed (Inr _)) st = (if u' = u then None else st)"
| "spec_step u (_, OpFailure u' _, _) st =
     (if u' = u then map_option (\<lambda>(user, c, n). (user, c, Suc n)) st else st)"
| "spec_step u _ st = st"

definition spec :: "string \<Rightarrow> otp_event list \<Rightarrow> (User \<times> Credential \<times> nat) option" where
  "spec u log = foldl (\<lambda>st e. spec_step u e st) None log"

lemma spec_simps [simp]:
  "spec u [] = None"
  "spec u (log @ [e]) = spec_step u e (spec u log)"
  by (simp_all add: spec_def)

definition implements :: "int \<Rightarrow> storedCredential \<Rightarrow> User \<times> Credential \<times> nat \<Rightarrow> bool" where
  "implements limit c = (\<lambda>(user, cr, n). sc_user c = user \<and> sc_expiresAt c = cred_ExpiresAt cr
     \<and> sc_failures c = int n \<and> (sc_locked c \<longleftrightarrow> limit \<le> int n)
     \<and> sc_password c = (if limit \<le> int n then clearBytes (cred_Password cr) else cred_Password cr))"

text \<open>The simulation relation: a missing credential may be one whose expiry was noticed.\<close>

definition refines :: "int \<Rightarrow> storedCredential option \<Rightarrow> (User \<times> Credential \<times> nat) option \<Rightarrow> time \<Rightarrow> bool" where
  "refines limit conc abst now = (case (conc, abst) of
     (None, None) \<Rightarrow> True
   | (None, Some (_, cr, _)) \<Rightarrow> cred_ExpiresAt cr \<le> now
   | (Some c, Some a) \<Rightarrow> implements limit c a
   | (Some _, None) \<Rightarrow> False)"

lemma refines_later: "refines l c a t \<Longrightarrow> t \<le> now \<Longrightarrow> refines l c a now"
  by (auto simp: refines_def split: option.splits)

lemma refines_drop: "refines l (Some c) a t \<Longrightarrow> sc_expiresAt c \<le> now \<Longrightarrow> refines l None a now"
  by (auto simp: refines_def implements_def split: option.splits)

lemma clearBytes_idem [simp]: "clearBytes (clearBytes bs) = clearBytes bs"
  by (simp add: clearBytes_def)

lemma clearBytes_zero: "x \<in> set (clearBytes bs) \<Longrightarrow> x = CHR 0x00"
  by (auto simp: clearBytes_def)

lemma implements_fail:
  "0 < l \<Longrightarrow> implements l c (user, cr, n) \<Longrightarrow> implements l (fail_credential l c) (user, cr, Suc n)"
  by (auto simp: implements_def store_simps)

lemma store_refines_spec:
  assumes "trace s0 log s" and "ordered log now" and "st_credentials s0 = Map.empty"
    and "0 < oc_CredentialFailureLimit (st_config s0)"
  shows "refines (oc_CredentialFailureLimit (st_config s0)) (st_credentials s u) (spec u log) now"
  using assms(1,2)
proof (induction arbitrary: now rule: trace_op_induct)
  case start
  then show ?case by (simp add: refines_def assms(3))
next
  case (issue log s user sid t c s')
  then have "refines (oc_CredentialFailureLimit (st_config s0)) (st_credentials s u) (spec u log) now"
    by (auto simp: ordered_snoc intro: refines_later)
  then show ?case
    using assms(4)
    by (auto simp: Issue_Inr(1)[OF issue.hyps(2)] refines_def implements_def fresh_credential_def)
next
  case (no_issue log s user sid t e s')
  then show ?case by (auto simp: Issue_Inl(1)[OF no_issue.hyps(2)] ordered_snoc intro: refines_later)
next
  case (pending log s v src t r s')
  then have *: "refines (oc_CredentialFailureLimit (st_config s0)) (st_credentials s u) (spec u log) t"
    and "t \<le> now" by (auto simp: ordered_snoc)
  with Pending_credentials[of v src t s] pending.hyps(2)
  have "refines (oc_CredentialFailureLimit (st_config s0)) (st_credentials s' u) (spec u log) t"
    by (auto simp: refines_drop split: if_splits)
  with \<open>t \<le> now\<close> show ?case by (auto intro: refines_later)
next
  case (consume log s v t r s')
  then have *: "refines (oc_CredentialFailureLimit (st_config s0)) (st_credentials s u) (spec u log) t"
    and "t \<le> now" by (auto simp: ordered_snoc)
  have "refines (oc_CredentialFailureLimit (st_config s0)) (st_credentials s' u)
          (spec_step u (t, OpConsume v, RConsumed r) (spec u log)) t"
    using * consume.hyps(2)
    by (cases r) (auto simp: Consume_def refines_def implements_def
        split: option.splits if_splits)
  with \<open>t \<le> now\<close> show ?case by (auto intro: refines_later)
next
  case (failure log s v src t)
  then have *: "refines (oc_CredentialFailureLimit (st_config s0)) (st_credentials s u) (spec u log) t"
    and "t \<le> now" by (auto simp: ordered_snoc)
  then have "refines (oc_CredentialFailureLimit (st_config s0))
      (st_credentials (RecordFailure v src t s) u)
      (spec_step u (t, OpFailure v src, RRecorded) (spec u log)) t"
    using assms(4) trace_config[OF failure.hyps]
    by (auto simp: store_simps refines_def implements_fail split: option.splits)
  with \<open>t \<le> now\<close> show ?case by (auto intro: refines_later)
qed

lemma NewStore_simps [simp]:
  "st_credentials (NewStore c rd) = Map.empty" "st_sources (NewStore c rd) = Map.empty"
  "st_userIssues (NewStore c rd) = Map.empty" "st_sessionIssues (NewStore c rd) = Map.empty"
  "st_config (NewStore c rd) = normalize_config c" "st_random (NewStore c rd) = rd"
  by (simp_all add: NewStore_def)

lemma normalize_config_pos [simp]:
  "0 < oc_TTL (normalize_config c)" "0 < oc_CredentialFailureLimit (normalize_config c)"
  "0 < oc_SourceFailureLimit (normalize_config c)" "0 < oc_SourceFailureWindow (normalize_config c)"
  "0 < oc_CredentialIssuanceUserLimit (normalize_config c)"
  "0 < oc_CredentialIssuanceSessionLimit (normalize_config c)"
  "0 < oc_CredentialIssuanceWindow (normalize_config c)"
  "0 < oc_CredentialUsernameBytes (normalize_config c)"
  "0 < oc_CredentialPasswordBytes (normalize_config c)"
  by (simp_all add: normalize_config_def default_if_nonpos_def)

lemma Consume_iff:
  "fst (Consume u now s) = Inr user \<longleftrightarrow>
     (\<exists>c. st_credentials s u = Some c \<and> now < sc_expiresAt c \<and> \<not> sc_locked c \<and> sc_user c = user)"
  by (auto simp: Consume_def split: option.splits)

text \<open>
  C16.  Consume refines the specification that reads the log alone: after any run it
  succeeds for a username exactly when a credential was issued under it and not
  consumed since, has not expired, and has had fewer failed attempts than the
  limit; and it yields the user the credential was issued to.
\<close>

theorem Consume_refines_log:
  assumes "run (NewStore config random) ops = (log, s)" and "ordered log now"
  shows "fst (Consume u now s) = Inr user \<longleftrightarrow>
    (\<exists>c n. spec u log = Some (user, c, n) \<and> now < cred_ExpiresAt c
       \<and> int n < oc_CredentialFailureLimit (normalize_config config))"
  using store_refines_spec[OF run_trace[OF assms(1)] assms(2), of u]
  unfolding Consume_iff
  by (cases "st_credentials s u"; cases "spec u log") (auto simp: refines_def implements_def)


lemma Pending_iff:
  "(\<exists>s'. PendingCredential u src now s = (Inr pc, s')) \<longleftrightarrow>
     fst (PendingCredential u src now s) \<noteq> Inl ErrSourceRateLimited \<and>
     (\<exists>c. st_credentials s u = Some c \<and> now < sc_expiresAt c \<and> \<not> sc_locked c \<and>
        pc = \<lparr>pc_Username = u, pc_User = sc_user c, pc_ExpiresAt = sc_expiresAt c,
              pc_AuthVerifierMaterial = sc_password c\<rparr>)"
  by (auto simp: PendingCredential_def sourceLimitedLocked_def Let_def
      split: prod.splits option.splits if_splits)

subsection \<open>Examples\<close>

text \<open>A store with all defaults, a reader with bytes for two credentials, and a short run.\<close>

definition default_config :: StoreConfig where
  "default_config = \<lparr>oc_TTL = 0, oc_CredentialFailureLimit = 0, oc_SourceFailureLimit = 0,
     oc_SourceFailureWindow = 0, oc_CredentialIssuanceUserLimit = 0,
     oc_CredentialIssuanceSessionLimit = 0, oc_CredentialIssuanceWindow = 0,
     oc_CredentialUsernameBytes = 0, oc_CredentialPasswordBytes = 0\<rparr>"

definition alice :: User where
  "alice = \<lparr>user_ID = ''alice'', user_DisplayName = ''Alice''\<rparr>"

definition example_store :: Store where
  "example_store = NewStore default_config (replicate 72 (CHR ''x''))"

definition example_token :: string where
  "example_token = ''eHh4eHh4eHh4eHh4''"

definition example_ops :: "(time \<times> otp_op) list" where
  "example_ops = [(0, OpIssue alice ''session''), (1, OpFailure example_token ''10.0.0.1''),
     (2, OpPending example_token ''10.0.0.1'')]"

theorem Consume_refines_log_witness:
  "fst (Consume example_token 3 (snd (run example_store example_ops))) = Inr alice"
proof -
  let ?r = "run example_store example_ops"
  have run: "run (NewStore default_config (replicate 72 (CHR ''x''))) example_ops = (fst ?r, snd ?r)"
    by (simp add: example_store_def)
  have ord: "ordered (fst ?r) 3" by code_simp
  have "case spec example_token (fst ?r) of Some (user, c, n) \<Rightarrow> user = alice \<and> 3 < cred_ExpiresAt c
     \<and> int n < oc_CredentialFailureLimit (normalize_config default_config) | None \<Rightarrow> False"
    by code_simp
  then show ?thesis
    unfolding Consume_refines_log[OF run ord] by (auto split: option.splits)
qed

subsection \<open>Limits on issuance\<close>

fun issued_to_user :: "string \<Rightarrow> otp_event \<Rightarrow> bool" where
  "issued_to_user uid (_, OpIssue user _, RIssued (Inr _)) \<longleftrightarrow> user_ID user = uid"
| "issued_to_user uid _ \<longleftrightarrow> False"

fun issued_in_session :: "string \<Rightarrow> otp_event \<Rightarrow> bool" where
  "issued_in_session sid (_, OpIssue _ sid', RIssued (Inr _)) \<longleftrightarrow> sid' = sid"
| "issued_in_session sid _ \<longleftrightarrow> False"

fun failed_from :: "string \<Rightarrow> otp_event \<Rightarrow> bool" where
  "failed_from src (_, OpFailure _ src', _) \<longleftrightarrow> src' = src"
| "failed_from src _ \<longleftrightarrow> False"

definition event_times :: "(otp_event \<Rightarrow> bool) \<Rightarrow> otp_event list \<Rightarrow> time list" where
  "event_times P log = map fst (filter P log)"

lemma times_simps [simp]:
  "event_times P [] = []"
  "event_times P (log @ [e]) = event_times P log @ (if P e then [fst e] else [])"
  by (simp_all add: event_times_def)

lemma record_issue_covers:
  assumes "covers W m k' now H" and "0 \<le> W"
  shows "covers W (record_issue W (snd (recentIssuanceLocked W m k now)) k now) k' now
           (if k' = k then H @ [now] else H)"
proof (cases "k' = k")
  case True
  with issues.record_covers[OF issues.prune_covers[OF assms(1), of k] assms(2)] show ?thesis
    by (simp add: record_issue_def case_prod_beta)
next
  case False
  with issues.record_other[OF issues.prune_covers[OF assms(1), of k]] show ?thesis
    by (simp add: record_issue_def case_prod_beta)
qed

lemma user_window_inv:
  assumes "trace s0 log s" and "ordered log now" and "st_userIssues s0 = Map.empty"
    and "0 \<le> issue_window s0"
  shows "covers (issue_window s0) (st_userIssues s) uid now (event_times (issued_to_user uid) log)
    \<and> rate_ok (issue_window s0) (nat (oc_CredentialIssuanceUserLimit (st_config s0)))
         (event_times (issued_to_user uid) log)"
  using assms(1,2)
proof (induction arbitrary: now rule: trace_op_induct)
  case start
  then show ?case by (simp add: assms(3) covers_start store_simps)
next
  case (issue log s user sid t c s')
  note ok = Issue_Inr[OF issue.hyps(2)] and cfg = trace_config[OF issue.hyps(1)]
  from issue have ih: "covers (issue_window s0) (st_userIssues s) uid t (event_times (issued_to_user uid) log)"
      "rate_ok (issue_window s0) (nat (oc_CredentialIssuanceUserLimit (st_config s0)))
         (event_times (issued_to_user uid) log)" and "t \<le> now"
    by (auto simp: ordered_snoc)
  have "covers (issue_window s0) (st_userIssues s') uid t
      (event_times (issued_to_user uid) (log @ [(t, OpIssue user sid, RIssued (Inr c))]))"
    using record_issue_covers[OF ih(1) assms(4), of "user_ID user"] ok(5) cfg by (auto split: if_splits)
  moreover have "rate_ok (issue_window s0) (nat (oc_CredentialIssuanceUserLimit (st_config s0)))
      (event_times (issued_to_user uid) (log @ [(t, OpIssue user sid, RIssued (Inr c))]))"
    using ih ok(3) issues.count[OF ih(1)] cfg by (auto intro!: rate_ok_snoc)
  ultimately show ?case using \<open>t \<le> now\<close> by (blast intro: covers_later)
next
  case (no_issue log s user sid t e s')
  then show ?case using trace_config[OF no_issue.hyps(1)] Issue_Inl(2)[OF no_issue.hyps(2)]
    by (auto simp: ordered_snoc intro: issues.prune_covers covers_later)
next
  case (pending log s v src t r s')
  then show ?case using Pending_frame(2)[of v src t s]
    by (auto simp: ordered_snoc intro: covers_later)
next
  case (consume log s v t r s')
  then show ?case using Consume_frame(3)[of v t s]
    by (auto simp: ordered_snoc intro: covers_later)
next
  case (failure log s v src t)
  then show ?case by (auto simp: ordered_snoc store_simps intro: covers_later)
qed

lemma session_window_inv:
  assumes "trace s0 log s" and "ordered log now" and "st_sessionIssues s0 = Map.empty"
    and "0 \<le> issue_window s0"
  shows "covers (issue_window s0) (st_sessionIssues s) k now (event_times (issued_in_session k) log)
    \<and> rate_ok (issue_window s0) (nat (oc_CredentialIssuanceSessionLimit (st_config s0)))
         (event_times (issued_in_session k) log)"
  using assms(1,2)
proof (induction arbitrary: now rule: trace_op_induct)
  case start
  then show ?case by (simp add: assms(3) covers_start store_simps)
next
  case (issue log s user sid t c s')
  note ok = Issue_Inr[OF issue.hyps(2)] and cfg = trace_config[OF issue.hyps(1)]
  from issue have ih: "covers (issue_window s0) (st_sessionIssues s) k t (event_times (issued_in_session k) log)"
      "rate_ok (issue_window s0) (nat (oc_CredentialIssuanceSessionLimit (st_config s0)))
         (event_times (issued_in_session k) log)" and "t \<le> now"
    by (auto simp: ordered_snoc)
  have "covers (issue_window s0) (st_sessionIssues s') k t
      (event_times (issued_in_session k) (log @ [(t, OpIssue user sid, RIssued (Inr c))]))"
    using record_issue_covers[OF ih(1) assms(4), of sid] ok(6) cfg by (auto split: if_splits)
  moreover have "rate_ok (issue_window s0) (nat (oc_CredentialIssuanceSessionLimit (st_config s0)))
      (event_times (issued_in_session k) (log @ [(t, OpIssue user sid, RIssued (Inr c))]))"
    using ih ok(4) issues.count[OF ih(1)] cfg by (auto intro!: rate_ok_snoc)
  ultimately show ?case using \<open>t \<le> now\<close> by (blast intro: covers_later)
next
  case (no_issue log s user sid t e s')
  then have ih: "covers (issue_window s0) (st_sessionIssues s) k t (event_times (issued_in_session k) log)"
      "rate_ok (issue_window s0) (nat (oc_CredentialIssuanceSessionLimit (st_config s0)))
         (event_times (issued_in_session k) log)" and "t \<le> now"
    by (auto simp: ordered_snoc)
  have "covers (issue_window s0) (st_sessionIssues s') k t (event_times (issued_in_session k) log)"
    using ih(1) trace_config[OF no_issue.hyps(1)] Issue_Inl(3)[OF no_issue.hyps(2)]
    by (auto intro: issues.prune_covers)
  with ih(2) \<open>t \<le> now\<close> show ?case by (auto intro: covers_later)
next
  case (pending log s v src t r s')
  then show ?case using Pending_frame(3)[of v src t s]
    by (auto simp: ordered_snoc intro: covers_later)
next
  case (consume log s v t r s')
  then show ?case using Consume_frame(4)[of v t s]
    by (auto simp: ordered_snoc intro: covers_later)
next
  case (failure log s v src t)
  then show ?case by (auto simp: ordered_snoc store_simps intro: covers_later)
qed

lemma source_window_inv:
  assumes "trace s0 log s" and "ordered log now" and "st_sources s0 = Map.empty"
    and "0 \<le> source_window s0"
  shows "covers (source_window s0) (st_sources s) k now (event_times (failed_from k) log)"
  using assms(1,2)
proof (induction arbitrary: now rule: trace_op_induct)
  case start
  then show ?case by (simp add: assms(3) covers_start store_simps)
next
  case (issue log s user sid t c s')
  then show ?case using Issue_frame(2)[of user sid t s]
    by (auto simp: ordered_snoc intro: covers_later)
next
  case (no_issue log s user sid t e s')
  then show ?case using Issue_frame(2)[of user sid t s]
    by (auto simp: ordered_snoc intro: covers_later)
next
  case (pending log s v src t r s')
  then show ?case using trace_config[OF pending.hyps(1)] Pending_frame(4)[of v src t s]
    by (auto simp: ordered_snoc intro: failures.prune_covers covers_later)
next
  case (consume log s v t r s')
  then show ?case using Consume_frame(2)[of v t s]
    by (auto simp: ordered_snoc intro: covers_later)
next
  case (failure log s v src t)
  then have ih: "covers (source_window s0) (st_sources s) k t (event_times (failed_from k) log)" and "t \<le> now"
    by (auto simp: ordered_snoc)
  have "covers (source_window s0) (st_sources (RecordFailure v src t s)) k t
      (event_times (failed_from k) (log @ [(t, OpFailure v src, RRecorded)]))"
    using failures.record_covers[OF ih assms(4)] failures.record_other[OF ih, of src]
      trace_config[OF failure.hyps] by (auto simp: store_simps)
  from covers_later[OF this \<open>t \<le> now\<close>] show ?case .
qed

text \<open>
  C21.  Issuance is limited: with a clock that does not run backwards, no interval of
  the length of the issuance window holds more credentials issued to one user, or
  in one browser session, than the limits of the normalized configuration.
\<close>

theorem issuance_rate_limited:
  assumes "run (NewStore config random) ops = (log, s)" and "sorted (map fst log)"
  shows "length (filter (\<lambda>t. a \<le> t \<and> t \<le> a + oc_CredentialIssuanceWindow (normalize_config config))
             (event_times (issued_to_user uid) log))
           \<le> nat (oc_CredentialIssuanceUserLimit (normalize_config config))
    \<and> length (filter (\<lambda>t. a \<le> t \<and> t \<le> a + oc_CredentialIssuanceWindow (normalize_config config))
             (event_times (issued_in_session sid) log))
           \<le> nat (oc_CredentialIssuanceSessionLimit (normalize_config config))"
proof -
  let ?now = "if log = [] then 0 else fst (last log)"
  have "ordered log ?now"
    using assms(2) by (induction log rule: rev_induct) (auto simp: ordered_def sorted_append)
  with user_window_inv[OF run_trace[OF assms(1)], of ?now uid]
    session_window_inv[OF run_trace[OF assms(1)], of ?now sid]
  show ?thesis by (simp add: rate_ok_def less_imp_le)
qed

theorem issuance_rate_limited_witness:
  "length (filter (\<lambda>t. 0 \<le> t \<and> t \<le> 0 + oc_CredentialIssuanceWindow (normalize_config default_config))
     (event_times (issued_to_user ''alice'') (fst (run example_store example_ops)))) \<le> nat 10"
proof -
  let ?r = "run example_store example_ops"
  have run: "run (NewStore default_config (replicate 72 (CHR ''x''))) example_ops = (fst ?r, snd ?r)"
    by (simp add: example_store_def)
  have srt: "sorted (map fst (fst ?r))" by code_simp
  have lim: "oc_CredentialIssuanceUserLimit (normalize_config default_config) = 10" by code_simp
  show ?thesis
    by (rule issuance_rate_limited[OF run srt, of 0 "''alice''", unfolded lim, THEN conjunct1])
qed

text \<open>
  C39.  The throttle of guessing is exact: in any run of the store, a look-up of a credential from a source address
  is refused for rate limiting if and only if the failures recorded from that address within
  the window before the look-up have reached the limit, for whatever user names.
\<close>

theorem source_throttle_exact:
  assumes "run (NewStore config random) ops = (log, s)" and "ordered log now"
  shows "fst (PendingCredential u src now s) = Inl ErrSourceRateLimited \<longleftrightarrow>
    oc_SourceFailureLimit (normalize_config config)
      \<le> int (length (filter (\<lambda>t. now - oc_SourceFailureWindow (normalize_config config) \<le> t)
                (event_times (failed_from src) log)))"
proof -
  have "covers (source_window s) (st_sources s) src now (event_times (failed_from src) log)"
    using source_window_inv[OF run_trace[OF assms(1)] assms(2)] trace_config[OF run_trace[OF assms(1)]]
    by (simp add: less_imp_le)
  from failures.count[OF this] show ?thesis
    using trace_config[OF run_trace[OF assms(1)]] by (simp add: Pending_limited in_window_def)
qed

theorem source_throttle_exact_witness:
  "fst (PendingCredential example_token ''10.0.0.1'' 3 (snd (run example_store example_ops)))
     \<noteq> Inl ErrSourceRateLimited"
proof -
  let ?r = "run example_store example_ops"
  have run: "run (NewStore default_config (replicate 72 (CHR ''x''))) example_ops = (fst ?r, snd ?r)"
    by (simp add: example_store_def)
  have "ordered (fst ?r) 3" by code_simp
  moreover have "\<not> oc_SourceFailureLimit (normalize_config default_config)
      \<le> int (length (filter (\<lambda>t. 3 - oc_SourceFailureWindow (normalize_config default_config) \<le> t)
                (event_times (failed_from ''10.0.0.1'') (fst ?r))))" by code_simp
  ultimately show ?thesis using source_throttle_exact[OF run] by blast
qed

text \<open>
  A lookup that the source throttle lets through hands out the issued password and
  identity, and nothing else, exactly when the credential is unconsumed, unexpired
  and below its failure limit; once the limit is reached the store retains only
  zero bytes in place of the password.
\<close>

lemma Pending_refines_log:
  assumes "run (NewStore config random) ops = (log, s)" and "ordered log now"
    and "fst (PendingCredential u src now s) \<noteq> Inl ErrSourceRateLimited"
  shows "(fst (PendingCredential u src now s) = Inr pc \<longleftrightarrow>
      (\<exists>user c n. spec u log = Some (user, c, n) \<and> now < cred_ExpiresAt c
         \<and> int n < oc_CredentialFailureLimit (normalize_config config)
         \<and> pc = \<lparr>pc_Username = u, pc_User = user, pc_ExpiresAt = cred_ExpiresAt c,
                 pc_AuthVerifierMaterial = cred_Password c\<rparr>))
    \<and> (\<forall>c. st_credentials s u = Some c \<longrightarrow> sc_locked c \<longrightarrow> set (sc_password c) \<subseteq> {CHR 0x00})"
proof -
  have "fst (PendingCredential u src now s) = Inr pc \<longleftrightarrow>
      (\<exists>s'. PendingCredential u src now s = (Inr pc, s'))" by (metis fst_conv prod.collapse)
  then show ?thesis
    using store_refines_spec[OF run_trace[OF assms(1)] assms(2), of u] assms(3)
    unfolding Pending_iff
    by (cases "st_credentials s u"; cases "spec u log")
       (auto simp: refines_def implements_def dest: clearBytes_zero)
qed

lemma Pending_refines_log_witness:
  "\<exists>c::Credential. fst (PendingCredential example_token ''10.0.0.1'' 3 (snd (run example_store example_ops)))
     = Inr \<lparr>pc_Username = example_token, pc_User = alice, pc_ExpiresAt = cred_ExpiresAt c,
             pc_AuthVerifierMaterial = cred_Password c\<rparr>"
proof -
  let ?r = "run example_store example_ops"
  have run: "run (NewStore default_config (replicate 72 (CHR ''x''))) example_ops = (fst ?r, snd ?r)"
    by (simp add: example_store_def)
  have ord: "ordered (fst ?r) 3" by code_simp
  have lim: "fst (PendingCredential example_token ''10.0.0.1'' 3 (snd ?r)) \<noteq> Inl ErrSourceRateLimited"
    by code_simp
  have "case spec example_token (fst ?r) of Some (user, c, n) \<Rightarrow> user = alice \<and> 3 < cred_ExpiresAt c
     \<and> int n < oc_CredentialFailureLimit (normalize_config default_config) | None \<Rightarrow> False"
    by code_simp
  then obtain c n where c: "spec example_token (fst ?r) = Some (alice, c, n)" "3 < cred_ExpiresAt c"
    "int n < oc_CredentialFailureLimit (normalize_config default_config)"
    by (auto split: option.splits)
  let ?pc = "\<lparr>pc_Username = example_token, pc_User = alice, pc_ExpiresAt = cred_ExpiresAt c,
             pc_AuthVerifierMaterial = cred_Password c\<rparr>"
  note iff = Pending_refines_log[OF run ord lim, THEN conjunct1, of ?pc]
  have "fst (PendingCredential example_token ''10.0.0.1'' 3 (snd ?r)) = Inr ?pc"
    by (rule iff[THEN iffD2], rule exI[of _ alice], rule exI[of _ c], rule exI[of _ n]) (simp add: c)
  then show ?thesis by (rule exI[of _ c])
qed

end
