(* ===== verification/AuditNormalize.thy ===== *)
theory AuditNormalize
  imports SqlScan
begin

text \<open>
  \<open>NormalizeStatement\<close> of \<open>internal/audit/logger.go\<close>: the shape of a statement that is
  written to the audit log.  Package \<open>audit\<close> has its own copies of
  \<open>isDashDashComment\<close> and \<open>isBlockCommentEnd\<close>, text for text those of the classifier,
  so the definitions of \<open>SqlScan\<close> serve for both.  The loop is a recursion on the rest
  of the statement that carries the builder and its two flags.
\<close>

subsection \<open>The loop\<close>

definition isNumericLiteralByte :: "char \<Rightarrow> bool" where
  "isNumericLiteralByte c \<longleftrightarrow> (let value = byte_of c in
     (48 \<le> value \<and> value \<le> 57) \<or> (97 \<le> value \<and> value \<le> 122) \<or> (65 \<le> value \<and> value \<le> 90)
     \<or> value = 46 \<or> value = 95)"

text \<open>\<open>unicode.IsDigit\<close> on the runes below 256 that \<open>rune(statement[i])\<close> can be.\<close>

definition IsDigit :: "rune \<Rightarrow> bool" where
  "IsDigit r \<longleftrightarrow> 48 \<le> r \<and> r \<le> 57"

lemma digit_numeric: "IsDigit (byte_of c) \<Longrightarrow> isNumericLiteralByte c"
  by (simp add: IsDigit_def isNumericLiteralByte_def Let_def)

record Builder =
  b_out :: string
  b_lastWasSpace :: bool
  b_lastWasPlaceholder :: bool

definition writeToken :: "string \<Rightarrow> Builder \<Rightarrow> Builder" where
  "writeToken token b =
     (let b = (if b_lastWasSpace b \<and> b_out b \<noteq> [] then b\<lparr>b_out := b_out b @ '' '', b_lastWasPlaceholder := False\<rparr> else b)
      in if b_lastWasPlaceholder b then b\<lparr>b_lastWasSpace := False\<rparr>
         else \<lparr>b_out = b_out b @ token, b_lastWasSpace = False, b_lastWasPlaceholder = (token = ''?'')\<rparr>)"

definition see_comment :: "Builder \<Rightarrow> Builder" where
  "see_comment b = b\<lparr>b_lastWasSpace := b_out b \<noteq> []\<rparr>"

definition see_space :: "Builder \<Rightarrow> Builder" where
  "see_space b = (if b_out b \<noteq> [] then b\<lparr>b_lastWasSpace := True\<rparr> else b)"

definition see_byte :: "char \<Rightarrow> Builder \<Rightarrow> Builder" where
  "see_byte c b =
     (let b = (if b_lastWasSpace b \<and> b_out b \<noteq> [] then b\<lparr>b_out := b_out b @ '' '', b_lastWasSpace := False\<rparr> else b)
      in b\<lparr>b_out := b_out b @ encode_rune (byte_of c), b_lastWasPlaceholder := (c = CHR ''?'')\<rparr>)"

fun isAuditBlockComment :: "string \<Rightarrow> bool" where
  "isAuditBlockComment (a # b # _) \<longleftrightarrow> a = CHR ''/'' \<and> b = CHR ''*''"
| "isAuditBlockComment _ \<longleftrightarrow> False"

function normalize_loop :: "string \<Rightarrow> Builder \<Rightarrow> Builder" where
  "normalize_loop [] b = b"
| "normalize_loop (c # cs) b =
     (if isDashDashComment (c # cs) \<or> c = CHR ''#'' then
        normalize_loop (dropWhile (\<lambda>d. d \<noteq> newline) cs) (see_comment b)
      else if isAuditBlockComment (c # cs) then
        normalize_loop (skip_comment (drop 1 cs)) (see_comment b)
      else if isQuote c then normalize_loop (skip_string c cs) (writeToken ''?'' b)
      else if IsDigit (byte_of c) then
        normalize_loop (dropWhile isNumericLiteralByte (c # cs)) (writeToken ''?'' b)
      else if IsSpace (byte_of c) then normalize_loop cs (see_space b)
      else normalize_loop cs (see_byte c b))"
  by pat_completeness auto

termination
  by (relation "measure (\<lambda>(s, b). length s)")
     (auto simp: less_Suc_eq_le scan_lengths dropWhile_length_le digit_numeric)

definition NormalizeStatement :: "string \<Rightarrow> string" where
  "NormalizeStatement statement =
     TrimSpace (b_out (normalize_loop statement
       \<lparr>b_out = [], b_lastWasSpace = False, b_lastWasPlaceholder = False\<rparr>))"

subsection \<open>What can be written\<close>

definition loggable :: "char \<Rightarrow> bool" where
  "loggable c \<longleftrightarrow> \<not> isQuote c \<and> \<not> IsDigit (byte_of c) \<and> c \<noteq> CHR ''#'' \<and> \<not> (9 \<le> byte_of c \<and> byte_of c \<le> 13)"

text \<open>The text so far holds only such bytes, and its spaces stand alone between other bytes.\<close>

definition tidy :: "string \<Rightarrow> bool" where
  "tidy s \<longleftrightarrow> list_all loggable s \<and> \<not> Contains s ''  ''"

lemma wide_rune_loggable:
  assumes "128 \<le> r" "r < 256"
  shows "list_all (\<lambda>c. loggable c \<and> c \<noteq> CHR '' '') (encode_rune r)"
proof -
  have "loggable (char_of n) \<and> char_of n \<noteq> CHR '' ''" if "128 \<le> n" "n < 256" for n :: nat
  proof -
    have b: "byte_of (char_of n) = n" using that by (simp add: byte_of_def)
    have "byte_of squote = 39" "byte_of dquote = 34" "byte_of (CHR ''#'') = 35" "byte_of (CHR '' '') = 32"
      by (simp_all add: byte_of_def)
    then have "char_of n \<noteq> squote" "char_of n \<noteq> dquote" "char_of n \<noteq> CHR ''#''" "char_of n \<noteq> CHR '' ''"
      using b that by force+
    then show ?thesis using b that by (simp add: loggable_def isQuote_def IsDigit_def)
  qed
  then show ?thesis using assms by (auto simp: encode_rune_def encode_wide_def)
qed

lemma byte_lt_256: "byte_of c < 256"
  by (simp add: byte_of_def)

lemma encoded_byte:
  assumes "\<not> isQuote c" "\<not> IsDigit (byte_of c)" "c \<noteq> CHR ''#''" "\<not> IsSpace (byte_of c)"
  shows "list_all (\<lambda>d. loggable d \<and> d \<noteq> CHR '' '') (encode_rune (byte_of c))"
proof (cases "byte_of c < 128")
  case True
  then have "encode_rune (byte_of c) = [c]" by (simp add: encode_ascii ascii_def)
  moreover have "c \<noteq> CHR '' ''" using assms(4) by (auto simp: IsSpace_def byte_of_def)
  ultimately show ?thesis
    using assms by (auto simp: loggable_def IsSpace_def True split: if_splits)
next
  case False then show ?thesis using wide_rune_loggable[of "byte_of c"] byte_lt_256 by simp
qed

lemma prefix_two:
  "HasPrefix (x # y # zs) [a, b] \<longleftrightarrow> x = a \<and> y = b" "\<not> HasPrefix [x] [a, b]" "\<not> HasPrefix [] [a, b]"
  by (simp_all add: HasPrefix_def)

lemma double_space_append:
  "Contains (s @ t) ''  '' \<longleftrightarrow> Contains s ''  '' \<or> Contains t ''  '' \<or>
     (s \<noteq> [] \<and> t \<noteq> [] \<and> last s = CHR '' '' \<and> hd t = CHR '' '')"
proof (induction s)
  case Nil
  show ?case by (cases t) (simp_all add: prefix_two)
next
  case (Cons c s)
  show ?case
  proof (cases s)
    case Nil
    then show ?thesis by (cases t) (auto simp: prefix_two)
  next
    case (Cons d s')
    with Cons.IH show ?thesis by (simp add: prefix_two)
  qed
qed

lemma tidy_Nil [simp]: "tidy []"
  by (simp add: tidy_def)

lemma no_space_no_double: "list_all (\<lambda>d. loggable d \<and> d \<noteq> CHR '' '') t \<Longrightarrow> \<not> Contains t ''  '' \<and> list_all loggable t"
proof -
  assume t: "list_all (\<lambda>d. loggable d \<and> d \<noteq> CHR '' '') t"
  have "CHR '' '' \<in> set t" if "Contains t ''  ''"
    using that by (induction t) (auto simp: HasPrefix_iff)
  then show ?thesis using t by (simp add: list_all_iff) blast
qed

text \<open>Between writes the builder ends in a byte that is not a space.\<close>

definition closed :: "Builder \<Rightarrow> bool" where
  "closed b \<longleftrightarrow> tidy (b_out b) \<and> (b_out b \<noteq> [] \<longrightarrow> last (b_out b) \<noteq> CHR '' '')"

lemma closed_append:
  assumes "closed b" "list_all (\<lambda>d. loggable d \<and> d \<noteq> CHR '' '') t" "t \<noteq> []" "sp = [] \<or> sp = '' ''"
  shows "tidy (b_out b @ sp @ t)" "last (b_out b @ sp @ t) \<noteq> CHR '' ''"
proof -
  have t: "\<not> Contains t ''  ''" "list_all loggable t" using no_space_no_double[OF assms(2)] by auto
  have "hd t \<noteq> CHR '' ''" "last t \<noteq> CHR '' ''" using assms(2,3) by (auto simp: list_all_iff)
  then show "tidy (b_out b @ sp @ t)" "last (b_out b @ sp @ t) \<noteq> CHR '' ''"
    using assms t by (auto simp: tidy_def closed_def double_space_append loggable_def isQuote_def IsDigit_def
        byte_of_def HasPrefix_def)
qed

lemma closed_writes:
  assumes "closed b"
  shows "closed (see_comment b)" "closed (see_space b)"
    "list_all (\<lambda>d. loggable d \<and> d \<noteq> CHR '' '') (encode_rune (byte_of c)) \<Longrightarrow> closed (see_byte c b)"
    "closed (writeToken ''?'' b)"
proof -
  show "closed (see_comment b)" "closed (see_space b)"
    using assms by (simp_all add: closed_def see_comment_def see_space_def)
  have q: "list_all (\<lambda>d. loggable d \<and> d \<noteq> CHR '' '') ''?''" by code_simp
  show "closed (writeToken ''?'' b)"
    using closed_append[OF assms q, of "'' ''"] closed_append[OF assms q, of "[]"] assms
    by (auto simp: writeToken_def Let_def closed_def)
  have ne: "encode_rune (byte_of c) \<noteq> []" by (simp add: encode_rune_def encode_wide_def)
  show "closed (see_byte c b)" if "list_all (\<lambda>d. loggable d \<and> d \<noteq> CHR '' '') (encode_rune (byte_of c))"
    using closed_append[OF assms that ne, of "'' ''"] closed_append[OF assms that ne, of "[]"]
    by (auto simp: see_byte_def Let_def closed_def)
qed

lemma normalize_loop_closed: "closed b \<Longrightarrow> closed (normalize_loop s b)"
  by (induction s b rule: normalize_loop.induct) (simp_all add: closed_writes encoded_byte)

lemma TrimSpace_part: "\<exists>a b. s = a @ TrimSpace s @ b"
proof -
  obtain a m b where "utf8_chunks s = a @ m @ b" "TrimSpace s = concat (map snd m)" by (rule TrimSpace_parts)
  then have "s = concat (map snd a) @ TrimSpace s @ concat (map snd b)"
    using utf8_chunks_concat[of s] by simp
  then show ?thesis by blast
qed

text \<open>
  C19.  Whatever the statement, what reaches the audit log holds no digit, no quote,
  no comment introducer of the hash form, no line break or tab, and no run of
  spaces: one record stays one line and no numeric literal is written.
\<close>

theorem NormalizeStatement_loggable:
  "list_all loggable (NormalizeStatement s) \<and> \<not> Contains (NormalizeStatement s) ''  ''"
proof -
  let ?o = "b_out (normalize_loop s \<lparr>b_out = [], b_lastWasSpace = False, b_lastWasPlaceholder = False\<rparr>)"
  have "tidy ?o"
    using normalize_loop_closed[of "\<lparr>b_out = [], b_lastWasSpace = False, b_lastWasPlaceholder = False\<rparr>" s]
    by (simp add: closed_def tidy_def)
  moreover obtain a b where "?o = a @ TrimSpace ?o @ b" using TrimSpace_part by blast
  ultimately have "tidy (a @ TrimSpace ?o @ b)" by simp
  then show ?thesis by (simp add: NormalizeStatement_def tidy_def double_space_append)
qed

subsection \<open>Literals and comments are not written\<close>

text \<open>
  The audit text read off the classifier's tokens, for statements without quoted
  identifiers and without executable comments.
\<close>

fun numeric_token :: "token \<Rightarrow> bool" where
  "numeric_token (TByte c) = isNumericLiteralByte c"
| "numeric_token _ = False"

function audit_tokens :: "token list \<Rightarrow> Builder \<Rightarrow> Builder" where
  "audit_tokens [] b = b"
| "audit_tokens (TString q t # ts) b = audit_tokens ts (writeToken ''?'' b)"
| "audit_tokens (TComment t # ts) b = audit_tokens ts (see_comment b)"
| "audit_tokens (TIdent t # ts) b = audit_tokens ts b"
| "audit_tokens (TByte c # ts) b =
     (if IsDigit (byte_of c) then audit_tokens (dropWhile numeric_token (TByte c # ts)) (writeToken ''?'' b)
      else if IsSpace (byte_of c) then audit_tokens ts (see_space b)
      else audit_tokens ts (see_byte c b))"
  by pat_completeness auto
termination
  by (relation "measure (\<lambda>(ts, b). length ts)")
     (auto simp: less_Suc_eq_le dropWhile_length_le digit_numeric)

fun plain_tokens :: "token list \<Rightarrow> bool" where
  "plain_tokens [] = True"
| "plain_tokens (t # ts) \<longleftrightarrow> (case t of TIdent _ \<Rightarrow> False | _ \<Rightarrow> True) \<and>
     take 3 (t # ts) \<noteq> map TByte ''/*!'' \<and> plain_tokens ts"

lemma plain_dropWhile: "plain_tokens ts \<Longrightarrow> plain_tokens (dropWhile P ts)"
  by (induction ts) auto

lemma erase_byte: "erase t = TByte c \<longleftrightarrow> t = TByte c"
  by (cases t) auto

lemma take_erase: "take n (map erase ts) = map TByte cs \<longleftrightarrow> take n ts = map TByte cs"
proof (induction ts arbitrary: n cs)
  case (Cons t ts)
  show ?case by (cases n; cases cs) (simp_all add: Cons erase_byte)
qed (cases "cs", simp_all)

lemma plain_erase: "plain_tokens (map erase ts) = plain_tokens ts"
proof (induction ts)
  case (Cons t ts)
  show ?case
    using Cons take_erase[of 3 "t # ts" "''/*!''"] by (cases t) simp_all
qed simp

lemma numeric_erase [simp]: "numeric_token (erase t) = numeric_token t"
  by (cases t) auto

lemma audit_tokens_erase: "audit_tokens (map erase ts) b = audit_tokens ts b"
proof (induction ts b rule: audit_tokens.induct)
  case (5 c ts b)
  have d: "dropWhile numeric_token (TByte c # map erase ts) = map erase (dropWhile numeric_token (TByte c # ts))"
    using dropWhile_map[of numeric_token erase "TByte c # ts"] by (simp only: comp_def numeric_erase list.map erase.simps)
  have "audit_tokens (map erase (TByte c # ts)) b =
      (if IsDigit (byte_of c) then audit_tokens (map erase (dropWhile numeric_token (TByte c # ts))) (writeToken ''?'' b)
       else if IsSpace (byte_of c) then audit_tokens (map erase ts) (see_space b)
       else audit_tokens (map erase ts) (see_byte c b))"
    by (simp only: list.map erase.simps audit_tokens.simps(5) d)
  also have "\<dots> = audit_tokens (TByte c # ts) b"
    unfolding audit_tokens.simps(5)
    by (cases "IsDigit (byte_of c)"; cases "IsSpace (byte_of c)") (simp_all only: 5 if_True if_False not_True_eq_False not_False_eq_True)
  finally show ?case .
qed simp_all

lemma comment_first:
  "isDashDashComment (c # cs) \<Longrightarrow> c = CHR ''-''" "isBlockComment (c # cs) \<Longrightarrow> c = CHR ''/''"
  "isVersionedComment (c # cs) \<Longrightarrow> c = CHR ''/''"
  by (cases cs rule: remdups_adj.cases; simp)+

lemma numeric_lex:
  assumes "isNumericLiteralByte c"
  shows "lex (c # cs) = TByte c # lex cs"
proof -
  have "\<not> isNumericLiteralByte squote" "\<not> isNumericLiteralByte dquote" "\<not> isNumericLiteralByte backtick"
    "\<not> isNumericLiteralByte (CHR ''-'')" "\<not> isNumericLiteralByte (CHR ''#'')" "\<not> isNumericLiteralByte (CHR ''/'')"
    by code_simp+
  then have n: "\<not> isQuote c" "c \<noteq> backtick" "c \<noteq> CHR ''-''" "c \<noteq> CHR ''#''" "c \<noteq> CHR ''/''"
    using assms by (auto simp: isQuote_def)
  then have "\<not> isDashDashComment (c # cs)" "\<not> isBlockComment (c # cs)"
    using comment_first by metis+
  then show ?thesis using n by simp
qed

lemma lex_dropWhile_numeric: "lex (dropWhile isNumericLiteralByte s) = dropWhile numeric_token (lex s)"
proof (induction s)
  case (Cons c cs)
  show ?case
  proof (cases "isNumericLiteralByte c")
    case True then show ?thesis using Cons numeric_lex[OF True, of cs] by (simp del: lex.simps)
  next
    case False
    then have "\<not> numeric_token (hd (lex (c # cs)))" "lex (c # cs) \<noteq> []" by auto
    then show ?thesis using False by (cases "lex (c # cs)") (simp_all del: lex.simps)
  qed
qed simp

lemma block_comment_cases:
  assumes "isAuditBlockComment (c # cs)"
  shows "isBlockComment (c # cs) \<or> isVersionedComment (c # cs)"
  using assms by (cases "c # cs" rule: isAuditBlockComment.cases) auto

lemma not_audit_block: "\<not> isAuditBlockComment (c # cs) \<Longrightarrow> \<not> isBlockComment (c # cs)"
  by (cases "c # cs" rule: isAuditBlockComment.cases) auto

lemma versioned_lex:
  assumes "isVersionedComment (c # cs)"
  shows "take 3 (lex (c # cs)) = map TByte ''/*!''"
proof -
  obtain r where "c # cs = ''/*!'' @ r"
    using assms by (cases "c # cs" rule: isVersionedComment.cases) auto
  moreover have "lex (''/*!'' @ r) = TByte (CHR ''/'') # TByte (CHR ''*'') # TByte (CHR ''!'') # lex r"
    by (simp add: isQuote_def comment_first) (use comment_first in force)
  ultimately show ?thesis by simp
qed

lemma normalize_loop_tokens:
  "plain_tokens (lex s) \<Longrightarrow> normalize_loop s b = audit_tokens (lex s) b"
proof (induction s b rule: normalize_loop.induct)
  case (2 c cs b)
  have nv: "\<not> isVersionedComment (c # cs)"
    using "2.prems" versioned_lex[of c cs] by (cases "lex (c # cs)") (auto simp del: lex.simps)
  have bt: "isAuditBlockComment (c # cs) \<longleftrightarrow> isBlockComment (c # cs)"
    using block_comment_cases not_audit_block nv by blast
  consider (quote) "isQuote c" | (tick) "c = backtick" | (dash) "isDashDashComment (c # cs)"
    | (hash) "c = CHR ''#''" | (block) "isBlockComment (c # cs)"
    | (byte) "\<not> isQuote c" "c \<noteq> backtick" "\<not> isDashDashComment (c # cs)" "c \<noteq> CHR ''#''" "\<not> isBlockComment (c # cs)"
    by blast
  then show ?case
  proof cases
    case quote
    then have q: "c \<noteq> CHR ''#''" "c \<noteq> CHR ''-''" "c \<noteq> CHR ''/''" by (auto simp: isQuote_def)
    then have n: "\<not> isDashDashComment (c # cs)" "\<not> isBlockComment (c # cs)" using comment_first by metis+
    have l: "lex (c # cs) = TString c (consumed cs (skip_string c cs)) # lex (skip_string c cs)"
      by (simp only: lex.simps quote if_True)
    have "normalize_loop (skip_string c cs) (writeToken ''?'' b) = audit_tokens (lex (skip_string c cs)) (writeToken ''?'' b)"
      using "2.IH"(3) "2.prems" n q(1) quote unfolding bt l by simp
    then show ?thesis unfolding l by (simp only: normalize_loop.simps audit_tokens.simps bt n q quote if_True if_False simp_thms)
  next
    case tick
    have "lex (backtick # cs) = TIdent (consumed cs (skip_identifier cs)) # lex (skip_identifier cs)"
      by (simp add: isQuote_def)
    then have "\<not> plain_tokens (lex (backtick # cs))" by (simp only: plain_tokens.simps token.case) simp
    then show ?thesis using "2.prems" tick by (simp only:)
  next
    case dash
    then obtain cs' where cs: "c = CHR ''-''" "cs = CHR ''-'' # cs'"
      by (cases "c # cs" rule: isDashDashComment.cases) auto
    have l: "lex (c # cs) = TComment (consumed (c # cs) (skipLineComment cs')) # lex (skipLineComment cs')"
      using dash by (simp add: cs isQuote_def)
    have r: "dropWhile (\<lambda>d. d \<noteq> newline) cs = skipLineComment cs'" by (simp add: cs skipLineComment_def)
    have "normalize_loop (skipLineComment cs') (see_comment b) = audit_tokens (lex (skipLineComment cs')) (see_comment b)"
      using "2.IH"(1) "2.prems" dash unfolding r l by simp
    then show ?thesis unfolding l by (simp only: normalize_loop.simps audit_tokens.simps dash r if_True simp_thms)
  next
    case hash
    then have h: "\<not> isQuote c" "c \<noteq> backtick" "\<not> isDashDashComment (c # cs)" "\<not> isBlockComment (c # cs)"
      using comment_first[of c cs] by (auto simp: isQuote_def)
    have l: "lex (c # cs) = TComment (consumed (c # cs) (skipLineComment cs)) # lex (skipLineComment cs)"
      by (subst lex.simps, simp only: h if_False, simp add: hash del: lex.simps)
    have "normalize_loop (skipLineComment cs) (see_comment b) = audit_tokens (lex (skipLineComment cs)) (see_comment b)"
      using "2.IH"(1) "2.prems" hash unfolding skipLineComment_def[symmetric] l by simp
    then show ?thesis
      unfolding l by (simp only: normalize_loop.simps audit_tokens.simps hash skipLineComment_def if_True simp_thms)
  next
    case block
    then have h: "\<not> isQuote c" "c \<noteq> backtick" "\<not> isDashDashComment (c # cs)" "c \<noteq> CHR ''#''"
      using comment_first[of c cs] by (auto simp: isQuote_def)
    have l: "lex (c # cs) = TComment (consumed (c # cs) (skip_comment (drop 1 cs))) # lex (skip_comment (drop 1 cs))"
      by (simp only: lex.simps h block if_True if_False)
    have "normalize_loop (skip_comment (drop 1 cs)) (see_comment b) = audit_tokens (lex (skip_comment (drop 1 cs))) (see_comment b)"
      using "2.IH"(2) "2.prems" h block unfolding bt l by simp
    then show ?thesis unfolding l by (simp only: normalize_loop.simps audit_tokens.simps bt h block if_True if_False simp_thms)
  next
    case byte
    have l: "lex (c # cs) = TByte c # lex cs" by (simp only: lex.simps byte if_False)
    then have p: "plain_tokens (TByte c # lex cs)" using "2.prems" by simp
    then have d: "plain_tokens (lex (dropWhile isNumericLiteralByte (c # cs)))"
      unfolding lex_dropWhile_numeric l by (rule plain_dropWhile)
    have n: "normalize_loop (c # cs) b =
        (if IsDigit (byte_of c) then normalize_loop (dropWhile isNumericLiteralByte (c # cs)) (writeToken ''?'' b)
         else if IsSpace (byte_of c) then normalize_loop cs (see_space b) else normalize_loop cs (see_byte c b))"
      by (simp only: normalize_loop.simps bt byte if_False simp_thms)
    have "normalize_loop (dropWhile isNumericLiteralByte (c # cs)) (writeToken ''?'' b) =
        audit_tokens (dropWhile numeric_token (TByte c # lex cs)) (writeToken ''?'' b)" if "IsDigit (byte_of c)"
      unfolding l[symmetric] lex_dropWhile_numeric[symmetric]
      by (rule "2.IH"(4)) (simp_all only: bt byte that d simp_thms)
    moreover have "normalize_loop cs (see_space b) = audit_tokens (lex cs) (see_space b)"
      if "\<not> IsDigit (byte_of c)" "IsSpace (byte_of c)"
      using p by (intro "2.IH"(5)) (simp_all only: bt byte that simp_thms plain_tokens.simps)
    moreover have "normalize_loop cs (see_byte c b) = audit_tokens (lex cs) (see_byte c b)"
      if "\<not> IsDigit (byte_of c)" "\<not> IsSpace (byte_of c)"
      using p by (intro "2.IH"(6)) (simp_all only: bt byte that simp_thms plain_tokens.simps)
    ultimately show ?thesis unfolding n l audit_tokens.simps by presburger
  qed
qed simp

text \<open>
  C18.  Among statements without quoted (backtick) identifiers and without executable
  comments, string literals and comments do not reach the audit log: the logged text is the
  same for every statement that agrees with it outside literals and comments.  For a
  statement outside that class it can fail, as \<open>quoted_identifier_leak\<close> below shows.
\<close>

theorem literals_not_logged:
  assumes "plain_tokens (lex s)" "map erase (lex s') = map erase (lex s)"
  shows "NormalizeStatement s' = NormalizeStatement s"
proof -
  have "plain_tokens (lex s')" using assms plain_erase by metis
  then have "normalize_loop s' b = normalize_loop s b" for b
    using assms normalize_loop_tokens audit_tokens_erase by metis
  then show ?thesis by (simp add: NormalizeStatement_def)
qed

theorem literals_not_logged_witness:
  "NormalizeStatement ''select a, 0x1f from t where k = 'secret' -- key'' =
   NormalizeStatement ''select a, 0x1f from t where k = 'other' -- text''
   \<and> NormalizeStatement ''select a, 0x1f from t where k = 'other' -- text'' = ''select a, ? from t where k = ?''"
proof -
  have p: "plain_tokens (lex ''select a, 0x1f from t where k = 'other' -- text'')" by code_simp
  have e: "map erase (lex ''select a, 0x1f from t where k = 'secret' -- key'') =
           map erase (lex ''select a, 0x1f from t where k = 'other' -- text'')" by code_simp
  have v: "NormalizeStatement ''select a, 0x1f from t where k = 'other' -- text'' = ''select a, ? from t where k = ?''"
    by code_simp
  show ?thesis by (rule conjI[OF literals_not_logged[OF p e] v])
qed

text \<open>
  The condition on quoted identifiers is needed: a quote inside one opens a string for
  the audit scanner and not for MySQL, so that the next literal is written in full.
\<close>

lemma quoted_identifier_leak:
  "NormalizeStatement ''select `it's` from t where k = 'secret' '' = ''select `it?secret?''"
  by code_simp

text \<open>Bytes above ASCII are written as runes of their own.\<close>

lemma non_ascii_reencoded:
  "NormalizeStatement [CHR ''c'', CHR 0xC3, CHR 0xA9] = [CHR ''c'', CHR 0xC3, CHR 0x83, CHR 0xC2, CHR 0xA9]"
  by (simp add: NormalizeStatement_def TrimSpace_def isQuote_def IsDigit_def IsSpace_def byte_of_def
      see_byte_def Let_def encode_rune_def encode_wide_def decode_rune_def decode2_def cont_byte_def
      chunk_space_def char_of_eq_iff)

end
