(* ===== verification/AuditLog.thy ===== *)
theory AuditLog
  imports Prelude
begin

text \<open>
  \<open>FileLogger\<close> of \<open>internal/audit/logger.go\<close> over a model of the part of package \<open>os\<close>
  it uses.  The file system maps paths to files; any system call may fail, as the list
  \<open>os_faults\<close> says call by call (\<open>None\<close>: the next call works; \<open>Some n\<close>: it fails, and if it
  is a write it leaves its first \<open>n\<close> bytes), and calls past the end of the list work.
  An open handle names its file by path: the program never renames or removes a file it
  holds open.  \<open>Marshal\<close> is \<open>encoding/json\<close> on an event: its text or an error.
\<close>

subsection \<open>Files (package os)\<close>

datatype os_error = ErrNotExist | ErrClosed | ErrIO

record disk_file =
  f_data :: string
  f_mode :: nat

record OS =
  os_files :: "string \<rightharpoonup> disk_file"
  os_faults :: "nat option list"

record auditFile =
  h_path :: string
  h_closed :: bool

fun fault :: "OS \<Rightarrow> nat option \<times> OS" where
  "fault os = (case os_faults os of [] \<Rightarrow> (None, os) | f # fs \<Rightarrow> (f, os\<lparr>os_faults := fs\<rparr>))"

definition openAuditFile :: "string \<Rightarrow> OS \<Rightarrow> (os_error + auditFile) \<times> OS" where
  "openAuditFile path os = (case fault os of
     (Some _, os) \<Rightarrow> (Inl ErrIO, os)
   | (None, os) \<Rightarrow>
       (Inr \<lparr>h_path = path, h_closed = False\<rparr>,
        case os_files os path of
          None \<Rightarrow> os\<lparr>os_files := (os_files os)(path \<mapsto> \<lparr>f_data = '''', f_mode = 384\<rparr>)\<rparr>
        | Some _ \<Rightarrow> os))"

definition on_file :: "auditFile \<Rightarrow> (disk_file \<Rightarrow> disk_file) \<Rightarrow> OS \<Rightarrow> OS" where
  "on_file h f os = os\<lparr>os_files := (os_files os)(h_path h := map_option f (os_files os (h_path h)))\<rparr>"

definition Chmod :: "auditFile \<Rightarrow> nat \<Rightarrow> OS \<Rightarrow> os_error option \<times> OS" where
  "Chmod h mode os =
     (if h_closed h then (Some ErrClosed, os)
      else case fault os of
        (Some _, os) \<Rightarrow> (Some ErrIO, os)
      | (None, os) \<Rightarrow> (None, on_file h (\<lambda>f. f\<lparr>f_mode := mode\<rparr>) os))"

definition Write :: "auditFile \<Rightarrow> string \<Rightarrow> OS \<Rightarrow> os_error option \<times> OS" where
  "Write h text os =
     (if h_closed h then (Some ErrClosed, os)
      else case fault os of
        (Some n, os) \<Rightarrow> (Some ErrIO, on_file h (\<lambda>f. f\<lparr>f_data := f_data f @ take n text\<rparr>) os)
      | (None, os) \<Rightarrow> (None, on_file h (\<lambda>f. f\<lparr>f_data := f_data f @ text\<rparr>) os))"

definition Stat :: "auditFile \<Rightarrow> OS \<Rightarrow> (os_error + nat) \<times> OS" where
  "Stat h os =
     (if h_closed h then (Inl ErrClosed, os)
      else case fault os of
        (Some _, os) \<Rightarrow> (Inl ErrIO, os)
      | (None, os) \<Rightarrow>
          (case os_files os (h_path h) of None \<Rightarrow> Inr 0 | Some f \<Rightarrow> Inr (length (f_data f)), os))"

definition Sync :: "auditFile \<Rightarrow> OS \<Rightarrow> os_error option \<times> OS" where
  "Sync h os =
     (if h_closed h then (Some ErrClosed, os)
      else case fault os of (Some _, os) \<Rightarrow> (Some ErrIO, os) | (None, os) \<Rightarrow> (None, os))"

text \<open>\<open>Close\<close> gives up the handle even when it reports an error.\<close>

definition Close_file :: "auditFile \<Rightarrow> OS \<Rightarrow> os_error option \<times> auditFile \<times> OS" where
  "Close_file h os =
     (if h_closed h then (Some ErrClosed, h, os)
      else case fault os of
        (Some _, os) \<Rightarrow> (Some ErrIO, h\<lparr>h_closed := True\<rparr>, os)
      | (None, os) \<Rightarrow> (None, h\<lparr>h_closed := True\<rparr>, os))"

definition Remove :: "string \<Rightarrow> OS \<Rightarrow> os_error option \<times> OS" where
  "Remove path os = (case fault os of
     (Some _, os) \<Rightarrow> (Some ErrIO, os)
   | (None, os) \<Rightarrow> if os_files os path = None then (Some ErrNotExist, os)
                 else (None, os\<lparr>os_files := (os_files os)(path := None)\<rparr>))"

definition Rename :: "string \<Rightarrow> string \<Rightarrow> OS \<Rightarrow> os_error option \<times> OS" where
  "Rename from to os = (case fault os of
     (Some _, os) \<Rightarrow> (Some ErrIO, os)
   | (None, os) \<Rightarrow> case os_files os from of
       None \<Rightarrow> (Some ErrNotExist, os)
     | Some f \<Rightarrow> (None, os\<lparr>os_files := (os_files os)(from := None, to \<mapsto> f)\<rparr>))"

subsection \<open>Names of backups\<close>

text \<open>\<open>strconv.Itoa\<close> on a natural number.\<close>

fun Itoa :: "nat \<Rightarrow> string" where
  "Itoa n = (if n < 10 then [char_of (48 + n)] else Itoa (n div 10) @ [char_of (48 + n mod 10)])"

declare Itoa.simps [simp del]

definition backup :: "string \<Rightarrow> nat \<Rightarrow> string" where
  "backup path i = path @ ''.'' @ Itoa i"

subsection \<open>The logger\<close>

datatype EventKind = EventAuth | EventQuery

record Event =
  ev_Time :: time
  ev_Kind :: EventKind
  ev_UserID :: string
  ev_SourceAddr :: string
  ev_NormalizedStatement :: string
  ev_Decision :: string
  ev_MaskedFields :: int
  ev_ErrorClass :: string

record FileConfig =
  fc_Path :: string
  fc_MaxBytes :: int
  fc_MaxBackups :: int

record FileLogger =
  lg_path :: string
  lg_config :: FileConfig
  lg_file :: auditFile

datatype log_error = MarshalError | OsError os_error

definition NewFileLoggerWithConfig :: "FileConfig \<Rightarrow> OS \<Rightarrow> (os_error + FileLogger) \<times> OS" where
  "NewFileLoggerWithConfig config os = (case openAuditFile (fc_Path config) os of
     (Inl err, os) \<Rightarrow> (Inl err, os)
   | (Inr file, os) \<Rightarrow>
       (case Chmod file 384 os of
          (Some err, os) \<Rightarrow> (case Close_file file os of (_, _, os) \<Rightarrow> (Inl err, os))
        | (None, os) \<Rightarrow>
            (Inr \<lparr>lg_path = fc_Path config, lg_config = config, lg_file = file\<rparr>, os)))"

definition NewFileLogger :: "string \<Rightarrow> OS \<Rightarrow> (os_error + FileLogger) \<times> OS" where
  "NewFileLogger path = NewFileLoggerWithConfig \<lparr>fc_Path = path, fc_MaxBytes = 0, fc_MaxBackups = 0\<rparr>"

definition removeIfExists :: "string \<Rightarrow> OS \<Rightarrow> os_error option \<times> OS" where
  "removeIfExists path os = (case Remove path os of
     (Some err, os) \<Rightarrow> (if err \<noteq> ErrNotExist then Some err else None, os)
   | (None, os) \<Rightarrow> (None, os))"

definition renameIfExists :: "string \<Rightarrow> string \<Rightarrow> OS \<Rightarrow> os_error option \<times> OS" where
  "renameIfExists from to os = (case Rename from to os of
     (Some err, os) \<Rightarrow> (if err \<noteq> ErrNotExist then Some err else None, os)
   | (None, os) \<Rightarrow> (None, os))"

text \<open>The loop from \<open>index\<close> down to 1.\<close>

fun shift_backups :: "string \<Rightarrow> nat \<Rightarrow> OS \<Rightarrow> os_error option \<times> OS" where
  "shift_backups path 0 os = (None, os)"
| "shift_backups path (Suc k) os =
     (case renameIfExists (backup path (Suc k)) (backup path (Suc k + 1)) os of
        (Some err, os) \<Rightarrow> (Some err, os)
      | (None, os) \<Rightarrow> shift_backups path k os)"

definition rotateBackupsLocked :: "FileLogger \<Rightarrow> OS \<Rightarrow> os_error option \<times> OS" where
  "rotateBackupsLocked l os =
     (if fc_MaxBackups (lg_config l) \<le> 0 then Remove (lg_path l) os
      else let n = nat (fc_MaxBackups (lg_config l)) in
      case removeIfExists (backup (lg_path l) n) os of
        (Some err, os) \<Rightarrow> (Some err, os)
      | (None, os) \<Rightarrow>
          (case shift_backups (lg_path l) (n - 1) os of
             (Some err, os) \<Rightarrow> (Some err, os)
           | (None, os) \<Rightarrow> renameIfExists (lg_path l) (backup (lg_path l) 1) os))"

definition flushLocked :: "FileLogger \<Rightarrow> OS \<Rightarrow> os_error option \<times> OS" where
  "flushLocked l os = Sync (lg_file l) os"

definition reopen :: "FileLogger \<Rightarrow> OS \<Rightarrow> os_error option \<times> FileLogger \<times> OS" where
  "reopen l os = (case openAuditFile (lg_path l) os of
     (Inl err, os) \<Rightarrow> (Some err, l, os)
   | (Inr file, os) \<Rightarrow>
       (let l = l\<lparr>lg_file := file\<rparr> in
        case Chmod (lg_file l) 384 os of (err, os) \<Rightarrow> (err, l, os)))"

text \<open>The part of \<open>rotateIfNeededLocked\<close> after the size test.\<close>

definition rotate_now :: "FileLogger \<Rightarrow> OS \<Rightarrow> os_error option \<times> FileLogger \<times> OS" where
  "rotate_now l os = (case flushLocked l os of
     (Some err, os) \<Rightarrow> (Some err, l, os)
   | (None, os) \<Rightarrow>
   (case Close_file (lg_file l) os of
     (Some err, h, os) \<Rightarrow> (Some err, l\<lparr>lg_file := h\<rparr>, os)
   | (None, h, os) \<Rightarrow>
   (case rotateBackupsLocked (l\<lparr>lg_file := h\<rparr>) os of
     (Some err, os) \<Rightarrow> (Some err, l\<lparr>lg_file := h\<rparr>, os)
   | (None, os) \<Rightarrow> reopen (l\<lparr>lg_file := h\<rparr>) os)))"

definition rotateIfNeededLocked :: "FileLogger \<Rightarrow> nat \<Rightarrow> OS \<Rightarrow> os_error option \<times> FileLogger \<times> OS" where
  "rotateIfNeededLocked l nextWriteBytes os =
     (if fc_MaxBytes (lg_config l) \<le> 0 then (None, l, os)
      else case Stat (lg_file l) os of
        (Inl err, os) \<Rightarrow> (Some err, l, os)
      | (Inr sz, os) \<Rightarrow>
          if int sz + int nextWriteBytes \<le> fc_MaxBytes (lg_config l) then (None, l, os)
          else rotate_now l os)"

definition Log :: "(Event \<Rightarrow> string option) \<Rightarrow> Event \<Rightarrow> FileLogger \<Rightarrow> OS \<Rightarrow>
    log_error option \<times> FileLogger \<times> OS" where
  "Log Marshal event l os = (case Marshal event of
     None \<Rightarrow> (Some MarshalError, l, os)
   | Some text \<Rightarrow>
       (let encoded = text @ [CHR 0x0A] in
        case rotateIfNeededLocked l (length encoded) os of
          (Some err, l, os) \<Rightarrow> (Some (OsError err), l, os)
        | (None, l, os) \<Rightarrow>
            (case Write (lg_file l) encoded os of (err, os) \<Rightarrow> (map_option OsError err, l, os))))"

definition Flush :: "FileLogger \<Rightarrow> OS \<Rightarrow> os_error option \<times> OS" where
  "Flush l os = flushLocked l os"

definition Close :: "FileLogger \<Rightarrow> OS \<Rightarrow> os_error option \<times> FileLogger \<times> OS" where
  "Close l os = (case flushLocked l os of
     (Some err, os) \<Rightarrow> (case Close_file (lg_file l) os of (_, h, os) \<Rightarrow> (Some err, l\<lparr>lg_file := h\<rparr>, os))
   | (None, os) \<Rightarrow> (case Close_file (lg_file l) os of (err, h, os) \<Rightarrow> (err, l\<lparr>lg_file := h\<rparr>, os)))"

end
