(* ===== verification/AuditLogProperties.thy ===== *)
theory AuditLogProperties
  imports AuditLog
begin

text \<open>
  The audit sink of \<open>internal/audit/logger.go\<close> under arbitrary failures of the file
  system: what the file holds after a call that reported success, how rotation moves
  the backups, and that a sink that cannot be written never reports success.
\<close>

subsection \<open>Names of backups are distinct\<close>

lemma digit_inj: "a < 10 \<Longrightarrow> b < 10 \<Longrightarrow> char_of (48 + a) = (char_of (48 + b) :: char) \<Longrightarrow> a = (b :: nat)"
  using arg_cong[of "char_of (48 + a)" "char_of (48 + b)" "of_char :: char \<Rightarrow> nat"] by simp

lemma Itoa_not_Nil: "Itoa n \<noteq> []"
  by (subst Itoa.simps) simp

lemma Itoa_inj: "Itoa m = Itoa n \<Longrightarrow> m = n"
proof (induction m arbitrary: n rule: Itoa.induct)
  case (1 m)
  have eq: "(if m < 10 then [char_of (48 + m)] else Itoa (m div 10) @ [char_of (48 + m mod 10)])
      = (if n < 10 then [char_of (48 + n)] else Itoa (n div 10) @ [char_of (48 + n mod 10)])"
    using "1.prems" by (subst (asm) (1 2) Itoa.simps)
  show ?case
  proof (cases "m < 10 \<or> n < 10")
    case True
    then show ?thesis using eq digit_inj[of m n] by (auto simp: Itoa_not_Nil Itoa_not_Nil[symmetric] split: if_splits)
  next
    case False
    then have "Itoa (m div 10) = Itoa (n div 10)" "m mod 10 = n mod 10"
      using eq digit_inj[of "m mod 10" "n mod 10"] by auto
    then have "m div 10 = n div 10" "m mod 10 = n mod 10" using "1.IH" False by auto
    then show ?thesis by (metis div_mult_mod_eq)
  qed
qed

lemma backup_eq [simp]: "backup p i = backup p j \<longleftrightarrow> i = j" "backup p i \<noteq> p" "p \<noteq> backup p i"
  by (auto simp: backup_def dest: Itoa_inj)

subsection \<open>Effects of the calls that succeed\<close>

lemma fault_files [simp]: "fault os = (f, os') \<Longrightarrow> os_files os' = os_files os"
  by (auto split: list.splits)

lemma fault_none: "os_faults os = [] \<Longrightarrow> fault os = (None, os)"
  by simp

declare fault.simps [simp del]

lemma removeIfExists_ok:
  "removeIfExists p os = (None, os') \<Longrightarrow> os_files os' = (os_files os)(p := None)"
  by (auto simp: removeIfExists_def Remove_def split: prod.splits option.splits if_splits)

lemma renameIfExists_ok:
  "renameIfExists a b os = (None, os') \<Longrightarrow> a \<noteq> b \<Longrightarrow>
     os_files os' = (case os_files os a of None \<Rightarrow> os_files os | Some f \<Rightarrow> (os_files os)(a := None, b \<mapsto> f))"
  by (auto simp: renameIfExists_def Rename_def split: prod.splits option.splits if_splits)

lemma shift_backups_ok:
  assumes "shift_backups p k os = (None, os')" "os_files os (backup p (Suc k)) = None"
  shows "(\<forall>i. 1 \<le> i \<and> i \<le> k \<longrightarrow> os_files os' (backup p (Suc i)) = os_files os (backup p i)) \<and>
     os_files os' (backup p 1) = None \<and>
     (\<forall>q. (\<forall>i. 1 \<le> i \<and> i \<le> Suc k \<longrightarrow> q \<noteq> backup p i) \<longrightarrow> os_files os' q = os_files os q)"
  using assms
proof (induction k arbitrary: os)
  case (Suc k)
  obtain os1 where r: "renameIfExists (backup p (Suc k)) (backup p (Suc k + 1)) os = (None, os1)"
    and s: "shift_backups p k os1 = (None, os')"
    using Suc.prems by (auto split: prod.splits option.splits)
  have f: "os_files os1 = (os_files os)(backup p (Suc k) := None, backup p (Suc (Suc k)) := os_files os (backup p (Suc k)))"
    using renameIfExists_ok[OF r] Suc.prems(2) by (auto split: option.splits)
  have ih: "\<forall>i. 1 \<le> i \<and> i \<le> k \<longrightarrow> os_files os' (backup p (Suc i)) = os_files os1 (backup p i)"
    "os_files os' (backup p 1) = None"
    "\<forall>q. (\<forall>i. 1 \<le> i \<and> i \<le> Suc k \<longrightarrow> q \<noteq> backup p i) \<longrightarrow> os_files os' q = os_files os1 q"
    using Suc.IH[OF s] f by auto
  have "os_files os' (backup p (Suc i)) = os_files os (backup p i)" if "1 \<le> i" "i \<le> Suc k" for i
  proof (cases "i = Suc k")
    case True
    have "os_files os' (backup p (Suc (Suc k))) = os_files os1 (backup p (Suc (Suc k)))"
      using ih(3) by simp
    then show ?thesis using True f by simp
  next
    case False then show ?thesis using ih(1) that f by simp
  qed
  moreover have "os_files os' q = os_files os q" if "\<forall>i. 1 \<le> i \<and> i \<le> Suc (Suc k) \<longrightarrow> q \<noteq> backup p i" for q
    using ih(3) that f by simp
  ultimately show ?case using ih(2) by blast
qed simp

text \<open>What rotation with \<open>n\<close> backups does to the files: \<open>m\<close> before, \<open>m'\<close> after.\<close>

definition rotated :: "string \<Rightarrow> nat \<Rightarrow> (string \<rightharpoonup> disk_file) \<Rightarrow> (string \<rightharpoonup> disk_file) \<Rightarrow> bool" where
  "rotated p n m m' \<longleftrightarrow> m' p = None \<and> (n > 0 \<longrightarrow> m' (backup p 1) = m p) \<and>
     (\<forall>i. 1 \<le> i \<and> i < n \<longrightarrow> m' (backup p (Suc i)) = m (backup p i)) \<and>
     (\<forall>q. q \<noteq> p \<and> (\<forall>i. 1 \<le> i \<and> i \<le> n \<longrightarrow> q \<noteq> backup p i) \<longrightarrow> m' q = m q)"

lemma rotateBackups_ok:
  assumes "rotateBackupsLocked l os = (None, os')"
  shows "rotated (lg_path l) (nat (fc_MaxBackups (lg_config l))) (os_files os) (os_files os')"
proof (cases "fc_MaxBackups (lg_config l) \<le> 0")
  case True
  then show ?thesis using assms
    by (auto simp: rotateBackupsLocked_def Remove_def rotated_def split: prod.splits option.splits if_splits)
next
  case False
  define p where "p = lg_path l"
  define n where "n = nat (fc_MaxBackups (lg_config l))"
  have n: "Suc (n - 1) = n" using False by (simp add: n_def)
  obtain os1 os2 where rm: "removeIfExists (backup p n) os = (None, os1)"
    and sh: "shift_backups p (n - 1) os1 = (None, os2)"
    and rn: "renameIfExists p (backup p 1) os2 = (None, os')"
    using assms False by (auto simp: rotateBackupsLocked_def Let_def p_def n_def split: prod.splits option.splits)
  have f1: "os_files os1 = (os_files os)(backup p n := None)" by (rule removeIfExists_ok[OF rm])
  note f2 = shift_backups_ok[OF sh, unfolded n, simplified f1 fun_upd_same]
  have f3: "os_files os' = (os_files os2)(p := None, backup p 1 := os_files os2 p)"
    using renameIfExists_ok[OF rn] f2 by (auto split: option.splits)
  have 2: "os_files os2 p = os_files os p" using f2 f1 by simp
  have "os_files os' (backup p (Suc i)) = os_files os (backup p i)" if "1 \<le> i" "i < n" for i
    using f2 f3 that f1 by simp
  moreover have "os_files os' q = os_files os q" if "q \<noteq> p" "\<forall>i. 1 \<le> i \<and> i \<le> n \<longrightarrow> q \<noteq> backup p i" for q
    using f2 f3 f1 that n by (metis fun_upd_other le_refl Suc_le_eq zero_less_Suc One_nat_def le_add2 plus_1_eq_Suc)
  ultimately show ?thesis using 2 f3 unfolding rotated_def p_def[symmetric] n_def[symmetric] by simp
qed

subsection \<open>The sink between operations\<close>

text \<open>An open handle is on the file at the configured path, which is readable by its owner only.\<close>

definition sink_ok :: "FileLogger \<Rightarrow> OS \<Rightarrow> bool" where
  "sink_ok l os \<longleftrightarrow> h_path (lg_file l) = lg_path l \<and>
     (\<not> h_closed (lg_file l) \<longrightarrow> (\<exists>d. os_files os (lg_path l) = Some \<lparr>f_data = d, f_mode = 384\<rparr>))"

lemma Stat_ok: "Stat h os = (r, os') \<Longrightarrow> os_files os' = os_files os"
  by (auto simp: Stat_def split: prod.splits option.splits if_splits)

lemma Stat_size:
  assumes "Stat h os = (Inr n, os')" "os_files os (h_path h) = Some f"
  shows "n = length (f_data f)"
proof -
  obtain ft os1 where ft: "fault os = (ft, os1)" by fastforce
  have "os_files os1 (h_path h) = Some f" using fault_files[OF ft] assms(2) by simp
  then show ?thesis using assms(1) ft by (simp add: Stat_def split: if_splits option.splits)
qed

lemma Sync_ok: "Sync h os = (r, os') \<Longrightarrow> os_files os' = os_files os"
  by (auto simp: Sync_def split: prod.splits option.splits if_splits)

lemma Close_file_ok:
  "Close_file h os = (r, h', os') \<Longrightarrow> os_files os' = os_files os \<and> h_closed h' \<and> h_path h' = h_path h"
  by (auto simp: Close_file_def split: prod.splits option.splits if_splits)

lemma mode_set [simp]: "\<exists>d. f\<lparr>f_mode := m\<rparr> = \<lparr>f_data = d, f_mode = m\<rparr>"
  by (cases f) simp

lemma reopen_result:
  assumes "reopen l os = (r, l', os')" "os_files os (lg_path l) = None"
    "h_closed (lg_file l)" "h_path (lg_file l) = lg_path l"
  shows "sink_ok l' os' \<and> lg_path l' = lg_path l \<and> lg_config l' = lg_config l \<and>
     (r = None \<longrightarrow> l' = l\<lparr>lg_file := \<lparr>h_path = lg_path l, h_closed = False\<rparr>\<rparr> \<and>
        os_files os' = (os_files os)(lg_path l \<mapsto> \<lparr>f_data = '''', f_mode = 384\<rparr>))"
  using assms
  by (auto simp: reopen_def openAuditFile_def Chmod_def on_file_def sink_ok_def Let_def
      split: prod.splits option.splits if_splits sum.splits)

definition after_rotation :: "FileLogger \<Rightarrow> OS \<Rightarrow> FileLogger \<Rightarrow> OS \<Rightarrow> bool" where
  "after_rotation l os l' os' \<longleftrightarrow>
     l' = l\<lparr>lg_file := \<lparr>h_path = lg_path l, h_closed = False\<rparr>\<rparr> \<and>
     (\<exists>m. rotated (lg_path l) (nat (fc_MaxBackups (lg_config l))) (os_files os) m \<and>
          os_files os' = m(lg_path l \<mapsto> \<lparr>f_data = '''', f_mode = 384\<rparr>))"

lemma rotate_now_result:
  assumes "rotate_now l os = (r, l', os')" "sink_ok l os"
  shows "sink_ok l' os' \<and> lg_path l' = lg_path l \<and> lg_config l' = lg_config l \<and>
     (r = None \<longrightarrow> after_rotation l os l' os')"
proof -
  obtain sy os2 where sy: "Sync (lg_file l) os = (sy, os2)" by fastforce
  obtain ce h os3 where ce: "Close_file (lg_file l) os2 = (ce, h, os3)" by (metis prod_cases3)
  obtain re os4 where re: "rotateBackupsLocked (l\<lparr>lg_file := h\<rparr>) os3 = (re, os4)" by fastforce
  have hp: "h_path (lg_file l) = lg_path l" using assms(2) by (simp add: sink_ok_def)
  note f = Sync_ok[OF sy] Close_file_ok[OF ce]
  consider (sync) "sy \<noteq> None" | (close) "sy = None" "ce \<noteq> None" | (backups) "sy = None" "ce = None" "re \<noteq> None"
    | (all) "sy = None" "ce = None" "re = None" by blast
  then show ?thesis
  proof cases
    case all
    have rot: "rotated (lg_path l) (nat (fc_MaxBackups (lg_config l))) (os_files os) (os_files os4)"
      using rotateBackups_ok[OF re[unfolded all]] f by simp
    then have none: "os_files os4 (lg_path l) = None" by (simp add: rotated_def)
    have "reopen (l\<lparr>lg_file := h\<rparr>) os4 = (r, l', os')"
      using assms(1) sy ce re all by (simp add: rotate_now_def flushLocked_def)
    from reopen_result[OF this] have "sink_ok l' os'" "lg_path l' = lg_path l" "lg_config l' = lg_config l"
      "r = None \<longrightarrow> l' = l\<lparr>lg_file := \<lparr>h_path = lg_path l, h_closed = False\<rparr>\<rparr> \<and>
        os_files os' = (os_files os4)(lg_path l \<mapsto> \<lparr>f_data = '''', f_mode = 384\<rparr>)"
      using none f hp by simp_all
    then show ?thesis using rot unfolding after_rotation_def by blast
  qed (use assms sy ce re f hp in \<open>auto simp: rotate_now_def flushLocked_def sink_ok_def\<close>)
qed

text \<open>The two ways \<open>rotateIfNeededLocked\<close> leaves the sink fit for the next write.\<close>

definition over_limit :: "FileLogger \<Rightarrow> nat \<Rightarrow> OS \<Rightarrow> bool" where
  "over_limit l n os \<longleftrightarrow> fc_MaxBytes (lg_config l) > 0 \<and>
     (case os_files os (lg_path l) of None \<Rightarrow> False
      | Some f \<Rightarrow> int (length (f_data f)) + int n > fc_MaxBytes (lg_config l))"

lemma rotateIfNeeded_result:
  assumes "rotateIfNeededLocked l n os = (r, l', os')" "sink_ok l os"
  shows "sink_ok l' os' \<and> lg_path l' = lg_path l \<and> lg_config l' = lg_config l \<and>
     (r = None \<and> \<not> h_closed (lg_file l) \<longrightarrow>
        (if over_limit l n os then after_rotation l os l' os' else l' = l \<and> os_files os' = os_files os))"
proof (cases "fc_MaxBytes (lg_config l) \<le> 0 \<or> h_closed (lg_file l)")
  case True
  then show ?thesis using assms by (auto simp: rotateIfNeededLocked_def over_limit_def Stat_def split: if_splits)
next
  case False
  obtain st os1 where st: "Stat (lg_file l) os = (st, os1)" by fastforce
  note f1 = Stat_ok[OF st]
  obtain d where d: "os_files os (lg_path l) = Some \<lparr>f_data = d, f_mode = 384\<rparr>"
    and hp: "h_path (lg_file l) = lg_path l" using assms(2) False by (auto simp: sink_ok_def)
  have sz: "sz = length d" if "st = Inr sz" for sz
    using Stat_size[OF st[unfolded that]] d hp by simp
  have ov: "over_limit l n os \<longleftrightarrow> \<not> int (length d) + int n \<le> fc_MaxBytes (lg_config l)"
    using False by (simp only: over_limit_def d option.case disk_file.simps not_le de_Morgan_disj simp_thms)
  have s1: "sink_ok l os1" using assms(2) f1 by (simp add: sink_ok_def)
  show ?thesis
  proof (cases st)
    case (Inl e)
    then have "r = Some e" "l' = l" "os' = os1"
      using assms(1) st False by (auto simp: rotateIfNeededLocked_def)
    then show ?thesis using s1 by simp
  next
    case (Inr n')
    have eq: "(r, l', os') = (if over_limit l n os then rotate_now l os1 else (None, l, os1))"
      unfolding assms(1)[symmetric] using st Inr False ov sz[OF Inr] by (simp add: rotateIfNeededLocked_def)
    show ?thesis
    proof (cases "over_limit l n os")
      case True
      then have "rotate_now l os1 = (r, l', os')" using eq by simp
      from rotate_now_result[OF this s1] show ?thesis using True f1 by (simp add: after_rotation_def)
    next
      case False then show ?thesis using eq s1 f1 by simp
    qed
  qed
qed

lemma Write_result:
  assumes "Write h t os = (r, os')" "h_path h = p"
  shows "(\<exists>d. os_files os' p = map_option (\<lambda>f. f\<lparr>f_data := f_data f @ d\<rparr>) (os_files os p) \<or> os_files os' p = os_files os p) \<and>
     (r = None \<longrightarrow> \<not> h_closed h \<and> os_files os' = (os_files os)(p := map_option (\<lambda>f. f\<lparr>f_data := f_data f @ t\<rparr>) (os_files os p)))"
  using assms by (auto simp: Write_def on_file_def split: prod.splits option.splits if_splits)

lemma Write_sink: "Write (lg_file l) t os = (r, os') \<Longrightarrow> sink_ok l os \<Longrightarrow> sink_ok l os'"
  by (auto simp: Write_def on_file_def sink_ok_def split: prod.splits option.splits if_splits)

subsection \<open>Runs of a logger\<close>

datatype audit_op = OpLog Event | OpFlush | OpClose

fun audit_step :: "(Event \<Rightarrow> string option) \<Rightarrow> audit_op \<Rightarrow> FileLogger \<times> OS \<Rightarrow> FileLogger \<times> OS" where
  "audit_step Marshal (OpLog ev) (l, os) = (case Log Marshal ev l os of (_, l, os) \<Rightarrow> (l, os))"
| "audit_step Marshal OpFlush (l, os) = (case Flush l os of (_, os) \<Rightarrow> (l, os))"
| "audit_step Marshal OpClose (l, os) = (case Close l os of (_, l, os) \<Rightarrow> (l, os))"

lemma Log_sink:
  "Log Marshal ev l os = (r, l', os') \<Longrightarrow> sink_ok l os \<Longrightarrow> sink_ok l' os' \<and> lg_path l' = lg_path l"
  using rotateIfNeeded_result Write_sink
  by (fastforce simp: Log_def Let_def split: prod.splits option.splits)

lemma Close_sink: "Close l os = (r, l', os') \<Longrightarrow> sink_ok l os \<Longrightarrow> sink_ok l' os' \<and> lg_path l' = lg_path l"
  by (auto simp: Close_def flushLocked_def sink_ok_def split: prod.splits option.splits dest!: Close_file_ok)

lemma audit_step_sink:
  "audit_step Marshal op (l, os) = (l', os') \<Longrightarrow> sink_ok l os \<Longrightarrow> sink_ok l' os' \<and> lg_path l' = lg_path l"
  by (cases op) (auto simp: Flush_def flushLocked_def sink_ok_def dest: Log_sink Close_sink Sync_ok split: prod.splits)

text \<open>
  C23.  From a successful \<open>NewFileLoggerWithConfig\<close> on, through any operations and any
  failures of the file system, the sink's path is still the configured one, its handle is
  on the file at that path and, while it is open, that file exists and is readable and
  writable by its owner only.
\<close>

theorem audit_sink_invariant:
  assumes "NewFileLoggerWithConfig config os = (Inr l, os1)"
    and "fold (audit_step Marshal) ops (l, os1) = (l', os')"
  shows "sink_ok l' os' \<and> lg_path l' = fc_Path config"
proof -
  have "sink_ok l os1 \<and> lg_path l = fc_Path config"
    using assms(1)
    by (auto simp: NewFileLoggerWithConfig_def openAuditFile_def Chmod_def on_file_def sink_ok_def
        split: prod.splits option.splits if_splits sum.splits)
  moreover have "sink_ok a b \<Longrightarrow> fold (audit_step Marshal) ops (a, b) = (l', os') \<Longrightarrow>
      sink_ok l' os' \<and> lg_path l' = lg_path a" for a b
  proof (induction ops arbitrary: a b)
    case (Cons op ops)
    obtain a1 b1 where "audit_step Marshal op (a, b) = (a1, b1)" by fastforce
    then show ?case using Cons audit_step_sink[of Marshal op a b a1 b1] by auto
  qed simp
  ultimately show ?thesis using assms(2) by metis
qed

definition small_config :: FileConfig where
  "small_config = \<lparr>fc_Path = ''audit'', fc_MaxBytes = 4, fc_MaxBackups = 1\<rparr>"

definition login_event :: Event where
  "login_event = \<lparr>ev_Time = 0, ev_Kind = EventAuth, ev_UserID = ''alice'', ev_SourceAddr = '''',
     ev_NormalizedStatement = '''', ev_Decision = ''accept'', ev_MaskedFields = 0, ev_ErrorClass = ''''\<rparr>"

definition marshal_user :: "Event \<Rightarrow> string option" where
  "marshal_user ev = Some (ev_UserID ev)"

theorem audit_sink_invariant_witness:
  "case NewFileLoggerWithConfig small_config \<lparr>os_files = Map.empty, os_faults = []\<rparr> of
     (Inr l, os) \<Rightarrow> (case fold (audit_step marshal_user) [OpLog login_event, OpFlush, OpLog login_event] (l, os) of
        (l', os') \<Rightarrow> sink_ok l' os' \<and> lg_path l' = fc_Path small_config)
   | _ \<Rightarrow> False"
proof -
  have "\<exists>l os1. NewFileLoggerWithConfig small_config \<lparr>os_files = Map.empty, os_faults = []\<rparr> = (Inr l, os1)"
    by (simp add: NewFileLoggerWithConfig_def openAuditFile_def Chmod_def fault.simps)
  then obtain l os1 where n: "NewFileLoggerWithConfig small_config \<lparr>os_files = Map.empty, os_faults = []\<rparr> = (Inr l, os1)"
    by blast
  obtain l' os' where f: "fold (audit_step marshal_user) [OpLog login_event, OpFlush, OpLog login_event] (l, os1) = (l', os')"
    by (metis prod.exhaust)
  show ?thesis unfolding n using audit_sink_invariant[OF n f] f by simp
qed

lemma Log_success:
  assumes "sink_ok l os" and "Log Marshal event l os = (None, l', os')"
  shows "\<exists>body d. Marshal event = Some body \<and> os_files os (lg_path l) = Some \<lparr>f_data = d, f_mode = 384\<rparr> \<and>
    (if over_limit l (length (body @ [CHR 0x0A])) os
     then \<exists>m. rotated (lg_path l) (nat (fc_MaxBackups (lg_config l))) (os_files os) m \<and>
            os_files os' = m(lg_path l \<mapsto> \<lparr>f_data = body @ [CHR 0x0A], f_mode = 384\<rparr>)
     else os_files os' = (os_files os)(lg_path l \<mapsto> \<lparr>f_data = d @ body @ [CHR 0x0A], f_mode = 384\<rparr>))"
proof -
  obtain body os1 where t: "Marshal event = Some body"
    and r: "rotateIfNeededLocked l (length (body @ [CHR 0x0A])) os = (None, l', os1)"
    and w: "Write (lg_file l') (body @ [CHR 0x0A]) os1 = (None, os')"
    using assms(2) by (auto simp: Log_def Let_def split: option.splits prod.splits)
  note res = rotateIfNeeded_result[OF r assms(1)]
  have hp: "h_path (lg_file l') = lg_path l" using res by (simp add: sink_ok_def)
  have w': "\<not> h_closed (lg_file l')" "os_files os' = (os_files os1)(lg_path l :=
      map_option (\<lambda>f. f\<lparr>f_data := f_data f @ body @ [CHR 0x0A]\<rparr>) (os_files os1 (lg_path l)))"
    using Write_result[OF w hp] by simp_all
  have op: "\<not> h_closed (lg_file l)"
    using w'(1) r by (auto simp: rotateIfNeededLocked_def Stat_def split: if_splits)
  then obtain d where d: "os_files os (lg_path l) = Some \<lparr>f_data = d, f_mode = 384\<rparr>"
    using assms(1) by (auto simp: sink_ok_def)
  show ?thesis
  proof (cases "over_limit l (length (body @ [CHR 0x0A])) os")
    case True
    then obtain m where m: "rotated (lg_path l) (nat (fc_MaxBackups (lg_config l))) (os_files os) m"
      "os_files os1 = m(lg_path l \<mapsto> \<lparr>f_data = '''', f_mode = 384\<rparr>)"
      using res op unfolding after_rotation_def by auto
    have "os_files os' = m(lg_path l \<mapsto> \<lparr>f_data = body @ [CHR 0x0A], f_mode = 384\<rparr>)"
      unfolding w'(2) m(2) by simp
    then show ?thesis using True m(1) t d by auto
  next
    case False
    then have "os_files os1 = os_files os" using res op by simp
    then show ?thesis using False t d w'(2) by auto
  qed
qed

lemma Log_last_line:
  assumes "sink_ok l os" and "Log Marshal event l os = (None, l', os')"
  shows "\<exists>body d. Marshal event = Some body
     \<and> os_files os' (lg_path l) = Some \<lparr>f_data = d @ body @ [CHR 0x0A], f_mode = 384\<rparr>"
  using Log_success[OF assms] by (metis (no_types, lifting) append_Nil fun_upd_same)

text \<open>
  C22.  A call of \<open>Log\<close> that reports success has appended exactly the event's line: to
  the current file when the line fits, and otherwise to a fresh file after the rotation has
  moved the current file to the first backup and each backup to the next.
\<close>

theorem Log_success_effect:
  assumes "sink_ok l os" and "Log Marshal event l os = (None, l', os')"
  shows "\<exists>body d. Marshal event = Some body \<and> os_files os (lg_path l) = Some \<lparr>f_data = d, f_mode = 384\<rparr> \<and>
    (if over_limit l (length (body @ [CHR 0x0A])) os
     then \<exists>m. rotated (lg_path l) (nat (fc_MaxBackups (lg_config l))) (os_files os) m \<and>
            os_files os' = m(lg_path l \<mapsto> \<lparr>f_data = body @ [CHR 0x0A], f_mode = 384\<rparr>)
     else os_files os' = (os_files os)(lg_path l \<mapsto> \<lparr>f_data = d @ body @ [CHR 0x0A], f_mode = 384\<rparr>))"
  by (rule Log_success[OF assms])

definition full_sink :: FileLogger where
  "full_sink = \<lparr>lg_path = ''audit'', lg_config = small_config, lg_file = \<lparr>h_path = ''audit'', h_closed = False\<rparr>\<rparr>"

definition full_disk :: OS where
  "full_disk = \<lparr>os_files = [''audit'' \<mapsto> \<lparr>f_data = ''old'', f_mode = 384\<rparr>], os_faults = []\<rparr>"

theorem Log_success_effect_witness:
  "fst (Log marshal_user login_event full_sink full_disk) = None \<and>
   (\<exists>m. rotated ''audit'' 1 (os_files full_disk) m \<and>
      os_files (snd (snd (Log marshal_user login_event full_sink full_disk))) =
        m(''audit'' \<mapsto> \<lparr>f_data = ''alice'' @ [CHR 0x0A], f_mode = 384\<rparr>))"
proof -
  obtain r l' os' where e: "Log marshal_user login_event full_sink full_disk = (r, l', os')"
    by (metis prod_cases3)
  have "fst (Log marshal_user login_event full_sink full_disk) = None" by code_simp
  then have r: "r = None" by (simp add: e)
  have "sink_ok full_sink full_disk" by (simp add: sink_ok_def full_sink_def full_disk_def)
  from Log_success_effect[OF this e[unfolded r]] obtain body d where
    b: "marshal_user login_event = Some body"
      "if over_limit full_sink (length (body @ [CHR 0x0A])) full_disk
       then \<exists>m. rotated (lg_path full_sink) (nat (fc_MaxBackups (lg_config full_sink))) (os_files full_disk) m \<and>
            os_files os' = m(lg_path full_sink \<mapsto> \<lparr>f_data = body @ [CHR 0x0A], f_mode = 384\<rparr>)
       else os_files os' = (os_files full_disk)(lg_path full_sink \<mapsto> \<lparr>f_data = d @ body @ [CHR 0x0A], f_mode = 384\<rparr>)"
    by blast
  have bd: "body = ''alice''" using b(1) by (simp add: marshal_user_def login_event_def)
  have ov: "over_limit full_sink (length (body @ [CHR 0x0A])) full_disk"
    by (simp add: bd over_limit_def full_sink_def full_disk_def small_config_def)
  have "\<exists>m. rotated (lg_path full_sink) (nat (fc_MaxBackups (lg_config full_sink))) (os_files full_disk) m \<and>
            os_files os' = m(lg_path full_sink \<mapsto> \<lparr>f_data = body @ [CHR 0x0A], f_mode = 384\<rparr>)"
    using b(2) unfolding if_P[OF ov] .
  moreover have "lg_path full_sink = ''audit''" "nat (fc_MaxBackups (lg_config full_sink)) = 1"
    by (simp_all add: full_sink_def small_config_def)
  ultimately show ?thesis unfolding e r bd by simp
qed

subsection \<open>Without failures\<close>

declare fault_files [simp del]

definition quiet :: "OS \<Rightarrow> bool" where
  "quiet os \<longleftrightarrow> os_faults os = []"

lemma quiet_fault: "quiet os \<Longrightarrow> fault os = (None, os)"
  by (simp add: quiet_def fault_none)

lemma quiet_calls:
  assumes "quiet os"
  shows "\<exists>os'. removeIfExists a os = (None, os') \<and> quiet os'"
    and "\<exists>os'. renameIfExists a b os = (None, os') \<and> quiet os'"
    and "os_files os a \<noteq> None \<Longrightarrow> \<exists>os'. Remove a os = (None, os') \<and> quiet os'"
    and "\<exists>os'. openAuditFile a os = (Inr \<lparr>h_path = a, h_closed = False\<rparr>, os') \<and> quiet os'"
    and "\<not> h_closed h \<Longrightarrow> \<exists>os'. Chmod h mode os = (None, os') \<and> quiet os'"
    and "\<not> h_closed h \<Longrightarrow> \<exists>os'. Write h body os = (None, os') \<and> quiet os'"
proof -
  note q = quiet_fault[OF assms] assms[unfolded quiet_def]
  show "\<exists>os'. removeIfExists a os = (None, os') \<and> quiet os'"
    by (cases "os_files os a") (simp_all add: q removeIfExists_def Remove_def quiet_def)
  show "\<exists>os'. renameIfExists a b os = (None, os') \<and> quiet os'"
    by (cases "os_files os a") (simp_all add: q renameIfExists_def Rename_def quiet_def)
  show "os_files os a \<noteq> None \<Longrightarrow> \<exists>os'. Remove a os = (None, os') \<and> quiet os'"
    by (simp add: q Remove_def quiet_def)
  show "\<exists>os'. openAuditFile a os = (Inr \<lparr>h_path = a, h_closed = False\<rparr>, os') \<and> quiet os'"
    by (cases "os_files os a") (simp_all add: q openAuditFile_def quiet_def)
  show "\<not> h_closed h \<Longrightarrow> \<exists>os'. Chmod h mode os = (None, os') \<and> quiet os'"
    by (simp add: q Chmod_def on_file_def quiet_def)
  show "\<not> h_closed h \<Longrightarrow> \<exists>os'. Write h body os = (None, os') \<and> quiet os'"
    by (simp add: q Write_def on_file_def quiet_def)
qed

lemma quiet_shift: "quiet os \<Longrightarrow> \<exists>os'. shift_backups p k os = (None, os') \<and> quiet os'"
proof (induction k arbitrary: os)
  case (Suc k)
  then obtain os1 where "renameIfExists (backup p (Suc k)) (backup p (Suc k + 1)) os = (None, os1)" "quiet os1"
    using quiet_calls(2) by blast
  then show ?case using Suc.IH[of os1] by simp
qed simp

lemma quiet_rotateBackups:
  assumes "quiet os" "os_files os (lg_path l) \<noteq> None"
  shows "\<exists>os'. rotateBackupsLocked l os = (None, os') \<and> quiet os'"
proof (cases "fc_MaxBackups (lg_config l) \<le> 0")
  case True
  then show ?thesis using quiet_calls(3)[OF assms] by (simp add: rotateBackupsLocked_def)
next
  case False
  define n where "n = nat (fc_MaxBackups (lg_config l))"
  obtain os1 where 1: "removeIfExists (backup (lg_path l) n) os = (None, os1)" "quiet os1"
    using quiet_calls(1)[OF assms(1)] by blast
  obtain os2 where 2: "shift_backups (lg_path l) (n - 1) os1 = (None, os2)" "quiet os2"
    using quiet_shift[OF 1(2)] by blast
  obtain os3 where 3: "renameIfExists (lg_path l) (backup (lg_path l) 1) os2 = (None, os3)" "quiet os3"
    using quiet_calls(2)[OF 2(2)] by blast
  show ?thesis using False 1(1) 2(1) 3 by (simp add: rotateBackupsLocked_def Let_def n_def)
qed

lemma quiet_rotate_now:
  assumes "quiet os" "\<not> h_closed (lg_file l)" "os_files os (lg_path l) \<noteq> None"
  shows "\<exists>l' os'. rotate_now l os = (None, l', os') \<and> quiet os' \<and> \<not> h_closed (lg_file l')"
proof -
  let ?l = "l\<lparr>lg_file := (lg_file l)\<lparr>h_closed := True\<rparr>\<rparr>"
  obtain os1 where 1: "rotateBackupsLocked ?l os = (None, os1)" "quiet os1"
    using quiet_rotateBackups[OF assms(1), of ?l] assms(3) by auto
  obtain os2 where 2: "openAuditFile (lg_path l) os1 = (Inr \<lparr>h_path = lg_path l, h_closed = False\<rparr>, os2)" "quiet os2"
    using quiet_calls(4)[OF 1(2)] by blast
  obtain os3 where 3: "Chmod \<lparr>h_path = lg_path l, h_closed = False\<rparr> 384 os2 = (None, os3)" "quiet os3"
    using quiet_calls(5)[OF 2(2), of "\<lparr>h_path = lg_path l, h_closed = False\<rparr>"] by auto
  show ?thesis
    using 1(1) 2(1) 3 assms(2) quiet_fault[OF assms(1)]
    by (simp add: rotate_now_def flushLocked_def Sync_def Close_file_def reopen_def Let_def)
qed

text \<open>
  While the file system works, an open sink accepts every event that can be
  encoded, rotating when it must, and a sink whose handle was closed accepts none: the
  caller, which treats an error as a refusal, fails closed.
\<close>

lemma Log_available_iff_open:
  assumes "sink_ok l os" "os_faults os = []" "Marshal event = Some body"
  shows "fst (Log Marshal event l os) = None \<longleftrightarrow> \<not> h_closed (lg_file l)"
proof (cases "h_closed (lg_file l)")
  case True
  then show ?thesis
    using assms(3) by (simp add: Log_def Let_def rotateIfNeededLocked_def Stat_def Write_def)
next
  case False
  have q: "quiet os" using assms(2) by (simp add: quiet_def)
  have ex: "os_files os (lg_path l) \<noteq> None" using assms(1) False by (auto simp: sink_ok_def)
  have "\<exists>l' os'. rotateIfNeededLocked l n os = (None, l', os') \<and> quiet os' \<and> \<not> h_closed (lg_file l')" for n
    using quiet_rotate_now[OF q False ex] q False quiet_fault[OF q]
    by (auto simp: rotateIfNeededLocked_def Stat_def split: option.splits)
  then obtain l' os' where "rotateIfNeededLocked l (length (body @ [CHR 0x0A])) os = (None, l', os')"
    "quiet os'" "\<not> h_closed (lg_file l')" by blast
  then show ?thesis
    using False assms(3) quiet_calls(6)[of os' "lg_file l'" "body @ [CHR 0x0A]"] by (auto simp: Log_def Let_def)
qed

lemma Log_available_iff_open_witness:
  "fst (Log marshal_user login_event full_sink full_disk) = None"
proof -
  have "sink_ok full_sink full_disk" "os_faults full_disk = []" "marshal_user login_event = Some ''alice''"
    "\<not> h_closed (lg_file full_sink)"
    by (simp_all add: sink_ok_def full_sink_def full_disk_def marshal_user_def login_event_def)
  then show ?thesis using Log_available_iff_open by blast
qed

end
