(* ===== verification/Masking.thy ===== *)
theory Masking
  imports GoStrings
begin

text \<open>
  \<open>internal/masking/policy.go\<close>: the result-field allow rules and the
  type-compatible masks.  \<open>NewPolicy\<close> compiles a \<open>Config\<close> into the three lookup
  tables of \<open>StaticPolicy\<close>, \<open>allowed\<close> consults them, \<open>Mask\<close> returns the value or a
  placeholder.  The locale \<open>masking_policy\<close> is the Go interface \<open>masking.Policy\<close>
  with the laws the proxy relies on; \<open>StaticPolicy\<close> is its interpretation.
\<close>

subsection \<open>Data\<close>

text \<open>Go's \<open>TypeFamily\<close> is a string type; any string that is not one of the six
  constants (the zero value of \<open>Field\<close> among them) is \<open>TypeOther\<close>.\<close>

datatype TypeFamily = TypeText | TypeNumeric | TypeDate | TypeTime | TypeTimestamp | TypeBinary
  | TypeOther string

record Field =
  f_Schema :: string
  f_OriginalTable :: string
  f_OriginalColumn :: string
  f_TypeFamily :: TypeFamily

record Value =
  v_Raw :: bytes
  v_Null :: bool

record TableRule =
  tr_Schema :: string
  tr_Table :: string
  tr_AllowAllColumns :: bool
  tr_Columns :: "string list"

record MaskingConfig =
  mc_TableRules :: "TableRule list"
  mc_GlobalColumns :: "string list"
  mc_AllowTables :: "TableRule list"
  mc_AllowColumns :: "TableRule list"
  mc_AllowColumnNames :: "string list"

record StaticPolicy =
  sp_tableAll :: "string set"
  sp_tableColumns :: "string \<rightharpoonup> string set"
  sp_globalColumns :: "string set"

subsection \<open>Operations\<close>

definition originKey :: "(rune \<Rightarrow> rune) \<Rightarrow> string \<Rightarrow> string \<Rightarrow> string" where
  "originKey ul schema table = ToLower ul schema @ ''.'' @ ToLower ul table"

definition addTableRule :: "(rune \<Rightarrow> rune) \<Rightarrow> TableRule \<Rightarrow> StaticPolicy \<Rightarrow> StaticPolicy" where
  "addTableRule ul rule p =
     (let key = originKey ul (tr_Schema rule) (tr_Table rule);
          p1 = (if tr_AllowAllColumns rule then p\<lparr>sp_tableAll := insert key (sp_tableAll p)\<rparr> else p)
      in if tr_Columns rule = [] then p1
         else (let columns = (case sp_tableColumns p1 key of None \<Rightarrow> {} | Some cs \<Rightarrow> cs)
               in p1\<lparr>sp_tableColumns := (sp_tableColumns p1)
                       (key \<mapsto> foldl (\<lambda>cs c. insert (ToLower ul c) cs) columns (tr_Columns rule))\<rparr>))"

definition addGlobalColumn :: "(rune \<Rightarrow> rune) \<Rightarrow> StaticPolicy \<Rightarrow> string \<Rightarrow> StaticPolicy" where
  "addGlobalColumn ul p c = p\<lparr>sp_globalColumns := insert (ToLower ul c) (sp_globalColumns p)\<rparr>"

definition NewPolicy :: "(rune \<Rightarrow> rune) \<Rightarrow> MaskingConfig \<Rightarrow> StaticPolicy" where
  "NewPolicy ul config =
     (let p0 = \<lparr>sp_tableAll = {}, sp_tableColumns = Map.empty, sp_globalColumns = {}\<rparr>;
          p1 = foldl (\<lambda>p rule. addTableRule ul rule p) p0 (mc_TableRules config);
          p2 = foldl (\<lambda>p rule. addTableRule ul (rule\<lparr>tr_AllowAllColumns := True\<rparr>) p) p1
                 (mc_AllowTables config);
          p3 = foldl (\<lambda>p rule. addTableRule ul rule p) p2 (mc_AllowColumns config);
          p4 = foldl (addGlobalColumn ul) p3 (mc_GlobalColumns config)
      in foldl (addGlobalColumn ul) p4 (mc_AllowColumnNames config))"

definition allowed :: "(rune \<Rightarrow> rune) \<Rightarrow> StaticPolicy \<Rightarrow> Field \<Rightarrow> bool" where
  "allowed ul p field =
     (if f_Schema field = [] \<or> f_OriginalTable field = [] \<or> f_OriginalColumn field = [] then False
      else (let key = originKey ul (f_Schema field) (f_OriginalTable field) in
        if key \<in> sp_tableAll p then True
        else if (case sp_tableColumns p key of
                   Some columns \<Rightarrow> ToLower ul (f_OriginalColumn field) \<in> columns
                 | None \<Rightarrow> False) then True
        else ToLower ul (f_OriginalColumn field) \<in> sp_globalColumns p))"

fun placeholder :: "TypeFamily \<Rightarrow> bytes" where
  "placeholder TypeNumeric = ''0''"
| "placeholder TypeDate = ''0000-00-00''"
| "placeholder TypeTime = ''00:00:00''"
| "placeholder TypeTimestamp = ''0000-00-00 00:00:00''"
| "placeholder TypeBinary = []"
| "placeholder _ = ''***MASKED***''"

definition Mask :: "(rune \<Rightarrow> rune) \<Rightarrow> StaticPolicy \<Rightarrow> Field \<Rightarrow> Value \<Rightarrow> Value" where
  "Mask ul p field value =
     (if v_Null value then \<lparr>v_Raw = [], v_Null = True\<rparr>
      else if allowed ul p field then value
      else \<lparr>v_Raw = placeholder (f_TypeFamily field), v_Null = False\<rparr>)"

subsection \<open>What the compiled tables mean\<close>

text \<open>All rules that reach \<open>addTableRule\<close>, in the order they are added.\<close>

definition effective_rules :: "MaskingConfig \<Rightarrow> TableRule list" where
  "effective_rules config = mc_TableRules config
     @ map (\<lambda>r. r\<lparr>tr_AllowAllColumns := True\<rparr>) (mc_AllowTables config) @ mc_AllowColumns config"

definition global_names :: "MaskingConfig \<Rightarrow> string list" where
  "global_names config = mc_GlobalColumns config @ mc_AllowColumnNames config"

definition known_origin :: "Field \<Rightarrow> bool" where
  "known_origin f \<longleftrightarrow> f_Schema f \<noteq> [] \<and> f_OriginalTable f \<noteq> [] \<and> f_OriginalColumn f \<noteq> []"

definition rule_covers :: "(rune \<Rightarrow> rune) \<Rightarrow> TableRule \<Rightarrow> Field \<Rightarrow> bool" where
  "rule_covers ul r f \<longleftrightarrow>
     tr_AllowAllColumns r \<or> ToLower ul (f_OriginalColumn f) \<in> ToLower ul ` set (tr_Columns r)"

definition key_of_rule :: "(rune \<Rightarrow> rune) \<Rightarrow> TableRule \<Rightarrow> string" where
  "key_of_rule ul r = originKey ul (tr_Schema r) (tr_Table r)"

lemma foldl_insert_image: "foldl (\<lambda>cs c. insert (g c) cs) S xs = S \<union> g ` set xs"
  by (induction xs arbitrary: S) auto

definition columns_at :: "StaticPolicy \<Rightarrow> string \<Rightarrow> string set" where
  "columns_at p k = (case sp_tableColumns p k of None \<Rightarrow> {} | Some cs \<Rightarrow> cs)"

lemma addTableRule_simps [mask_simps]:
  "sp_tableAll (addTableRule ul r p) =
     (if tr_AllowAllColumns r then insert (key_of_rule ul r) (sp_tableAll p) else sp_tableAll p)"
  "columns_at (addTableRule ul r p) k =
     columns_at p k \<union> (if k = key_of_rule ul r then ToLower ul ` set (tr_Columns r) else {})"
  "sp_globalColumns (addTableRule ul r p) = sp_globalColumns p"
  by (auto simp: addTableRule_def Let_def columns_at_def key_of_rule_def foldl_insert_image
      split: option.splits)

lemma addTableRules_fold [mask_simps]:
  "sp_tableAll (foldl (\<lambda>p r. addTableRule ul (g r) p) p rs) =
     sp_tableAll p \<union> key_of_rule ul ` {r \<in> g ` set rs. tr_AllowAllColumns r}"
  "columns_at (foldl (\<lambda>p r. addTableRule ul (g r) p) p rs) k =
     columns_at p k \<union> (\<Union>r \<in> {r \<in> g ` set rs. key_of_rule ul r = k}. ToLower ul ` set (tr_Columns r))"
  "sp_globalColumns (foldl (\<lambda>p r. addTableRule ul (g r) p) p rs) = sp_globalColumns p"
  by (induction rs arbitrary: p) (auto simp: mask_simps)

lemmas addTableRules_plain = addTableRules_fold[where g = "\<lambda>r. r", simplified]

lemma addGlobalColumns_fold [mask_simps]:
  "sp_globalColumns (foldl (addGlobalColumn ul) p cs) = sp_globalColumns p \<union> ToLower ul ` set cs"
  "sp_tableAll (foldl (addGlobalColumn ul) p cs) = sp_tableAll p"
  "columns_at (foldl (addGlobalColumn ul) p cs) k = columns_at p k"
  by (induction cs arbitrary: p) (auto simp: addGlobalColumn_def columns_at_def)

lemma NewPolicy_tables:
  "sp_tableAll (NewPolicy ul c) = key_of_rule ul ` {r \<in> set (effective_rules c). tr_AllowAllColumns r}"
  "columns_at (NewPolicy ul c) k =
     (\<Union>r \<in> {r \<in> set (effective_rules c). key_of_rule ul r = k}. ToLower ul ` set (tr_Columns r))"
  "sp_globalColumns (NewPolicy ul c) = ToLower ul ` set (global_names c)"
  unfolding NewPolicy_def Let_def effective_rules_def global_names_def
  by (simp_all only: mask_simps addTableRules_plain)
     (auto simp: columns_at_def)

lemma allowed_alt:
  "allowed ul p f \<longleftrightarrow> known_origin f \<and>
     (let key = originKey ul (f_Schema f) (f_OriginalTable f); col = ToLower ul (f_OriginalColumn f)
      in key \<in> sp_tableAll p \<or> col \<in> columns_at p key \<or> col \<in> sp_globalColumns p)"
  by (auto simp: allowed_def known_origin_def columns_at_def Let_def split: option.splits)

lemma allowed_rules:
  "allowed ul (NewPolicy ul config) f \<longleftrightarrow> known_origin f \<and>
     ((\<exists>r \<in> set (effective_rules config).
         key_of_rule ul r = originKey ul (f_Schema f) (f_OriginalTable f) \<and> rule_covers ul r f)
      \<or> ToLower ul (f_OriginalColumn f) \<in> ToLower ul ` set (global_names config))"
  unfolding allowed_alt NewPolicy_tables Let_def rule_covers_def
  by (auto simp: image_iff)

text \<open>
  C17.  The compiled tables decide exactly what the configuration says: a field is
  allowed if and only if its origin is fully known and either some effective rule with
  the field's origin key allows all columns or names the column, or the column
  name is allowed globally, names compared without regard to case.
\<close>

theorem allowed_iff_rules:
  "allowed ul (NewPolicy ul config) f \<longleftrightarrow> known_origin f \<and>
     ((\<exists>r \<in> set (effective_rules config).
         key_of_rule ul r = originKey ul (f_Schema f) (f_OriginalTable f) \<and> rule_covers ul r f)
      \<or> ToLower ul (f_OriginalColumn f) \<in> ToLower ul ` set (global_names config))"
  by (rule allowed_rules)

text \<open>
  The origin key is the pair of names only while schema names hold no dot: with
  a dot two different origins share a key.
\<close>

lemma originKey_inject:
  assumes "CHR ''.'' \<notin> set (ToLower ul s)" and "CHR ''.'' \<notin> set (ToLower ul s')"
  shows "originKey ul s t = originKey ul s' t' \<longleftrightarrow>
     ToLower ul s = ToLower ul s' \<and> ToLower ul t = ToLower ul t'"
proof -
  have "takeWhile (\<lambda>c. c \<noteq> CHR ''.'') (a @ ''.'' @ b) = a" if "CHR ''.'' \<notin> set a" for a b :: string
    using that by (induction a) auto
  then show ?thesis
    using assms unfolding originKey_def by (metis append_same_eq same_append_eq)
qed

definition same_table :: "(rune \<Rightarrow> rune) \<Rightarrow> TableRule \<Rightarrow> Field \<Rightarrow> bool" where
  "same_table ul r f \<longleftrightarrow> ToLower ul (tr_Schema r) = ToLower ul (f_Schema f)
     \<and> ToLower ul (tr_Table r) = ToLower ul (f_OriginalTable f)"

text \<open>
  Table-scoped rules are sound as long as no schema name holds a dot: then a field
  is allowed only by a rule for its own schema and its own table, or globally.
\<close>

lemma allowed_own_table:
  assumes "CHR ''.'' \<notin> set (ToLower ul (f_Schema f))"
    and "\<forall>r \<in> set (effective_rules config). CHR ''.'' \<notin> set (ToLower ul (tr_Schema r))"
    and "allowed ul (NewPolicy ul config) f"
  shows "known_origin f \<and>
     ((\<exists>r \<in> set (effective_rules config). same_table ul r f \<and> rule_covers ul r f)
      \<or> ToLower ul (f_OriginalColumn f) \<in> ToLower ul ` set (global_names config))"
  using assms(3) originKey_inject[OF _ assms(1)] assms(2)
  unfolding allowed_rules same_table_def key_of_rule_def by blast

definition employees_config :: MaskingConfig where
  "employees_config = \<lparr>mc_TableRules = [], mc_GlobalColumns = [], mc_AllowTables = [],
     mc_AllowColumns = [\<lparr>tr_Schema = ''app'', tr_Table = ''employees'', tr_AllowAllColumns = False,
       tr_Columns = [''id'', ''department_id'']\<rparr>], mc_AllowColumnNames = [''created_at'']\<rparr>"

lemma allowed_own_table_witness:
  "\<exists>r \<in> set (effective_rules employees_config).
     same_table id r \<lparr>f_Schema = ''APP'', f_OriginalTable = ''Employees'', f_OriginalColumn = ''ID'',
       f_TypeFamily = TypeNumeric\<rparr>"
proof -
  let ?f = "\<lparr>f_Schema = ''APP'', f_OriginalTable = ''Employees'', f_OriginalColumn = ''ID'',
       f_TypeFamily = TypeNumeric\<rparr>"
  have "CHR ''.'' \<notin> set (ToLower id (f_Schema ?f))"
    and "\<forall>r \<in> set (effective_rules employees_config). CHR ''.'' \<notin> set (ToLower id (tr_Schema r))"
    and "allowed id (NewPolicy id employees_config) ?f"
    and "ToLower id (f_OriginalColumn ?f) \<notin> ToLower id ` set (global_names employees_config)"
    by code_simp+
  then show ?thesis using allowed_own_table[of id ?f employees_config] by blast
qed

definition dotted_config :: MaskingConfig where
  "dotted_config = \<lparr>mc_TableRules = [], mc_GlobalColumns = [],
     mc_AllowTables = [\<lparr>tr_Schema = ''a'', tr_Table = ''b.c'', tr_AllowAllColumns = False,
       tr_Columns = []\<rparr>], mc_AllowColumns = [], mc_AllowColumnNames = []\<rparr>"

definition dotted_field :: Field where
  "dotted_field = \<lparr>f_Schema = ''a.b'', f_OriginalTable = ''c'', f_OriginalColumn = ''secret'',
       f_TypeFamily = TypeText\<rparr>"

lemma ToLower_dot: "ToLower ul (s @ ''.'' @ t) = ToLower ul s @ ''.'' @ ToLower ul t"
proof -
  have a: "list_all ascii ''.''" by code_simp
  have d: "encode_rune (lower_rune ul (byte_of (CHR ''.''))) = ''.''"
    by (simp add: lower_rune_def ascii_lower_def byte_of_def encode_rune_def char_of_eq_iff)
  show ?thesis using utf8_chunks_ascii_word[OF a, of s t] d by (simp add: ToLower_def)
qed

text \<open>
  C40.  With dots it is not: the tables \<open>b.t\<close> of a schema \<open>s\<close> and \<open>t\<close> of the schema \<open>s.b\<close> always share one
  entry, so a rule that names only the first also reveals the second.
\<close>

theorem dotted_schema_collision:
  "originKey ul s (b @ ''.'' @ t) = originKey ul (s @ ''.'' @ b) t
   \<and> allowed id (NewPolicy id dotted_config) dotted_field
   \<and> list_all (\<lambda>r. \<not> same_table id r dotted_field) (effective_rules dotted_config)
   \<and> global_names dotted_config = []"
proof -
  have "allowed id (NewPolicy id dotted_config) dotted_field" and "global_names dotted_config = []"
    and "list_all (\<lambda>r. \<not> same_table id r dotted_field) (effective_rules dotted_config)"
    by code_simp+
  then show ?thesis by (simp add: originKey_def ToLower_dot[simplified])
qed

subsection \<open>The interface masking.Policy\<close>

locale masking_policy =
  fixes mask :: "Field \<Rightarrow> Value \<Rightarrow> Value"
    and visible :: "Field \<Rightarrow> bool"
    and hidden_as :: "Field \<Rightarrow> bytes"
  assumes mask_null: "v_Null v \<Longrightarrow> mask f v = \<lparr>v_Raw = [], v_Null = True\<rparr>"
    and mask_visible: "visible f \<Longrightarrow> \<not> v_Null v \<Longrightarrow> mask f v = v"
    and mask_hidden: "\<not> visible f \<Longrightarrow> \<not> v_Null v \<Longrightarrow> mask f v = \<lparr>v_Raw = hidden_as f, v_Null = False\<rparr>"
begin

lemma keeps_null: "v_Null (mask f v) = v_Null v"
  by (cases "v_Null v"; cases "visible f") (simp_all add: mask_null mask_visible mask_hidden)

lemma hides: "\<not> visible f \<Longrightarrow> v_Null v = v_Null v' \<Longrightarrow> mask f v = mask f v'"
  by (cases "v_Null v") (simp_all add: mask_null mask_hidden)

lemma agree: "(visible f \<Longrightarrow> v = v') \<Longrightarrow> v_Null v = v_Null v' \<Longrightarrow> mask f v = mask f v'"
  by (cases "visible f") (auto intro: hides)

lemma mask_mask: "mask f (mask f v) = mask f v"
  by (cases "v_Null v"; cases "visible f") (simp_all add: mask_null mask_visible mask_hidden)

end

interpretation static: masking_policy "Mask ul p" "allowed ul p" "\<lambda>f. placeholder (f_TypeFamily f)"
  for ul p
  by unfold_locales (simp_all add: Mask_def)

text \<open>
  A field is hidden or shown as a whole: what \<open>Mask\<close> returns for non-NULL values
  is independent of the value if and only if the field is not allowed, and then it is
  the placeholder of its type family; NULL stays NULL and nothing else becomes NULL.
\<close>

lemma Mask_reveals_iff_allowed:
  "((\<forall>v v'. \<not> v_Null v \<longrightarrow> \<not> v_Null v' \<longrightarrow> Mask ul p f v = Mask ul p f v') \<longleftrightarrow> \<not> allowed ul p f)
   \<and> (\<forall>v. v_Null (Mask ul p f v) = v_Null v)
   \<and> (\<forall>v. \<not> allowed ul p f \<longrightarrow> \<not> v_Null v \<longrightarrow> v_Raw (Mask ul p f v) = placeholder (f_TypeFamily f))"
proof -
  let ?x = "\<lparr>v_Raw = ''x'', v_Null = False\<rparr>" and ?y = "\<lparr>v_Raw = ''y'', v_Null = False\<rparr>"
  have "Mask ul p f ?x \<noteq> Mask ul p f ?y" if "allowed ul p f"
    using that by (simp add: static.mask_visible)
  then show ?thesis
    using static.hides[of ul p f] static.keeps_null[of ul p f] static.mask_hidden[of ul p f]
    by (metis Value.select_convs)
qed

lemma Mask_reveals_iff_allowed_witness:
  "Mask id (NewPolicy id employees_config) \<lparr>f_Schema = ''app'', f_OriginalTable = ''employees'',
       f_OriginalColumn = ''email'', f_TypeFamily = TypeText\<rparr> \<lparr>v_Raw = ''a@b.c'', v_Null = False\<rparr>
   = \<lparr>v_Raw = ''***MASKED***'', v_Null = False\<rparr>"
proof -
  let ?p = "NewPolicy id employees_config"
  let ?f = "\<lparr>f_Schema = ''app'', f_OriginalTable = ''employees'',
       f_OriginalColumn = ''email'', f_TypeFamily = TypeText\<rparr>"
  let ?v = "\<lparr>v_Raw = ''a@b.c'', v_Null = False\<rparr>"
  have "\<not> allowed id ?p ?f" by code_simp
  then have "v_Raw (Mask id ?p ?f ?v) = ''***MASKED***'' \<and> v_Null (Mask id ?p ?f ?v) = False"
    using Mask_reveals_iff_allowed[of id ?p ?f] by simp
  then show ?thesis by (cases "Mask id ?p ?f ?v") simp
qed

end
