(* ===== verification/Config.thy ===== *)
theory Config
  imports Masking LocalAuth OtpStore SqlPolicy
begin

text \<open>
  \<open>internal/config/config.go\<close>: the configuration, its defaults and its validation.  The
  TOML decoder is not part of the repository: \<open>DecodeFile\<close> maps a path and the initial
  configuration to an error, or to the decoded configuration and the keys that
  were not used.  \<open>LookupEnv\<close> and \<open>ReadFile\<close> are the environment and the files.  Go's
  \<open>int\<close>, \<open>int64\<close> and \<open>time.Duration\<close> fields are integers; the one place where 64-bit
  arithmetic can wrap, \<open>entropyBytes\<close>, writes the wrap out.
\<close>

subsection \<open>Data\<close>

definition EnvironmentDevelopment :: string where "EnvironmentDevelopment = ''development''"
definition EnvironmentProduction :: string where "EnvironmentProduction = ''production''"

record TLS =
  tls_Enabled :: bool
  tls_CertFile :: string
  tls_KeyFile :: string

record Listener =
  ls_ListenAddr :: string
  ls_TLS :: TLS

record Upstream =
  up_Addr :: string
  up_Database :: string
  up_Username :: string
  up_Password :: string
  up_TLSEnabled :: bool
  up_TLSCAFile :: string
  up_TLSServerName :: string
  up_TLSSkipVerify :: bool

record OTP =
  otp_TTL :: duration
  otp_UsernameEntropyBits :: int
  otp_PasswordEntropyBits :: int

record Sessions =
  ss_BrowserIdleTimeout :: duration
  ss_BrowserAbsoluteLimit :: duration
  ss_MySQLIdleTimeout :: duration
  ss_MySQLMaxDuration :: duration
  ss_ShutdownDrainDeadline :: duration

record RateLimits =
  rl_CredentialFailures :: int
  rl_SourceFailures :: int
  rl_FailureWindow :: duration
  rl_CredentialIssuanceUserLimit :: int
  rl_CredentialIssuanceSessionLimit :: int
  rl_CredentialIssuanceWindow :: duration
  rl_MaxMySQLSessions :: int
  rl_MaxQueryBytes :: int
  rl_MaxResultRows :: int
  rl_MaxResultBytes :: int

record Setup =
  su_AllowSchemaSelection :: "string list"
  su_AllowDefaultSetup :: bool

record Secrets =
  se_UpstreamPasswordEnv :: string
  se_UpstreamPasswordFile :: string

record AuditSettings =
  as_FilePath :: string
  as_MaxBytes :: int
  as_MaxBackups :: int

record Config =
  c_Environment :: string
  c_HTTP :: Listener
  c_MySQL :: Listener
  c_Upstream :: Upstream
  c_LocalUsers :: "LocalUser list"
  c_OTP :: OTP
  c_Sessions :: Sessions
  c_RateLimits :: RateLimits
  c_Setup :: Setup
  c_Masking :: MaskingConfig
  c_Secrets :: Secrets
  c_Audit :: AuditSettings

datatype config_error = UnknownEnvironment string | ListenersRequired | ProductionNeedsTLS
  | HTTPTLSFiles | MySQLTLSFiles | UpstreamSkipVerify | SecretRequired | PasswordEmbedded
  | EnvUnset string | FileUnreadable string | FileEmpty string
  | UsernameEntropy | PasswordEntropy
  | LocalUsername nat | LocalDuplicate string | LocalPassword nat
  | LimitsNotPositive | DecodeFailed string | UnknownKeys string

subsection \<open>Defaults\<close>

definition no_tls :: TLS where
  "no_tls = \<lparr>tls_Enabled = False, tls_CertFile = '''', tls_KeyFile = ''''\<rparr>"

definition Default :: Config where
  "Default = \<lparr>
     c_Environment = EnvironmentDevelopment,
     c_HTTP = \<lparr>ls_ListenAddr = ''127.0.0.1:8080'', ls_TLS = no_tls\<rparr>,
     c_MySQL = \<lparr>ls_ListenAddr = ''127.0.0.1:3307'', ls_TLS = no_tls\<rparr>,
     c_Upstream = \<lparr>up_Addr = '''', up_Database = '''', up_Username = '''', up_Password = '''',
       up_TLSEnabled = False, up_TLSCAFile = '''', up_TLSServerName = '''', up_TLSSkipVerify = False\<rparr>,
     c_LocalUsers = [],
     c_OTP = \<lparr>otp_TTL = 10 * Minute, otp_UsernameEntropyBits = 96, otp_PasswordEntropyBits = 192\<rparr>,
     c_Sessions = \<lparr>ss_BrowserIdleTimeout = 30 * Minute, ss_BrowserAbsoluteLimit = 12 * Hour,
       ss_MySQLIdleTimeout = 30 * Minute, ss_MySQLMaxDuration = 8 * Hour,
       ss_ShutdownDrainDeadline = 30 * Second\<rparr>,
     c_RateLimits = \<lparr>rl_CredentialFailures = 5, rl_SourceFailures = 20, rl_FailureWindow = 10 * Minute,
       rl_CredentialIssuanceUserLimit = 10, rl_CredentialIssuanceSessionLimit = 5,
       rl_CredentialIssuanceWindow = 10 * Minute, rl_MaxMySQLSessions = 100,
       rl_MaxQueryBytes = 64 * 1024, rl_MaxResultRows = 10000, rl_MaxResultBytes = 64 * 1024 * 1024\<rparr>,
     c_Setup = \<lparr>su_AllowSchemaSelection = [], su_AllowDefaultSetup = True\<rparr>,
     c_Masking = \<lparr>mc_TableRules = [], mc_GlobalColumns = [], mc_AllowTables = [], mc_AllowColumns = [],
       mc_AllowColumnNames = []\<rparr>,
     c_Secrets = \<lparr>se_UpstreamPasswordEnv = '''', se_UpstreamPasswordFile = ''''\<rparr>,
     c_Audit = \<lparr>as_FilePath = ''audit.jsonl'', as_MaxBytes = 0, as_MaxBackups = 0\<rparr>\<rparr>"

definition or_default :: "string \<Rightarrow> string \<Rightarrow> string" where
  "or_default s d = (if s = '''' then d else s)"

definition defaultOTP :: "OTP \<Rightarrow> OTP \<Rightarrow> OTP" where
  "defaultOTP d o' = \<lparr>otp_TTL = default_if_nonpos (otp_TTL o') (otp_TTL d),
     otp_UsernameEntropyBits = default_if_nonpos (otp_UsernameEntropyBits o') (otp_UsernameEntropyBits d),
     otp_PasswordEntropyBits = default_if_nonpos (otp_PasswordEntropyBits o') (otp_PasswordEntropyBits d)\<rparr>"

definition defaultSessions :: "Sessions \<Rightarrow> Sessions \<Rightarrow> Sessions" where
  "defaultSessions d s = \<lparr>
     ss_BrowserIdleTimeout = default_if_nonpos (ss_BrowserIdleTimeout s) (ss_BrowserIdleTimeout d),
     ss_BrowserAbsoluteLimit = default_if_nonpos (ss_BrowserAbsoluteLimit s) (ss_BrowserAbsoluteLimit d),
     ss_MySQLIdleTimeout = default_if_nonpos (ss_MySQLIdleTimeout s) (ss_MySQLIdleTimeout d),
     ss_MySQLMaxDuration = default_if_nonpos (ss_MySQLMaxDuration s) (ss_MySQLMaxDuration d),
     ss_ShutdownDrainDeadline = default_if_nonpos (ss_ShutdownDrainDeadline s) (ss_ShutdownDrainDeadline d)\<rparr>"

definition defaultRateLimits :: "RateLimits \<Rightarrow> RateLimits \<Rightarrow> RateLimits" where
  "defaultRateLimits d r = \<lparr>
     rl_CredentialFailures = default_if_nonpos (rl_CredentialFailures r) (rl_CredentialFailures d),
     rl_SourceFailures = default_if_nonpos (rl_SourceFailures r) (rl_SourceFailures d),
     rl_FailureWindow = default_if_nonpos (rl_FailureWindow r) (rl_FailureWindow d),
     rl_CredentialIssuanceUserLimit =
       default_if_nonpos (rl_CredentialIssuanceUserLimit r) (rl_CredentialIssuanceUserLimit d),
     rl_CredentialIssuanceSessionLimit =
       default_if_nonpos (rl_CredentialIssuanceSessionLimit r) (rl_CredentialIssuanceSessionLimit d),
     rl_CredentialIssuanceWindow =
       default_if_nonpos (rl_CredentialIssuanceWindow r) (rl_CredentialIssuanceWindow d),
     rl_MaxMySQLSessions = default_if_nonpos (rl_MaxMySQLSessions r) (rl_MaxMySQLSessions d),
     rl_MaxQueryBytes = default_if_nonpos (rl_MaxQueryBytes r) (rl_MaxQueryBytes d),
     rl_MaxResultRows = default_if_nonpos (rl_MaxResultRows r) (rl_MaxResultRows d),
     rl_MaxResultBytes = default_if_nonpos (rl_MaxResultBytes r) (rl_MaxResultBytes d)\<rparr>"

definition applyDefaults :: "Config \<Rightarrow> Config \<Rightarrow> Config" where
  "applyDefaults defaults c = c\<lparr>
     c_Environment := or_default (c_Environment c) (c_Environment defaults),
     c_HTTP := (c_HTTP c)\<lparr>ls_ListenAddr := or_default (ls_ListenAddr (c_HTTP c)) (ls_ListenAddr (c_HTTP defaults))\<rparr>,
     c_MySQL := (c_MySQL c)\<lparr>ls_ListenAddr := or_default (ls_ListenAddr (c_MySQL c)) (ls_ListenAddr (c_MySQL defaults))\<rparr>,
     c_OTP := defaultOTP (c_OTP defaults) (c_OTP c),
     c_Sessions := defaultSessions (c_Sessions defaults) (c_Sessions c),
     c_RateLimits := defaultRateLimits (c_RateLimits defaults) (c_RateLimits c),
     c_Audit := (c_Audit c)\<lparr>as_FilePath := or_default (as_FilePath (c_Audit c)) (as_FilePath (c_Audit defaults))\<rparr>\<rparr>"

subsection \<open>Validation\<close>

definition UpstreamPassword ::
  "(string \<Rightarrow> string option) \<Rightarrow> (string \<Rightarrow> string option) \<Rightarrow> Config \<Rightarrow> config_error + string" where
  "UpstreamPassword LookupEnv ReadFile c =
     (let env = se_UpstreamPasswordEnv (c_Secrets c); file = se_UpstreamPasswordFile (c_Secrets c) in
      if env \<noteq> '''' then
        (case LookupEnv env of
           None \<Rightarrow> Inl (EnvUnset env)
         | Some password \<Rightarrow> if password = '''' then Inl (EnvUnset env) else Inr password)
      else if file \<noteq> '''' then
        (case ReadFile file of
           None \<Rightarrow> Inl (FileUnreadable file)
         | Some contents \<Rightarrow>
             (let password = TrimRight contents [CHR 0x0D, CHR 0x0A] in
              if password = '''' then Inl (FileEmpty file) else Inr password))
      else Inr (up_Password (c_Upstream c)))"

text \<open>The loop over \<open>Auth.LocalUsers\<close>: \<open>i\<close> is the index and \<open>seen\<close> the set \<open>localUsernames\<close>.\<close>

fun check_users :: "nat \<Rightarrow> string set \<Rightarrow> LocalUser list \<Rightarrow> config_error option" where
  "check_users i seen [] = None"
| "check_users i seen (user # users) =
     (let username = TrimSpace (lu_Username user) in
      if username = '''' then Some (LocalUsername i)
      else if username \<in> seen then Some (LocalDuplicate username)
      else if lu_Password user = '''' then Some (LocalPassword i)
      else check_users (i + 1) (insert username seen) users)"

definition check_listeners :: "Config \<Rightarrow> config_error option" where
  "check_listeners c =
     (let http = c_HTTP c; mysql = c_MySQL c; production = (c_Environment c = EnvironmentProduction) in
      if c_Environment c \<noteq> EnvironmentDevelopment \<and> c_Environment c \<noteq> EnvironmentProduction
        then Some (UnknownEnvironment (c_Environment c))
      else if ls_ListenAddr http = '''' \<or> ls_ListenAddr mysql = '''' then Some ListenersRequired
      else if production \<and> (\<not> tls_Enabled (ls_TLS http) \<or> \<not> tls_Enabled (ls_TLS mysql))
        then Some ProductionNeedsTLS
      else if tls_Enabled (ls_TLS http) \<and> (tls_CertFile (ls_TLS http) = '''' \<or> tls_KeyFile (ls_TLS http) = '''')
        then Some HTTPTLSFiles
      else if tls_Enabled (ls_TLS mysql) \<and> (tls_CertFile (ls_TLS mysql) = '''' \<or> tls_KeyFile (ls_TLS mysql) = '''')
        then Some MySQLTLSFiles
      else None)"

definition check_upstream ::
  "(string \<Rightarrow> string option) \<Rightarrow> (string \<Rightarrow> string option) \<Rightarrow> Config \<Rightarrow> config_error option" where
  "check_upstream LookupEnv ReadFile c =
     (let production = (c_Environment c = EnvironmentProduction) in
      if production \<and> up_TLSSkipVerify (c_Upstream c) then Some UpstreamSkipVerify
      else if production \<and> se_UpstreamPasswordEnv (c_Secrets c) = '''' \<and> se_UpstreamPasswordFile (c_Secrets c) = ''''
        then Some SecretRequired
      else if production \<and> up_Password (c_Upstream c) \<noteq> '''' then Some PasswordEmbedded
      else if production then
        (case UpstreamPassword LookupEnv ReadFile c of Inl err \<Rightarrow> Some err | Inr _ \<Rightarrow> None)
      else None)"

definition check_limits :: "Config \<Rightarrow> config_error option" where
  "check_limits c = (let r = c_RateLimits c in
     if rl_MaxQueryBytes r \<le> 0 \<or> rl_MaxResultRows r \<le> 0 \<or> rl_MaxResultBytes r \<le> 0 \<or> rl_MaxMySQLSessions r \<le> 0
     then Some LimitsNotPositive else None)"

definition Validate ::
  "(string \<Rightarrow> string option) \<Rightarrow> (string \<Rightarrow> string option) \<Rightarrow> Config \<Rightarrow> config_error + Config" where
  "Validate LookupEnv ReadFile c =
     (let c = applyDefaults Default c in
      case check_listeners c of Some err \<Rightarrow> Inl err | None \<Rightarrow>
      case check_upstream LookupEnv ReadFile c of Some err \<Rightarrow> Inl err | None \<Rightarrow>
      if otp_UsernameEntropyBits (c_OTP c) < 96 then Inl UsernameEntropy
      else if otp_PasswordEntropyBits (c_OTP c) < 192 then Inl PasswordEntropy
      else
      case check_users 0 {} (c_LocalUsers c) of Some err \<Rightarrow> Inl err | None \<Rightarrow>
      case check_limits c of Some err \<Rightarrow> Inl err | None \<Rightarrow> Inr c)"

definition formatUndecoded :: "string list \<Rightarrow> string" where
  "formatUndecoded keys = Join keys '', ''"

definition Load ::
  "(string \<Rightarrow> Config \<Rightarrow> string + (Config \<times> string list)) \<Rightarrow> (string \<Rightarrow> string option) \<Rightarrow>
   (string \<Rightarrow> string option) \<Rightarrow> string \<Rightarrow> config_error + Config" where
  "Load DecodeFile LookupEnv ReadFile path =
     (case DecodeFile path Default of
        Inl err \<Rightarrow> Inl (DecodeFailed err)
      | Inr (cfg, undecoded) \<Rightarrow>
          if length undecoded > 0 then Inl (UnknownKeys (formatUndecoded undecoded))
          else Validate LookupEnv ReadFile cfg)"

subsection \<open>Derived settings\<close>

definition wrap64 :: "int \<Rightarrow> int" where
  "wrap64 x = (x + 2 ^ 63) mod 2 ^ 64 - 2 ^ 63"

text \<open>Go's division truncates towards zero.\<close>

definition quot :: "int \<Rightarrow> int \<Rightarrow> int" where
  "quot a b = sgn a * sgn b * (\<bar>a\<bar> div \<bar>b\<bar>)"

definition entropyBytes :: "int \<Rightarrow> int" where
  "entropyBytes bits = quot (wrap64 (bits + 7)) 8"

definition OTPStoreConfig :: "Config \<Rightarrow> StoreConfig" where
  "OTPStoreConfig c = \<lparr>
     oc_TTL = otp_TTL (c_OTP c),
     oc_CredentialFailureLimit = rl_CredentialFailures (c_RateLimits c),
     oc_SourceFailureLimit = rl_SourceFailures (c_RateLimits c),
     oc_SourceFailureWindow = rl_FailureWindow (c_RateLimits c),
     oc_CredentialIssuanceUserLimit = rl_CredentialIssuanceUserLimit (c_RateLimits c),
     oc_CredentialIssuanceSessionLimit = rl_CredentialIssuanceSessionLimit (c_RateLimits c),
     oc_CredentialIssuanceWindow = rl_CredentialIssuanceWindow (c_RateLimits c),
     oc_CredentialUsernameBytes = entropyBytes (otp_UsernameEntropyBits (c_OTP c)),
     oc_CredentialPasswordBytes = entropyBytes (otp_PasswordEntropyBits (c_OTP c))\<rparr>"

definition SQLPolicyConfig :: "Config \<Rightarrow> ClassifierConfig" where
  "SQLPolicyConfig c = \<lparr>cc_AllowedSchemas = su_AllowSchemaSelection (c_Setup c),
     cc_AllowDefaultSetup = su_AllowDefaultSetup (c_Setup c)\<rparr>"

end
