(* ===== verification/ConfigProperties.thy ===== *)
theory ConfigProperties
  imports Config OtpTraces
begin

text \<open>
  What a configuration accepted by \<open>internal/config/config.go\<close> guarantees, and what the
  services built from it inherit.
\<close>

subsection \<open>The accepted configurations\<close>

definition tls_complete :: "TLS \<Rightarrow> bool" where
  "tls_complete t \<longleftrightarrow> (tls_Enabled t \<longrightarrow> tls_CertFile t \<noteq> '''' \<and> tls_KeyFile t \<noteq> '''')"

definition users_ok :: "LocalUser list \<Rightarrow> bool" where
  "users_ok us \<longleftrightarrow> list_all (\<lambda>u. TrimSpace (lu_Username u) \<noteq> '''' \<and> lu_Password u \<noteq> '''') us
     \<and> distinct (map (TrimSpace \<circ> lu_Username) us)"

definition hardened :: "(string \<Rightarrow> string option) \<Rightarrow> (string \<Rightarrow> string option) \<Rightarrow> Config \<Rightarrow> bool" where
  "hardened LookupEnv ReadFile c \<longleftrightarrow>
     tls_Enabled (ls_TLS (c_HTTP c)) \<and> tls_Enabled (ls_TLS (c_MySQL c))
     \<and> \<not> up_TLSSkipVerify (c_Upstream c) \<and> up_Password (c_Upstream c) = ''''
     \<and> (\<exists>password. UpstreamPassword LookupEnv ReadFile c = Inr password \<and> password \<noteq> '''')"

definition acceptable :: "(string \<Rightarrow> string option) \<Rightarrow> (string \<Rightarrow> string option) \<Rightarrow> Config \<Rightarrow> bool" where
  "acceptable LookupEnv ReadFile c \<longleftrightarrow>
     (c_Environment c = EnvironmentDevelopment \<or>
      c_Environment c = EnvironmentProduction \<and> hardened LookupEnv ReadFile c)
     \<and> tls_complete (ls_TLS (c_HTTP c)) \<and> tls_complete (ls_TLS (c_MySQL c))
     \<and> 96 \<le> otp_UsernameEntropyBits (c_OTP c) \<and> 192 \<le> otp_PasswordEntropyBits (c_OTP c)
     \<and> users_ok (c_LocalUsers c)"

lemma environments [simp]: "EnvironmentProduction \<noteq> EnvironmentDevelopment" "EnvironmentDevelopment \<noteq> EnvironmentProduction"
  by (simp_all add: EnvironmentProduction_def EnvironmentDevelopment_def)

lemma default_if_nonpos_simps [simp]:
  "0 < d \<Longrightarrow> 0 < default_if_nonpos v d" "default_if_nonpos (default_if_nonpos v d) d = default_if_nonpos v d"
  "0 < v \<Longrightarrow> default_if_nonpos v d = v"
  by (simp_all add: default_if_nonpos_def)

lemma or_default_simps [simp]:
  "d \<noteq> '''' \<Longrightarrow> or_default s d \<noteq> ''''" "or_default (or_default s d) d = or_default s d"
  by (simp_all add: or_default_def)

lemma distinct_mapD: "distinct (map f xs) \<Longrightarrow> distinct xs"
  by (simp add: distinct_map)

lemma check_users_iff:
  "check_users i seen us = None \<longleftrightarrow>
     users_ok us \<and> (\<forall>u \<in> set us. TrimSpace (lu_Username u) \<notin> seen)"
  by (induction i seen us rule: check_users.induct) (force simp: users_ok_def Let_def image_iff)+

lemma secret_resolved:
  assumes "se_UpstreamPasswordEnv (c_Secrets c) \<noteq> '''' \<or> se_UpstreamPasswordFile (c_Secrets c) \<noteq> ''''"
    and "UpstreamPassword le rf c = Inr pw"
  shows "pw \<noteq> ''''"
  using assms by (auto simp: UpstreamPassword_def Let_def split: if_splits option.splits)

lemma no_secret:
  assumes "se_UpstreamPasswordEnv (c_Secrets c) = ''''" "se_UpstreamPasswordFile (c_Secrets c) = ''''"
  shows "UpstreamPassword le rf c = Inr (up_Password (c_Upstream c))"
  using assms by (simp add: UpstreamPassword_def)

lemma check_upstream_iff:
  "check_upstream le rf c = None \<longleftrightarrow> (c_Environment c = EnvironmentProduction \<longrightarrow>
     \<not> up_TLSSkipVerify (c_Upstream c) \<and> up_Password (c_Upstream c) = ''''
     \<and> (\<exists>password. UpstreamPassword le rf c = Inr password \<and> password \<noteq> ''''))"
proof (cases "c_Environment c = EnvironmentProduction")
  case True
  show ?thesis
  proof (cases "se_UpstreamPasswordEnv (c_Secrets c) = '''' \<and> se_UpstreamPasswordFile (c_Secrets c) = ''''")
    case blank: True
    then show ?thesis using True no_secret[of c le rf] by (simp add: check_upstream_def)
  next
    case False
    then have "(\<exists>pw. UpstreamPassword le rf c = Inr pw \<and> pw \<noteq> '''') \<longleftrightarrow> (\<exists>pw. UpstreamPassword le rf c = Inr pw)"
      using secret_resolved[of c le rf] by blast
    then show ?thesis
      using True False by (cases "UpstreamPassword le rf c") (auto simp add: check_upstream_def)
  qed
qed (simp add: check_upstream_def)

lemma check_listeners_iff:
  "check_listeners c = None \<longleftrightarrow>
     (c_Environment c = EnvironmentDevelopment \<or> c_Environment c = EnvironmentProduction
        \<and> tls_Enabled (ls_TLS (c_HTTP c)) \<and> tls_Enabled (ls_TLS (c_MySQL c)))
     \<and> ls_ListenAddr (c_HTTP c) \<noteq> '''' \<and> ls_ListenAddr (c_MySQL c) \<noteq> ''''
     \<and> tls_complete (ls_TLS (c_HTTP c)) \<and> tls_complete (ls_TLS (c_MySQL c))"
  by (auto simp: check_listeners_def Let_def tls_complete_def)

lemma defaults_filled:
  "ls_ListenAddr (c_HTTP (applyDefaults Default c)) \<noteq> ''''" "ls_ListenAddr (c_MySQL (applyDefaults Default c)) \<noteq> ''''"
  "check_limits (applyDefaults Default c) = None"
  by (simp_all add: applyDefaults_def Default_def check_limits_def defaultRateLimits_def Let_def not_le)

lemma applyDefaults_idem: "applyDefaults Default (applyDefaults Default c) = applyDefaults Default c"
  by (simp add: applyDefaults_def defaultOTP_def defaultSessions_def defaultRateLimits_def)

lemma Validate_iff:
  "Validate LookupEnv ReadFile c = Inr c' \<longleftrightarrow>
     c' = applyDefaults Default c \<and> acceptable LookupEnv ReadFile c'"
proof -
  define d where "d = applyDefaults Default c"
  have filled: "ls_ListenAddr (c_HTTP d) \<noteq> ''''" "ls_ListenAddr (c_MySQL d) \<noteq> ''''" "check_limits d = None"
    unfolding d_def by (rule defaults_filled)+
  have "Validate LookupEnv ReadFile c = Inr c' \<longleftrightarrow>
      check_listeners d = None \<and> check_upstream LookupEnv ReadFile d = None
      \<and> 96 \<le> otp_UsernameEntropyBits (c_OTP d) \<and> 192 \<le> otp_PasswordEntropyBits (c_OTP d)
      \<and> check_users 0 {} (c_LocalUsers d) = None \<and> c' = d"
    using filled(3) by (auto simp: Validate_def Let_def d_def[symmetric] split: option.splits)
  also have "\<dots> \<longleftrightarrow> c' = d \<and> acceptable LookupEnv ReadFile c'"
    using filled(1,2)
    by (auto simp: check_listeners_iff check_upstream_iff check_users_iff acceptable_def hardened_def)
  finally show ?thesis by (simp add: d_def)
qed

text \<open>
  C28.  A configuration is accepted exactly when, with the missing settings filled in,
  it is acceptable; the result is that configuration.  Acceptable in production
  means TLS on both listeners, verified upstream certificates, and an upstream password that
  comes from a secret reference and is not empty.
\<close>

theorem Validate_accepts_exactly:
  "Validate LookupEnv ReadFile c = Inr c' \<longleftrightarrow>
     c' = applyDefaults Default c \<and> acceptable LookupEnv ReadFile c'"
  by (rule Validate_iff)

text \<open>
  Validation is a projection: an accepted configuration is accepted again, unchanged.
\<close>

lemma Validate_idempotent:
  assumes "Validate LookupEnv ReadFile c = Inr c'"
  shows "Validate LookupEnv ReadFile c' = Inr c'"
  using assms unfolding Validate_iff by (auto simp: applyDefaults_idem)

definition production_config :: Config where
  "production_config = Default\<lparr>c_Environment := EnvironmentProduction,
     c_HTTP := \<lparr>ls_ListenAddr = '''', ls_TLS = \<lparr>tls_Enabled = True, tls_CertFile = ''c'', tls_KeyFile = ''k''\<rparr>\<rparr>,
     c_MySQL := \<lparr>ls_ListenAddr = '''', ls_TLS = \<lparr>tls_Enabled = True, tls_CertFile = ''c'', tls_KeyFile = ''k''\<rparr>\<rparr>,
     c_Secrets := \<lparr>se_UpstreamPasswordEnv = '''', se_UpstreamPasswordFile = ''pw''\<rparr>,
     c_LocalUsers := [\<lparr>lu_Username = ''alice'', lu_Password = ''s3'', lu_DisplayName = ''''\<rparr>]\<rparr>"

definition secret_file :: "string \<Rightarrow> string option" where
  "secret_file f = (if f = ''pw'' then Some (''hunter2'' @ [CHR 0x0A]) else None)"

lemma production_config_valid:
  "Validate (\<lambda>_. None) secret_file production_config = Inr (applyDefaults Default production_config)"
proof -
  have "UpstreamPassword (\<lambda>_. None) secret_file (applyDefaults Default production_config) = Inr ''hunter2''"
    by (simp add: UpstreamPassword_def applyDefaults_def production_config_def Default_def secret_file_def
        TrimRight_def Let_def)
  moreover have "users_ok (c_LocalUsers production_config)" by code_simp
  ultimately show ?thesis
    unfolding Validate_iff
    by (simp add: acceptable_def hardened_def tls_complete_def applyDefaults_def production_config_def
        Default_def defaultOTP_def default_if_nonpos_def or_default_def EnvironmentProduction_def)
qed

lemma Validate_idempotent_witness:
  "Validate (\<lambda>_. None) secret_file (applyDefaults Default production_config) = Inr (applyDefaults Default production_config)"
  by (rule Validate_idempotent[OF production_config_valid])

subsection \<open>What the services inherit\<close>

lemma entropyBytes_exact:
  assumes "0 < bits" "bits \<le> 2 ^ 63 - 8"
  shows "bits \<le> 8 * entropyBytes bits \<and> 8 * entropyBytes bits < bits + 8"
proof -
  have "wrap64 (bits + 7) = bits + 7" using assms by (simp add: wrap64_def)
  then have "entropyBytes bits = (bits + 7) div 8" using assms by (simp add: entropyBytes_def quot_def sgn_if)
  then show ?thesis by linarith
qed

lemma entropyBytes_wraps:
  assumes "2 ^ 63 - 8 < bits" "bits \<le> 2 ^ 63 - 1"
  shows "entropyBytes bits \<le> 0"
proof -
  have "((bits + 7 + 2 ^ 63) - 2 ^ 64) mod 2 ^ 64 = (bits + 7 + 2 ^ 63) - 2 ^ 64"
    using assms by (intro mod_pos_pos_trivial) simp_all
  then have "(bits + 7 + 2 ^ 63) mod 2 ^ 64 = (bits + 7 + 2 ^ 63) - 2 ^ 64"
    by (simp only: minus_mod_self2)
  then have w: "wrap64 (bits + 7) = bits + 7 - 2 ^ 64" by (simp add: wrap64_def)
  then have "wrap64 (bits + 7) < 0" using assms by simp
  then show ?thesis by (simp add: entropyBytes_def quot_def sgn_if)
qed

lemma configured_bytes:
  assumes "Validate LookupEnv ReadFile c = Inr c'"
    and "otp_UsernameEntropyBits (c_OTP c') \<le> 2 ^ 63 - 1" "otp_PasswordEntropyBits (c_OTP c') \<le> 2 ^ 63 - 1"
  shows "96 \<le> 8 * oc_CredentialUsernameBytes (st_config (NewStore (OTPStoreConfig c') rd))
     \<and> 192 \<le> 8 * oc_CredentialPasswordBytes (st_config (NewStore (OTPStoreConfig c') rd))
     \<and> (otp_UsernameEntropyBits (c_OTP c') \<le> 2 ^ 63 - 8 \<longrightarrow>
          otp_UsernameEntropyBits (c_OTP c') \<le> 8 * oc_CredentialUsernameBytes (st_config (NewStore (OTPStoreConfig c') rd)))
     \<and> (otp_PasswordEntropyBits (c_OTP c') \<le> 2 ^ 63 - 8 \<longrightarrow>
          otp_PasswordEntropyBits (c_OTP c') \<le> 8 * oc_CredentialPasswordBytes (st_config (NewStore (OTPStoreConfig c') rd)))"
proof -
  have bits: "96 \<le> otp_UsernameEntropyBits (c_OTP c')" "192 \<le> otp_PasswordEntropyBits (c_OTP c')"
    using assms(1) unfolding Validate_iff acceptable_def by auto
  have "n \<le> 8 * default_if_nonpos (entropyBytes b) (n div 8) \<and> (b \<le> 2 ^ 63 - 8 \<longrightarrow> b \<le> 8 * default_if_nonpos (entropyBytes b) (n div 8))"
    if "n \<le> b" "b \<le> 2 ^ 63 - 1" "0 < n" "8 dvd n" for n b :: int
  proof (cases "b \<le> 2 ^ 63 - 8")
    case True
    then show ?thesis using entropyBytes_exact[of b] that by (simp add: default_if_nonpos_def)
  next
    case False
    then show ?thesis using entropyBytes_wraps[of b] that by (simp add: default_if_nonpos_def)
  qed
  from this[of 96, OF bits(1) assms(2)] this[of 192, OF bits(2) assms(3)] show ?thesis
    by (simp add: NewStore_def normalize_config_def OTPStoreConfig_def)
qed

text \<open>
  C29.  Entropy of issued credentials: under an accepted configuration, whenever
  \<open>Issue\<close> hands out a credential, after any operations of the store, its user name and its
  password are the encodings of bytes drawn one after the other from the random source
  and used for nothing else, at least 96 bits for the name and at least 192 for the
  password.  That holds whatever the configured numbers of bits, even those near the top
  of the 64-bit range, where the conversion to bytes wraps and the store falls back to
  its own defaults; below that range there are at least as many bits as configured.
\<close>

theorem credential_entropy:
  fixes cr :: Credential
  assumes "Validate LookupEnv ReadFile c = Inr c'"
    and "otp_UsernameEntropyBits (c_OTP c') \<le> 2 ^ 63 - 1" "otp_PasswordEntropyBits (c_OTP c') \<le> 2 ^ 63 - 1"
    and "trace (NewStore (OTPStoreConfig c') rd) log s" "Issue user sid now s = (Inr cr, s')"
  shows "\<exists>name_bytes password_bytes.
     st_random s = name_bytes @ password_bytes @ st_random s'
     \<and> cred_Username cr = EncodeToString name_bytes \<and> cred_Password cr = EncodeToString password_bytes
     \<and> 96 \<le> 8 * length name_bytes \<and> 192 \<le> 8 * length password_bytes
     \<and> (otp_UsernameEntropyBits (c_OTP c') \<le> 2 ^ 63 - 8 \<longrightarrow>
          otp_UsernameEntropyBits (c_OTP c') \<le> 8 * int (length name_bytes))
     \<and> (otp_PasswordEntropyBits (c_OTP c') \<le> 2 ^ 63 - 8 \<longrightarrow>
          otp_PasswordEntropyBits (c_OTP c') \<le> 8 * int (length password_bytes))"
proof -
  have cfg: "st_config s = st_config (NewStore (OTPStoreConfig c') rd)" by (rule trace_config[OF assms(4)])
  note bytes = configured_bytes[OF assms(1,2,3), where rd = rd, folded cfg]
  obtain mid where tok:
    "randomToken (st_random s) (nat (oc_CredentialUsernameBytes (st_config s))) = (Inr (cred_Username cr), mid)"
    "randomToken mid (nat (oc_CredentialPasswordBytes (st_config s))) = (Inr (cred_Password cr), st_random s')"
    using Issue_tokens[OF assms(5)] by blast
  define nb where "nb = take (nat (oc_CredentialUsernameBytes (st_config s))) (st_random s)"
  define pb where "pb = take (nat (oc_CredentialPasswordBytes (st_config s))) mid"
  have "st_random s = nb @ mid" "mid = pb @ st_random s'"
    "cred_Username cr = EncodeToString nb" "cred_Password cr = EncodeToString pb"
    "length nb = nat (oc_CredentialUsernameBytes (st_config s))"
    "length pb = nat (oc_CredentialPasswordBytes (st_config s))"
    using tok by (auto simp: randomToken_Inr nb_def pb_def simp del: drop_drop)
  with bytes show ?thesis by (intro exI[of _ nb] exI[of _ pb]) auto
qed

definition long_random :: reader where
  "long_random = replicate 40 CHR ''r''"

theorem credential_entropy_witness:
  "\<exists>c' cr s' name_bytes password_bytes.
     Validate (\<lambda>_. None) secret_file production_config = Inr c'
     \<and> Issue \<lparr>user_ID = ''alice'', user_DisplayName = ''''\<rparr> ''sid'' 0 (NewStore (OTPStoreConfig c') long_random) = (Inr cr, s')
     \<and> long_random = name_bytes @ password_bytes @ st_random s'
     \<and> cred_Password cr = EncodeToString password_bytes \<and> 192 \<le> 8 * length password_bytes"
proof -
  let ?c = "applyDefaults Default production_config"
  let ?u = "\<lparr>user_ID = ''alice'', user_DisplayName = ''''\<rparr> :: User"
  let ?s = "NewStore (OTPStoreConfig ?c) long_random"
  have bits: "otp_UsernameEntropyBits (c_OTP ?c) \<le> 2 ^ 63 - 1" "otp_PasswordEntropyBits (c_OTP ?c) \<le> 2 ^ 63 - 1"
    by (simp_all add: applyDefaults_def production_config_def Default_def defaultOTP_def default_if_nonpos_def)
  have "case Issue ?u ''sid'' 0 ?s of (Inr _, _) \<Rightarrow> True | _ \<Rightarrow> False" by code_simp
  then obtain cr s' where i: "Issue ?u ''sid'' 0 ?s = (Inr cr, s')"
    by (cases "Issue ?u ''sid'' 0 ?s") (auto split: sum.splits)
  have r: "st_random ?s = long_random" by (simp add: NewStore_def)
  from credential_entropy[OF production_config_valid bits trace.start i] r i production_config_valid
  show ?thesis by metis
qed

text \<open>
  Every local user of an accepted configuration can sign in with the configured
  user name and password; no one signs in with an empty user name or password, and who signs in
  is the user whose name was given.
\<close>

lemma configured_users_sign_in:
  assumes "Validate LookupEnv ReadFile c = Inr c'"
  shows "list_all (\<lambda>u. Authenticate (NewLocalProvider (c_LocalUsers c')) (lu_Username u) (lu_Password u) =
            Inr \<lparr>user_ID = lu_Username u, user_DisplayName = display_name u\<rparr>) (c_LocalUsers c')
     \<and> (Authenticate (NewLocalProvider (c_LocalUsers c')) name pw = Inr user \<longrightarrow>
          name \<noteq> '''' \<and> pw \<noteq> '''' \<and> user_ID user = name)"
proof -
  have ok: "users_ok (c_LocalUsers c')" using assms unfolding Validate_iff acceptable_def by blast
  have "distinct (map lu_Username (c_LocalUsers c'))"
    using ok unfolding users_ok_def map_map[symmetric] by (metis distinct_mapD)
  note auth = Authenticate_configured_iff[OF this]
  have ne: "TrimSpace [] = []" by (simp add: TrimSpace_def)
  show ?thesis
    using ok ne by (fastforce simp: list_all_iff users_ok_def auth)
qed

lemma configured_users_sign_in_witness:
  "Authenticate (NewLocalProvider (c_LocalUsers (applyDefaults Default production_config))) ''alice'' ''s3'' =
     Inr \<lparr>user_ID = ''alice'', user_DisplayName = ''alice''\<rparr>"
  using configured_users_sign_in[OF production_config_valid, THEN conjunct1]
  by (simp add: applyDefaults_def production_config_def display_name_def)

end
