(* ===== verification/BrowserSessions.thy ===== *)
theory BrowserSessions
  imports Tokens LocalAuth
begin

text \<open>
  \<open>internal/authhttp/session.go\<close>: the in-memory store of browser sessions.  Each operation
  runs under the mutex and is a function of the store and of the clock readings it makes;
  \<open>Create\<close> draws its tokens before it takes the lock, from the store's own random source.
  The function \<open>randomToken\<close> of package \<open>authhttp\<close> is, text for text, that of package \<open>otp\<close>.
\<close>

subsection \<open>Data\<close>

record SessionConfig =
  sn_IdleLifetime :: duration
  sn_AbsoluteLifetime :: duration
  sn_TokenBytes :: int

record Session =
  s_ID :: string
  s_User :: User
  s_CSRFToken :: string
  s_CreatedAt :: time
  s_LastSeenAt :: time
  s_ExpiresAt :: time

record SessionStore =
  ses_random :: reader
  ses_config :: SessionConfig
  ses_sessions :: "string \<rightharpoonup> Session"

definition positive_or :: "int \<Rightarrow> int \<Rightarrow> int" where
  "positive_or d v = (if v \<le> 0 then d else v)"

definition NewSessionStore :: "SessionConfig \<Rightarrow> reader \<Rightarrow> SessionStore" where
  "NewSessionStore config random = \<lparr>ses_random = random,
     ses_config = \<lparr>sn_IdleLifetime = positive_or (30 * Minute) (sn_IdleLifetime config),
                   sn_AbsoluteLifetime = positive_or (12 * Hour) (sn_AbsoluteLifetime config),
                   sn_TokenBytes = positive_or 32 (sn_TokenBytes config)\<rparr>,
     ses_sessions = Map.empty\<rparr>"

subsection \<open>Operations\<close>

definition Create :: "User \<Rightarrow> time \<Rightarrow> SessionStore \<Rightarrow> (read_error + Session) \<times> SessionStore" where
  "Create user now s =
     (let size' = nat (sn_TokenBytes (ses_config s)) in
      case randomToken (ses_random s) size' of
        (Inl err, rd) \<Rightarrow> (Inl err, s\<lparr>ses_random := rd\<rparr>)
      | (Inr id', rd) \<Rightarrow>
      (case randomToken rd size' of
        (Inl err, rd) \<Rightarrow> (Inl err, s\<lparr>ses_random := rd\<rparr>)
      | (Inr csrfToken, rd) \<Rightarrow>
          (let session = \<lparr>s_ID = id', s_User = user, s_CSRFToken = csrfToken, s_CreatedAt = now,
                 s_LastSeenAt = now, s_ExpiresAt = now + sn_AbsoluteLifetime (ses_config s)\<rparr>
           in (Inr session,
               s\<lparr>ses_random := rd, ses_sessions := (ses_sessions s)(id' \<mapsto> session)\<rparr>))))"

definition getLocked :: "string \<Rightarrow> bool \<Rightarrow> time \<Rightarrow> SessionStore \<Rightarrow> Session option \<times> SessionStore" where
  "getLocked id' refreshIdle now s = (case ses_sessions s id' of
     None \<Rightarrow> (None, s)
   | Some session \<Rightarrow>
       if now - s_LastSeenAt session \<ge> sn_IdleLifetime (ses_config s) \<or> \<not> now < s_ExpiresAt session then
         (None, s\<lparr>ses_sessions := (ses_sessions s)(id' := None)\<rparr>)
       else if \<not> refreshIdle then (Some session, s)
       else let session = session\<lparr>s_LastSeenAt := now\<rparr> in
            (Some session, s\<lparr>ses_sessions := (ses_sessions s)(id' \<mapsto> session)\<rparr>))"

definition Get :: "string \<Rightarrow> time \<Rightarrow> SessionStore \<Rightarrow> Session option \<times> SessionStore" where
  "Get id' now s = getLocked id' True now s"

definition Delete :: "string \<Rightarrow> SessionStore \<Rightarrow> SessionStore" where
  "Delete id' s = s\<lparr>ses_sessions := (ses_sessions s)(id' := None)\<rparr>"

definition ValidateCSRF :: "string \<Rightarrow> string \<Rightarrow> time \<Rightarrow> SessionStore \<Rightarrow> bool \<times> SessionStore" where
  "ValidateCSRF sessionID token now s = (case getLocked sessionID False now s of
     (None, s) \<Rightarrow> (False, s)
   | (Some session, s) \<Rightarrow> (ConstantTimeEq (s_CSRFToken session) token, s))"

subsection \<open>Effects of the operations\<close>

lemma Create_Inr:
  assumes "Create user now s = (Inr session, s')"
  shows "s_User session = user \<and> s_CreatedAt session = now \<and> s_LastSeenAt session = now
     \<and> s_ExpiresAt session = now + sn_AbsoluteLifetime (ses_config s)
     \<and> ses_sessions s' = (ses_sessions s)(s_ID session \<mapsto> session) \<and> ses_config s' = ses_config s"
  using assms by (auto simp: Create_def Let_def split: prod.splits sum.splits)

lemma Create_Inl:
  "Create user now s = (Inl err, s') \<Longrightarrow> ses_sessions s' = ses_sessions s \<and> ses_config s' = ses_config s"
  by (auto simp: Create_def Let_def split: prod.splits sum.splits)

lemma getLocked_Some:
  assumes "getLocked i refresh now s = (Some session, s')"
  shows "\<exists>old. ses_sessions s i = Some old \<and> now - s_LastSeenAt old < sn_IdleLifetime (ses_config s)
     \<and> now < s_ExpiresAt old \<and> session = (if refresh then old\<lparr>s_LastSeenAt := now\<rparr> else old)
     \<and> ses_sessions s' = (ses_sessions s)(i \<mapsto> session) \<and> ses_config s' = ses_config s
     \<and> ses_random s' = ses_random s"
  using assms
  by (auto simp: getLocked_def Let_def fun_upd_idem split: option.splits if_splits)

lemma getLocked_None:
  assumes "getLocked i refresh now s = (None, s')"
  shows "ses_sessions s' = (ses_sessions s)(i := None) \<and> ses_config s' = ses_config s
     \<and> ses_random s' = ses_random s"
  using assms by (auto simp: getLocked_def Let_def fun_upd_idem split: option.splits if_splits)

lemma ValidateCSRF_True:
  assumes "ValidateCSRF i token now s = (True, s')"
  shows "\<exists>session. getLocked i False now s = (Some session, s') \<and> s_CSRFToken session = token"
  using assms by (auto simp: ValidateCSRF_def ConstantTimeEq_def split: prod.splits option.splits)

lemma ValidateCSRF_same:
  assumes "ValidateCSRF i token now s = (True, s')"
  shows "s' = s"
  using ValidateCSRF_True[OF assms] by (auto simp: getLocked_def Let_def split: option.splits if_splits)

subsection \<open>Runs\<close>

datatype session_op = OpCreate User | OpGet string | OpDelete string | OpCSRF string string

datatype session_event = Created Session | Seen string | Deleted string

fun session_step :: "time \<Rightarrow> session_op \<Rightarrow> SessionStore \<Rightarrow> session_event list \<times> SessionStore" where
  "session_step now (OpCreate user) s = (case Create user now s of
     (Inl _, s) \<Rightarrow> ([], s) | (Inr session, s) \<Rightarrow> ([Created session], s))"
| "session_step now (OpGet i) s = (case Get i now s of
     (None, s) \<Rightarrow> ([], s) | (Some _, s) \<Rightarrow> ([Seen i], s))"
| "session_step now (OpDelete i) s = ([Deleted i], Delete i s)"
| "session_step now (OpCSRF i token) s = ([], snd (ValidateCSRF i token now s))"

text \<open>The log of a run, newest event first, each event with its time.\<close>

fun session_run :: "(time \<times> session_op) list \<Rightarrow> SessionStore \<Rightarrow> (time \<times> session_event) list \<times> SessionStore" where
  "session_run [] s = ([], s)"
| "session_run ((now, op) # ops) s = (case session_run ops s of (log, s) \<Rightarrow>
     (case session_step now op s of (evs, s) \<Rightarrow> (map (Pair now) evs @ log, s)))"

end
