(* ===== verification/SessionProperties.thy ===== *)
theory SessionProperties
  imports BrowserSessions
begin

text \<open>
  The lifetime of browser sessions (\<open>internal/authhttp/session.go\<close>), read off the log of a run: a session is
  the last one created under its token and not deleted since, and it is live while it
  is younger than the absolute limit and was seen within the idle limit.
\<close>

subsection \<open>The log\<close>

type_synonym session_log = "(time \<times> session_event) list"

fun born :: "session_log \<Rightarrow> string \<Rightarrow> Session option" where
  "born [] i = None"
| "born ((t, Created x) # log) i = (if s_ID x = i then Some x else born log i)"
| "born ((t, Deleted j) # log) i = (if j = i then None else born log i)"
| "born ((t, Seen j) # log) i = born log i"

fun seen :: "session_log \<Rightarrow> string \<Rightarrow> time" where
  "seen [] i = 0"
| "seen ((t, Created x) # log) i = (if s_ID x = i then t else seen log i)"
| "seen ((t, Deleted j) # log) i = seen log i"
| "seen ((t, Seen j) # log) i = (if j = i then t else seen log i)"

definition live :: "SessionConfig \<Rightarrow> session_log \<Rightarrow> string \<Rightarrow> time \<Rightarrow> bool" where
  "live cfg log i now \<longleftrightarrow> (case born log i of None \<Rightarrow> False
     | Some x \<Rightarrow> now < s_CreatedAt x + sn_AbsoluteLifetime cfg \<and> now - seen log i < sn_IdleLifetime cfg)"

definition newest_first :: "time \<Rightarrow> (time \<times> session_op) list \<Rightarrow> bool" where
  "newest_first now ops \<longleftrightarrow> sorted_wrt (\<ge>) (now # map fst ops)"

text \<open>How the store stands to the log at time \<open>T\<close>.\<close>

definition tracks :: "SessionConfig \<Rightarrow> time \<Rightarrow> session_log \<Rightarrow> SessionStore \<Rightarrow> bool" where
  "tracks cfg T log s \<longleftrightarrow> ses_config s = cfg \<and>
     (\<forall>i. case born log i of
        None \<Rightarrow> ses_sessions s i = None
      | Some x \<Rightarrow> s_ExpiresAt x = s_CreatedAt x + sn_AbsoluteLifetime cfg \<and>
          (ses_sessions s i = Some (x\<lparr>s_LastSeenAt := seen log i\<rparr>) \<or>
           ses_sessions s i = None \<and> \<not> live cfg log i T))"

lemma tracks_at:
  assumes "tracks cfg T log s"
  shows "ses_config s = cfg"
    "born log i = None \<Longrightarrow> ses_sessions s i = None"
    "born log i = Some x \<Longrightarrow> s_ExpiresAt x = s_CreatedAt x + sn_AbsoluteLifetime cfg"
    "born log i = Some x \<Longrightarrow> ses_sessions s i = Some (x\<lparr>s_LastSeenAt := seen log i\<rparr>) \<or>
       ses_sessions s i = None \<and> \<not> live cfg log i T"
proof -
  have "case born log i of
        None \<Rightarrow> ses_sessions s i = None
      | Some x \<Rightarrow> s_ExpiresAt x = s_CreatedAt x + sn_AbsoluteLifetime cfg \<and>
          (ses_sessions s i = Some (x\<lparr>s_LastSeenAt := seen log i\<rparr>) \<or>
           ses_sessions s i = None \<and> \<not> live cfg log i T)"
    using assms unfolding tracks_def by blast
  then show "ses_config s = cfg"
    "born log i = None \<Longrightarrow> ses_sessions s i = None"
    "born log i = Some x \<Longrightarrow> s_ExpiresAt x = s_CreatedAt x + sn_AbsoluteLifetime cfg"
    "born log i = Some x \<Longrightarrow> ses_sessions s i = Some (x\<lparr>s_LastSeenAt := seen log i\<rparr>) \<or>
       ses_sessions s i = None \<and> \<not> live cfg log i T"
    using assms by (auto simp: tracks_def)
qed

lemma tracksI:
  assumes "ses_config s = cfg" "\<And>i. born log i = None \<Longrightarrow> ses_sessions s i = None"
    "\<And>i x. born log i = Some x \<Longrightarrow> s_ExpiresAt x = s_CreatedAt x + sn_AbsoluteLifetime cfg \<and>
       (ses_sessions s i = Some (x\<lparr>s_LastSeenAt := seen log i\<rparr>) \<or> ses_sessions s i = None \<and> \<not> live cfg log i T)"
  shows "tracks cfg T log s"
  using assms unfolding tracks_def by (auto split: option.splits)

lemma live_later: "\<not> live cfg log i T \<Longrightarrow> T \<le> T' \<Longrightarrow> \<not> live cfg log i T'"
  by (auto simp: live_def split: option.splits)

lemma tracks_later: "tracks cfg T log s \<Longrightarrow> T \<le> T' \<Longrightarrow> tracks cfg T' log s"
  by (rule tracksI) (auto dest: tracks_at live_later)

lemma tracks_cong:
  "ses_sessions s' = ses_sessions s \<Longrightarrow> ses_config s' = ses_config s \<Longrightarrow> tracks cfg T log s' = tracks cfg T log s"
  unfolding tracks_def by (simp only:)

text \<open>What a lookup finds in a store that tracks its log.\<close>

lemma tracks_lookup:
  assumes "tracks cfg now log s"
  shows "(\<exists>x s'. getLocked i refresh now s = (Some x, s')) \<longleftrightarrow> live cfg log i now"
proof (cases "born log i")
  case None
  then show ?thesis using tracks_at(2)[OF assms None] by (simp add: getLocked_def live_def)
next
  case (Some x)
  note f = tracks_at(1)[OF assms] tracks_at(3,4)[OF assms Some]
  show ?thesis
  proof (cases "ses_sessions s i = None")
    case True
    then show ?thesis using f(3) by (simp add: getLocked_def)
  next
    case False
    then have "ses_sessions s i = Some (x\<lparr>s_LastSeenAt := seen log i\<rparr>)" using f(3)
      by (elim disjE conjE) simp_all
    then show ?thesis using f(1,2) Some by (auto simp: getLocked_def live_def Let_def)
  qed
qed

lemma tracks_drop:
  assumes "tracks cfg now log s" "getLocked i refresh now s = (None, s')"
  shows "tracks cfg now log s'"
proof (rule tracksI)
  note n = getLocked_None[OF assms(2)]
  have d: "\<not> live cfg log i now" using tracks_lookup[OF assms(1), of i refresh] assms(2) by simp
  show "ses_config s' = cfg" using n tracks_at(1)[OF assms(1)] by simp
  show "born log j = None \<Longrightarrow> ses_sessions s' j = None" for j
    using n tracks_at(2)[OF assms(1)] by simp
  show "born log j = Some x \<Longrightarrow> s_ExpiresAt x = s_CreatedAt x + sn_AbsoluteLifetime cfg \<and>
       (ses_sessions s' j = Some (x\<lparr>s_LastSeenAt := seen log j\<rparr>) \<or> ses_sessions s' j = None \<and> \<not> live cfg log j now)" for j x
    using n d tracks_at(3,4)[OF assms(1), of j x] by (cases "j = i") simp_all
qed

lemma tracks_step:
  assumes "tracks cfg now log s" "session_step now op s = (evs, s')"
  shows "tracks cfg now (map (Pair now) evs @ log) s'"
proof (cases op)
  case (OpCreate user)
  show ?thesis
  proof (cases "Create user now s")
    case (Pair r s1)
    note t = tracks_at[OF assms(1)]
    show ?thesis
    proof (cases r)
      case (Inl e)
      then have e: "evs = []" "s' = s1" using assms(2) OpCreate Pair by simp_all
      show ?thesis
        using Create_Inl[OF Pair[unfolded Inl]] assms(1) tracks_cong[of s1 s cfg now log]
        by (simp add: e)
    next
      case (Inr x)
      then have e: "evs = [Created x]" "s' = s1" using assms(2) OpCreate Pair by simp_all
      note c = Create_Inr[OF Pair[unfolded Inr]]
      show ?thesis
        unfolding e using c t by (intro tracksI) (auto simp: live_def split: if_splits)
    qed
  qed
next
  case (OpGet i)
  show ?thesis
  proof (cases "getLocked i True now s")
    case (Pair r s1)
    show ?thesis
    proof (cases r)
      case None
      then show ?thesis using assms OpGet Pair tracks_drop by (auto simp: Get_def)
    next
      case (Some x)
      then have e: "evs = [Seen i]" "s' = s1" using assms(2) OpGet Pair by (simp_all add: Get_def)
      note t = tracks_at[OF assms(1)]
      obtain old where g: "ses_sessions s i = Some old" "x = old\<lparr>s_LastSeenAt := now\<rparr>"
        "ses_sessions s1 = (ses_sessions s)(i \<mapsto> x)" "ses_config s1 = ses_config s"
        using getLocked_Some[OF Pair[unfolded Some]] by auto
      then obtain x0 where b: "born log i = Some x0" using t(2) by (cases "born log i") auto
      then have x: "x = x0\<lparr>s_LastSeenAt := now\<rparr>" using t(4)[OF b] g by auto
      have lv: "live cfg ((now, Seen i) # log) j now = live cfg log j now" if "j \<noteq> i" for j
        using that by (simp add: live_def split: option.split)
      have "tracks cfg now ((now, Seen i) # log) s1"
      proof (rule tracksI)
        show "ses_config s1 = cfg" using g t(1) by simp
        show "born ((now, Seen i) # log) j = None \<Longrightarrow> ses_sessions s1 j = None" for j
          using g b t(2) by auto
        show "born ((now, Seen i) # log) j = Some y \<Longrightarrow> s_ExpiresAt y = s_CreatedAt y + sn_AbsoluteLifetime cfg \<and>
            (ses_sessions s1 j = Some (y\<lparr>s_LastSeenAt := seen ((now, Seen i) # log) j\<rparr>) \<or>
             ses_sessions s1 j = None \<and> \<not> live cfg ((now, Seen i) # log) j now)" for j y
          using g b x t(3,4)[of j y] lv by (cases "j = i") simp_all
      qed
      then show ?thesis unfolding e by simp
    qed
  qed
next
  case (OpDelete i)
  then have e: "evs = [Deleted i]" "s' = Delete i s" using assms(2) by simp_all
  note t = tracks_at[OF assms(1)]
  have lv: "live cfg ((now, Deleted i) # log) j now = live cfg log j now" if "j \<noteq> i" for j
    using that by (simp add: live_def split: option.split)
  have "tracks cfg now ((now, Deleted i) # log) (Delete i s)"
  proof (rule tracksI)
    show "ses_config (Delete i s) = cfg" using t(1) by (simp add: Delete_def)
    show "born ((now, Deleted i) # log) j = None \<Longrightarrow> ses_sessions (Delete i s) j = None" for j
      using t(2)[of j] by (cases "j = i") (simp_all add: Delete_def)
    show "born ((now, Deleted i) # log) j = Some y \<Longrightarrow> s_ExpiresAt y = s_CreatedAt y + sn_AbsoluteLifetime cfg \<and>
        (ses_sessions (Delete i s) j = Some (y\<lparr>s_LastSeenAt := seen ((now, Deleted i) # log) j\<rparr>) \<or>
         ses_sessions (Delete i s) j = None \<and> \<not> live cfg ((now, Deleted i) # log) j now)" for j y
      using t(3,4)[of j y] lv by (cases "j = i") (simp_all add: Delete_def)
  qed
  then show ?thesis unfolding e by simp
next
  case (OpCSRF i token)
  show ?thesis
  proof (cases "getLocked i False now s")
    case (Pair r s1)
    then have e: "evs = []" "s' = s1"
      using assms(2) OpCSRF by (auto simp: ValidateCSRF_def split: option.splits)
    show ?thesis
    proof (cases r)
      case None then show ?thesis using Pair e tracks_drop[OF assms(1)] by simp
    next
      case (Some x)
      then have "s1 = s" using Pair by (auto simp: getLocked_def split: option.splits if_splits)
      then show ?thesis using e assms(1) by simp
    qed
  qed
qed

lemma tracks_run:
  assumes "session_run ops (NewSessionStore config rd) = (log, s)" "newest_first now ops"
  shows "tracks (ses_config (NewSessionStore config rd)) now log s"
  using assms
proof (induction ops arbitrary: log s now)
  case Nil
  then show ?case by (auto simp: tracks_def NewSessionStore_def)
next
  case (Cons op ops)
  obtain t o' where op: "op = (t, o')" by fastforce
  obtain l1 s1 where r: "session_run ops (NewSessionStore config rd) = (l1, s1)" by fastforce
  obtain evs where st: "session_step t o' s1 = (evs, s)" and l: "log = map (Pair t) evs @ l1"
    using Cons.prems(1) r by (auto simp: op split: prod.splits)
  have "newest_first t ops" "t \<le> now" using Cons.prems(2) by (auto simp: newest_first_def op)
  from Cons.IH[OF r this(1)] tracks_step[OF _ st] tracks_later[OF _ \<open>t \<le> now\<close>] show ?case unfolding l by blast
qed

text \<open>
  C26.  A browser session is accepted exactly while it is live: whatever operations the
  store has served, a token opens a session at a time if and only if the last session
  created under it was not deleted since, is younger than the absolute limit and was
  last seen within the idle limit.
\<close>

theorem session_accepted_iff_live:
  assumes "session_run ops (NewSessionStore config rd) = (log, s)" and "newest_first now ops"
  shows "(fst (Get i now s) \<noteq> None \<longleftrightarrow> live (ses_config (NewSessionStore config rd)) log i now)
     \<and> (fst (ValidateCSRF i token now s) \<longleftrightarrow> live (ses_config (NewSessionStore config rd)) log i now
          \<and> map_option s_CSRFToken (born log i) = Some token)"
proof -
  note t = tracks_run[OF assms]
  have g: "(\<exists>x s'. getLocked i r now s = (Some x, s')) \<longleftrightarrow> fst (getLocked i r now s) \<noteq> None" for r
    by (cases "getLocked i r now s") auto
  have v: "fst (ValidateCSRF i token now s) \<longleftrightarrow> (case fst (getLocked i False now s) of None \<Rightarrow> False | Some x \<Rightarrow> s_CSRFToken x = token)"
    by (auto simp: ValidateCSRF_def ConstantTimeEq_def split: prod.splits option.splits)
  have c: "map_option s_CSRFToken (born log i) = Some (s_CSRFToken x)" if "fst (getLocked i False now s) = Some x" for x
  proof -
    have "ses_sessions s i = Some x"
      using that getLocked_Some[of i False now s x "snd (getLocked i False now s)"]
      by (metis prod.collapse)
    then show ?thesis using tracks_at(2,4)[OF t, of i] by (cases "born log i") auto
  qed
  show ?thesis
    using tracks_lookup[OF t, of i True] tracks_lookup[OF t, of i False] c
    unfolding g v Get_def by (auto split: option.splits)
qed

definition tiny_sessions :: SessionConfig where
  "tiny_sessions = \<lparr>sn_IdleLifetime = 10, sn_AbsoluteLifetime = 25, sn_TokenBytes = 3\<rparr>"

definition bob :: User where
  "bob = \<lparr>user_ID = ''bob'', user_DisplayName = ''Bob''\<rparr>"

definition session_ops :: "(time \<times> session_op) list" where
  "session_ops = [(12, OpGet ''YWFh''), (4, OpGet ''YWFh''), (0, OpCreate bob)]"

theorem session_accepted_iff_live_witness:
  "fst (Get ''YWFh'' 20 (snd (session_run session_ops (NewSessionStore tiny_sessions ''aaabbb'')))) \<noteq> None
   \<and> fst (Get ''YWFh'' 25 (snd (session_run session_ops (NewSessionStore tiny_sessions ''aaabbb'')))) = None"
proof -
  obtain log s where r: "session_run session_ops (NewSessionStore tiny_sessions ''aaabbb'') = (log, s)" by fastforce
  have o1: "newest_first 20 session_ops" "newest_first 25 session_ops" by (simp_all add: newest_first_def session_ops_def)
  have "live (ses_config (NewSessionStore tiny_sessions ''aaabbb''))
      (fst (session_run session_ops (NewSessionStore tiny_sessions ''aaabbb''))) ''YWFh'' 20"
    "\<not> live (ses_config (NewSessionStore tiny_sessions ''aaabbb''))
      (fst (session_run session_ops (NewSessionStore tiny_sessions ''aaabbb''))) ''YWFh'' 25"
    by code_simp+
  then show ?thesis
    using session_accepted_iff_live[OF r o1(1), of "''YWFh''"] session_accepted_iff_live[OF r o1(2), of "''YWFh''"]
    unfolding r by simp
qed

end
