(* ===== verification/AuthHandler.thy ===== *)
theory AuthHandler
  imports BrowserSessions OtpStore
begin

text \<open>
  \<open>internal/authhttp/handler.go\<close>: the browser routes.  A request has the fields the
  handler reads; \<open>rq_PostForm\<close> is the parsed form, or \<open>None\<close> when \<open>ParseForm\<close> fails.  A
  response has the status, the redirect target, the cookies set and what the page shows:
  the data its template is given (the templates are in \<open>AuthPages\<close>).  The
  state behind the handler is the session store, the credential store and the random source of
  login tokens; \<open>clk i\<close> is the \<open>i\<close>-th clock reading made while one request is served.
\<close>

subsection \<open>Requests and responses (package net/http)\<close>

record Request =
  rq_Method :: string
  rq_Path :: string
  rq_Host :: string
  rq_Cookies :: "(string \<times> string) list"
  rq_PostForm :: "(string \<times> string) list option"

record Cookie =
  ck_Name :: string
  ck_Value :: string
  ck_Path :: string
  ck_MaxAge :: int
  ck_HttpOnly :: bool
  ck_Secure :: bool
  ck_SameSiteLax :: bool

record credentialView =
  cv_Command :: string
  cv_Password :: string
  cv_ExpiresAt :: string

datatype body = NoBody | Message string | LoginPage string | CredentialsPage string "credentialView option"

record Response =
  rs_Status :: nat
  rs_Location :: "string option"
  rs_SetCookies :: "Cookie list"
  rs_Body :: body

definition StatusOK :: nat where "StatusOK = 200"
definition StatusSeeOther :: nat where "StatusSeeOther = 303"
definition StatusBadRequest :: nat where "StatusBadRequest = 400"
definition StatusUnauthorized :: nat where "StatusUnauthorized = 401"
definition StatusForbidden :: nat where "StatusForbidden = 403"
definition StatusNotFound :: nat where "StatusNotFound = 404"
definition StatusTooManyRequests :: nat where "StatusTooManyRequests = 429"
definition StatusInternalServerError :: nat where "StatusInternalServerError = 500"

definition http_Error :: "string \<Rightarrow> nat \<Rightarrow> Response" where
  "http_Error msg status = \<lparr>rs_Status = status, rs_Location = None, rs_SetCookies = [], rs_Body = Message msg\<rparr>"

definition http_Redirect :: "string \<Rightarrow> Response" where
  "http_Redirect url = \<lparr>rs_Status = StatusSeeOther, rs_Location = Some url, rs_SetCookies = [], rs_Body = NoBody\<rparr>"

definition renderHTML :: "body \<Rightarrow> Response" where
  "renderHTML page = \<lparr>rs_Status = StatusOK, rs_Location = None, rs_SetCookies = [], rs_Body = page\<rparr>"

definition with_cookies :: "Cookie list \<Rightarrow> Response \<Rightarrow> Response" where
  "with_cookies cs resp = resp\<lparr>rs_SetCookies := cs @ rs_SetCookies resp\<rparr>"

definition PostForm_Get :: "(string \<times> string) list \<Rightarrow> string \<Rightarrow> string" where
  "PostForm_Get form key = (case map_of form key of None \<Rightarrow> '''' | Some v \<Rightarrow> v)"

subsection \<open>The handler\<close>

definition sessionCookieName :: string where "sessionCookieName = ''masqman_session''"
definition loginCSRFCookieName :: string where "loginCSRFCookieName = ''masqman_login_csrf''"
definition csrfFormField :: string where "csrfFormField = ''csrf_token''"

text \<open>A dependency that the Go code tests against nil is an option.\<close>

record HandlerConfig =
  hc_AuthProvider :: "(string \<Rightarrow> string \<Rightarrow> auth_error + User) option"
  hc_Sessions :: "SessionStore option"
  hc_Issuer :: "Store option"
  hc_CookieSecure :: bool
  hc_MySQLHost :: string
  hc_MySQLPort :: string
  hc_TokenBytes :: int
  hc_Random :: reader

record Handler =
  h_authProvider :: "string \<Rightarrow> string \<Rightarrow> auth_error + User"
  h_cookieSecure :: bool
  h_mysqlHost :: string
  h_mysqlPort :: string
  h_tokenBytes :: int

record Web =
  w_sessions :: SessionStore
  w_issuer :: Store
  w_random :: reader

datatype handler_error = ProviderRequired | SessionsRequired | IssuerRequired

definition NewHandler :: "HandlerConfig \<Rightarrow> handler_error + (Handler \<times> Web)" where
  "NewHandler config = (case hc_AuthProvider config of
     None \<Rightarrow> Inl ProviderRequired
   | Some provider \<Rightarrow> (case hc_Sessions config of
     None \<Rightarrow> Inl SessionsRequired
   | Some sessions \<Rightarrow> (case hc_Issuer config of
     None \<Rightarrow> Inl IssuerRequired
   | Some issuer \<Rightarrow>
       Inr (\<lparr>h_authProvider = provider, h_cookieSecure = hc_CookieSecure config,
             h_mysqlHost = hc_MySQLHost config, h_mysqlPort = hc_MySQLPort config,
             h_tokenBytes = (if hc_TokenBytes config \<le> 0 then 32 else hc_TokenBytes config)\<rparr>,
            \<lparr>w_sessions = sessions, w_issuer = issuer, w_random = hc_Random config\<rparr>))))"

definition setCookie :: "Handler \<Rightarrow> string \<Rightarrow> string \<Rightarrow> string \<Rightarrow> Cookie" where
  "setCookie h name value' path = \<lparr>ck_Name = name, ck_Value = value', ck_Path = path, ck_MaxAge = 0,
     ck_HttpOnly = True, ck_Secure = h_cookieSecure h, ck_SameSiteLax = True\<rparr>"

definition clearCookie :: "Handler \<Rightarrow> string \<Rightarrow> string \<Rightarrow> Cookie" where
  "clearCookie h name path = \<lparr>ck_Name = name, ck_Value = '''', ck_Path = path, ck_MaxAge = -1,
     ck_HttpOnly = True, ck_Secure = h_cookieSecure h, ck_SameSiteLax = True\<rparr>"

definition constantTimeEqual :: "string \<Rightarrow> string \<Rightarrow> bool" where
  "constantTimeEqual l r = (if l = '''' \<or> r = '''' then False else ConstantTimeEq l r)"

definition sessionID :: "Request \<Rightarrow> string option" where
  "sessionID r = map_of (rq_Cookies r) sessionCookieName"

definition validateLoginCSRF :: "Request \<Rightarrow> (string \<times> string) list \<Rightarrow> bool" where
  "validateLoginCSRF r form = (case map_of (rq_Cookies r) loginCSRFCookieName of
     None \<Rightarrow> False
   | Some cookie \<Rightarrow> constantTimeEqual cookie (PostForm_Get form csrfFormField))"

definition validateSessionCSRF :: "Request \<Rightarrow> string \<Rightarrow> time \<Rightarrow> SessionStore \<Rightarrow> bool \<times> SessionStore" where
  "validateSessionCSRF r sid now s = (case rq_PostForm r of
     None \<Rightarrow> (False, s)
   | Some form \<Rightarrow> ValidateCSRF sid (PostForm_Get form csrfFormField) now s)"

definition hostForCommand :: "Handler \<Rightarrow> Request \<Rightarrow> string" where
  "hostForCommand h r =
     (if h_mysqlHost h \<noteq> '''' then h_mysqlHost h
      else case SplitHostPort (rq_Host r) of
        Some (host, _) \<Rightarrow> if host \<noteq> '''' then host else rq_Host r
      | None \<Rightarrow> rq_Host r)"

definition commandForCredential :: "Handler \<Rightarrow> Request \<Rightarrow> string \<Rightarrow> string" where
  "commandForCredential h r username =
     (if h_mysqlPort h = '''' then ''mysql -h '' @ hostForCommand h r @ '' -u '' @ username @ '' -p''
      else ''mysql -h '' @ hostForCommand h r @ '' -P '' @ h_mysqlPort h @ '' -u '' @ username @ '' -p'')"

definition currentSession :: "Request \<Rightarrow> time \<Rightarrow> Web \<Rightarrow> Session option \<times> Web" where
  "currentSession r now w = (case sessionID r of
     None \<Rightarrow> (None, w)
   | Some sid \<Rightarrow> (case Get sid now (w_sessions w) of (session, s) \<Rightarrow> (session, w\<lparr>w_sessions := s\<rparr>)))"

subsection \<open>Routes\<close>

definition handleLoginGet :: "Handler \<Rightarrow> Web \<Rightarrow> Response \<times> Web" where
  "handleLoginGet h w = (case randomToken (w_random w) (nat (h_tokenBytes h)) of
     (Inl _, rd) \<Rightarrow> (http_Error ''login unavailable'' StatusInternalServerError, w\<lparr>w_random := rd\<rparr>)
   | (Inr csrfToken, rd) \<Rightarrow>
       (with_cookies [setCookie h loginCSRFCookieName csrfToken ''/login''] (renderHTML (LoginPage csrfToken)),
        w\<lparr>w_random := rd\<rparr>))"

definition handleLoginPost :: "Handler \<Rightarrow> (nat \<Rightarrow> time) \<Rightarrow> Request \<Rightarrow> Web \<Rightarrow> Response \<times> Web" where
  "handleLoginPost h clk r w = (case rq_PostForm r of
     None \<Rightarrow> (http_Error ''invalid form'' StatusBadRequest, w)
   | Some form \<Rightarrow>
       if \<not> validateLoginCSRF r form then (http_Error ''invalid CSRF token'' StatusForbidden, w)
       else case h_authProvider h (PostForm_Get form ''username'') (PostForm_Get form ''password'') of
         Inl _ \<Rightarrow> (http_Error ''invalid credentials'' StatusUnauthorized, w)
       | Inr user \<Rightarrow>
         (case Create user (clk 0) (w_sessions w) of
            (Inl _, s) \<Rightarrow> (http_Error ''login unavailable'' StatusInternalServerError, w\<lparr>w_sessions := s\<rparr>)
          | (Inr session, s) \<Rightarrow>
              (with_cookies [setCookie h sessionCookieName (s_ID session) ''/'',
                             clearCookie h loginCSRFCookieName ''/login'']
                 (http_Redirect ''/credentials''),
               w\<lparr>w_sessions := s\<rparr>)))"

definition handleCredentialsGet :: "(nat \<Rightarrow> time) \<Rightarrow> Request \<Rightarrow> Web \<Rightarrow> Response \<times> Web" where
  "handleCredentialsGet clk r w = (case currentSession r (clk 0) w of
     (None, w) \<Rightarrow> (http_Redirect ''/login'', w)
   | (Some session, w) \<Rightarrow> (renderHTML (CredentialsPage (s_CSRFToken session) None), w))"

text \<open>\<open>format\<close> renders a time in the layout RFC 3339.\<close>

definition handleCredentialsPost ::
  "(time \<Rightarrow> string) \<Rightarrow> Handler \<Rightarrow> (nat \<Rightarrow> time) \<Rightarrow> Request \<Rightarrow> Web \<Rightarrow> Response \<times> Web" where
  "handleCredentialsPost format h clk r w = (case sessionID r of
     None \<Rightarrow> (http_Redirect ''/login'', w)
   | Some sid \<Rightarrow>
   (case validateSessionCSRF r sid (clk 0) (w_sessions w) of
     (False, s) \<Rightarrow> (http_Error ''invalid CSRF token'' StatusForbidden, w\<lparr>w_sessions := s\<rparr>)
   | (True, s) \<Rightarrow>
   (case Get sid (clk 1) s of
     (None, s) \<Rightarrow> (http_Redirect ''/login'', w\<lparr>w_sessions := s\<rparr>)
   | (Some session, s) \<Rightarrow>
   (case Issue (s_User session) (s_ID session) (clk 2) (w_issuer w) of
     (Inl err, issuer) \<Rightarrow>
       (if err = ErrIssuanceRateLimited
        then http_Error ''credential issuance rate limited'' StatusTooManyRequests
        else http_Error ''credential issuance failed'' StatusInternalServerError,
        w\<lparr>w_sessions := s, w_issuer := issuer\<rparr>)
   | (Inr credential, issuer) \<Rightarrow>
       (renderHTML (CredentialsPage (s_CSRFToken session) (Some
          \<lparr>cv_Command = commandForCredential h r (cred_Username credential),
           cv_Password = cred_Password credential, cv_ExpiresAt = format (cred_ExpiresAt credential)\<rparr>)),
        w\<lparr>w_sessions := s, w_issuer := issuer\<rparr>)))))"

definition handleLogoutPost :: "Handler \<Rightarrow> (nat \<Rightarrow> time) \<Rightarrow> Request \<Rightarrow> Web \<Rightarrow> Response \<times> Web" where
  "handleLogoutPost h clk r w = (case sessionID r of
     None \<Rightarrow> (http_Redirect ''/login'', w)
   | Some sid \<Rightarrow>
   (case validateSessionCSRF r sid (clk 0) (w_sessions w) of
     (False, s) \<Rightarrow> (http_Error ''invalid CSRF token'' StatusForbidden, w\<lparr>w_sessions := s\<rparr>)
   | (True, s) \<Rightarrow>
   (case Get sid (clk 1) s of
     (None, s) \<Rightarrow> (http_Redirect ''/login'', w\<lparr>w_sessions := s\<rparr>)
   | (Some session, s) \<Rightarrow>
       (with_cookies [clearCookie h sessionCookieName ''/''] (http_Redirect ''/login''),
        w\<lparr>w_sessions := Delete (s_ID session) s\<rparr>))))"

definition ServeHTTP ::
  "(time \<Rightarrow> string) \<Rightarrow> Handler \<Rightarrow> (nat \<Rightarrow> time) \<Rightarrow> Request \<Rightarrow> Web \<Rightarrow> Response \<times> Web" where
  "ServeHTTP format h clk r w =
     (let path = rq_Path r; method' = rq_Method r in
      if path = ''/'' \<and> method' = ''GET'' then (http_Redirect ''/credentials'', w)
      else if path = ''/login'' \<and> method' = ''GET'' then handleLoginGet h w
      else if path = ''/login'' \<and> method' = ''POST'' then handleLoginPost h clk r w
      else if path = ''/credentials'' \<and> method' = ''GET'' then handleCredentialsGet clk r w
      else if path = ''/credentials'' \<and> method' = ''POST'' then handleCredentialsPost format h clk r w
      else if path = ''/logout'' \<and> method' = ''POST'' then handleLogoutPost h clk r w
      else (http_Error ''404 page not found'' StatusNotFound, w))"

end
