(* ===== verification/AuthHandlerProperties.thy ===== *)
theory AuthHandlerProperties
  imports AuthHandler OtpTraces
begin

text \<open>
  What a browser can reach through the routes of \<open>internal/authhttp/handler.go\<close>: which
  requests issue a credential, which create and which end a session, and what the
  cookies carry.
\<close>

subsection \<open>Requests that act with the authority of a session\<close>

definition live_at :: "SessionConfig \<Rightarrow> Session \<Rightarrow> time \<Rightarrow> bool" where
  "live_at cfg x now \<longleftrightarrow> now - s_LastSeenAt x < sn_IdleLifetime cfg \<and> now < s_ExpiresAt x"

text \<open>
  The request carries the token of a session in its cookie and the session's CSRF token
  in its form, and the session is live at both readings of the clock.
\<close>

definition authorised :: "(nat \<Rightarrow> time) \<Rightarrow> Request \<Rightarrow> SessionStore \<Rightarrow> Session \<Rightarrow> bool" where
  "authorised clk r s x \<longleftrightarrow> (case (sessionID r, rq_PostForm r) of
     (Some sid, Some form) \<Rightarrow> ses_sessions s sid = Some x \<and> PostForm_Get form csrfFormField = s_CSRFToken x
       \<and> live_at (ses_config s) x (clk 0) \<and> live_at (ses_config s) x (clk 1)
   | _ \<Rightarrow> False)"

text \<open>The two checks every state-changing route makes, as one step.\<close>

lemma csrf_then_get:
  assumes "sessionID r = Some sid" "validateSessionCSRF r sid (clk 0) s = (True, s1)"
    and "Get sid (clk 1) s1 = (Some session, s2)"
  shows "\<exists>x. authorised clk r s x \<and> s_User session = s_User x \<and> s_ID session = s_ID x
     \<and> s_CSRFToken session = s_CSRFToken x \<and> ses_sessions s sid = Some x
     \<and> ses_sessions s2 = (ses_sessions s)(sid \<mapsto> session)"
proof -
  obtain form where f: "rq_PostForm r = Some form"
    and v: "ValidateCSRF sid (PostForm_Get form csrfFormField) (clk 0) s = (True, s1)"
    using assms(2) by (auto simp: validateSessionCSRF_def split: option.splits)
  have s1: "s1 = s" by (rule ValidateCSRF_same[OF v])
  obtain x where x: "getLocked sid False (clk 0) s = (Some x, s1)" "s_CSRFToken x = PostForm_Get form csrfFormField"
    using ValidateCSRF_True[OF v] by blast
  from getLocked_Some[OF x(1)] have x': "ses_sessions s sid = Some x" "live_at (ses_config s) x (clk 0)"
    by (auto simp: live_at_def)
  from getLocked_Some[OF assms(3)[unfolded Get_def s1]] x' have
    "session = x\<lparr>s_LastSeenAt := clk 1\<rparr>" "live_at (ses_config s) x (clk 1)"
    "ses_sessions s2 = (ses_sessions s)(sid \<mapsto> session)"
    by (auto simp: live_at_def)
  then show ?thesis using x' x(2) f assms(1) by (auto simp: authorised_def)
qed

lemma csrf_then_get_ok:
  assumes "authorised clk r s x" "sessionID r = Some sid"
  shows "validateSessionCSRF r sid (clk 0) s = (True, s)"
    and "\<exists>s2. Get sid (clk 1) s = (Some (x\<lparr>s_LastSeenAt := clk 1\<rparr>), s2)
           \<and> ses_sessions s2 = (ses_sessions s)(sid \<mapsto> x\<lparr>s_LastSeenAt := clk 1\<rparr>)"
  using assms
  by (auto simp: authorised_def validateSessionCSRF_def ValidateCSRF_def getLocked_def Get_def Let_def
      ConstantTimeEq_def live_at_def split: option.splits)

lemma ServeHTTP_cases:
  assumes "ServeHTTP format h clk r w = (resp, w')"
  obtains (fixed) "w' = w" "rs_SetCookies resp = []" "rs_Body resp = NoBody \<or> (\<exists>m. rs_Body resp = Message m)"
  | (login_get) "rq_Path r = ''/login''" "rq_Method r = ''GET''" "handleLoginGet h w = (resp, w')"
  | (login_post) "rq_Path r = ''/login''" "rq_Method r = ''POST''" "handleLoginPost h clk r w = (resp, w')"
  | (page) "rq_Path r = ''/credentials''" "rq_Method r = ''GET''" "handleCredentialsGet clk r w = (resp, w')"
  | (issue) "rq_Path r = ''/credentials''" "rq_Method r = ''POST''" "handleCredentialsPost format h clk r w = (resp, w')"
  | (logout) "rq_Path r = ''/logout''" "rq_Method r = ''POST''" "handleLogoutPost h clk r w = (resp, w')"
proof -
  consider "rq_Path r = ''/login'' \<and> rq_Method r = ''GET''" | "rq_Path r = ''/login'' \<and> rq_Method r = ''POST''"
    | "rq_Path r = ''/credentials'' \<and> rq_Method r = ''GET''" | "rq_Path r = ''/credentials'' \<and> rq_Method r = ''POST''"
    | "rq_Path r = ''/logout'' \<and> rq_Method r = ''POST''"
    | "\<not> (rq_Path r = ''/login'' \<and> rq_Method r = ''GET'') \<and> \<not> (rq_Path r = ''/login'' \<and> rq_Method r = ''POST'') \<and>
       \<not> (rq_Path r = ''/credentials'' \<and> rq_Method r = ''GET'') \<and> \<not> (rq_Path r = ''/credentials'' \<and> rq_Method r = ''POST'') \<and>
       \<not> (rq_Path r = ''/logout'' \<and> rq_Method r = ''POST'')" by blast
  then show thesis
  proof cases
    case 6
    then have "w' = w \<and> (resp = http_Redirect ''/credentials'' \<or> resp = http_Error ''404 page not found'' StatusNotFound)"
      using assms unfolding ServeHTTP_def Let_def by (simp only: if_False) (simp split: if_splits)
    then show thesis by (intro fixed) (auto simp: http_Redirect_def http_Error_def)
  qed (use assms that in \<open>auto simp: ServeHTTP_def\<close>)
qed

lemmas response_defs = http_Error_def http_Redirect_def renderHTML_def with_cookies_def

subsection \<open>Who obtains a credential\<close>

definition issues_nothing :: "Web \<Rightarrow> Response \<Rightarrow> Web \<Rightarrow> bool" where
  "issues_nothing w resp w' \<longleftrightarrow> st_credentials (w_issuer w') = st_credentials (w_issuer w)
     \<and> (case rs_Body resp of CredentialsPage _ (Some _) \<Rightarrow> False | _ \<Rightarrow> True)"

definition issues_to :: "(time \<Rightarrow> string) \<Rightarrow> Handler \<Rightarrow> Request \<Rightarrow> Web \<Rightarrow> Session \<Rightarrow> Response \<Rightarrow> Web \<Rightarrow> bool" where
  "issues_to format h r w x resp w' \<longleftrightarrow> (\<exists>c::Credential.
     st_credentials (w_issuer w') = (st_credentials (w_issuer w))(cred_Username c \<mapsto> fresh_credential (s_User x) c)
     \<and> rs_Body resp = CredentialsPage (s_CSRFToken x) (Some
          \<lparr>cv_Command = commandForCredential h r (cred_Username c), cv_Password = cred_Password c,
           cv_ExpiresAt = format (cred_ExpiresAt c)\<rparr>))"

lemma quiet_routes:
  "fst (handleLoginGet h w) = resp \<Longrightarrow> snd (handleLoginGet h w) = w' \<Longrightarrow> issues_nothing w resp w'"
  "fst (handleLoginPost h clk r w) = resp \<Longrightarrow> snd (handleLoginPost h clk r w) = w' \<Longrightarrow> issues_nothing w resp w'"
  "fst (handleCredentialsGet clk r w) = resp \<Longrightarrow> snd (handleCredentialsGet clk r w) = w' \<Longrightarrow> issues_nothing w resp w'"
  "fst (handleLogoutPost h clk r w) = resp \<Longrightarrow> snd (handleLogoutPost h clk r w) = w' \<Longrightarrow> issues_nothing w resp w'"
  by (auto simp: issues_nothing_def handleLoginGet_def handleLoginPost_def handleCredentialsGet_def
      handleLogoutPost_def currentSession_def response_defs split: prod.splits sum.splits option.splits bool.splits)

lemma handleCredentialsPost_effect:
  assumes "handleCredentialsPost format h clk r w = (resp, w')"
  shows "issues_nothing w resp w' \<or> (\<exists>x. authorised clk r (w_sessions w) x \<and> issues_to format h r w x resp w')"
proof (cases "sessionID r")
  case None
  then show ?thesis using assms by (auto simp: handleCredentialsPost_def issues_nothing_def response_defs)
next
  case (Some sid)
  obtain ok s1 where v: "validateSessionCSRF r sid (clk 0) (w_sessions w) = (ok, s1)" by fastforce
  obtain so s2 where g: "Get sid (clk 1) s1 = (so, s2)" by fastforce
  show ?thesis
  proof (cases "ok \<and> so \<noteq> None")
    case False
    then show ?thesis using assms Some v g
      by (auto simp: handleCredentialsPost_def issues_nothing_def response_defs split: bool.splits option.splits)
  next
    case True
    then obtain session where ok: "ok = True" and so: "so = Some session" by auto
    obtain x where x: "authorised clk r (w_sessions w) x" "s_User session = s_User x" "s_ID session = s_ID x"
      "s_CSRFToken session = s_CSRFToken x"
      using csrf_then_get[OF Some v[unfolded ok] g[unfolded so]] by blast
    obtain res issuer where i: "Issue (s_User session) (s_ID session) (clk 2) (w_issuer w) = (res, issuer)" by fastforce
    show ?thesis
    proof (cases res)
      case (Inl e)
      then show ?thesis using assms Some v g ok so i Issue_Inl(1)[OF i[unfolded Inl]]
        by (auto simp: handleCredentialsPost_def issues_nothing_def response_defs)
    next
      case (Inr c)
      have "issues_to format h r w x resp w'"
        unfolding issues_to_def
        by (rule exI[of _ c]) (use assms Some v g ok so i x Inr Issue_Inr(1)[OF i[unfolded Inr]] in
            \<open>auto simp: handleCredentialsPost_def response_defs\<close>)
      then show ?thesis using x(1) by blast
    qed
  qed
qed

lemma ServeHTTP_issues:
  assumes "ServeHTTP format h clk r w = (resp, w')"
  shows "issues_nothing w resp w' \<or>
     (rq_Method r = ''POST'' \<and> rq_Path r = ''/credentials'' \<and>
      (\<exists>x. authorised clk r (w_sessions w) x \<and> issues_to format h r w x resp w'))"
  using assms
proof (cases rule: ServeHTTP_cases)
  case fixed then show ?thesis by (auto simp: issues_nothing_def)
next
  case login_get then show ?thesis using quiet_routes(1)[of h w resp w'] by simp
next
  case login_post then show ?thesis using quiet_routes(2)[of h clk r w resp w'] by simp
next
  case page then show ?thesis using quiet_routes(3)[of clk r w resp w'] by simp
next
  case issue then show ?thesis using handleCredentialsPost_effect[OF issue(3)] by blast
next
  case logout then show ?thesis using quiet_routes(4)[of h clk r w resp w'] by simp
qed

text \<open>
  C25.  A request obtains a credential, or changes the credential store at all, only as a
  POST to the credentials route that carries the cookie and the CSRF token of one live
  session; the credential then belongs to that session's user, is fresh, and its
  password is shown in that response.  No other response carries a credential.
\<close>

theorem credentials_need_session_and_csrf:
  assumes "ServeHTTP format h clk r w = (resp, w')"
  shows "issues_nothing w resp w' \<or>
     (rq_Method r = ''POST'' \<and> rq_Path r = ''/credentials'' \<and>
      (\<exists>x. authorised clk r (w_sessions w) x \<and> issues_to format h r w x resp w'))"
  using assms by (rule ServeHTTP_issues)

definition carol :: User where
  "carol = \<lparr>user_ID = ''carol'', user_DisplayName = ''Carol''\<rparr>"

definition carol_session :: Session where
  "carol_session = \<lparr>s_ID = ''sid'', s_User = carol, s_CSRFToken = ''tok'', s_CreatedAt = 0, s_LastSeenAt = 0,
     s_ExpiresAt = 50\<rparr>"

definition carol_sessions :: SessionStore where
  "carol_sessions = \<lparr>ses_random = ''abcdef'', ses_config = \<lparr>sn_IdleLifetime = 10, sn_AbsoluteLifetime = 50, sn_TokenBytes = 3\<rparr>,
     ses_sessions = [''sid'' \<mapsto> carol_session]\<rparr>"

definition carol_web :: Web where
  "carol_web = \<lparr>w_sessions = carol_sessions,
     w_issuer = NewStore \<lparr>oc_TTL = 5, oc_CredentialFailureLimit = 2, oc_SourceFailureLimit = 2,
        oc_SourceFailureWindow = 5, oc_CredentialIssuanceUserLimit = 2, oc_CredentialIssuanceSessionLimit = 2,
        oc_CredentialIssuanceWindow = 5, oc_CredentialUsernameBytes = 1, oc_CredentialPasswordBytes = 1\<rparr> ''ab'',
     w_random = ''xyz''\<rparr>"

definition plain_handler :: Handler where
  "plain_handler = \<lparr>h_authProvider = (\<lambda>u pw. if u = ''carol'' \<and> pw = ''pw'' then Inr carol else Inl ErrInvalidCredentials),
     h_cookieSecure = True, h_mysqlHost = '''', h_mysqlPort = ''3307'', h_tokenBytes = 3\<rparr>"

definition post_request :: "string \<Rightarrow> string \<Rightarrow> Request" where
  "post_request path tok = \<lparr>rq_Method = ''POST'', rq_Path = path, rq_Host = ''db:80'',
     rq_Cookies = [(sessionCookieName, ''sid''), (loginCSRFCookieName, ''tok'')],
     rq_PostForm = Some [(csrfFormField, tok), (''username'', ''carol''), (''password'', ''pw'')]\<rparr>"

theorem credentials_need_session_and_csrf_witness:
  "\<exists>x resp w'. ServeHTTP (\<lambda>_. ''t'') plain_handler (\<lambda>_. 1) (post_request ''/credentials'' ''tok'') carol_web = (resp, w')
     \<and> authorised (\<lambda>_. 1) (post_request ''/credentials'' ''tok'') (w_sessions carol_web) x
     \<and> issues_to (\<lambda>_. ''t'') plain_handler (post_request ''/credentials'' ''tok'') carol_web x resp w'"
proof -
  obtain resp w' where s: "ServeHTTP (\<lambda>_. ''t'') plain_handler (\<lambda>_. 1) (post_request ''/credentials'' ''tok'') carol_web = (resp, w')"
    by fastforce
  have "case rs_Body (fst (ServeHTTP (\<lambda>_. ''t'') plain_handler (\<lambda>_. 1) (post_request ''/credentials'' ''tok'') carol_web)) of
      CredentialsPage _ (Some _) \<Rightarrow> True | _ \<Rightarrow> False"
    by code_simp
  then have "\<not> issues_nothing carol_web resp w'"
    by (auto simp: s issues_nothing_def split: body.splits option.splits)
  then show ?thesis using credentials_need_session_and_csrf[OF s] s by blast
qed

subsection \<open>Who obtains a session\<close>

definition keyed :: "SessionStore \<Rightarrow> bool" where
  "keyed s \<longleftrightarrow> (\<forall>i x. ses_sessions s i = Some x \<longrightarrow> s_ID x = i)"

text \<open>Sessions are only refreshed or dropped between two stores.\<close>

definition no_new_sessions :: "SessionStore \<Rightarrow> SessionStore \<Rightarrow> bool" where
  "no_new_sessions s s' \<longleftrightarrow> (\<forall>i x. ses_sessions s' i = Some x \<longrightarrow>
     (\<exists>old. ses_sessions s i = Some old \<and> s_User x = s_User old \<and> s_ID x = s_ID old \<and> s_CSRFToken x = s_CSRFToken old
        \<and> s_ExpiresAt x = s_ExpiresAt old))"

lemma no_new_refl [simp]: "no_new_sessions s s"
  by (auto simp: no_new_sessions_def)

lemma no_new_None: "no_new_sessions s s' \<Longrightarrow> ses_sessions s i = None \<Longrightarrow> ses_sessions s' i = None"
  unfolding no_new_sessions_def by (metis not_Some_eq)

lemma no_new_trans: "no_new_sessions s s1 \<Longrightarrow> no_new_sessions s1 s2 \<Longrightarrow> no_new_sessions s s2"
  unfolding no_new_sessions_def by metis

lemma no_new_getLocked: "getLocked i b now s = (r, s') \<Longrightarrow> no_new_sessions s s'"
  by (auto simp: getLocked_def no_new_sessions_def Let_def split: option.splits if_splits)

lemma no_new_ops:
  "Get i now s = (r, s') \<Longrightarrow> no_new_sessions s s'"
  "validateSessionCSRF r' i now s = (ok, s') \<Longrightarrow> no_new_sessions s s'"
  "no_new_sessions s (Delete i s)"
proof -
  show "Get i now s = (r, s') \<Longrightarrow> no_new_sessions s s'" unfolding Get_def by (rule no_new_getLocked)
  show "no_new_sessions s (Delete i s)" by (auto simp: Delete_def no_new_sessions_def)
  assume "validateSessionCSRF r' i now s = (ok, s')"
  then show "no_new_sessions s s'"
    by (auto simp: validateSessionCSRF_def ValidateCSRF_def split: option.splits prod.splits dest: no_new_getLocked)
qed

lemma no_new_routes:
  "handleLoginGet h w = (resp, w') \<Longrightarrow> no_new_sessions (w_sessions w) (w_sessions w')"
  "handleCredentialsGet clk r w = (resp, w') \<Longrightarrow> no_new_sessions (w_sessions w) (w_sessions w')"
  by (auto simp: handleLoginGet_def handleCredentialsGet_def currentSession_def
      split: prod.splits sum.splits option.splits dest: no_new_ops(1,2))

lemma no_new_posts:
  "handleCredentialsPost format h clk r w = (resp, w') \<Longrightarrow> no_new_sessions (w_sessions w) (w_sessions w')"
  "handleLogoutPost h clk r w = (resp, w') \<Longrightarrow> no_new_sessions (w_sessions w) (w_sessions w')"
  by (auto simp: handleCredentialsPost_def handleLogoutPost_def
      split: prod.splits sum.splits option.splits bool.splits
      dest!: no_new_ops(1,2) intro: no_new_trans no_new_trans[OF no_new_trans no_new_ops(3)])

lemma validateLoginCSRF_token:
  assumes "validateLoginCSRF r form"
  shows "\<exists>token. map_of (rq_Cookies r) loginCSRFCookieName = Some token \<and> token \<noteq> '''' \<and>
    PostForm_Get form csrfFormField = token"
proof (cases "map_of (rq_Cookies r) loginCSRFCookieName")
  case None then show ?thesis using assms by (simp add: validateLoginCSRF_def)
next
  case (Some token)
  then have "constantTimeEqual token (PostForm_Get form csrfFormField)"
    using assms by (simp add: validateLoginCSRF_def)
  then have "token \<noteq> '''' \<and> PostForm_Get form csrfFormField = token"
    unfolding constantTimeEqual_def ConstantTimeEq_def by (simp split: if_splits)
  then show ?thesis using Some by blast
qed

definition login_creates :: "Handler \<Rightarrow> (nat \<Rightarrow> time) \<Rightarrow> Request \<Rightarrow> Web \<Rightarrow> Response \<Rightarrow> Web \<Rightarrow> bool" where
  "login_creates h clk r w resp w' \<longleftrightarrow>
     (\<exists>form token user x. rq_PostForm r = Some form \<and> token \<noteq> ''''
         \<and> map_of (rq_Cookies r) loginCSRFCookieName = Some token \<and> PostForm_Get form csrfFormField = token
         \<and> h_authProvider h (PostForm_Get form ''username'') (PostForm_Get form ''password'') = Inr user
         \<and> s_User x = user \<and> s_CreatedAt x = clk 0
         \<and> ses_sessions (w_sessions w') = (ses_sessions (w_sessions w))(s_ID x \<mapsto> x)
         \<and> setCookie h sessionCookieName (s_ID x) ''/'' \<in> set (rs_SetCookies resp))"

lemma sessions_created:
  assumes "ServeHTTP format h clk r w = (resp, w')"
  shows "no_new_sessions (w_sessions w) (w_sessions w') \<or>
     (rq_Method r = ''POST'' \<and> rq_Path r = ''/login'' \<and> login_creates h clk r w resp w')"
  using assms
proof (cases rule: ServeHTTP_cases)
  case login_post
  show ?thesis
  proof (cases "rq_PostForm r")
    case None then show ?thesis using login_post(3) by (simp add: handleLoginPost_def)
  next
    case (Some form)
    show ?thesis
    proof (cases "validateLoginCSRF r form \<and> (\<exists>user x s. h_authProvider h (PostForm_Get form ''username'') (PostForm_Get form ''password'') = Inr user
        \<and> Create user (clk 0) (w_sessions w) = (Inr x, s))")
      case False
      then have "w_sessions w' = w_sessions w \<or> (\<exists>user e s. Create user (clk 0) (w_sessions w) = (Inl e, s) \<and> w_sessions w' = s)"
        using login_post(3) Some by (auto simp: handleLoginPost_def split: if_splits sum.splits prod.splits)
      then have "ses_sessions (w_sessions w') = ses_sessions (w_sessions w)" using Create_Inl by fastforce
      then show ?thesis by (simp add: no_new_sessions_def)
    next
      case True
      then obtain user x s where u: "validateLoginCSRF r form"
        "h_authProvider h (PostForm_Get form ''username'') (PostForm_Get form ''password'') = Inr user"
        "Create user (clk 0) (w_sessions w) = (Inr x, s)" by blast
      note c = Create_Inr[OF u(3)]
      have w: "w_sessions w' = s" "setCookie h sessionCookieName (s_ID x) ''/'' \<in> set (rs_SetCookies resp)"
        using login_post(3) Some u by (auto simp: handleLoginPost_def response_defs)
      obtain token where t: "map_of (rq_Cookies r) loginCSRFCookieName = Some token" "token \<noteq> ''''"
        "PostForm_Get form csrfFormField = token"
        using u(1) validateLoginCSRF_token by blast
      show ?thesis
        unfolding login_creates_def
        by (rule disjI2, intro conjI exI[of _ form] exI[of _ token] exI[of _ user] exI[of _ x])
           (use login_post(1,2) Some u(2) c t w in simp_all)
    qed
  qed
next
  case fixed then show ?thesis by simp
next
  case login_get then show ?thesis using no_new_routes(1) by blast
next
  case page then show ?thesis using no_new_routes(2) by blast
next
  case issue then show ?thesis using no_new_posts(1) by blast
next
  case logout then show ?thesis using no_new_posts(2) by blast
qed

text \<open>
  C27.  A session comes into being only by a POST to the login route whose form carries the
  (non-empty) CSRF token of the login cookie and a user name and password that the
  provider accepts; it is a session of the accepted user, created at that moment, and its
  token goes to the browser in the session cookie.  Every other request leaves each
  session with its user, tokens and limit, or removes it.
\<close>

theorem sessions_need_login:
  assumes "ServeHTTP format h clk r w = (resp, w')"
  shows "no_new_sessions (w_sessions w) (w_sessions w') \<or>
     (rq_Method r = ''POST'' \<and> rq_Path r = ''/login'' \<and> login_creates h clk r w resp w')"
  by (rule sessions_created[OF assms])

theorem sessions_need_login_witness:
  "\<exists>resp w' x. ServeHTTP (\<lambda>_. ''t'') plain_handler (\<lambda>_. 1) (post_request ''/login'' ''tok'') carol_web = (resp, w')
     \<and> s_User x = carol \<and> ses_sessions (w_sessions w') = (ses_sessions (w_sessions carol_web))(s_ID x \<mapsto> x)"
proof -
  obtain resp w' where s: "ServeHTTP (\<lambda>_. ''t'') plain_handler (\<lambda>_. 1) (post_request ''/login'' ''tok'') carol_web = (resp, w')"
    by fastforce
  have "ses_sessions (w_sessions (snd (ServeHTTP (\<lambda>_. ''t'') plain_handler (\<lambda>_. 1) (post_request ''/login'' ''tok'') carol_web))) ''YWJj'' \<noteq> None
     \<and> ses_sessions (w_sessions carol_web) ''YWJj'' = None"
    by code_simp
  then have "\<not> no_new_sessions (w_sessions carol_web) (w_sessions w')"
    using no_new_None[of "w_sessions carol_web" "w_sessions w'" "''YWJj''"] by (auto simp: s)
  moreover have "user = carol" if "h_authProvider plain_handler u pw = Inr user" for u pw user
    using that by (simp add: plain_handler_def split: if_splits)
  ultimately show ?thesis using sessions_need_login[OF s] s unfolding login_creates_def by metis
qed

subsection \<open>The store behind the routes\<close>

lemma keyed_no_new: "no_new_sessions s s' \<Longrightarrow> keyed s \<Longrightarrow> keyed s'"
  by (auto simp: keyed_def no_new_sessions_def)

fun serve_all :: "(time \<Rightarrow> string) \<Rightarrow> Handler \<Rightarrow> ((nat \<Rightarrow> time) \<times> Request) list \<Rightarrow> Web \<Rightarrow> Web" where
  "serve_all format h [] w = w"
| "serve_all format h ((clk, r) # rs) w = serve_all format h rs (snd (ServeHTTP format h clk r w))"

text \<open>
  From a fresh handler on, after any requests, every session is stored under its own
  token.
\<close>

lemma sessions_stay_keyed:
  assumes "NewHandler config = Inr (h, w)" and "hc_Sessions config = Some (NewSessionStore cfg rd)"
  shows "keyed (w_sessions (serve_all format h rs w))"
proof -
  have step: "keyed (w_sessions w') \<Longrightarrow> keyed (w_sessions (snd (ServeHTTP format h clk r w')))" for clk r w'
  proof -
    assume k: "keyed (w_sessions w')"
    obtain resp w2 where s: "ServeHTTP format h clk r w' = (resp, w2)" by fastforce
    have "no_new_sessions (w_sessions w') (w_sessions w2) \<or>
        (\<exists>x. ses_sessions (w_sessions w2) = (ses_sessions (w_sessions w'))(s_ID x \<mapsto> x))"
      using sessions_created[OF s] unfolding login_creates_def by blast
    then consider "no_new_sessions (w_sessions w') (w_sessions w2)"
      | x where "ses_sessions (w_sessions w2) = (ses_sessions (w_sessions w'))(s_ID x \<mapsto> x)" by blast
    then show ?thesis
    proof cases
      case 1 then show ?thesis using keyed_no_new k by (simp add: s)
    next
      case 2 then show ?thesis using k by (simp add: s keyed_def)
    qed
  qed
  have "keyed (w_sessions w)"
    using assms by (auto simp: NewHandler_def NewSessionStore_def keyed_def split: option.splits)
  then show ?thesis by (induction rs arbitrary: w) (auto simp: step split: prod.splits)
qed

definition fresh_config :: HandlerConfig where
  "fresh_config = \<lparr>hc_AuthProvider = Some (\<lambda>u pw. Inr carol), hc_Sessions = Some (NewSessionStore \<lparr>sn_IdleLifetime = 0,
      sn_AbsoluteLifetime = 0, sn_TokenBytes = 1\<rparr> ''ab''), hc_Issuer = Some (w_issuer carol_web), hc_CookieSecure = True,
      hc_MySQLHost = '''', hc_MySQLPort = '''', hc_TokenBytes = 1, hc_Random = ''r''\<rparr>"

lemma sessions_stay_keyed_witness:
  "\<exists>h w. NewHandler fresh_config = Inr (h, w)
    \<and> keyed (w_sessions (serve_all (\<lambda>_. '''') h [((\<lambda>_. 1), post_request ''/login'' ''tok'')] w))"
proof -
  have "\<exists>h w. NewHandler fresh_config = Inr (h, w)" by (simp add: NewHandler_def fresh_config_def)
  then obtain h w where n: "NewHandler fresh_config = Inr (h, w)" by blast
  have "hc_Sessions fresh_config = Some (NewSessionStore \<lparr>sn_IdleLifetime = 0, sn_AbsoluteLifetime = 0, sn_TokenBytes = 1\<rparr> ''ab'')"
    by (simp add: fresh_config_def)
  from sessions_stay_keyed[OF n this] n show ?thesis by blast
qed

text \<open>
  An authorised POST to the logout route ends the session: the browser is sent to
  the login page with the session cookie cleared, exactly that session is gone, and no
  later request carrying its token is authorised.
\<close>

lemma logout_ends_session:
  assumes "authorised clk r (w_sessions w) x" and "rq_Path r = ''/logout''" "rq_Method r = ''POST''"
    and "keyed (w_sessions w)" and "ServeHTTP format h clk r w = (resp, w')"
  shows "ses_sessions (w_sessions w') = (ses_sessions (w_sessions w))(s_ID x := None) \<and> w_issuer w' = w_issuer w
     \<and> rs_Location resp = Some ''/login'' \<and> rs_SetCookies resp = [clearCookie h sessionCookieName ''/'']
     \<and> (sessionID r' = Some (s_ID x) \<longrightarrow> \<not> authorised clk' r' (w_sessions w') y)"
proof -
  obtain sid where sid: "sessionID r = Some sid" "ses_sessions (w_sessions w) sid = Some x"
    using assms(1) by (auto simp: authorised_def split: option.splits)
  then have id: "s_ID x = sid" using assms(4) by (simp add: keyed_def)
  obtain s2 where g: "Get sid (clk 1) (w_sessions w) = (Some (x\<lparr>s_LastSeenAt := clk 1\<rparr>), s2)"
    "ses_sessions s2 = (ses_sessions (w_sessions w))(sid \<mapsto> x\<lparr>s_LastSeenAt := clk 1\<rparr>)"
    using csrf_then_get_ok(2)[OF assms(1) sid(1)] by blast
  have "handleLogoutPost h clk r w = (resp, w')" using assms(2,3,5) by (simp add: ServeHTTP_def)
  then have w': "w' = w\<lparr>w_sessions := Delete sid s2\<rparr>" "rs_Location resp = Some ''/login''"
    "rs_SetCookies resp = [clearCookie h sessionCookieName ''/'']"
    using sid(1) csrf_then_get_ok(1)[OF assms(1) sid(1)] g(1) id
    by (auto simp: handleLogoutPost_def response_defs)
  have "ses_sessions (w_sessions w') = (ses_sessions (w_sessions w))(sid := None)"
    using w'(1) g(2) by (simp add: Delete_def)
  then show ?thesis using w' id by (auto simp: authorised_def split: option.splits)
qed

lemma logout_ends_session_witness:
  "ses_sessions (w_sessions (snd (ServeHTTP (\<lambda>_. '''') plain_handler (\<lambda>_. 1) (post_request ''/logout'' ''tok'') carol_web))) ''sid'' = None"
proof -
  obtain resp w' where s: "ServeHTTP (\<lambda>_. '''') plain_handler (\<lambda>_. 1) (post_request ''/logout'' ''tok'') carol_web = (resp, w')"
    by fastforce
  have "authorised (\<lambda>_. 1) (post_request ''/logout'' ''tok'') (w_sessions carol_web) carol_session"
    by (simp add: authorised_def sessionID_def post_request_def carol_web_def carol_sessions_def carol_session_def
        live_at_def PostForm_Get_def csrfFormField_def)
  moreover have "keyed (w_sessions carol_web)"
    by (simp add: keyed_def carol_web_def carol_sessions_def carol_session_def)
  moreover have "rq_Path (post_request ''/logout'' ''tok'') = ''/logout''" "rq_Method (post_request ''/logout'' ''tok'') = ''POST''"
    by (simp_all add: post_request_def)
  ultimately show ?thesis
    using logout_ends_session[OF _ _ _ _ s] unfolding s by (simp add: carol_session_def)
qed

text \<open>
  Every cookie the routes set is hidden from scripts, is not sent with cross-site
  subrequests, is restricted to encrypted connections when the handler is so
  configured, and is one of the two cookies on its own path.
\<close>

lemma cookies_protected:
  "list_all (\<lambda>c. ck_HttpOnly c \<and> ck_SameSiteLax c \<and> ck_Secure c = h_cookieSecure h
      \<and> (ck_Name c, ck_Path c) \<in> {(sessionCookieName, ''/''), (loginCSRFCookieName, ''/login'')})
     (rs_SetCookies (fst (ServeHTTP format h clk r w)))"
proof -
  obtain resp w' where s: "ServeHTTP format h clk r w = (resp, w')" by fastforce
  then show ?thesis
  proof (cases rule: ServeHTTP_cases)
    case fixed then show ?thesis by (simp add: s)
  next
    case login_get then show ?thesis
      by (auto simp: s handleLoginGet_def response_defs setCookie_def split: prod.splits sum.splits)
  next
    case login_post then show ?thesis
      by (auto simp: s handleLoginPost_def response_defs setCookie_def clearCookie_def
          split: prod.splits sum.splits option.splits if_splits)
  next
    case page then show ?thesis
      by (auto simp: s handleCredentialsGet_def response_defs split: prod.splits option.splits)
  next
    case issue then show ?thesis
      by (auto simp: s handleCredentialsPost_def response_defs split: prod.splits sum.splits option.splits bool.splits)
  next
    case logout then show ?thesis
      by (auto simp: s handleLogoutPost_def response_defs clearCookie_def split: prod.splits option.splits bool.splits)
  qed
qed

text \<open>
  Without a configured host, the command shown names the host of the request without
  its port; the user name in it is that of the issued credential.
\<close>

lemma command_names_request_host:
  assumes "h_mysqlHost h = ''''" "rq_Host r = host @ '':'' @ port"
    and "host \<noteq> ''''" "list_all (\<lambda>c. c \<notin> set '':[]'') host" "list_all (\<lambda>c. c \<notin> set '':[]'') port"
  shows "commandForCredential h r username = ''mysql -h '' @ host
     @ (if h_mysqlPort h = '''' then '''' else '' -P '' @ h_mysqlPort h) @ '' -u '' @ username @ '' -p''"
  using assms SplitHostPort_plain[OF assms(3-5)] by (simp add: commandForCredential_def hostForCommand_def)

lemma command_names_request_host_witness:
  "commandForCredential plain_handler (post_request ''/'' '''') ''u'' = ''mysql -h db -P 3307 -u u -p''"
  using command_names_request_host[of plain_handler "post_request ''/'' ''''" "''db''" "''80''" "''u''"]
  by (simp add: plain_handler_def post_request_def)

end
