(* ===== verification/AuthPages.thy ===== *)
theory AuthPages
  imports AuthHandlerProperties
begin

text \<open>
  The two pages of \<open>internal/authhttp/handler.go\<close>: \<open>loginTemplate\<close> and \<open>credentialsTemplate\<close> are the
  texts of the source, and package \<open>html/template\<close> of the Go library is modelled as far as they use it: a
  text is parsed to nodes, each action gets the escaper of the HTML context it stands in, and
  the nodes are executed on the data that \<open>renderHTML\<close> is given.
\<close>

subsection \<open>Package html/template\<close>

text \<open>The replacement table of \<open>htmlescaper\<close> and \<open>attrescaper\<close>, on the bytes of the value.\<close>

definition html_replacement :: "char \<Rightarrow> string option" where
  "html_replacement c =
     (if c = CHR 0x00 then Some [CHR 0xEF, CHR 0xBF, CHR 0xBD]
      else if c = CHR 0x22 then Some ''&#34;''
      else if c = CHR ''&'' then Some ''&amp;''
      else if c = CHR 0x27 then Some ''&#39;''
      else if c = CHR ''+'' then Some ''&#43;''
      else if c = CHR ''<'' then Some ''&lt;''
      else if c = CHR ''>'' then Some ''&gt;''
      else None)"

definition htmlReplacer :: "string \<Rightarrow> string" where
  "htmlReplacer s = concat (map (\<lambda>c. case html_replacement c of None \<Rightarrow> [c] | Some r \<Rightarrow> r) s)"

text \<open>Parsing: actions stand between double braces, a field is named by the path to it, and \<open>if\<close> is closed
  by \<open>end\<close>.  No other action occurs in the two templates; \<open>None\<close> is a parse error.\<close>

datatype template_token = CharTok char | ActionTok string

primrec split_close :: "string \<Rightarrow> (string \<times> string) option" where
  "split_close [] = None"
| "split_close (c # s) = (if c = CHR 0x7D \<and> take 1 s = [CHR 0x7D] then Some ([], drop 1 s)
     else map_option (\<lambda>(action, rest). (c # action, rest)) (split_close s))"

lemma split_close_length: "split_close s = Some (action, rest) \<Longrightarrow> length rest < length s"
  by (induction s arbitrary: action) (auto split: if_splits)

function lex_template :: "string \<Rightarrow> template_token list option" where
  "lex_template [] = Some []"
| "lex_template (c # s) = (if c = CHR 0x7B \<and> take 1 s = [CHR 0x7B] then
       (case split_close (drop 1 s) of None \<Rightarrow> None
        | Some (action, rest) \<Rightarrow> map_option ((#) (ActionTok action)) (lex_template rest))
     else map_option ((#) (CharTok c)) (lex_template s))"
  by pat_completeness auto
termination by (relation "measure length") (auto dest!: split_close_length)

datatype escaper = htmlescaper | attrescaper

datatype node = TextNode char | ActionNode "string list" "escaper list" | IfNode "string list" "node list"

definition split_dots :: "string \<Rightarrow> string list" where
  "split_dots s = foldr (\<lambda>c fields. if c = CHR ''.'' then [] # fields
     else (c # hd fields) # tl fields) s [[]]"

definition field_path :: "string \<Rightarrow> string list option" where
  "field_path s = (if take 1 s = ''.'' then Some (split_dots (drop 1 s)) else None)"

text \<open>The second argument holds the nodes so far, reversed; the third the open conditionals.\<close>

fun parse_tokens :: "template_token list \<Rightarrow> node list \<Rightarrow> (string list \<times> node list) list \<Rightarrow> node list option" where
  "parse_tokens [] nodes [] = Some (rev nodes)"
| "parse_tokens [] nodes (_ # _) = None"
| "parse_tokens (CharTok c # ts) nodes open_ifs = parse_tokens ts (TextNode c # nodes) open_ifs"
| "parse_tokens (ActionTok action # ts) nodes open_ifs =
     (if action = ''end'' then (case open_ifs of [] \<Rightarrow> None
        | (path, outer) # open_ifs \<Rightarrow> parse_tokens ts (IfNode path (rev nodes) # outer) open_ifs)
      else if take 3 action = ''if '' then (case field_path (drop 3 action) of None \<Rightarrow> None
        | Some path \<Rightarrow> parse_tokens ts [] ((path, nodes) # open_ifs))
      else (case field_path action of None \<Rightarrow> None
        | Some path \<Rightarrow> parse_tokens ts (ActionNode path [] # nodes) open_ifs))"

definition Parse :: "string \<Rightarrow> node list option" where
  "Parse text = (case lex_template text of None \<Rightarrow> None | Some ts \<Rightarrow> parse_tokens ts [] [])"

text \<open>Escaping: the context of an action is text, the inside of a tag or a quoted attribute value; the
  package knows more of them (scripts, style sheets, addresses), which do not occur here.\<close>

datatype html_context = InText | InTag | InAttribute

fun context_step :: "html_context \<Rightarrow> char \<Rightarrow> html_context" where
  "context_step InText c = (if c = CHR ''<'' then InTag else InText)"
| "context_step InTag c = (if c = CHR ''>'' then InText else if c = CHR 0x22 then InAttribute else InTag)"
| "context_step InAttribute c = (if c = CHR 0x22 then InTag else InAttribute)"

fun escaper_of :: "html_context \<Rightarrow> escaper option" where
  "escaper_of InText = Some htmlescaper"
| "escaper_of InTag = None"
| "escaper_of InAttribute = Some attrescaper"

fun escape_nodes :: "html_context \<Rightarrow> node list \<Rightarrow> (node list \<times> html_context) option" where
  "escape_nodes c [] = Some ([], c)"
| "escape_nodes c (TextNode t # ns) = map_option (map_prod ((#) (TextNode t)) id) (escape_nodes (context_step c t) ns)"
| "escape_nodes c (ActionNode path es # ns) = (case escaper_of c of None \<Rightarrow> None
     | Some e \<Rightarrow> map_option (map_prod ((#) (ActionNode path (es @ [e]))) id) (escape_nodes c ns))"
| "escape_nodes c (IfNode path body # ns) = (case escape_nodes c body of None \<Rightarrow> None
     | Some (body, c') \<Rightarrow> if c' \<noteq> c then None
         else map_option (map_prod ((#) (IfNode path body)) id) (escape_nodes c ns))"

text \<open>Execution: \<open>Nil\<close> is a nil pointer, to a field of which there is no path.\<close>

datatype template_data = Str string | Nil | Struct "(string \<times> template_data) list"

fun data_field :: "template_data \<Rightarrow> string list \<Rightarrow> template_data option" where
  "data_field d [] = Some d"
| "data_field (Struct fs) (n # ns) = (case map_of fs n of None \<Rightarrow> None | Some d \<Rightarrow> data_field d ns)"
| "data_field _ _ = None"

fun truth :: "template_data \<Rightarrow> bool" where
  "truth (Str s) \<longleftrightarrow> s \<noteq> ''''"
| "truth Nil \<longleftrightarrow> False"
| "truth (Struct _) \<longleftrightarrow> True"

fun run_escaper :: "escaper \<Rightarrow> string \<Rightarrow> string" where
  "run_escaper htmlescaper s = htmlReplacer s"
| "run_escaper attrescaper s = htmlReplacer s"

fun exec_nodes :: "template_data \<Rightarrow> node list \<Rightarrow> string option" where
  "exec_nodes d [] = Some []"
| "exec_nodes d (TextNode t # ns) = map_option ((#) t) (exec_nodes d ns)"
| "exec_nodes d (ActionNode path es # ns) = (case data_field d path of
     Some (Str s) \<Rightarrow> map_option ((@) (fold run_escaper es s)) (exec_nodes d ns)
   | _ \<Rightarrow> None)"
| "exec_nodes d (IfNode path body # ns) = (case data_field d path of None \<Rightarrow> None
     | Some v \<Rightarrow> (case (if truth v then exec_nodes d body else Some []) of None \<Rightarrow> None
         | Some t \<Rightarrow> map_option ((@) t) (exec_nodes d ns)))"

definition Escape :: "node list \<Rightarrow> node list option" where
  "Escape ns = (case escape_nodes InText ns of Some (ns, InText) \<Rightarrow> Some ns | _ \<Rightarrow> None)"

definition Execute :: "string \<Rightarrow> template_data \<Rightarrow> string option" where
  "Execute text d = (case Parse text of None \<Rightarrow> None
     | Some ns \<Rightarrow> (case Escape ns of None \<Rightarrow> None | Some ns \<Rightarrow> exec_nodes d ns))"

subsection \<open>The templates and their data\<close>

definition page_lines :: "string list \<Rightarrow> string" where
  "page_lines ls = concat (map (\<lambda>l. l @ [CHR 0x0A]) ls)"

definition loginTemplate :: string where
  \<open>loginTemplate = page_lines [
''<!doctype html>'',
''<html lang="en">'',
''<head><meta charset="utf-8"><title>Masqman Login</title></head>'',
''<body>'',
''<main>'',
''<h1>Masqman</h1>'',
''<form method="post" action="/login">'',
''<input type="hidden" name="csrf_token" value="{{.CSRFToken}}">'',
''<label>Username <input name="username" autocomplete="username" required></label>'',
''<label>Password <input type="password" name="password" autocomplete="current-password" required></label>'',
''<button type="submit">Sign in</button>'',
''</form>'',
''</main>'',
''</body>'',
''</html>'']\<close>

definition credentialsTemplate :: string where
  \<open>credentialsTemplate = page_lines [
''<!doctype html>'',
''<html lang="en">'',
''<head><meta charset="utf-8"><title>Masqman Credentials</title></head>'',
''<body>'',
''<main>'',
''<h1>MySQL credentials</h1>'',
''<form method="post" action="/credentials">'',
''<input type="hidden" name="csrf_token" value="{{.CSRFToken}}">'',
''<button type="submit">Issue credential</button>'',
''</form>'',
''{{if .Credential}}'',
''<section>'',
''<h2>Issued credential</h2>'',
''<pre>{{.Credential.Command}}</pre>'',
''<dl>'',
''<dt>Password</dt><dd><code>{{.Credential.Password}}</code></dd>'',
''<dt>Expires</dt><dd><time datetime="{{.Credential.ExpiresAt}}">{{.Credential.ExpiresAt}}</time></dd>'',
''</dl>'',
''</section>'',
''{{end}}'',
''<form method="post" action="/logout">'',
''<input type="hidden" name="csrf_token" value="{{.CSRFToken}}">'',
''<button type="submit">Sign out</button>'',
''</form>'',
''</main>'',
''</body>'',
''</html>'']\<close>

definition loginPageData :: "string \<Rightarrow> template_data" where
  "loginPageData token = Struct [(''CSRFToken'', Str token)]"

definition credentialsPageData :: "string \<Rightarrow> credentialView option \<Rightarrow> template_data" where
  "credentialsPageData token credential = Struct [(''CSRFToken'', Str token),
     (''Credential'', case credential of None \<Rightarrow> Nil | Some v \<Rightarrow> Struct [(''Command'', Str (cv_Command v)),
        (''Password'', Str (cv_Password v)), (''ExpiresAt'', Str (cv_ExpiresAt v))])]"

text \<open>The text that \<open>renderHTML\<close> writes for a body of the handler.\<close>

definition page_text :: "body \<Rightarrow> string option" where
  "page_text page = (case page of
     LoginPage token \<Rightarrow> Execute loginTemplate (loginPageData token)
   | CredentialsPage token credential \<Rightarrow> Execute credentialsTemplate (credentialsPageData token credential)
   | _ \<Rightarrow> None)"

subsection \<open>What a browser makes of them\<close>

text \<open>The characters that can open or close a tag, an attribute value or a comment.\<close>

definition markup :: "char \<Rightarrow> bool" where
  "markup c \<longleftrightarrow> c \<in> set [CHR ''<'', CHR ''>'', CHR 0x22, CHR 0x27]"

text \<open>The character references of HTML that the escaper uses.\<close>

definition references :: "(string \<times> char) list" where
  "references = [(''&#34;'', CHR 0x22), (''&amp;'', CHR ''&''), (''&#39;'', CHR 0x27), (''&#43;'', CHR ''+''),
     (''&lt;'', CHR ''<''), (''&gt;'', CHR ''>'')]"

function html_text :: "string \<Rightarrow> string" where
  "html_text [] = []"
| "html_text (c # s) = (case find (\<lambda>(r, _). take (length r) (c # s) = r) references of
     None \<Rightarrow> c # html_text s
   | Some (r, d) \<Rightarrow> d # html_text (drop (length r - 1) s))"
  by pat_completeness auto
termination by (relation "measure length") auto

lemma htmlReplacer_append [simp]: "htmlReplacer (s @ t) = htmlReplacer s @ htmlReplacer t"
  by (simp add: htmlReplacer_def)

lemma htmlReplacer_simps [simp]:
  "htmlReplacer [] = []"
  "htmlReplacer (c # s) = (case html_replacement c of None \<Rightarrow> [c] | Some r \<Rightarrow> r) @ htmlReplacer s"
  by (simp_all add: htmlReplacer_def)

lemma html_text_other:
  "c \<noteq> CHR ''&'' \<Longrightarrow> html_text (c # s) = c # html_text s"
  by (simp add: references_def)

lemma html_text_references:
  "html_text (''&#34;'' @ s) = CHR 0x22 # html_text s" "html_text (''&amp;'' @ s) = CHR ''&'' # html_text s"
  "html_text (''&#39;'' @ s) = CHR 0x27 # html_text s" "html_text (''&#43;'' @ s) = CHR ''+'' # html_text s"
  "html_text (''&lt;'' @ s) = CHR ''<'' # html_text s" "html_text (''&gt;'' @ s) = CHR ''>'' # html_text s"
  by (simp_all add: references_def)

lemma html_text_replacer: "CHR 0x00 \<notin> set s \<Longrightarrow> html_text (htmlReplacer s) = s"
proof (induction s)
  case (Cons c s)
  then show ?case
    using html_text_references[of "htmlReplacer s"] html_text_other[of c "htmlReplacer s"]
    by (cases "html_replacement c")
       (auto simp: html_replacement_def simp del: html_text.simps(2) split: if_splits)
qed simp

lemma replacer_no_markup: "filter markup (htmlReplacer s) = []"
  by (induction s) (auto simp: html_replacement_def markup_def)

lemma html_value:
  "markup c \<Longrightarrow> CHR 0x00 \<notin> set x \<Longrightarrow> html_text (takeWhile (\<lambda>d. \<not> markup d) (htmlReplacer x @ c # s)) = x"
proof -
  assume c: "markup c" "CHR 0x00 \<notin> set x"
  have "\<forall>d \<in> set (htmlReplacer x). \<not> markup d" using replacer_no_markup[of x] by (simp add: filter_empty_conv)
  then show ?thesis using c html_text_replacer[of x] by (simp add: takeWhile_append2)
qed

text \<open>\<open>shown_values m page\<close>: for each place of the page where the text \<open>m\<close> stands, what the browser reads up
  to the next tag or quote.\<close>

fun starts_with :: "string \<Rightarrow> string \<Rightarrow> bool" where
  "starts_with [] s \<longleftrightarrow> True"
| "starts_with (c # m) [] \<longleftrightarrow> False"
| "starts_with (c # m) (d # s) \<longleftrightarrow> c = d \<and> starts_with m s"

primrec shown_values :: "string \<Rightarrow> string \<Rightarrow> string list" where
  "shown_values m [] = []"
| "shown_values m (c # s) =
     (if starts_with m (c # s) then [html_text (takeWhile (\<lambda>d. \<not> markup d) (drop (length m) (c # s)))] else [])
     @ shown_values m s"

text \<open>No place in \<open>s\<close> where \<open>m\<close> stands or begins.\<close>

fun compatible :: "string \<Rightarrow> string \<Rightarrow> bool" where
  "compatible (c # m) (d # s) \<longleftrightarrow> c = d \<and> compatible m s"
| "compatible _ _ \<longleftrightarrow> True"

primrec absent :: "string \<Rightarrow> string \<Rightarrow> bool" where
  "absent m [] \<longleftrightarrow> True"
| "absent m (c # s) \<longleftrightarrow> \<not> compatible m (c # s) \<and> absent m s"

lemma starts_compatible: "starts_with m (s @ t) \<Longrightarrow> compatible m s"
  by (induction m s rule: compatible.induct) auto

lemma starts_here [simp]: "starts_with m (m @ t)"
  by (induction m) auto

lemma shown_absent: "absent m s \<Longrightarrow> shown_values m (s @ t) = shown_values m t"
proof (induction s)
  case (Cons c s)
  have "\<not> starts_with m ((c # s) @ t)" using starts_compatible[of m "c # s" t] Cons.prems by auto
  then show ?case using Cons by simp
qed simp

lemma shown_value:
  assumes "m = b # m'" "markup b"
  shows "shown_values m (htmlReplacer x @ t) = shown_values m t"
proof -
  have "\<forall>d \<in> set (htmlReplacer x). \<not> markup d" using replacer_no_markup[of x] by (simp add: filter_empty_conv)
  moreover have "(\<forall>d \<in> set s. \<not> markup d) \<Longrightarrow> shown_values m (s @ t) = shown_values m t" for s
    using assms by (induction s) auto
  ultimately show ?thesis by blast
qed

lemma shown_here:
  assumes "m = b # m'" "markup b" "absent m m'" "CHR 0x00 \<notin> set x" "markup c"
  shows "shown_values m (m @ htmlReplacer x @ c # t) = x # shown_values m (c # t)"
proof -
  have "starts_with m (m @ htmlReplacer x @ c # t)" by (rule starts_here)
  then show ?thesis
    using html_value[OF assms(5,4)] shown_absent[OF assms(3)] shown_value[OF assms(1,2)] assms(1) by simp
qed

subsection \<open>The pages as text\<close>

definition token_mark :: string where
  \<open>token_mark = ''<input type="hidden" name="csrf_token" value="''\<close>

definition pre_mark :: string where
  "pre_mark = ''<pre>''"

definition code_mark :: string where
  "code_mark = ''<code>''"

definition expiry_mark :: string where
  \<open>expiry_mark = ''<time datetime="''\<close>

definition login_top :: string where
  \<open>login_top = page_lines [''<!doctype html>'', ''<html lang="en">'',
     ''<head><meta charset="utf-8"><title>Masqman Login</title></head>'', ''<body>'', ''<main>'', ''<h1>Masqman</h1>'',
     ''<form method="post" action="/login">'']\<close>

definition login_bottom :: string where
  \<open>login_bottom = ''>'' @ page_lines ['''',
     ''<label>Username <input name="username" autocomplete="username" required></label>'',
     ''<label>Password <input type="password" name="password" autocomplete="current-password" required></label>'',
     ''<button type="submit">Sign in</button>'', ''</form>'', ''</main>'', ''</body>'', ''</html>'']\<close>

definition credentials_top :: string where
  \<open>credentials_top = page_lines [''<!doctype html>'', ''<html lang="en">'',
     ''<head><meta charset="utf-8"><title>Masqman Credentials</title></head>'', ''<body>'', ''<main>'',
     ''<h1>MySQL credentials</h1>'', ''<form method="post" action="/credentials">'']\<close>

definition issue_button :: string where
  \<open>issue_button = ''>'' @ page_lines ['''', ''<button type="submit">Issue credential</button>'', ''</form>'']\<close>

definition credential_head :: string where
  \<open>credential_head = page_lines ['''', ''<section>'', ''<h2>Issued credential</h2>'']\<close>

definition password_head :: string where
  \<open>password_head = ''/pre>'' @ page_lines ['''', ''<dl>''] @ ''<dt>Password</dt><dd>''\<close>

definition expiry_head :: string where
  \<open>expiry_head = ''/code></dd>'' @ page_lines [''''] @ ''<dt>Expires</dt><dd>''\<close>

definition credential_tail :: string where
  \<open>credential_tail = ''/time></dd>'' @ page_lines ['''', ''</dl>'', ''</section>'']\<close>

definition sign_out_form :: string where
  \<open>sign_out_form = page_lines ['''', ''<form method="post" action="/logout">'']\<close>

definition credentials_bottom :: string where
  \<open>credentials_bottom = ''>'' @ page_lines ['''', ''<button type="submit">Sign out</button>'', ''</form>'', ''</main>'',
     ''</body>'', ''</html>'']\<close>

definition login_nodes :: "node list" where
  "login_nodes = map TextNode (login_top @ token_mark) @ ActionNode [''CSRFToken''] [attrescaper]
     # map TextNode ([CHR 0x22] @ login_bottom)"

definition section_nodes :: "node list" where
  \<open>section_nodes = map TextNode (credential_head @ pre_mark)
     @ ActionNode [''Credential'', ''Command''] [htmlescaper] # map TextNode (''<'' @ password_head @ code_mark)
     @ ActionNode [''Credential'', ''Password''] [htmlescaper] # map TextNode (''<'' @ expiry_head @ expiry_mark)
     @ ActionNode [''Credential'', ''ExpiresAt''] [attrescaper] # map TextNode ([CHR 0x22] @ ''>'')
     @ ActionNode [''Credential'', ''ExpiresAt''] [htmlescaper] # map TextNode (''<'' @ credential_tail)\<close>

definition credentials_nodes :: "node list" where
  "credentials_nodes = map TextNode (credentials_top @ token_mark) @ ActionNode [''CSRFToken''] [attrescaper]
     # map TextNode ([CHR 0x22] @ issue_button) @ IfNode [''Credential''] section_nodes
     # map TextNode (sign_out_form @ token_mark) @ ActionNode [''CSRFToken''] [attrescaper]
     # map TextNode ([CHR 0x22] @ credentials_bottom)"

lemma login_parsed: "Option.bind (Parse loginTemplate) Escape = Some login_nodes"
  by code_simp

lemma credentials_parsed: "Option.bind (Parse credentialsTemplate) Escape = Some credentials_nodes"
  by code_simp

lemma Execute_bind: "Execute text d = Option.bind (Option.bind (Parse text) Escape) (exec_nodes d)"
  by (simp add: Execute_def split: option.splits Option.bind_splits)

lemma exec_text: "exec_nodes d (map TextNode s @ ns) = map_option ((@) s) (exec_nodes d ns)"
  by (induction s) (simp_all add: option.map_comp comp_def option.map_id[unfolded id_def])

lemma exec_only_text: "exec_nodes d (map TextNode s) = Some s"
  using exec_text[of d s "[]"] by simp

lemma login_page:
  "page_text (LoginPage t) = Some (login_top @ token_mark @ htmlReplacer t @ CHR 0x22 # login_bottom)"
  unfolding page_text_def Execute_bind body.case login_parsed Option.bind.simps login_nodes_def loginPageData_def
  by (simp add: exec_text exec_only_text)

lemma section_text:
  "exec_nodes (credentialsPageData t (Some v)) section_nodes = Some (credential_head @ pre_mark
     @ htmlReplacer (cv_Command v) @ CHR ''<'' # password_head @ code_mark
     @ htmlReplacer (cv_Password v) @ CHR ''<'' # expiry_head @ expiry_mark
     @ htmlReplacer (cv_ExpiresAt v) @ CHR 0x22 # CHR ''>''
     # htmlReplacer (cv_ExpiresAt v) @ CHR ''<'' # credential_tail)"
  by (simp add: section_nodes_def exec_text exec_only_text credentialsPageData_def)

text \<open>The section of an issued credential, between the tags that stay.\<close>

definition credential_text :: "credentialView \<Rightarrow> string" where
  "credential_text v = credential_head @ pre_mark @ htmlReplacer (cv_Command v) @ CHR ''<'' # password_head
     @ code_mark @ htmlReplacer (cv_Password v) @ CHR ''<'' # expiry_head
     @ expiry_mark @ htmlReplacer (cv_ExpiresAt v) @ CHR 0x22 # CHR ''>''
     # htmlReplacer (cv_ExpiresAt v) @ CHR ''<'' # credential_tail"

lemma page_fields:
  "data_field (credentialsPageData t credential) [''CSRFToken''] = Some (Str t)"
  "data_field (credentialsPageData t None) [''Credential''] = Some Nil"
  "\<exists>d. data_field (credentialsPageData t (Some v)) [''Credential''] = Some d \<and> truth d"
  by (simp_all add: credentialsPageData_def)

lemma exec_section:
  "exec_nodes (credentialsPageData t (Some v)) (IfNode [''Credential''] section_nodes # ns) =
     map_option ((@) (credential_text v)) (exec_nodes (credentialsPageData t (Some v)) ns)"
  using page_fields(3)[of t v] section_text[of t v] by (auto simp: credential_text_def)

lemma credentials_page:
  "page_text (CredentialsPage t credential) = Some (credentials_top @ token_mark @ htmlReplacer t @ CHR 0x22 # issue_button
     @ (case credential of None \<Rightarrow> '''' | Some v \<Rightarrow> credential_text v)
     @ sign_out_form @ token_mark @ htmlReplacer t @ CHR 0x22 # credentials_bottom)"
proof (cases credential)
  case None
  then show ?thesis
    unfolding page_text_def Execute_bind body.case credentials_parsed Option.bind.simps credentials_nodes_def
    by (simp add: exec_text exec_only_text page_fields)
next
  case (Some v)
  then show ?thesis
    unfolding page_text_def Execute_bind body.case credentials_parsed Option.bind.simps credentials_nodes_def
    by (simp add: exec_text exec_only_text exec_section page_fields(1) del: exec_nodes.simps(4))
qed

subsection \<open>What is shown\<close>

definition page_chunks :: "string list" where
  "page_chunks = [login_top, CHR 0x22 # login_bottom, credentials_top, CHR 0x22 # issue_button, credential_head,
     CHR ''<'' # password_head, CHR ''<'' # expiry_head, [CHR 0x22, CHR ''>''], CHR ''<'' # credential_tail, sign_out_form, CHR 0x22 # credentials_bottom]"

lemma absent_token_mark: "list_all (absent token_mark) (tl token_mark # pre_mark # code_mark # expiry_mark # page_chunks)"
  by code_simp

lemma absent_pre_mark: "list_all (absent pre_mark) (tl pre_mark # token_mark # code_mark # expiry_mark # page_chunks)"
  by code_simp

lemma absent_code_mark: "list_all (absent code_mark) (tl code_mark # token_mark # pre_mark # expiry_mark # page_chunks)"
  by code_simp

lemma absent_expiry_mark: "list_all (absent expiry_mark) (tl expiry_mark # token_mark # pre_mark # code_mark # page_chunks)"
  by code_simp

lemmas absent_chunks =
  absent_token_mark[unfolded page_chunks_def list.pred_inject]
  absent_pre_mark[unfolded page_chunks_def list.pred_inject]
  absent_code_mark[unfolded page_chunks_def list.pred_inject]
  absent_expiry_mark[unfolded page_chunks_def list.pred_inject]

lemma shown_around:
  assumes "m = b # m'" "markup b"
  shows "absent m (c # s) \<Longrightarrow> shown_values m (c # s @ t) = shown_values m t"
    and "absent m (c # s) \<Longrightarrow> shown_values m (c # s) = []"
    and "absent m [c, d] \<Longrightarrow> shown_values m (c # d # t) = shown_values m t"
    and "shown_values m (htmlReplacer x @ t) = shown_values m t"
    and "absent m (tl m) \<Longrightarrow> CHR 0x00 \<notin> set x \<Longrightarrow> markup e \<Longrightarrow>
      shown_values m (m @ htmlReplacer x @ e # t) = x # shown_values m (e # t)"
  using shown_absent[of m "c # s" t] shown_absent[of m "c # s" "[]"] shown_absent[of m "[c, d]" t]
    shown_value[OF assms] shown_here[OF assms] assms(1) by simp_all

lemma marks: "token_mark = CHR ''<'' # tl token_mark" "pre_mark = CHR ''<'' # tl pre_mark"
  "code_mark = CHR ''<'' # tl code_mark" "expiry_mark = CHR ''<'' # tl expiry_mark"
  by (simp_all add: token_mark_def pre_mark_def code_mark_def expiry_mark_def)

lemma markup_chars: "markup CHR ''<''" "markup CHR 0x22"
  by (simp_all add: markup_def)

lemmas shown_on_page = absent_chunks shown_absent markup_chars append_assoc append_Cons append_Nil
  shown_around[OF marks(1) markup_chars(1)] shown_around[OF marks(2) markup_chars(1)]
  shown_around[OF marks(3) markup_chars(1)] shown_around[OF marks(4) markup_chars(1)]

text \<open>
  C38.  The data on the pages are inert and stand where they belong.  Whatever the token, the command (which carries
  the host name the browser sent) and the other values are, the templates execute, and a page has exactly the
  markup that it has with any other values, so no value opens a tag or ends an attribute.  And for
  values without NUL bytes a browser reads on the pages what the handler has put there: the
  token in the hidden fields, both on the page of the credentials, the command in the one \<open>pre\<close>, the password
  in the one \<open>code\<close> and the expiry in the one \<open>time\<close>; without a credential there is none of these.
\<close>

theorem pages_inert:
  assumes "CHR 0x00 \<notin> set (t @ cv_Command v @ cv_Password v @ cv_ExpiresAt v)"
  shows "\<exists>login empty full. page_text (LoginPage t) = Some login
    \<and> page_text (CredentialsPage t None) = Some empty \<and> page_text (CredentialsPage t (Some v)) = Some full
    \<and> shown_values token_mark login = [t] \<and> shown_values token_mark empty = [t, t]
    \<and> shown_values pre_mark empty = [] \<and> shown_values code_mark empty = []
    \<and> shown_values token_mark full = [t, t] \<and> shown_values pre_mark full = [cv_Command v]
    \<and> shown_values code_mark full = [cv_Password v] \<and> shown_values expiry_mark full = [cv_ExpiresAt v]
    \<and> (\<forall>t'. map_option (filter markup) (page_text (LoginPage t')) = Some (filter markup login))
    \<and> (\<forall>t'. map_option (filter markup) (page_text (CredentialsPage t' None)) = Some (filter markup empty))
    \<and> (\<forall>t' v'. map_option (filter markup) (page_text (CredentialsPage t' (Some v'))) = Some (filter markup full))"
proof -
  have nul: "CHR 0x00 \<notin> set t" "CHR 0x00 \<notin> set (cv_Command v)" "CHR 0x00 \<notin> set (cv_Password v)"
    "CHR 0x00 \<notin> set (cv_ExpiresAt v)" using assms by simp_all
  show ?thesis
    unfolding login_page credentials_page credential_text_def option.case
    by (intro exI conjI allI; (rule refl)?; (simp only: shown_on_page nul simp_thms)?;
        (simp add: replacer_no_markup)?)
qed

text \<open>A command with markup, from a browser that sent a strange host name.\<close>

theorem pages_inert_witness:
  "\<exists>page. page_text (CredentialsPage ''t+1'' (Some \<lparr>cv_Command = ''mysql -h <b>&amp;'', cv_Password = ''p<w'', cv_ExpiresAt = ''e''\<rparr>)) = Some page
     \<and> shown_values pre_mark page = [''mysql -h <b>&amp;''] \<and> shown_values code_mark page = [''p<w'']"
proof -
  let ?v = "\<lparr>cv_Command = ''mysql -h <b>&amp;'', cv_Password = ''p<w'', cv_ExpiresAt = ''e''\<rparr>"
  have "CHR 0x00 \<notin> set (''t+1'' @ cv_Command ?v @ cv_Password ?v @ cv_ExpiresAt ?v)" by simp
  from pages_inert[OF this] show ?thesis by auto
qed

end
