(* ===== verification/Protocol.thy ===== *)
theory Protocol
  imports Config "HOL-Library.Word"
begin

text \<open>
  \<open>internal/mysqlproxy/protocol.go\<close> and the view of package \<open>go-mysql\<close> on which the handlers of
  \<open>internal/mysqlproxy\<close> are written: error values, results, text rows.  The package itself is not
  part of the repository, so what the handlers call of it is the record \<open>mysql_lib\<close> of
  functions, over any type \<open>'v\<close> of field values, and an upstream connection is a record
  \<open>upstreamSession\<close> of operations over any type \<open>'u\<close> of connection states.
\<close>

unbundle bit_operations_syntax

subsection \<open>Errors\<close>

text \<open>\<open>MyError\<close> is a MySQL error packet, \<open>Wrapped\<close> is \<open>fmt.Errorf\<close> with one \<open>%w\<close>, \<open>OtpError\<close> a
  sentinel of package \<open>otp\<close>, \<open>ConfigError\<close> an error of package \<open>config\<close> and \<open>ErrInvalid\<close> its sentinel,
  \<open>ErrNetClosed\<close> is \<open>net.ErrClosed\<close>, \<open>ErrServerClosed\<close> is that of \<open>net/http\<close>, \<open>ErrorText\<close> any other error.\<close>

datatype mysql_code = ER_NOT_SUPPORTED_YET | ER_SPECIFIC_ACCESS_DENIED_ERROR | ER_NET_PACKET_TOO_LARGE
  | ER_INSECURE_PLAIN_TEXT | ER_OTHER nat

datatype go_error =
    MyError mysql_code "string list"
  | ErrResultRowLimitExceeded
  | ErrResultByteLimitExceeded
  | ErrAuditFailure
  | ErrNetClosed
  | OtpError otp_error
  | ConfigError config_error
  | ErrInvalid
  | ErrServerClosed
  | ErrorText string
  | Wrapped string go_error

fun errors_Is :: "go_error \<Rightarrow> go_error \<Rightarrow> bool" where
  "errors_Is target (Wrapped s err) \<longleftrightarrow> Wrapped s err = target \<or> errors_Is target err"
| "errors_Is target err \<longleftrightarrow> err = target"

text \<open>\<open>errors.As\<close> with a target of type \<open>*mysql.MyError\<close>.\<close>

fun errors_As_MyError :: "go_error \<Rightarrow> bool" where
  "errors_As_MyError (MyError _ _) = True"
| "errors_As_MyError (Wrapped _ err) = errors_As_MyError err"
| "errors_As_MyError _ = False"

definition isTerminalUpstreamError :: "go_error option \<Rightarrow> bool" where
  "isTerminalUpstreamError err = (case err of None \<Rightarrow> False | Some err \<Rightarrow> \<not> errors_As_MyError err)"

definition unsupportedProtocolSurface :: string where
  "unsupportedProtocolSurface = ''Masqman M1 protocol surface''"

definition unsupportedError :: go_error where
  "unsupportedError = MyError ER_NOT_SUPPORTED_YET [unsupportedProtocolSurface]"

lemma unsupported_not_terminal [simp]:
  "\<not> isTerminalUpstreamError (Some unsupportedError)" "\<not> isTerminalUpstreamError None"
  by (simp_all add: isTerminalUpstreamError_def unsupportedError_def)

subsection \<open>Results\<close>

datatype mysql_type = MYSQL_TYPE_TINY | MYSQL_TYPE_SHORT | MYSQL_TYPE_LONG | MYSQL_TYPE_FLOAT
  | MYSQL_TYPE_DOUBLE | MYSQL_TYPE_LONGLONG | MYSQL_TYPE_INT24 | MYSQL_TYPE_YEAR | MYSQL_TYPE_DECIMAL
  | MYSQL_TYPE_NEWDECIMAL | MYSQL_TYPE_DATE | MYSQL_TYPE_NEWDATE | MYSQL_TYPE_TIME | MYSQL_TYPE_TIME2
  | MYSQL_TYPE_TIMESTAMP | MYSQL_TYPE_TIMESTAMP2 | MYSQL_TYPE_DATETIME | MYSQL_TYPE_DATETIME2
  | MYSQL_TYPE_BIT | MYSQL_TYPE_VECTOR | MYSQL_TYPE_TINY_BLOB | MYSQL_TYPE_MEDIUM_BLOB
  | MYSQL_TYPE_LONG_BLOB | MYSQL_TYPE_BLOB | MYSQL_TYPE_VAR_STRING | MYSQL_TYPE_STRING
  | MYSQL_TYPE_OTHER nat

definition BINARY_FLAG :: "16 word" where "BINARY_FLAG = 128"
definition SERVER_MORE_RESULTS_EXISTS :: "16 word" where "SERVER_MORE_RESULTS_EXISTS = 8"

record MySQLField =
  mf_Name :: string
  mf_Schema :: string
  mf_OrgTable :: string
  mf_OrgName :: string
  mf_Type :: mysql_type
  mf_Flag :: "16 word"

text \<open>The elements of a Go slice of field pointers may be nil.\<close>

type_synonym fields = "MySQLField option list"
type_synonym RowData = bytes

datatype StreamingType = StreamingNone | StreamingSelect | StreamingMultiple

record 'v Resultset =
  rs_Fields :: fields
  rs_Values :: "'v list list"
  rs_RowDatas :: "RowData list"
  rs_Streaming :: StreamingType
  rs_StreamingDone :: bool

text \<open>The counters of a result (rows affected, warnings) pass through the handlers untouched.\<close>

record 'v Result =
  r_Status :: "16 word"
  r_Resultset :: "'v Resultset option"

datatype FieldValueType = FieldValueTypeNull | FieldValueTypeUnsigned | FieldValueTypeSigned
  | FieldValueTypeFloat | FieldValueTypeString

text \<open>\<open>lib_IsNull v\<close> is \<open>v.Value() == nil\<close>; \<open>lib_Parse\<close> is \<open>RowData.Parse\<close> in the text protocol.\<close>

record 'v mysql_lib =
  lib_IsNull :: "'v \<Rightarrow> bool"
  lib_FormatTextValue :: "'v \<Rightarrow> go_error + bytes"
  lib_Parse :: "RowData \<Rightarrow> fields \<Rightarrow> go_error + 'v list"
  lib_PutLengthEncodedString :: "bytes \<Rightarrow> bytes"
  lib_IsStreaming :: "'v Result \<Rightarrow> bool"
  lib_HasResultset :: "'v Result \<Rightarrow> bool"
  lib_Type :: "'v \<Rightarrow> FieldValueType"
  lib_AsUint64 :: "'v \<Rightarrow> 64 word"
  lib_AsString :: "'v \<Rightarrow> bytes"
  lib_NewFieldValue :: "FieldValueType \<Rightarrow> 64 word \<Rightarrow> bytes \<Rightarrow> 'v"
  lib_NewResultset :: "nat \<Rightarrow> 'v Resultset"
  lib_NewResult :: "'v Resultset \<Rightarrow> 'v Result"

subsection \<open>Upstream connections\<close>

text \<open>\<open>ExecuteSelectStreaming\<close> hands rows to a callback of the caller and sees its answers,
  so a run of it is a tree: it hands over a row and goes on as the callback's answer
  says, or it is finished, with an error or without, the result it has filled in, and the
  connection as it leaves it.  Nothing is assumed of what it does with the callback's error.\<close>

datatype ('v, 'u) select_stream =
    StreamFinished "go_error option" "'v Result" 'u
  | StreamRow "'v list" "go_error option \<Rightarrow> ('v, 'u) select_stream"

primrec run_stream ::
  "('v list \<Rightarrow> 'a \<Rightarrow> go_error option \<times> 'a) \<Rightarrow> 'a \<Rightarrow> ('v, 'u) select_stream
     \<Rightarrow> go_error option \<times> 'v Result \<times> 'a \<times> 'u" where
  "run_stream callback acc (StreamFinished err result u) = (err, result, acc, u)"
| "run_stream callback acc (StreamRow row k) =
     (case callback row acc of (err, acc) \<Rightarrow> run_stream callback acc (k err))"

lemma run_stream_induct:
  assumes "P acc" and "\<And>row acc err acc'. P acc \<Longrightarrow> callback row acc = (err, acc') \<Longrightarrow> P acc'"
    and "run_stream callback acc st = (err, result, acc', u)"
  shows "P acc'"
  using assms(1,3)
proof (induction st arbitrary: acc)
  case (StreamRow row k)
  obtain e a where cb: "callback row acc = (e, a)" by fastforce
  show ?case by (rule StreamRow.IH[of "k e" a]) (use StreamRow.prems cb assms(2) in auto)
qed simp

text \<open>\<open>us_ExecuteSelectStreaming\<close> is \<open>None\<close> when the session does not implement
  \<open>streamingUpstreamSession\<close>.\<close>

record ('v, 'u) upstreamSession =
  us_UseDB :: "string \<Rightarrow> 'u \<Rightarrow> go_error option \<times> 'u"
  us_Execute :: "string \<Rightarrow> 'u \<Rightarrow> (go_error + 'v Result option) \<times> 'u"
  us_Close :: "'u \<Rightarrow> go_error option \<times> 'u"
  us_ExecuteSelectStreaming :: "(string \<Rightarrow> 'u \<Rightarrow> ('v, 'u) select_stream) option"

subsection \<open>Handlers\<close>

text \<open>
  The Go interface \<open>server.Handler\<close>, as far as the repository gives it an effect, together with
  the optional interfaces a policy handler looks for in the handler behind it: \<open>None\<close> where the
  handler's type lacks the method.
\<close>

record ('v, 's) server_handler =
  sh_UseDB :: "string \<Rightarrow> 's \<Rightarrow> go_error option \<times> 's"
  sh_HandleQuery :: "string \<Rightarrow> 's \<Rightarrow> (go_error + 'v Result option) \<times> 's"
  sh_setQueryDecision :: "(Decision \<Rightarrow> 's \<Rightarrow> 's) option"
  sh_maskedFieldCount :: "('s \<Rightarrow> int) option"
  sh_closeTerminal :: "(go_error \<Rightarrow> 's \<Rightarrow> go_error option \<times> 's) option"
  sh_Close :: "('s \<Rightarrow> go_error option \<times> 's) option"

text \<open>The commands of the protocol that every handler refuses, each with what it returns.\<close>

datatype other_command = FieldList string string | StmtPrepare string | StmtExecute string
  | StmtClose | OtherCommand "8 word" bytes

fun unsupported_command :: "other_command \<Rightarrow> go_error" where
  "unsupported_command (FieldList table wildcard) = unsupportedError"
| "unsupported_command (StmtPrepare query) = unsupportedError"
| "unsupported_command (StmtExecute query) = unsupportedError"
| "unsupported_command StmtClose = unsupportedError"
| "unsupported_command (OtherCommand c data) = unsupportedError"

definition unsupportedHandler :: "('v, 's) server_handler" where
  "unsupportedHandler = \<lparr>
     sh_UseDB = (\<lambda>_ s. (Some unsupportedError, s)),
     sh_HandleQuery = (\<lambda>_ s. (Inl unsupportedError, s)),
     sh_setQueryDecision = None, sh_maskedFieldCount = None,
     sh_closeTerminal = None, sh_Close = None\<rparr>"

end
