(* ===== verification/Forwarding.thy ===== *)
theory Forwarding
  imports Protocol
begin

text \<open>
  \<open>internal/mysqlproxy/forwarding_handler.go\<close>: the handler that executes an allowed statement
  upstream, checks the result against the limits and masks its rows.  A method that changes the
  handler returns the changed handler, a loop over rows is a recursion on the rows.  A result that
  is refused is dropped, so closing it (\<open>result.Close()\<close>) has no effect in the model.
\<close>

record resourceLimits =
  rl_maxQueryBytes :: int
  rl_maxResultRows :: int
  rl_maxResultBytes :: int

record 'u forwardingHandler =
  fh_upstream :: 'u
  fh_masker :: "(Field \<Rightarrow> Value \<Rightarrow> Value) option"
  fh_limits :: resourceLimits
  fh_decision :: Decision
  fh_closed :: bool
  fh_terminal :: "go_error option"
  fh_maskedFields :: int

text \<open>The zero value of \<open>sqlpolicy.Decision\<close> has no kind at all; no test of the handlers tells it
  from a rejection.\<close>

definition zero_decision :: Decision where
  "zero_decision = \<lparr>dec_Kind = Reject, dec_Reason = '''', dec_ExpressionContext = []\<rparr>"

definition newForwardingHandlerWithLimits ::
  "'u \<Rightarrow> (Field \<Rightarrow> Value \<Rightarrow> Value) option \<Rightarrow> resourceLimits \<Rightarrow> 'u forwardingHandler" where
  "newForwardingHandlerWithLimits upstream masker limits = \<lparr>fh_upstream = upstream, fh_masker = masker,
     fh_limits = limits, fh_decision = zero_decision, fh_closed = False, fh_terminal = None,
     fh_maskedFields = 0\<rparr>"

subsection \<open>Values and rows\<close>

definition fieldValueBytes :: "'v mysql_lib \<Rightarrow> 'v \<Rightarrow> go_error + Value" where
  "fieldValueBytes lib value' =
     (if lib_IsNull lib value' then Inr \<lparr>v_Raw = [], v_Null = True\<rparr>
      else case lib_FormatTextValue lib value' of
        Inl err \<Rightarrow> Inl (Wrapped ''format text value'' err)
      | Inr raw \<Rightarrow> Inr \<lparr>v_Raw = raw, v_Null = False\<rparr>)"

definition appendMaskingValue :: "'v mysql_lib \<Rightarrow> RowData \<Rightarrow> Value \<Rightarrow> RowData" where
  "appendMaskingValue lib rowData value' =
     (if v_Null value' then rowData @ [CHR 0xFB]
      else rowData @ lib_PutLengthEncodedString lib (v_Raw value'))"

definition maskingChanged :: "Value \<Rightarrow> Value \<Rightarrow> bool" where
  "maskingChanged original masked \<longleftrightarrow> v_Null original \<noteq> v_Null masked \<or> v_Raw original \<noteq> v_Raw masked"

fun row_loop :: "'v mysql_lib \<Rightarrow> RowData \<Rightarrow> 'v list \<Rightarrow> go_error + RowData" where
  "row_loop lib rowData [] = Inr rowData"
| "row_loop lib rowData (value' # values) = (case fieldValueBytes lib value' of
     Inl err \<Rightarrow> Inl err
   | Inr raw \<Rightarrow> row_loop lib (appendMaskingValue lib rowData raw) values)"

definition rowDataFromValues :: "'v mysql_lib \<Rightarrow> 'v list \<Rightarrow> go_error + RowData" where
  "rowDataFromValues lib values = row_loop lib [] values"

fun rowDatasFromValues :: "'v mysql_lib \<Rightarrow> 'v list list \<Rightarrow> go_error + RowData list" where
  "rowDatasFromValues lib [] = Inr []"
| "rowDatasFromValues lib (row # values) = (case rowDataFromValues lib row of
     Inl err \<Rightarrow> Inl err
   | Inr rowData \<Rightarrow> (case rowDatasFromValues lib values of
       Inl err \<Rightarrow> Inl err | Inr rowDatas \<Rightarrow> Inr (rowData # rowDatas)))"

definition cloneFieldValues :: "'v mysql_lib \<Rightarrow> 'v list \<Rightarrow> 'v list" where
  "cloneFieldValues lib values =
     map (\<lambda>v. lib_NewFieldValue lib (lib_Type lib v) (lib_AsUint64 lib v)
        (if lib_Type lib v = FieldValueTypeString then lib_AsString lib v else [])) values"

subsection \<open>Fields\<close>

definition originFreeField :: "MySQLField option \<Rightarrow> bool" where
  "originFreeField field = (case field of None \<Rightarrow> True
   | Some f \<Rightarrow> length (mf_Schema f) = 0 \<and> length (mf_OrgTable f) = 0 \<and> length (mf_OrgName f) = 0)"

definition maskingTypeFamily :: "mysql_type \<Rightarrow> 16 word \<Rightarrow> TypeFamily" where
  "maskingTypeFamily mysqlType flag =
     (if mysqlType \<in> {MYSQL_TYPE_TINY, MYSQL_TYPE_SHORT, MYSQL_TYPE_LONG, MYSQL_TYPE_FLOAT,
           MYSQL_TYPE_DOUBLE, MYSQL_TYPE_LONGLONG, MYSQL_TYPE_INT24, MYSQL_TYPE_YEAR,
           MYSQL_TYPE_DECIMAL, MYSQL_TYPE_NEWDECIMAL} then TypeNumeric
      else if mysqlType \<in> {MYSQL_TYPE_DATE, MYSQL_TYPE_NEWDATE} then TypeDate
      else if mysqlType \<in> {MYSQL_TYPE_TIME, MYSQL_TYPE_TIME2} then TypeTime
      else if mysqlType \<in> {MYSQL_TYPE_TIMESTAMP, MYSQL_TYPE_TIMESTAMP2, MYSQL_TYPE_DATETIME,
           MYSQL_TYPE_DATETIME2} then TypeTimestamp
      else if mysqlType \<in> {MYSQL_TYPE_BIT, MYSQL_TYPE_VECTOR, MYSQL_TYPE_TINY_BLOB,
           MYSQL_TYPE_MEDIUM_BLOB, MYSQL_TYPE_LONG_BLOB, MYSQL_TYPE_BLOB, MYSQL_TYPE_VAR_STRING,
           MYSQL_TYPE_STRING} \<and> flag AND BINARY_FLAG \<noteq> 0 then TypeBinary
      else TypeText)"

definition maskingField :: "MySQLField option \<Rightarrow> Field" where
  "maskingField field = (case field of
     None \<Rightarrow> \<lparr>f_Schema = '''', f_OriginalTable = '''', f_OriginalColumn = '''', f_TypeFamily = TypeOther ''''\<rparr>
   | Some f \<Rightarrow> \<lparr>f_Schema = mf_Schema f, f_OriginalTable = mf_OrgTable f, f_OriginalColumn = mf_OrgName f,
       f_TypeFamily = maskingTypeFamily (mf_Type f) (mf_Flag f)\<rparr>)"

definition expressionAllowsPassthrough :: "Decision \<Rightarrow> nat \<Rightarrow> MySQLField option \<Rightarrow> nat \<Rightarrow> bool" where
  "expressionAllowsPassthrough decision index field fieldCount =
     (let contexts = dec_ExpressionContext decision in
      if length contexts \<noteq> fieldCount then False
      else if \<not> originFreeField field then False
      else let context' = contexts ! index in
      if ec_SafeBuiltin context' \<or> ec_Kind context' = ExpressionCountStar then True
      else dec_Kind decision = AllowOperationalRead \<and> ec_Kind context' = ExpressionLiteral)"

subsection \<open>Results\<close>

definition resultIsStreaming :: "'v mysql_lib \<Rightarrow> 'v Result option \<Rightarrow> bool" where
  "resultIsStreaming lib result = (case result of None \<Rightarrow> False
   | Some r \<Rightarrow> lib_IsStreaming lib r
       \<or> (case r_Resultset r of None \<Rightarrow> False | Some rs \<Rightarrow> rs_Streaming rs \<noteq> StreamingNone))"

definition resultHasResultset :: "'v mysql_lib \<Rightarrow> 'v Result option \<Rightarrow> bool" where
  "resultHasResultset lib result = (case result of None \<Rightarrow> False
   | Some r \<Rightarrow> resultIsStreaming lib result \<or> lib_HasResultset lib r)"

definition normalizeBufferedResultset :: "'v Result option \<Rightarrow> 'v Result option" where
  "normalizeBufferedResultset result = (case result of None \<Rightarrow> None
   | Some r \<Rightarrow> (case r_Resultset r of None \<Rightarrow> Some r
     | Some rs \<Rightarrow>
         if rs_Fields rs = [] \<and> rs_RowDatas rs = [] \<and> rs_Values rs = [] then Some r
         else Some (r\<lparr>r_Resultset := Some (rs\<lparr>rs_Streaming := StreamingNone, rs_StreamingDone := False\<rparr>)\<rparr>)))"

definition resultRowCount :: "'v Result option \<Rightarrow> int" where
  "resultRowCount result = (case result of None \<Rightarrow> 0
   | Some r \<Rightarrow> (case r_Resultset r of None \<Rightarrow> 0
     | Some rs \<Rightarrow> if rs_RowDatas rs \<noteq> [] then int (length (rs_RowDatas rs)) else int (length (rs_Values rs))))"

definition rows_bytes :: "RowData list \<Rightarrow> int" where
  "rows_bytes rowDatas = sum_list (map (int \<circ> length) rowDatas)"

definition resultEncodedBytes :: "'v Result option \<Rightarrow> int" where
  "resultEncodedBytes result = (case result of None \<Rightarrow> 0
   | Some r \<Rightarrow> (case r_Resultset r of None \<Rightarrow> 0 | Some rs \<Rightarrow> rows_bytes (rs_RowDatas rs)))"

definition ensureBufferedRowDatas :: "'v mysql_lib \<Rightarrow> 'v Result option \<Rightarrow> go_error + 'v Result option" where
  "ensureBufferedRowDatas lib result = (case result of None \<Rightarrow> Inr None
   | Some r \<Rightarrow> (case r_Resultset r of None \<Rightarrow> Inr (Some r)
     | Some rs \<Rightarrow>
         if rs_RowDatas rs \<noteq> [] \<or> rs_Values rs = [] then Inr (Some r)
         else case rowDatasFromValues lib (rs_Values rs) of
           Inl err \<Rightarrow> Inl err
         | Inr rowDatas \<Rightarrow> Inr (Some (r\<lparr>r_Resultset := Some (rs\<lparr>rs_RowDatas := rowDatas\<rparr>)\<rparr>))))"

definition resultRowsOverLimit :: "resourceLimits \<Rightarrow> 'v Result option \<Rightarrow> bool" where
  "resultRowsOverLimit limits result \<longleftrightarrow>
     rl_maxResultRows limits > 0 \<and> resultRowCount result > rl_maxResultRows limits"

definition resultBytesOverLimit :: "resourceLimits \<Rightarrow> 'v Result option \<Rightarrow> bool" where
  "resultBytesOverLimit limits result \<longleftrightarrow>
     rl_maxResultBytes limits > 0 \<and> resultEncodedBytes result > rl_maxResultBytes limits"

definition has_more_results :: "'v Result option \<Rightarrow> bool" where
  "has_more_results result = (case result of None \<Rightarrow> False
   | Some r \<Rightarrow> r_Status r AND SERVER_MORE_RESULTS_EXISTS \<noteq> 0)"


subsection \<open>Masking a result\<close>

text \<open>The last argument counts the fields changed so far (\<open>handler.maskedFields\<close>).\<close>

fun mask_values :: "'v mysql_lib \<Rightarrow> (Field \<Rightarrow> Value \<Rightarrow> Value) \<Rightarrow> Decision \<Rightarrow> fields \<Rightarrow> nat \<Rightarrow> 'v list
    \<Rightarrow> RowData \<Rightarrow> int \<Rightarrow> (go_error + RowData) \<times> int" where
  "mask_values lib masker decision flds i [] rowData n = (Inr rowData, n)"
| "mask_values lib masker decision flds i (value' # values) rowData n =
     (case fieldValueBytes lib value' of
        Inl err \<Rightarrow> (Inl err, n)
      | Inr raw \<Rightarrow>
          if expressionAllowsPassthrough decision i (flds ! i) (length flds) then
            mask_values lib masker decision flds (i + 1) values (appendMaskingValue lib rowData raw) n
          else let masked = masker (maskingField (flds ! i)) raw in
            mask_values lib masker decision flds (i + 1) values (appendMaskingValue lib rowData masked)
              (if maskingChanged raw masked then n + 1 else n))"

definition maskRow :: "'v mysql_lib \<Rightarrow> (Field \<Rightarrow> Value \<Rightarrow> Value) \<Rightarrow> Decision \<Rightarrow> fields \<Rightarrow> 'v list \<Rightarrow> int
    \<Rightarrow> (go_error + RowData \<times> 'v list) \<times> int" where
  "maskRow lib masker decision flds values n =
     (if length values \<noteq> length flds then (Inl (ErrorText ''row width''), n)
      else case mask_values lib masker decision flds 0 values [] n of
        (Inl err, n) \<Rightarrow> (Inl err, n)
      | (Inr rowData, n) \<Rightarrow> (case lib_Parse lib rowData flds of
          Inl err \<Rightarrow> (Inl (Wrapped ''parse masked text row'' err), n)
        | Inr maskedValues \<Rightarrow> (Inr (rowData, maskedValues), n)))"

fun mask_rows :: "'v mysql_lib \<Rightarrow> (Field \<Rightarrow> Value \<Rightarrow> Value) \<Rightarrow> Decision \<Rightarrow> fields \<Rightarrow> RowData list \<Rightarrow> int
    \<Rightarrow> (go_error + (RowData \<times> 'v list) list) \<times> int" where
  "mask_rows lib masker decision flds [] n = (Inr [], n)"
| "mask_rows lib masker decision flds (rowData # rowDatas) n =
     (case lib_Parse lib rowData flds of
        Inl err \<Rightarrow> (Inl (Wrapped ''parse upstream text row'' err), n)
      | Inr rowValues \<Rightarrow> (case maskRow lib masker decision flds rowValues n of
          (Inl err, n) \<Rightarrow> (Inl err, n)
        | (Inr row, n) \<Rightarrow> (case mask_rows lib masker decision flds rowDatas n of
            (Inl err, n) \<Rightarrow> (Inl err, n)
          | (Inr rows, n) \<Rightarrow> (Inr (row # rows), n))))"

definition upstream_rows :: "'v mysql_lib \<Rightarrow> 'v Resultset \<Rightarrow> go_error + RowData list" where
  "upstream_rows lib rs = (if rs_RowDatas rs = [] \<and> rs_Values rs \<noteq> []
     then rowDatasFromValues lib (rs_Values rs) else Inr (rs_RowDatas rs))"

definition maskResult :: "'v mysql_lib \<Rightarrow> 'v Result option \<Rightarrow> 'u forwardingHandler
    \<Rightarrow> (go_error + 'v Result option) \<times> 'u forwardingHandler" where
  "maskResult lib result h = (case (fh_masker h, result) of
     (Some masker, Some r) \<Rightarrow>
       if resultIsStreaming lib result then (Inl (ErrorText ''streaming resultsets cannot be masked''), h)
       else (case r_Resultset r of
         None \<Rightarrow> (Inr result, h)
       | Some rs \<Rightarrow>
         if rs_Fields rs = [] then (Inr result, h)
         else case upstream_rows lib rs of
           Inl err \<Rightarrow> (Inl err, h)
         | Inr rowDatas \<Rightarrow>
           (case mask_rows lib masker (fh_decision h) (rs_Fields rs) rowDatas (fh_maskedFields h) of
              (Inl err, n) \<Rightarrow> (Inl err, h\<lparr>fh_maskedFields := n\<rparr>)
            | (Inr rows, n) \<Rightarrow>
                (Inr (Some (r\<lparr>r_Resultset := Some (rs\<lparr>rs_RowDatas := map fst rows, rs_Values := map snd rows\<rparr>)\<rparr>)),
                 h\<lparr>fh_maskedFields := n\<rparr>)))
   | _ \<Rightarrow> (Inr result, h))"

subsection \<open>Closing\<close>

definition forwarding_Close :: "('v, 'u) upstreamSession \<Rightarrow> 'u forwardingHandler
    \<Rightarrow> go_error option \<times> 'u forwardingHandler" where
  "forwarding_Close up h =
     (if fh_closed h then (None, h)
      else let h = h\<lparr>fh_closed := True\<rparr> in
        case us_Close up (fh_upstream h) of (err, u) \<Rightarrow> (err, h\<lparr>fh_upstream := u\<rparr>))"

definition forwarding_closeTerminal :: "('v, 'u) upstreamSession \<Rightarrow> go_error \<Rightarrow> 'u forwardingHandler
    \<Rightarrow> go_error option \<times> 'u forwardingHandler" where
  "forwarding_closeTerminal up err h =
     (let h = (if fh_terminal h = None then h\<lparr>fh_terminal := Some err\<rparr> else h) in forwarding_Close up h)"

definition forwarding_setQueryDecision :: "Decision \<Rightarrow> 'u forwardingHandler \<Rightarrow> 'u forwardingHandler" where
  "forwarding_setQueryDecision decision h = h\<lparr>fh_decision := decision\<rparr>"

definition forwarding_UseDB :: "('v, 'u) upstreamSession \<Rightarrow> string \<Rightarrow> 'u forwardingHandler
    \<Rightarrow> go_error option \<times> 'u forwardingHandler" where
  "forwarding_UseDB up database h =
     (if fh_closed h then (Some unsupportedError, h)
      else case us_UseDB up database (fh_upstream h) of
        (None, u) \<Rightarrow> (None, h\<lparr>fh_upstream := u\<rparr>)
      | (Some err, u) \<Rightarrow>
          (let h = h\<lparr>fh_upstream := u\<rparr> in
           (Some err, if isTerminalUpstreamError (Some err) then snd (forwarding_closeTerminal up err h) else h)))"

subsection \<open>Executing a statement\<close>

text \<open>The rows a bounded select has accepted: the values, their encoding and its length.\<close>

record 'v bounded_rows =
  br_rows :: "'v list list"
  br_rowDatas :: "RowData list"
  br_resultBytes :: int

definition bounded_row :: "'v mysql_lib \<Rightarrow> resourceLimits \<Rightarrow> 'v list \<Rightarrow> 'v bounded_rows
    \<Rightarrow> go_error option \<times> 'v bounded_rows" where
  "bounded_row lib limits row acc =
     (if rl_maxResultRows limits > 0 \<and> int (length (br_rows acc)) \<ge> rl_maxResultRows limits then
        (Some ErrResultRowLimitExceeded, acc)
      else let cloned = cloneFieldValues lib row in
      case rowDataFromValues lib cloned of
        Inl err \<Rightarrow> (Some err, acc)
      | Inr rowData \<Rightarrow>
          if rl_maxResultBytes limits > 0
             \<and> br_resultBytes acc + int (length rowData) > rl_maxResultBytes limits then
            (Some ErrResultByteLimitExceeded, acc)
          else (None, \<lparr>br_rows = br_rows acc @ [cloned], br_rowDatas = br_rowDatas acc @ [rowData],
                       br_resultBytes = br_resultBytes acc + int (length rowData)\<rparr>))"

definition executeBoundedSelect :: "'v mysql_lib \<Rightarrow> (string \<Rightarrow> 'u \<Rightarrow> ('v, 'u) select_stream) \<Rightarrow> string
    \<Rightarrow> 'u forwardingHandler \<Rightarrow> (go_error + 'v Result option) \<times> 'u forwardingHandler" where
  "executeBoundedSelect lib stream query h =
     (case run_stream (bounded_row lib (fh_limits h)) \<lparr>br_rows = [], br_rowDatas = [], br_resultBytes = 0\<rparr>
        (stream query (fh_upstream h)) of
        (Some err, _, _, u) \<Rightarrow> (Inl err, h\<lparr>fh_upstream := u\<rparr>)
      | (None, result, acc, u) \<Rightarrow>
          (Inr (Some (case r_Resultset result of None \<Rightarrow> result
             | Some rs \<Rightarrow> if rs_Fields rs = [] then result
                 else result\<lparr>r_Resultset := Some (rs\<lparr>rs_RowDatas := br_rowDatas acc, rs_Values := br_rows acc,
                        rs_Streaming := StreamingNone, rs_StreamingDone := False\<rparr>)\<rparr>)),
           h\<lparr>fh_upstream := u\<rparr>))"

definition forwarding_execute :: "'v mysql_lib \<Rightarrow> ('v, 'u) upstreamSession \<Rightarrow> string
    \<Rightarrow> 'u forwardingHandler \<Rightarrow> (go_error + 'v Result option) \<times> 'u forwardingHandler" where
  "forwarding_execute lib up query h =
     (case us_ExecuteSelectStreaming up of
        Some stream \<Rightarrow>
          if rl_maxResultRows (fh_limits h) > 0 \<or> rl_maxResultBytes (fh_limits h) > 0 then
            executeBoundedSelect lib stream query h
          else (case us_Execute up query (fh_upstream h) of (result, u) \<Rightarrow> (result, h\<lparr>fh_upstream := u\<rparr>))
      | None \<Rightarrow> (case us_Execute up query (fh_upstream h) of (result, u) \<Rightarrow> (result, h\<lparr>fh_upstream := u\<rparr>)))"

text \<open>\<open>refuse\<close>: close with the error, answer that the surface is unsupported.\<close>

definition refuse :: "('v, 'u) upstreamSession \<Rightarrow> go_error \<Rightarrow> 'u forwardingHandler
    \<Rightarrow> (go_error + 'v Result option) \<times> 'u forwardingHandler" where
  "refuse up err h = (Inl unsupportedError, snd (forwarding_closeTerminal up err h))"

text \<open>The checks between the execution and the answer, in their order.\<close>

definition check_result :: "'v mysql_lib \<Rightarrow> ('v, 'u) upstreamSession \<Rightarrow> 'v Result option
    \<Rightarrow> 'u forwardingHandler \<Rightarrow> (go_error + 'v Result option) \<times> 'u forwardingHandler" where
  "check_result lib up result h =
     (if has_more_results result then refuse up unsupportedError h
      else if dec_Kind (fh_decision h) = AllowSetup \<and> resultHasResultset lib result then
        refuse up unsupportedError h
      else if rl_maxResultRows (fh_limits h) > 0 \<and> resultIsStreaming lib result then
        refuse up unsupportedError h
      else if rl_maxResultBytes (fh_limits h) > 0 \<and> resultIsStreaming lib result then
        refuse up unsupportedError h
      else case ensureBufferedRowDatas lib result of
        Inl err \<Rightarrow> refuse up err h
      | Inr result \<Rightarrow>
          if resultRowsOverLimit (fh_limits h) result then refuse up unsupportedError h
          else if resultBytesOverLimit (fh_limits h) result then refuse up unsupportedError h
          else case maskResult lib result h of
            (Inl err, h) \<Rightarrow> refuse up err h
          | (Inr result, h) \<Rightarrow>
              if resultBytesOverLimit (fh_limits h) result then refuse up unsupportedError h
              else (Inr result, h))"

definition forwarding_HandleQuery :: "'v mysql_lib \<Rightarrow> ('v, 'u) upstreamSession \<Rightarrow> string
    \<Rightarrow> 'u forwardingHandler \<Rightarrow> (go_error + 'v Result option) \<times> 'u forwardingHandler" where
  "forwarding_HandleQuery lib up query h =
     (if fh_closed h then (Inl unsupportedError, h)
      else let h = h\<lparr>fh_maskedFields := 0\<rparr> in
      case forwarding_execute lib up query h of
        (Inl err, h) \<Rightarrow>
          if errors_Is ErrResultRowLimitExceeded err \<or> errors_Is ErrResultByteLimitExceeded err then
            refuse up err h
          else (Inl err, if isTerminalUpstreamError (Some err)
                         then snd (forwarding_closeTerminal up err h) else h)
      | (Inr result, h) \<Rightarrow> check_result lib up (normalizeBufferedResultset result) h)"

definition forwarding_handler :: "'v mysql_lib \<Rightarrow> ('v, 'u) upstreamSession
    \<Rightarrow> ('v, 'u forwardingHandler) server_handler" where
  "forwarding_handler lib up = \<lparr>
     sh_UseDB = forwarding_UseDB up,
     sh_HandleQuery = forwarding_HandleQuery lib up,
     sh_setQueryDecision = Some forwarding_setQueryDecision,
     sh_maskedFieldCount = Some fh_maskedFields,
     sh_closeTerminal = Some (forwarding_closeTerminal up),
     sh_Close = Some (forwarding_Close up)\<rparr>"

end
