(* ===== verification/ForwardingProperties.thy ===== *)
theory ForwardingProperties
  imports Forwarding
begin

text \<open>
  What the forwarding handler promises: a result that it returns is within the limits and
  masked, masking hides every value that is neither allowed nor origin-free, and a handler
  stays open only while the connection is known to be in order.
\<close>

subsection \<open>Closing\<close>

lemma forwarding_Close_simps [simp]:
  "fh_closed (snd (forwarding_Close up h))"
  "fh_terminal (snd (forwarding_Close up h)) = fh_terminal h"
  "fh_maskedFields (snd (forwarding_Close up h)) = fh_maskedFields h"
  "fh_decision (snd (forwarding_Close up h)) = fh_decision h"
  "fh_limits (snd (forwarding_Close up h)) = fh_limits h"
  "fh_masker (snd (forwarding_Close up h)) = fh_masker h"
  by (auto simp: forwarding_Close_def Let_def split: prod.splits)

lemma forwarding_closeTerminal_simps [simp]:
  "fh_closed (snd (forwarding_closeTerminal up err h))"
  "fh_terminal (snd (forwarding_closeTerminal up err h)) =
     (case fh_terminal h of None \<Rightarrow> Some err | Some e \<Rightarrow> Some e)"
  by (auto simp: forwarding_closeTerminal_def Let_def split: option.splits)

lemma refuse_simps [simp]:
  "fst (refuse up err h) = Inl unsupportedError"
  "fh_closed (snd (refuse up err h))"
  "fh_terminal (snd (refuse up err h)) \<noteq> None"
  by (auto simp: refuse_def split: option.splits)

lemma refuse_pair: "refuse up err h = (res, h') \<Longrightarrow> res = Inl unsupportedError \<and> fh_closed h' \<and> fh_terminal h' \<noteq> None"
  by (metis fst_conv refuse_simps snd_conv)

subsection \<open>Masking rows\<close>

text \<open>\<open>decoded\<close>: the row is well-formed and holds these values.\<close>

definition decoded :: "'v mysql_lib \<Rightarrow> fields \<Rightarrow> RowData \<Rightarrow> Value list \<Rightarrow> bool" where
  "decoded lib flds rowData raws \<longleftrightarrow> (\<exists>vals. lib_Parse lib rowData flds = Inr vals
     \<and> length vals = length flds \<and> map (fieldValueBytes lib) vals = map Inr raws)"

definition shown :: "(Field \<Rightarrow> Value \<Rightarrow> Value) \<Rightarrow> Decision \<Rightarrow> fields \<Rightarrow> nat \<Rightarrow> Value \<Rightarrow> Value" where
  "shown masker decision flds i raw =
     (if expressionAllowsPassthrough decision i (flds ! i) (length flds) then raw
      else masker (maskingField (flds ! i)) raw)"

definition encode_row :: "'v mysql_lib \<Rightarrow> Value list \<Rightarrow> RowData" where
  "encode_row lib values = concat (map (appendMaskingValue lib []) values)"

definition shown_row :: "(Field \<Rightarrow> Value \<Rightarrow> Value) \<Rightarrow> Decision \<Rightarrow> fields \<Rightarrow> nat \<Rightarrow> Value list \<Rightarrow> Value list" where
  "shown_row masker decision flds i raws = map2 (shown masker decision flds) [i..<i + length raws] raws"

lemma append_value: "appendMaskingValue lib rd v = rd @ appendMaskingValue lib [] v"
  by (simp add: appendMaskingValue_def)

lemma shown_row_simps [simp]:
  "shown_row masker d flds i [] = []"
  "shown_row masker d flds i (v # vs) = shown masker d flds i v # shown_row masker d flds (Suc i) vs"
  "length (shown_row masker d flds i raws) = length raws"
  by (simp_all add: shown_row_def upt_conv_Cons del: upt_Suc)

lemma encode_row_simps [simp]:
  "encode_row lib [] = []"
  "encode_row lib (v # vs) = appendMaskingValue lib [] v @ encode_row lib vs"
  by (simp_all add: encode_row_def)

lemma decoded_unique: "decoded lib flds rd raws \<Longrightarrow> decoded lib flds rd raws' \<Longrightarrow> raws = raws'"
  unfolding decoded_def by (metis Inr_inject list.inj_map_strong sum.inject(2))

lemma mask_values_Inr:
  assumes "mask_values lib masker d flds i vals rd n = (Inr rd', n')"
  shows "\<exists>raws. map (fieldValueBytes lib) vals = map Inr raws
     \<and> rd' = rd @ encode_row lib (shown_row masker d flds i raws)"
  using assms
proof (induction vals arbitrary: i rd n)
  case (Cons v vals)
  then obtain raw where raw: "fieldValueBytes lib v = Inr raw"
    by (auto split: sum.splits)
  obtain m where "mask_values lib masker d flds (Suc i) vals
       (appendMaskingValue lib rd (shown masker d flds i raw)) m = (Inr rd', n')"
    using Cons.prems raw by (auto simp: shown_def Let_def split: if_splits)
  from Cons.IH[OF this] obtain raws where "map (fieldValueBytes lib) vals = map Inr raws"
    "rd' = appendMaskingValue lib rd (shown masker d flds i raw)
       @ encode_row lib (shown_row masker d flds (Suc i) raws)" by blast
  then show ?case using raw append_value[of lib rd]
    by (intro exI[of _ "raw # raws"]) simp
qed simp

lemma mask_rows_Inr:
  assumes "mask_rows lib masker d flds rds n = (Inr out, n')"
  shows "\<exists>rawss. list_all2 (decoded lib flds) rds rawss
     \<and> map fst out = map (\<lambda>raws. encode_row lib (shown_row masker d flds 0 raws)) rawss
     \<and> list_all (\<lambda>(rd, vs). lib_Parse lib rd flds = Inr vs) out"
  using assms
proof (induction rds arbitrary: n out)
  case (Cons rd rds)
  from Cons.prems obtain vals row m rows where
    parse: "lib_Parse lib rd flds = Inr vals"
    and row: "maskRow lib masker d flds vals n = (Inr row, m)"
    and rows: "mask_rows lib masker d flds rds m = (Inr rows, n')" and out: "out = row # rows"
    by (auto split: sum.splits prod.splits)
  obtain raws where raws: "map (fieldValueBytes lib) vals = map Inr raws"
      "fst row = encode_row lib (shown_row masker d flds 0 raws)"
      "lib_Parse lib (fst row) flds = Inr (snd row)" "length vals = length flds"
    using row by (auto simp: maskRow_def split: if_splits prod.splits sum.splits dest!: mask_values_Inr)
  from Cons.IH[OF rows] obtain rawss where "list_all2 (decoded lib flds) rds rawss"
      "map fst rows = map (\<lambda>raws. encode_row lib (shown_row masker d flds 0 raws)) rawss"
      "list_all (\<lambda>(rd, vs). lib_Parse lib rd flds = Inr vs) rows" by blast
  moreover have "decoded lib flds rd raws" using raws parse by (auto simp: decoded_def)
  ultimately show ?case using raws out by (intro exI[of _ "raws # rawss"]) auto
qed simp

subsection \<open>The path of a returned result\<close>

lemma rowDatas_length: "rowDatasFromValues lib vss = Inr rds \<Longrightarrow> length rds = length vss"
  by (induction vss arbitrary: rds) (auto split: sum.splits)

lemma ensure_rows:
  assumes "ensureBufferedRowDatas lib (Some r) = Inr res" "r_Resultset r = Some rs"
  shows "\<exists>r' rs'. res = Some r' \<and> r_Resultset r' = Some rs' \<and> r_Status r' = r_Status r
     \<and> rs_Fields rs' = rs_Fields rs \<and> rs_Streaming rs' = rs_Streaming rs
     \<and> rs_StreamingDone rs' = rs_StreamingDone rs \<and> upstream_rows lib rs' = upstream_rows lib rs"
proof (cases "rs_RowDatas rs \<noteq> [] \<or> rs_Values rs = []")
  case True
  then have "res = Some r" using assms by (simp add: ensureBufferedRowDatas_def)
  then show ?thesis using assms(2) by simp
next
  case False
  then obtain rds where rds: "rowDatasFromValues lib (rs_Values rs) = Inr rds"
      "res = Some (r\<lparr>r_Resultset := Some (rs\<lparr>rs_RowDatas := rds\<rparr>)\<rparr>)"
    using assms by (auto simp: ensureBufferedRowDatas_def split: sum.splits)
  moreover have "rds \<noteq> []" using rowDatas_length[OF rds(1)] False by auto
  ultimately show ?thesis using False by (simp add: upstream_rows_def)
qed

lemma check_result_Inr:
  assumes "check_result lib up result h = (Inr res, h')"
  shows "\<not> has_more_results result"
    and "dec_Kind (fh_decision h) = AllowSetup \<Longrightarrow> \<not> resultHasResultset lib result"
    and "rl_maxResultRows (fh_limits h) > 0 \<or> rl_maxResultBytes (fh_limits h) > 0
      \<Longrightarrow> \<not> resultIsStreaming lib result"
    and "\<exists>buf. ensureBufferedRowDatas lib result = Inr buf \<and> maskResult lib buf h = (Inr res, h')
      \<and> \<not> resultRowsOverLimit (fh_limits h) buf \<and> \<not> resultBytesOverLimit (fh_limits h) buf"
    and "\<not> resultBytesOverLimit (fh_limits h') res"
  using assms unfolding check_result_def
  by (auto split: if_splits sum.splits prod.splits dest: refuse_pair)

lemma execute_keeps [simp]:
  assumes "forwarding_execute lib up query h = (res, h')"
  shows "fh_closed h' = fh_closed h" "fh_terminal h' = fh_terminal h" "fh_masker h' = fh_masker h"
    "fh_decision h' = fh_decision h" "fh_limits h' = fh_limits h" "fh_maskedFields h' = fh_maskedFields h"
  using assms by (auto simp: forwarding_execute_def executeBoundedSelect_def
      split: option.splits if_splits prod.splits)

lemma maskResult_keeps:
  assumes "maskResult lib result h = (res, h')"
  shows "fh_closed h' = fh_closed h" "fh_terminal h' = fh_terminal h" "fh_masker h' = fh_masker h"
    "fh_decision h' = fh_decision h" "fh_limits h' = fh_limits h" "fh_upstream h' = fh_upstream h"
  using assms by (auto simp: maskResult_def split: option.splits if_splits prod.splits sum.splits)

lemma HandleQuery_Inr:
  assumes "forwarding_HandleQuery lib up query h = (Inr res, h')"
  shows "\<exists>r0 h0. \<not> fh_closed h
     \<and> forwarding_execute lib up query (h\<lparr>fh_maskedFields := 0\<rparr>) = (Inr r0, h0)
     \<and> check_result lib up (normalizeBufferedResultset r0) h0 = (Inr res, h')"
  using assms by (auto simp: forwarding_HandleQuery_def Let_def split: if_splits prod.splits sum.splits
      dest: refuse_pair)


lemma maskResult_Inr:
  assumes "maskResult lib (Some r) h = (Inr res, h')" "fh_masker h = Some masker"
    and "r_Resultset r = Some rs" "rs_Fields rs \<noteq> []"
  shows "\<exists>rows rawss out. upstream_rows lib rs = Inr rows \<and> list_all2 (decoded lib (rs_Fields rs)) rows rawss
     \<and> res = Some (r\<lparr>r_Resultset := Some (rs\<lparr>rs_RowDatas := map fst out, rs_Values := map snd out\<rparr>)\<rparr>)
     \<and> map fst out = map (\<lambda>raws. encode_row lib (shown_row masker (fh_decision h) (rs_Fields rs) 0 raws)) rawss
     \<and> list_all (\<lambda>(rd, vs). lib_Parse lib rd (rs_Fields rs) = Inr vs) out"
proof -
  obtain rows out n where rows: "upstream_rows lib rs = Inr rows"
      "mask_rows lib masker (fh_decision h) (rs_Fields rs) rows (fh_maskedFields h) = (Inr out, n)"
      "res = Some (r\<lparr>r_Resultset := Some (rs\<lparr>rs_RowDatas := map fst out, rs_Values := map snd out\<rparr>)\<rparr>)"
    using assms by (auto simp: maskResult_def split: if_splits sum.splits prod.splits)
  show ?thesis using mask_rows_Inr[OF rows(2)] rows(1,3) by blast
qed

lemma normalize_fields:
  assumes "r_Resultset r = Some rs" "rs_Fields rs \<noteq> []"
  shows "normalizeBufferedResultset (Some r) =
     Some (r\<lparr>r_Resultset := Some (rs\<lparr>rs_Streaming := StreamingNone, rs_StreamingDone := False\<rparr>)\<rparr>)"
  using assms by (simp add: normalizeBufferedResultset_def)

text \<open>Everything a masked answer consists of, from what the upstream session delivered.\<close>

lemma masked_answer:
  assumes "forwarding_HandleQuery lib up query h = (Inr (Some r), h')" "fh_masker h = Some masker"
    and "forwarding_execute lib up query (h\<lparr>fh_maskedFields := 0\<rparr>) = (Inr (Some r0), h0)"
    and "r_Resultset r0 = Some rs0" "rs_Fields rs0 \<noteq> []"
  shows "\<exists>rows rawss rs. upstream_rows lib rs0 = Inr rows
     \<and> list_all2 (decoded lib (rs_Fields rs0)) rows rawss
     \<and> r = \<lparr>r_Status = r_Status r0, r_Resultset = Some rs\<rparr>
     \<and> rs_Fields rs = rs_Fields rs0 \<and> rs_Streaming rs = StreamingNone \<and> \<not> rs_StreamingDone rs
     \<and> rs_RowDatas rs = map (\<lambda>raws. encode_row lib
           (shown_row masker (fh_decision h) (rs_Fields rs0) 0 raws)) rawss
     \<and> map (\<lambda>rd. lib_Parse lib rd (rs_Fields rs0)) (rs_RowDatas rs) = map Inr (rs_Values rs)"
proof -
  let ?n = "r0\<lparr>r_Resultset := Some (rs0\<lparr>rs_Streaming := StreamingNone, rs_StreamingDone := False\<rparr>)\<rparr>"
  have h0: "fh_masker h0 = Some masker" "fh_decision h0 = fh_decision h"
    using execute_keeps[OF assms(3)] assms(2) by simp_all
  have "check_result lib up (Some ?n) h0 = (Inr (Some r), h')"
    using HandleQuery_Inr[OF assms(1)] assms(3) normalize_fields[OF assms(4,5)] by auto
  from check_result_Inr(4)[OF this] obtain buf where buf:
      "ensureBufferedRowDatas lib (Some ?n) = Inr buf" "maskResult lib buf h0 = (Inr (Some r), h')" by blast
  obtain r' rs' where r': "buf = Some r'" "r_Resultset r' = Some rs'" "r_Status r' = r_Status r0"
      "rs_Fields rs' = rs_Fields rs0" "rs_Streaming rs' = StreamingNone" "\<not> rs_StreamingDone rs'"
      "upstream_rows lib rs' = upstream_rows lib rs0"
    using ensure_rows[OF buf(1), of "rs0\<lparr>rs_Streaming := StreamingNone, rs_StreamingDone := False\<rparr>"]
    by (auto simp: upstream_rows_def)
  obtain rows rawss out where out: "upstream_rows lib rs0 = Inr rows"
      "list_all2 (decoded lib (rs_Fields rs0)) rows rawss"
      "r = r'\<lparr>r_Resultset := Some (rs'\<lparr>rs_RowDatas := map fst out, rs_Values := map snd out\<rparr>)\<rparr>"
      "map fst out = map (\<lambda>raws. encode_row lib (shown_row masker (fh_decision h) (rs_Fields rs0) 0 raws)) rawss"
      "list_all (\<lambda>(rd, vs). lib_Parse lib rd (rs_Fields rs0) = Inr vs) out"
    using maskResult_Inr[OF buf(2)[unfolded r'(1)] h0(1) r'(2)] assms(5) r' h0(2) by auto
  have "map (\<lambda>rd. lib_Parse lib rd (rs_Fields rs0)) (map fst out) = map Inr (map snd out)"
    using out(5) by (auto simp: list_all_iff)
  then show ?thesis using out r'(3-6)
    by (intro exI[of _ rows] exI[of _ rawss] exI[of _ "rs'\<lparr>rs_RowDatas := map fst out, rs_Values := map snd out\<rparr>"]) auto
qed

subsection \<open>Masking under the laws of a masking policy\<close>

definition row_agree :: "(nat \<Rightarrow> bool) \<Rightarrow> Value list \<Rightarrow> Value list \<Rightarrow> bool" where
  "row_agree vis raws raws' \<longleftrightarrow> length raws = length raws'
     \<and> (\<forall>i < length raws. v_Null (raws ! i) = v_Null (raws' ! i) \<and> (vis i \<longrightarrow> raws ! i = raws' ! i))"

text \<open>A column is readable when it is passed through or its field is allowed.\<close>

definition readable :: "(Field \<Rightarrow> bool) \<Rightarrow> Decision \<Rightarrow> fields \<Rightarrow> nat \<Rightarrow> bool" where
  "readable allows decision flds i \<longleftrightarrow>
     expressionAllowsPassthrough decision i (flds ! i) (length flds) \<or> allows (maskingField (flds ! i))"

lemma shown_row_nth:
  "i < length raws \<Longrightarrow> shown_row masker d flds k raws ! i = shown masker d flds (k + i) (raws ! i)"
  by (simp add: shown_row_def)

context masking_policy begin

lemma shown_row_agree:
  assumes "row_agree (readable visible d flds) raws raws'"
  shows "shown_row mask d flds 0 raws = shown_row mask d flds 0 raws'"
proof (rule nth_equalityI)
  fix i assume "i < length (shown_row mask d flds 0 raws)"
  then have i: "i < length raws" "i < length raws'" using assms by (simp_all add: row_agree_def)
  then have "v_Null (raws ! i) = v_Null (raws' ! i)"
      "readable visible d flds i \<Longrightarrow> raws ! i = raws' ! i"
    using assms by (auto simp: row_agree_def)
  then show "shown_row mask d flds 0 raws ! i = shown_row mask d flds 0 raws' ! i"
    using i agree[of "maskingField (flds ! i)" "raws ! i" "raws' ! i"]
    by (simp add: shown_row_nth shown_def readable_def)
qed (use assms in \<open>simp add: row_agree_def\<close>)

lemma shown_rows_agree:
  "list_all2 (row_agree (readable visible d flds)) rawss rawss' \<Longrightarrow>
     map (\<lambda>raws. encode_row lib (shown_row mask d flds 0 raws)) rawss =
     map (\<lambda>raws. encode_row lib (shown_row mask d flds 0 raws)) rawss'"
proof (induction rawss rawss' rule: list_all2_induct)
  case (Cons x xs y ys)
  then show ?case using shown_row_agree[of d flds x y] by simp
qed simp

lemma shown_hidden:
  "\<not> readable visible d flds i \<Longrightarrow> v_Null raw = v_Null raw' \<Longrightarrow> shown mask d flds i raw = shown mask d flds i raw'"
  using hides[of "maskingField (flds ! i)" raw raw'] by (simp add: shown_def readable_def)

end


subsection \<open>Properties\<close>

text \<open>
  C30.  A result with columns that the handler returns is exactly what the upstream session
  delivered, row by row, with every value passed through the policy unless the decision lets
  its column through: the fields are the upstream fields, each row is the encoding of the
  shown values, the decoded rows are those of the encoded ones, and nothing is left to stream.
\<close>

theorem rows_masked:
  assumes "forwarding_HandleQuery lib up query h = (Inr (Some r), h')"
    and "fh_masker h = Some (Mask ul p)"
    and "forwarding_execute lib up query (h\<lparr>fh_maskedFields := 0\<rparr>) = (Inr (Some r0), h0)"
    and "r_Resultset r0 = Some rs0" "rs_Fields rs0 \<noteq> []"
  shows "\<exists>rows rawss rs. upstream_rows lib rs0 = Inr rows
     \<and> list_all2 (decoded lib (rs_Fields rs0)) rows rawss
     \<and> r = \<lparr>r_Status = r_Status r0, r_Resultset = Some rs\<rparr>
     \<and> rs_Fields rs = rs_Fields rs0 \<and> rs_Streaming rs = StreamingNone \<and> \<not> rs_StreamingDone rs
     \<and> rs_RowDatas rs = map (\<lambda>raws. encode_row lib
           (shown_row (Mask ul p) (fh_decision h) (rs_Fields rs0) 0 raws)) rawss
     \<and> map (\<lambda>rd. lib_Parse lib rd (rs_Fields rs0)) (rs_RowDatas rs) = map Inr (rs_Values rs)"
  by (rule masked_answer[OF assms])

text \<open>\<open>same_readable\<close>: two results with the same columns and NULLs that differ at most in the
  values of columns that are not readable.\<close>

definition same_readable :: "'v mysql_lib \<Rightarrow> (Field \<Rightarrow> bool) \<Rightarrow> Decision \<Rightarrow> 'v Result \<Rightarrow> 'v Result \<Rightarrow> bool" where
  "same_readable lib allows decision r1 r2 \<longleftrightarrow> r_Status r1 = r_Status r2
     \<and> (\<exists>rs1 rs2 rows1 rows2 rawss1 rawss2.
          r_Resultset r1 = Some rs1 \<and> r_Resultset r2 = Some rs2
        \<and> rs_Fields rs1 = rs_Fields rs2 \<and> rs_Fields rs1 \<noteq> []
        \<and> upstream_rows lib rs1 = Inr rows1 \<and> upstream_rows lib rs2 = Inr rows2
        \<and> list_all2 (decoded lib (rs_Fields rs1)) rows1 rawss1
        \<and> list_all2 (decoded lib (rs_Fields rs1)) rows2 rawss2
        \<and> list_all2 (row_agree (readable allows decision (rs_Fields rs1))) rawss1 rawss2)"

lemma decoded_rows_unique:
  "list_all2 (decoded lib flds) rows xs \<Longrightarrow> list_all2 (decoded lib flds) rows ys \<Longrightarrow> xs = ys"
proof (induction rows xs arbitrary: ys rule: list_all2_induct)
  case (Cons rd rds x xs)
  then obtain z zs where "ys = z # zs" "decoded lib flds rd z" "list_all2 (decoded lib flds) rds zs"
    by (auto simp: list_all2_Cons1)
  then show ?case using Cons.IH[of zs] decoded_unique[OF Cons.hyps(1), of z] by simp
qed simp

lemma masked_rows_of:
  assumes "forwarding_HandleQuery lib up query h = (Inr (Some r), h')" "fh_masker h = Some masker"
    and "forwarding_execute lib up query (h\<lparr>fh_maskedFields := 0\<rparr>) = (Inr (Some r0), h0)"
    and "r_Resultset r0 = Some rs0" "rs_Fields rs0 \<noteq> []"
    and "upstream_rows lib rs0 = Inr rows" "list_all2 (decoded lib (rs_Fields rs0)) rows rawss"
  shows "\<exists>rs. r = \<lparr>r_Status = r_Status r0, r_Resultset = Some rs\<rparr>
     \<and> rs_Fields rs = rs_Fields rs0 \<and> rs_Streaming rs = StreamingNone \<and> \<not> rs_StreamingDone rs
     \<and> rs_RowDatas rs = map (\<lambda>raws. encode_row lib
           (shown_row masker (fh_decision h) (rs_Fields rs0) 0 raws)) rawss
     \<and> map (\<lambda>rd. lib_Parse lib rd (rs_Fields rs0)) (rs_RowDatas rs) = map Inr (rs_Values rs)"
proof -
  obtain rows' rawss' rs where rs: "upstream_rows lib rs0 = Inr rows'"
      "list_all2 (decoded lib (rs_Fields rs0)) rows' rawss'"
      "r = \<lparr>r_Status = r_Status r0, r_Resultset = Some rs\<rparr>"
      "rs_Fields rs = rs_Fields rs0" "rs_Streaming rs = StreamingNone" "\<not> rs_StreamingDone rs"
      "rs_RowDatas rs = map (\<lambda>raws. encode_row lib (shown_row masker (fh_decision h) (rs_Fields rs0) 0 raws)) rawss'"
      "map (\<lambda>rd. lib_Parse lib rd (rs_Fields rs0)) (rs_RowDatas rs) = map Inr (rs_Values rs)"
    using masked_answer[OF assms(1-5)] by blast
  have "rawss' = rawss" using rs(1,2) assms(6,7) decoded_rows_unique by auto
  then show ?thesis using rs(3-8) by blast
qed

text \<open>
  C2.  Nothing is learned from a masked value: when the upstream sessions of two handlers with the
  same policy and decision deliver results that agree on the readable columns and on what is NULL,
  the two handlers return the same result, whatever the hidden values are.
\<close>

theorem hidden_values_not_returned:
  assumes "fh_masker h1 = Some (Mask ul p)" "fh_masker h2 = Some (Mask ul p)"
    and "fh_decision h2 = fh_decision h1"
    and "forwarding_execute lib up1 q1 (h1\<lparr>fh_maskedFields := 0\<rparr>) = (Inr (Some r1), k1)"
    and "forwarding_execute lib up2 q2 (h2\<lparr>fh_maskedFields := 0\<rparr>) = (Inr (Some r2), k2)"
    and "same_readable lib (allowed ul p) (fh_decision h1) r1 r2"
    and "forwarding_HandleQuery lib up1 q1 h1 = (Inr (Some o1), h1')"
    and "forwarding_HandleQuery lib up2 q2 h2 = (Inr (Some o2), h2')"
  shows "o1 = o2"
proof -
  let ?d = "fh_decision h1"
  obtain rs1 rs2 rows1 rows2 rawss1 rawss2 where r:
      "r_Resultset r1 = Some rs1" "r_Resultset r2 = Some rs2" "r_Status r1 = r_Status r2"
      "rs_Fields rs2 = rs_Fields rs1" "rs_Fields rs1 \<noteq> []"
      "upstream_rows lib rs1 = Inr rows1" "upstream_rows lib rs2 = Inr rows2"
      "list_all2 (decoded lib (rs_Fields rs1)) rows1 rawss1"
      "list_all2 (decoded lib (rs_Fields rs1)) rows2 rawss2"
      "list_all2 (row_agree (readable (allowed ul p) ?d (rs_Fields rs1))) rawss1 rawss2"
    using assms(6) unfolding same_readable_def by auto
  let ?enc = "\<lambda>raws. encode_row lib (shown_row (Mask ul p) ?d (rs_Fields rs1) 0 raws)"
  obtain s1 where s1: "o1 = \<lparr>r_Status = r_Status r1, r_Resultset = Some s1\<rparr>" "rs_Fields s1 = rs_Fields rs1"
      "rs_Streaming s1 = StreamingNone" "\<not> rs_StreamingDone s1" "rs_RowDatas s1 = map ?enc rawss1"
      "map (\<lambda>rd. lib_Parse lib rd (rs_Fields rs1)) (rs_RowDatas s1) = map Inr (rs_Values s1)"
    using masked_rows_of[OF assms(7,1,4) r(1,5,6,8)] by blast
  have f2: "rs_Fields rs2 \<noteq> []" "upstream_rows lib rs2 = Inr rows2"
      "list_all2 (decoded lib (rs_Fields rs2)) rows2 rawss2" using r by simp_all
  obtain s2 where s2: "o2 = \<lparr>r_Status = r_Status r1, r_Resultset = Some s2\<rparr>" "rs_Fields s2 = rs_Fields rs1"
      "rs_Streaming s2 = StreamingNone" "\<not> rs_StreamingDone s2" "rs_RowDatas s2 = map ?enc rawss2"
      "map (\<lambda>rd. lib_Parse lib rd (rs_Fields rs1)) (rs_RowDatas s2) = map Inr (rs_Values s2)"
    using masked_rows_of[OF assms(8,2,5) r(2) f2] unfolding r(3,4) assms(3) by blast
  have rows: "rs_RowDatas s1 = rs_RowDatas s2"
    using static.shown_rows_agree[OF r(10)] s1(5) s2(5) by simp
  then have "map Inr (rs_Values s1) = (map Inr (rs_Values s2) :: (go_error + _) list)"
    using s1(6) s2(6) by simp
  then have "rs_Values s1 = rs_Values s2" by (simp add: inj_map_eq_map)
  then show ?thesis using s1 s2 rows by simp
qed


subsection \<open>Limits\<close>

lemma upstream_rows_length:
  "upstream_rows lib rs = Inr rows \<Longrightarrow>
     length rows = (if rs_RowDatas rs \<noteq> [] then length (rs_RowDatas rs) else length (rs_Values rs))"
  by (auto simp: upstream_rows_def dest: rowDatas_length split: if_splits)

lemma mask_rows_length: "mask_rows lib masker d flds rds n = (Inr out, n') \<Longrightarrow> length out = length rds"
  by (induction rds arbitrary: n out) (auto split: sum.splits prod.splits)

lemma maskResult_rowCount:
  assumes "maskResult lib result h = (Inr res, h')"
  shows "resultRowCount res = resultRowCount result"
  using assms
  by (auto simp: maskResult_def resultRowCount_def split: option.splits if_splits sum.splits prod.splits
      dest!: mask_rows_length upstream_rows_length)

lemma has_more_normalize [simp]:
  "has_more_results (normalizeBufferedResultset result) = has_more_results result"
  by (auto simp: has_more_results_def normalizeBufferedResultset_def split: option.splits)

text \<open>
  C32.  Whatever the handler returns is within the configured numbers of rows and bytes; it comes
  from an answer without further results, under limits one that is not a stream, and for a
  setup statement one without a result set; and the handler stays open.
\<close>

theorem returned_within_limits:
  assumes "forwarding_HandleQuery lib up query h = (Inr res, h')"
  shows "(rl_maxResultRows (fh_limits h) > 0 \<longrightarrow> resultRowCount res \<le> rl_maxResultRows (fh_limits h))
    \<and> (rl_maxResultBytes (fh_limits h) > 0 \<longrightarrow> resultEncodedBytes res \<le> rl_maxResultBytes (fh_limits h))
    \<and> \<not> fh_closed h'
    \<and> (\<exists>r0. fst (forwarding_execute lib up query (h\<lparr>fh_maskedFields := 0\<rparr>)) = Inr r0 \<and> \<not> has_more_results r0
        \<and> ((rl_maxResultRows (fh_limits h) > 0 \<or> rl_maxResultBytes (fh_limits h) > 0)
             \<longrightarrow> \<not> resultIsStreaming lib (normalizeBufferedResultset r0))
        \<and> (dec_Kind (fh_decision h) = AllowSetup \<longrightarrow> \<not> resultHasResultset lib (normalizeBufferedResultset r0)))"
proof -
  obtain r0 h0 where ex: "\<not> fh_closed h"
      "forwarding_execute lib up query (h\<lparr>fh_maskedFields := 0\<rparr>) = (Inr r0, h0)"
      "check_result lib up (normalizeBufferedResultset r0) h0 = (Inr res, h')"
    using HandleQuery_Inr[OF assms] by blast
  note keep = execute_keeps[OF ex(2), simplified]
  note ok = check_result_Inr[OF ex(3)]
  obtain buf where buf: "maskResult lib buf h0 = (Inr res, h')" "\<not> resultRowsOverLimit (fh_limits h0) buf"
    using ok(4) by blast
  have "\<not> resultRowsOverLimit (fh_limits h) res"
    using buf maskResult_rowCount[OF buf(1)] keep by (simp add: resultRowsOverLimit_def)
  then show ?thesis
    using ok(1-3,5) ex(1,2) keep maskResult_keeps[OF buf(1)]
    by (auto simp: resultRowsOverLimit_def resultBytesOverLimit_def)
qed

text \<open>
  The rows of a bounded select are within the limits at every moment, whatever the upstream
  session does with the errors of the callback.
\<close>

definition bounded_ok :: "resourceLimits \<Rightarrow> 'v bounded_rows \<Rightarrow> bool" where
  "bounded_ok limits acc \<longleftrightarrow>
     (rl_maxResultRows limits > 0 \<longrightarrow> int (length (br_rows acc)) \<le> rl_maxResultRows limits)
   \<and> (rl_maxResultBytes limits > 0 \<longrightarrow> br_resultBytes acc \<le> rl_maxResultBytes limits)
   \<and> br_resultBytes acc = rows_bytes (br_rowDatas acc) \<and> length (br_rowDatas acc) = length (br_rows acc)"

lemma bounded_row_ok:
  "bounded_ok limits acc \<Longrightarrow> bounded_row lib limits row acc = (err, acc') \<Longrightarrow> bounded_ok limits acc'"
  by (auto simp: bounded_ok_def bounded_row_def Let_def rows_bytes_def split: if_splits sum.splits)

lemma bounded_stream_ok:
  assumes "run_stream (bounded_row lib limits) acc st = (err, result, acc', u)" "bounded_ok limits acc"
  shows "bounded_ok limits acc'"
  by (rule run_stream_induct[where P = "bounded_ok limits" and callback = "bounded_row lib limits"])
     (use assms bounded_row_ok in blast)+

text \<open>A session that streams these rows, stops at the first error of the callback and returns it.\<close>

fun row_stream :: "'v list list \<Rightarrow> 'v Result \<Rightarrow> 'u \<Rightarrow> ('v, 'u) select_stream" where
  "row_stream [] result u = StreamFinished None result u"
| "row_stream (row # rows) result u = StreamRow row
     (\<lambda>err. case err of None \<Rightarrow> row_stream rows result u | Some e \<Rightarrow> StreamFinished (Some e) result u)"

definition within_limits :: "resourceLimits \<Rightarrow> RowData list \<Rightarrow> bool" where
  "within_limits limits rds \<longleftrightarrow>
     (rl_maxResultRows limits > 0 \<longrightarrow> int (length rds) \<le> rl_maxResultRows limits)
   \<and> (rl_maxResultBytes limits > 0 \<longrightarrow> rows_bytes rds \<le> rl_maxResultBytes limits)"

lemma rows_bytes_simps [simp]:
  "rows_bytes [] = 0" "rows_bytes (rd # rds) = int (length rd) + rows_bytes rds"
  "rows_bytes (rds @ rds') = rows_bytes rds + rows_bytes rds'"
  by (simp_all add: rows_bytes_def)

lemma rows_bytes_nonneg: "0 \<le> rows_bytes rds"
  by (induction rds) simp_all

lemma row_stream_run:
  assumes "map (\<lambda>row. rowDataFromValues lib (cloneFieldValues lib row)) rows = map Inr rds"
    and "bounded_ok limits acc"
  shows "if within_limits limits (br_rowDatas acc @ rds)
    then run_stream (bounded_row lib limits) acc (row_stream rows result u) =
       (None, result, \<lparr>br_rows = br_rows acc @ map (cloneFieldValues lib) rows, br_rowDatas = br_rowDatas acc @ rds,
          br_resultBytes = br_resultBytes acc + rows_bytes rds\<rparr>, u)
    else fst (run_stream (bounded_row lib limits) acc (row_stream rows result u))
       \<in> {Some ErrResultRowLimitExceeded, Some ErrResultByteLimitExceeded}
     \<and> snd (snd (snd (run_stream (bounded_row lib limits) acc (row_stream rows result u)))) = u"
  using assms
proof (induction rows arbitrary: acc rds)
  case Nil
  then show ?case by (auto simp: within_limits_def bounded_ok_def)
next
  case (Cons row rows)
  obtain rd rest where rds: "rds = rd # rest"
      "rowDataFromValues lib (cloneFieldValues lib row) = Inr rd"
      "map (\<lambda>row. rowDataFromValues lib (cloneFieldValues lib row)) rows = map Inr rest"
    using Cons.prems(1) by (cases rds) auto
  obtain err acc' where step: "bounded_row lib limits row acc = (err, acc')" by fastforce
  show ?case
  proof (cases err)
    case None
    then have acc': "acc' = \<lparr>br_rows = br_rows acc @ [cloneFieldValues lib row],
        br_rowDatas = br_rowDatas acc @ [rd], br_resultBytes = br_resultBytes acc + int (length rd)\<rparr>"
      using step rds(2) by (auto simp: bounded_row_def Let_def split: if_splits)
    show ?thesis
      using Cons.IH[OF rds(3) bounded_row_ok[OF Cons.prems(2) step]] step None rds(1) acc'
      by (simp add: add.assoc split: if_splits)
  next
    case (Some e)
    have "\<not> within_limits limits (br_rowDatas acc @ rds)"
        "e = ErrResultRowLimitExceeded \<or> e = ErrResultByteLimitExceeded"
      using step Some rds(1,2) Cons.prems(2) rows_bytes_nonneg[of rest]
      by (auto simp: bounded_row_def bounded_ok_def within_limits_def Let_def split: if_splits)
    then show ?thesis using step Some by auto
  qed
qed

text \<open>The rows that reach the client, and that masking succeeds on rows that can be read.\<close>

definition masked_rows :: "'v mysql_lib \<Rightarrow> (Field \<Rightarrow> Value \<Rightarrow> Value) \<Rightarrow> Decision \<Rightarrow> fields
    \<Rightarrow> Value list list \<Rightarrow> RowData list" where
  "masked_rows lib masker d flds rawss = map (\<lambda>raws. encode_row lib (shown_row masker d flds 0 raws)) rawss"

lemma masked_rows_simps [simp]:
  "masked_rows lib masker d flds [] = []"
  "masked_rows lib masker d flds (raws # rawss) =
     encode_row lib (shown_row masker d flds 0 raws) # masked_rows lib masker d flds rawss"
  "length (masked_rows lib masker d flds rawss) = length rawss"
  by (simp_all add: masked_rows_def)

lemma mask_values_ok:
  assumes "map (fieldValueBytes lib) vals = map Inr raws"
  shows "\<exists>n'. mask_values lib masker d flds i vals rd n =
     (Inr (rd @ encode_row lib (shown_row masker d flds i raws)), n')"
  using assms
proof (induction vals arbitrary: i rd n raws)
  case (Cons v vals)
  then obtain raw rest where raws: "raws = raw # rest" "fieldValueBytes lib v = Inr raw"
      "map (fieldValueBytes lib) vals = map Inr rest" by (cases raws) auto
  let ?m = "if expressionAllowsPassthrough d i (flds ! i) (length flds)
      \<or> \<not> maskingChanged raw (masker (maskingField (flds ! i)) raw) then n else n + 1"
  have "mask_values lib masker d flds i (v # vals) rd n =
      mask_values lib masker d flds (Suc i) vals (appendMaskingValue lib rd (shown masker d flds i raw)) ?m"
    using raws(2) by (simp add: shown_def Let_def)
  then show ?case
    using Cons.IH[OF raws(3), of "Suc i" "appendMaskingValue lib rd (shown masker d flds i raw)" ?m] raws(1)
      append_value[of lib rd] by simp
qed simp

lemma mask_rows_ok:
  assumes "list_all2 (decoded lib flds) rds rawss"
    and "\<forall>rd \<in> set (masked_rows lib masker d flds rawss). \<exists>vs. lib_Parse lib rd flds = Inr vs"
  shows "\<exists>out n'. mask_rows lib masker d flds rds n = (Inr out, n')
     \<and> map fst out = masked_rows lib masker d flds rawss
     \<and> map (\<lambda>rd. lib_Parse lib rd flds) (map fst out) = map Inr (map snd out)"
  using assms
proof (induction rds rawss arbitrary: n rule: list_all2_induct)
  case (Cons rd rds raws rawss)
  obtain vals where vals: "lib_Parse lib rd flds = Inr vals" "length vals = length flds"
      "map (fieldValueBytes lib) vals = map Inr raws"
    using Cons.hyps(1) unfolding decoded_def by blast
  obtain m where m: "mask_values lib masker d flds 0 vals [] n =
      (Inr (encode_row lib (shown_row masker d flds 0 raws)), m)"
    using mask_values_ok[OF vals(3), where rd = "[]"] by fastforce
  obtain vs where vs: "lib_Parse lib (encode_row lib (shown_row masker d flds 0 raws)) flds = Inr vs"
    using Cons.prems by auto
  obtain out n' where "mask_rows lib masker d flds rds m = (Inr out, n')"
      "map fst out = masked_rows lib masker d flds rawss"
      "map (\<lambda>rd. lib_Parse lib rd flds) (map fst out) = map Inr (map snd out)"
    using Cons.IH[where n = m] Cons.prems by (metis list.set_intros(2) masked_rows_simps(2))
  then show ?case using vals(1,2) m vs by (simp add: maskRow_def del: map_map)
qed simp

lemma within_limits_result:
  assumes "r_Resultset r = Some rs" "length (rs_Values rs) = length (rs_RowDatas rs)"
  shows "within_limits limits (rs_RowDatas rs) \<longleftrightarrow>
    \<not> resultRowsOverLimit limits (Some r) \<and> \<not> resultBytesOverLimit limits (Some r)"
proof -
  have "resultRowCount (Some r) = int (length (rs_RowDatas rs))" "resultEncodedBytes (Some r) = rows_bytes (rs_RowDatas rs)"
    using assms by (simp_all add: resultRowCount_def resultEncodedBytes_def)
  then show ?thesis by (simp add: within_limits_def resultRowsOverLimit_def resultBytesOverLimit_def) auto
qed

lemma check_buffered:
  assumes "r_Resultset r = Some rs" "rs_Fields rs \<noteq> []" "rs_Streaming rs = StreamingNone" "\<not> lib_IsStreaming lib r"
    and "\<not> has_more_results (Some r)" "dec_Kind (fh_decision h) \<noteq> AllowSetup"
    and "length (rs_Values rs) = length (rs_RowDatas rs)" "within_limits (fh_limits h) (rs_RowDatas rs)"
    and "fh_masker h = Some masker"
    and "mask_rows lib masker (fh_decision h) (rs_Fields rs) (rs_RowDatas rs) (fh_maskedFields h) = (Inr out, n)"
  shows "check_result lib up (Some r) h =
    (if within_limits (fh_limits h) (map fst out)
     then (Inr (Some (r\<lparr>r_Resultset := Some (rs\<lparr>rs_RowDatas := map fst out, rs_Values := map snd out\<rparr>)\<rparr>)),
           h\<lparr>fh_maskedFields := n\<rparr>)
     else refuse up unsupportedError (h\<lparr>fh_maskedFields := n\<rparr>))"
proof -
  have len: "length out = length (rs_RowDatas rs)" using mask_rows_length[OF assms(10)] .
  have ens: "ensureBufferedRowDatas lib (Some r) = Inr (Some r)"
    using assms(1,7) by (auto simp: ensureBufferedRowDatas_def)
  have str: "\<not> resultIsStreaming lib (Some r)" using assms(1,3,4) by (simp add: resultIsStreaming_def)
  have up: "upstream_rows lib rs = Inr (rs_RowDatas rs)" using assms(7) by (auto simp: upstream_rows_def)
  have mask: "maskResult lib (Some r) h =
      (Inr (Some (r\<lparr>r_Resultset := Some (rs\<lparr>rs_RowDatas := map fst out, rs_Values := map snd out\<rparr>)\<rparr>)),
       h\<lparr>fh_maskedFields := n\<rparr>)"
    using str assms(1,2,9,10) up by (simp add: maskResult_def)
  have lim: "\<not> resultRowsOverLimit (fh_limits h) (Some r)" "\<not> resultBytesOverLimit (fh_limits h) (Some r)"
    using within_limits_result[OF assms(1,7)] assms(8) by simp_all
  have fits: "resultBytesOverLimit (fh_limits h) (Some (r\<lparr>r_Resultset := Some (rs\<lparr>rs_RowDatas := map fst out, rs_Values := map snd out\<rparr>)\<rparr>))
      \<longleftrightarrow> \<not> within_limits (fh_limits h) (map fst out)"
  proof -
    have "resultBytesOverLimit (fh_limits h) (Some (r\<lparr>r_Resultset := Some (rs\<lparr>rs_RowDatas := map fst out, rs_Values := map snd out\<rparr>)\<rparr>))
        \<longleftrightarrow> \<not> (rl_maxResultBytes (fh_limits h) > 0 \<longrightarrow> rows_bytes (map fst out) \<le> rl_maxResultBytes (fh_limits h))"
      by (simp add: resultBytesOverLimit_def resultEncodedBytes_def not_le)
    then show ?thesis using assms(8) len by (simp add: within_limits_def)
  qed
  show ?thesis using assms(5,6) str ens mask lim fits by (simp add: check_result_def)
qed

lemma refuse_upstream:
  "\<not> fh_closed h \<Longrightarrow> fh_terminal h = None \<Longrightarrow> \<exists>h'. refuse up err h = (Inl unsupportedError, h') \<and> fh_closed h'
     \<and> fh_terminal h' = Some err \<and> fh_upstream h' = snd (us_Close up (fh_upstream h))"
  by (auto simp: refuse_def forwarding_closeTerminal_def forwarding_Close_def Let_def split: prod.splits)

lemma bounded_rows_answered:
  assumes "us_ExecuteSelectStreaming up = Some stream" "stream query (fh_upstream h) = row_stream rows result u"
    and "rl_maxResultRows (fh_limits h) > 0 \<or> rl_maxResultBytes (fh_limits h) > 0"
    and "r_Resultset result = Some rs" "rs_Fields rs \<noteq> []" "\<not> fh_closed h" "fh_terminal h = None"
    and "\<not> has_more_results (Some result)" "dec_Kind (fh_decision h) \<noteq> AllowSetup" "fh_masker h = Some masker"
    and "map (\<lambda>row. rowDataFromValues lib (cloneFieldValues lib row)) rows = map Inr rds"
    and "list_all2 (decoded lib (rs_Fields rs)) rds rawss"
    and "\<forall>rd \<in> set (masked_rows lib masker (fh_decision h) (rs_Fields rs) rawss). \<exists>vs. lib_Parse lib rd (rs_Fields rs) = Inr vs"
    and "\<forall>r rs. r_Resultset r = Some rs \<and> rs_Streaming rs = StreamingNone \<longrightarrow> \<not> lib_IsStreaming lib r"
    and fits: "within_limits (fh_limits h) rds"
  obtains out m where "map fst out = masked_rows lib masker (fh_decision h) (rs_Fields rs) rawss"
    "map (\<lambda>rd. lib_Parse lib rd (rs_Fields rs)) (map fst out) = map Inr (map snd out)"
    "forwarding_HandleQuery lib up query h =
    (if within_limits (fh_limits h) (masked_rows lib masker (fh_decision h) (rs_Fields rs) rawss)
     then (Inr (Some (result\<lparr>r_Resultset := Some (rs\<lparr>
             rs_RowDatas := masked_rows lib masker (fh_decision h) (rs_Fields rs) rawss,
             rs_Values := map snd out, rs_Streaming := StreamingNone, rs_StreamingDone := False\<rparr>)\<rparr>)),
           h\<lparr>fh_upstream := u, fh_maskedFields := m\<rparr>)
     else refuse up unsupportedError (h\<lparr>fh_upstream := u, fh_maskedFields := m\<rparr>))"
proof -
  let ?run = "run_stream (bounded_row lib (fh_limits h)) \<lparr>br_rows = [], br_rowDatas = [], br_resultBytes = 0\<rparr>
     (row_stream rows result u)"
  have "bounded_ok (fh_limits h) \<lparr>br_rows = [], br_rowDatas = [], br_resultBytes = 0\<rparr>"
    by (simp add: bounded_ok_def)
  note run = row_stream_run[OF assms(11) this, of result u, simplified]
  let ?rs = "rs\<lparr>rs_RowDatas := rds, rs_Values := map (cloneFieldValues lib) rows, rs_Streaming := StreamingNone, rs_StreamingDone := False\<rparr>"
  let ?r = "result\<lparr>r_Resultset := Some ?rs\<rparr>"
  let ?h = "h\<lparr>fh_maskedFields := 0, fh_upstream := u\<rparr>"
  have ex: "forwarding_execute lib up query (h\<lparr>fh_maskedFields := 0\<rparr>) = (Inr (Some ?r), ?h)"
    using run assms(1-5) fits by (simp add: forwarding_execute_def executeBoundedSelect_def)
  have n: "normalizeBufferedResultset (Some ?r) = Some ?r"
    using assms(5) by (simp add: normalizeBufferedResultset_def)
  have hq: "forwarding_HandleQuery lib up query h = check_result lib up (Some ?r) ?h"
    using assms(6) ex n by (simp add: forwarding_HandleQuery_def)
  obtain out m where out: "mask_rows lib masker (fh_decision h) (rs_Fields rs) rds 0 = (Inr out, m)"
      "map fst out = masked_rows lib masker (fh_decision h) (rs_Fields rs) rawss"
      "map (\<lambda>rd. lib_Parse lib rd (rs_Fields rs)) (map fst out) = map Inr (map snd out)"
    using mask_rows_ok[OF assms(12,13), of 0] by blast
  have len: "length rows = length rds" using assms(11) map_eq_imp_length_eq by blast
  have st: "\<not> lib_IsStreaming lib ?r" using assms(14) by simp
  have more: "\<not> has_more_results (Some ?r)" using assms(8) by (simp add: has_more_results_def)
  have "check_result lib up (Some ?r) ?h =
    (if within_limits (fh_limits h) (map fst out)
     then (Inr (Some (?r\<lparr>r_Resultset := Some (?rs\<lparr>rs_RowDatas := map fst out, rs_Values := map snd out\<rparr>)\<rparr>)),
           ?h\<lparr>fh_maskedFields := m\<rparr>)
     else refuse up unsupportedError (?h\<lparr>fh_maskedFields := m\<rparr>))"
    using check_buffered[of ?r ?rs lib ?h masker out m up] assms(5,9,10) st more len fits out(1) by simp
  then have "forwarding_HandleQuery lib up query h =
    (if within_limits (fh_limits h) (masked_rows lib masker (fh_decision h) (rs_Fields rs) rawss)
     then (Inr (Some (result\<lparr>r_Resultset := Some (rs\<lparr>
             rs_RowDatas := masked_rows lib masker (fh_decision h) (rs_Fields rs) rawss,
             rs_Values := map snd out, rs_Streaming := StreamingNone, rs_StreamingDone := False\<rparr>)\<rparr>)),
           h\<lparr>fh_upstream := u, fh_maskedFields := m\<rparr>)
     else refuse up unsupportedError (h\<lparr>fh_upstream := u, fh_maskedFields := m\<rparr>))"
    using hq out(2) by simp
  then show thesis using that out(2,3) by blast
qed

text \<open>
  C31.  Under limits, a streamed select whose rows can be encoded and read back is answered with
  all its rows, masked, in order and in full, exactly when both the rows of the upstream session and
  the masked rows, which may be longer, fit in number and in total length.  Otherwise the client gets
  an error, no row, the session is closed for exceeding a limit, and so is its upstream connection.
\<close>

theorem bounded_select_exact:
  assumes "us_ExecuteSelectStreaming up = Some stream" "stream query (fh_upstream h) = row_stream rows result u"
    and "rl_maxResultRows (fh_limits h) > 0 \<or> rl_maxResultBytes (fh_limits h) > 0"
    and "r_Resultset result = Some rs" "rs_Fields rs \<noteq> []" "\<not> fh_closed h" "fh_terminal h = None"
    and "\<not> has_more_results (Some result)" "dec_Kind (fh_decision h) \<noteq> AllowSetup" "fh_masker h = Some masker"
    and "map (\<lambda>row. rowDataFromValues lib (cloneFieldValues lib row)) rows = map Inr rds"
    and "list_all2 (decoded lib (rs_Fields rs)) rds rawss"
    and "\<forall>rd \<in> set (masked_rows lib masker (fh_decision h) (rs_Fields rs) rawss). \<exists>vs. lib_Parse lib rd (rs_Fields rs) = Inr vs"
    and "\<forall>r rs. r_Resultset r = Some rs \<and> rs_Streaming rs = StreamingNone \<longrightarrow> \<not> lib_IsStreaming lib r"
  shows "if within_limits (fh_limits h) rds
      \<and> within_limits (fh_limits h) (masked_rows lib masker (fh_decision h) (rs_Fields rs) rawss)
    then (\<exists>vss h'. forwarding_HandleQuery lib up query h =
        (Inr (Some (result\<lparr>r_Resultset := Some (rs\<lparr>
           rs_RowDatas := masked_rows lib masker (fh_decision h) (rs_Fields rs) rawss,
           rs_Values := vss, rs_Streaming := StreamingNone, rs_StreamingDone := False\<rparr>)\<rparr>)), h')
        \<and> map (\<lambda>rd. lib_Parse lib rd (rs_Fields rs)) (masked_rows lib masker (fh_decision h) (rs_Fields rs) rawss) = map Inr vss
        \<and> \<not> fh_closed h' \<and> fh_terminal h' = None \<and> fh_upstream h' = u)
    else (\<exists>h'. forwarding_HandleQuery lib up query h = (Inl unsupportedError, h') \<and> fh_closed h'
        \<and> fh_terminal h' \<in> {Some ErrResultRowLimitExceeded, Some ErrResultByteLimitExceeded, Some unsupportedError}
        \<and> fh_upstream h' = snd (us_Close up u))"
proof -
  let ?run = "run_stream (bounded_row lib (fh_limits h)) \<lparr>br_rows = [], br_rowDatas = [], br_resultBytes = 0\<rparr>
     (row_stream rows result u)"
  have "bounded_ok (fh_limits h) \<lparr>br_rows = [], br_rowDatas = [], br_resultBytes = 0\<rparr>"
    by (simp add: bounded_ok_def)
  note run = row_stream_run[OF assms(11) this, of result u, simplified]
  show ?thesis
  proof (cases "within_limits (fh_limits h) rds")
    case True
    obtain out m where out: "map fst out = masked_rows lib masker (fh_decision h) (rs_Fields rs) rawss"
        "map (\<lambda>rd. lib_Parse lib rd (rs_Fields rs)) (map fst out) = map Inr (map snd out)"
        "forwarding_HandleQuery lib up query h =
        (if within_limits (fh_limits h) (masked_rows lib masker (fh_decision h) (rs_Fields rs) rawss)
         then (Inr (Some (result\<lparr>r_Resultset := Some (rs\<lparr>
                 rs_RowDatas := masked_rows lib masker (fh_decision h) (rs_Fields rs) rawss,
                 rs_Values := map snd out, rs_Streaming := StreamingNone, rs_StreamingDone := False\<rparr>)\<rparr>)),
               h\<lparr>fh_upstream := u, fh_maskedFields := m\<rparr>)
         else refuse up unsupportedError (h\<lparr>fh_upstream := u, fh_maskedFields := m\<rparr>))"
      using bounded_rows_answered[OF assms True] by blast
    show ?thesis
    proof (cases "within_limits (fh_limits h) (masked_rows lib masker (fh_decision h) (rs_Fields rs) rawss)")
      case fits: True
      show ?thesis using True fits out assms(6,7) by (auto simp del: map_map)
    next
      case fits: False
      obtain h' where "refuse up unsupportedError (h\<lparr>fh_upstream := u, fh_maskedFields := m\<rparr>) = (Inl unsupportedError, h')"
          "fh_closed h'" "fh_terminal h' = Some unsupportedError" "fh_upstream h' = snd (us_Close up u)"
        using refuse_upstream[of "h\<lparr>fh_upstream := u, fh_maskedFields := m\<rparr>" up unsupportedError] assms(6,7) by auto
      then show ?thesis using True fits out(3) by simp
    qed
  next
    case False
    then obtain e r acc where e: "?run = (Some e, r, acc, u)"
        "e = ErrResultRowLimitExceeded \<or> e = ErrResultByteLimitExceeded"
      using run by (cases ?run) auto
    then have "forwarding_execute lib up query (h\<lparr>fh_maskedFields := 0\<rparr>) =
        (Inl e, h\<lparr>fh_maskedFields := 0, fh_upstream := u\<rparr>)"
      using assms(1-3) by (simp add: forwarding_execute_def executeBoundedSelect_def)
    then show ?thesis using False e(2) assms(6,7)
      by (auto simp: forwarding_HandleQuery_def refuse_def forwarding_closeTerminal_def
          forwarding_Close_def Let_def split: prod.splits)
  qed
qed

subsection \<open>Errors\<close>

text \<open>
  A failed statement leaves the handler open only when the upstream session answered with a
  MySQL error packet, which is then what the client gets; every other failure closes the
  handler and records a cause, and a handler that was closed before answers without the session.
\<close>

lemma failure_closes:
  assumes "forwarding_HandleQuery lib up query h = (Inl err, h')"
  shows "(fh_closed h' \<and> (fh_closed h \<or> fh_terminal h' \<noteq> None))
    \<or> (errors_As_MyError err \<and> fst (forwarding_execute lib up query (h\<lparr>fh_maskedFields := 0\<rparr>)) = Inl err)"
proof (cases "fh_closed h")
  case True
  then show ?thesis using assms by (simp add: forwarding_HandleQuery_def)
next
  case False
  let ?h = "h\<lparr>fh_maskedFields := 0\<rparr>"
  obtain res k where ex: "forwarding_execute lib up query ?h = (res, k)" by fastforce
  show ?thesis
  proof (cases res)
    case (Inl e)
    then show ?thesis using assms False ex
      by (auto simp: forwarding_HandleQuery_def Let_def isTerminalUpstreamError_def
          split: if_splits option.splits dest!: refuse_pair)
  next
    case (Inr r)
    then have "check_result lib up (normalizeBufferedResultset r) k = (Inl err, h')"
      using assms False ex by (simp add: forwarding_HandleQuery_def)
    then show ?thesis
      unfolding check_result_def by (auto split: if_splits sum.splits prod.splits dest!: refuse_pair)
  qed
qed


subsection \<open>Witnesses\<close>

text \<open>A small instance of the library: a field value is NULL or a text, a row the texts with
  one byte of length each.\<close>

fun demo_parse :: "bytes \<Rightarrow> nat \<Rightarrow> string option list" where
  "demo_parse rd 0 = []"
| "demo_parse [] (Suc n) = []"
| "demo_parse (c # cs) (Suc n) = (if c = CHR 0xFB then None # demo_parse cs n
     else Some (take (of_char c) cs) # demo_parse (drop (of_char c) cs) n)"

definition demo_lib :: "string option mysql_lib" where
  "demo_lib = \<lparr>lib_IsNull = (\<lambda>v. v = None),
     lib_FormatTextValue = (\<lambda>v. case v of None \<Rightarrow> Inl (ErrorText ''nil'') | Some s \<Rightarrow> Inr s),
     lib_Parse = (\<lambda>rd flds. Inr (demo_parse rd (length flds))),
     lib_PutLengthEncodedString = (\<lambda>s. char_of (length s) # s),
     lib_IsStreaming = (\<lambda>_. False), lib_HasResultset = (\<lambda>r. r_Resultset r \<noteq> None),
     lib_Type = (\<lambda>v. case v of None \<Rightarrow> FieldValueTypeNull | Some _ \<Rightarrow> FieldValueTypeString),
     lib_AsUint64 = (\<lambda>_. 0), lib_AsString = (\<lambda>v. case v of None \<Rightarrow> [] | Some s \<Rightarrow> s),
     lib_NewFieldValue = (\<lambda>t _ s. if t = FieldValueTypeNull then None else Some s),
     lib_NewResultset = (\<lambda>n. \<lparr>rs_Fields = replicate n None, rs_Values = [], rs_RowDatas = [],
       rs_Streaming = StreamingNone, rs_StreamingDone = False\<rparr>),
     lib_NewResult = (\<lambda>rs. \<lparr>r_Status = 0, r_Resultset = Some rs\<rparr>)\<rparr>"

definition demo_field :: "string \<Rightarrow> MySQLField option" where
  "demo_field col = Some \<lparr>mf_Name = col, mf_Schema = ''app'', mf_OrgTable = ''users'', mf_OrgName = col,
     mf_Type = MYSQL_TYPE_VAR_STRING, mf_Flag = 0\<rparr>"

definition demo_result :: "string option list list \<Rightarrow> string option Result" where
  "demo_result rows = \<lparr>r_Status = 2, r_Resultset = Some \<lparr>rs_Fields = [demo_field ''id'', demo_field ''email''],
     rs_Values = rows, rs_RowDatas = [], rs_Streaming = StreamingNone, rs_StreamingDone = False\<rparr>\<rparr>"

text \<open>A session whose every statement gives the rows in its state, or streams them.\<close>

definition demo_session :: "(string option, string option list list) upstreamSession" where
  "demo_session = \<lparr>us_UseDB = (\<lambda>_ u. (None, u)), us_Execute = (\<lambda>_ u. (Inr (Some (demo_result u)), u)),
     us_Close = (\<lambda>u. (None, u)), us_ExecuteSelectStreaming =
       Some (\<lambda>_ u. row_stream u (demo_result []) u)\<rparr>"

definition demo_policy :: StaticPolicy where
  "demo_policy = NewPolicy id \<lparr>mc_TableRules = [\<lparr>tr_Schema = ''app'', tr_Table = ''users'',
     tr_AllowAllColumns = False, tr_Columns = [''id'']\<rparr>], mc_GlobalColumns = [], mc_AllowTables = [],
     mc_AllowColumns = [], mc_AllowColumnNames = []\<rparr>"

definition demo_forwarding :: "int \<Rightarrow> string option list list \<Rightarrow> string option list list forwardingHandler" where
  "demo_forwarding rows u = newForwardingHandlerWithLimits u (Some (Mask id demo_policy))
     \<lparr>rl_maxQueryBytes = 0, rl_maxResultRows = rows, rl_maxResultBytes = 0\<rparr>"

lemma demo_forwarding_masker: "fh_masker (demo_forwarding n u) = Some (Mask id demo_policy)"
  by (simp add: demo_forwarding_def newForwardingHandlerWithLimits_def)


abbreviation demo_users :: "string \<Rightarrow> string option list list" where
  "demo_users email \<equiv> [[Some ''7'', Some email]]"

fun answered :: "go_error + 'v Result option \<Rightarrow> bool" where
  "answered (Inr (Some _)) = True"
| "answered _ = False"

lemma answered_pair: "answered (fst p) \<Longrightarrow> \<exists>r h. p = (Inr (Some r), h)"
  by (cases p; cases "fst p" rule: answered.cases) auto

lemma demo_answers:
  "answered (fst (forwarding_HandleQuery demo_lib demo_session ''q'' (demo_forwarding 0 (demo_users ''ann''))))"
  "answered (fst (forwarding_HandleQuery demo_lib demo_session ''q'' (demo_forwarding 0 (demo_users ''bob''))))"
  by code_simp+

lemma demo_executes:
  "forwarding_execute demo_lib demo_session ''q'' ((demo_forwarding 0 u)\<lparr>fh_maskedFields := 0\<rparr>) =
     (Inr (Some (demo_result u)), (demo_forwarding 0 u)\<lparr>fh_maskedFields := 0\<rparr>)"
  by (simp add: forwarding_execute_def demo_session_def demo_forwarding_def newForwardingHandlerWithLimits_def)

lemma demo_resultset:
  "r_Resultset (demo_result u) = Some (the (r_Resultset (demo_result u)))"
  "rs_Fields (the (r_Resultset (demo_result u))) = [demo_field ''id'', demo_field ''email'']"
  by (simp_all add: demo_result_def)

theorem rows_masked_witness:
  "\<exists>r rs. fst (forwarding_HandleQuery demo_lib demo_session ''q'' (demo_forwarding 0 (demo_users ''ann''))) = Inr (Some r)
     \<and> r_Resultset r = Some rs \<and> rs_Fields rs = [demo_field ''id'', demo_field ''email'']"
proof -
  obtain r h where r: "forwarding_HandleQuery demo_lib demo_session ''q'' (demo_forwarding 0 (demo_users ''ann'')) = (Inr (Some r), h)"
    using answered_pair[OF demo_answers(1)] by blast
  show ?thesis
    using rows_masked[OF r demo_forwarding_masker demo_executes demo_resultset(1)] r
    by (auto simp: demo_resultset(2))
qed

lemma demo_same_readable:
  "same_readable demo_lib (allowed id demo_policy) (fh_decision (demo_forwarding 0 (demo_users ''ann'')))
     (demo_result (demo_users ''ann'')) (demo_result (demo_users ''bob''))"
proof -
  let ?raws = "\<lambda>email. [[\<lparr>v_Raw = ''7'', v_Null = False\<rparr>, \<lparr>v_Raw = email, v_Null = False\<rparr>]]"
  let ?F = "[demo_field ''id'', demo_field ''email'']"
  have rows: "upstream_rows demo_lib (the (r_Resultset (demo_result (demo_users ''ann'')))) = Inr [CHR 0x01 # ''7'' @ CHR 0x03 # ''ann'']"
    "upstream_rows demo_lib (the (r_Resultset (demo_result (demo_users ''bob'')))) = Inr [CHR 0x01 # ''7'' @ CHR 0x03 # ''bob'']"
    by code_simp+
  have dec: "list_all2 (decoded demo_lib ?F) [CHR 0x01 # ''7'' @ CHR 0x03 # ''ann''] (?raws ''ann'')"
    "list_all2 (decoded demo_lib ?F) [CHR 0x01 # ''7'' @ CHR 0x03 # ''bob''] (?raws ''bob'')"
    by (simp_all add: decoded_def demo_lib_def fieldValueBytes_def)
  have hid: "\<not> readable (allowed id demo_policy) (fh_decision (demo_forwarding 0 (demo_users ''ann''))) ?F (Suc 0)"
    by code_simp
  have "list_all2 (row_agree (readable (allowed id demo_policy) (fh_decision (demo_forwarding 0 (demo_users ''ann''))) ?F))
      (?raws ''ann'') (?raws ''bob'')"
    using hid by (auto simp: row_agree_def less_Suc_eq nth_Cons')
  then show ?thesis unfolding same_readable_def
    using rows dec by (auto simp: demo_result_def)
qed

theorem hidden_values_not_returned_witness:
  "\<exists>r. fst (forwarding_HandleQuery demo_lib demo_session ''q'' (demo_forwarding 0 (demo_users ''ann''))) = Inr (Some r)
     \<and> fst (forwarding_HandleQuery demo_lib demo_session ''q'' (demo_forwarding 0 (demo_users ''bob''))) = Inr (Some r)"
proof -
  obtain r h where r: "forwarding_HandleQuery demo_lib demo_session ''q'' (demo_forwarding 0 (demo_users ''ann'')) = (Inr (Some r), h)"
    using answered_pair[OF demo_answers(1)] by blast
  obtain s k where s: "forwarding_HandleQuery demo_lib demo_session ''q'' (demo_forwarding 0 (demo_users ''bob'')) = (Inr (Some s), k)"
    using answered_pair[OF demo_answers(2)] by blast
  have d: "fh_decision (demo_forwarding 0 (demo_users ''bob'')) = fh_decision (demo_forwarding 0 (demo_users ''ann''))"
    by (simp add: demo_forwarding_def newForwardingHandlerWithLimits_def)
  have "r = s"
    by (rule hidden_values_not_returned[OF demo_forwarding_masker demo_forwarding_masker d
          demo_executes demo_executes demo_same_readable r s])
  then show ?thesis using r s by simp
qed

theorem returned_within_limits_witness:
  "\<exists>r. fst (forwarding_HandleQuery demo_lib demo_session ''q'' (demo_forwarding 3 (demo_users ''ann''))) = Inr (Some r)
     \<and> resultRowCount (Some r) \<le> 3"
proof -
  have "answered (fst (forwarding_HandleQuery demo_lib demo_session ''q'' (demo_forwarding 3 (demo_users ''ann''))))"
    by code_simp
  then obtain r h where r: "forwarding_HandleQuery demo_lib demo_session ''q'' (demo_forwarding 3 (demo_users ''ann'')) = (Inr (Some r), h)"
    using answered_pair by blast
  show ?thesis using returned_within_limits[OF r] r
    by (simp add: demo_forwarding_def newForwardingHandlerWithLimits_def)
qed

lemma demo_state:
  "fh_upstream (demo_forwarding n u) = u" "fh_closed (demo_forwarding n u) = False"
  "fh_terminal (demo_forwarding n u) = None"
  "fh_limits (demo_forwarding n u) = \<lparr>rl_maxQueryBytes = 0, rl_maxResultRows = n, rl_maxResultBytes = 0\<rparr>"
  by (simp_all add: demo_forwarding_def newForwardingHandlerWithLimits_def)

lemma demo_rows_encode:
  "map (\<lambda>row. rowDataFromValues demo_lib (cloneFieldValues demo_lib row)) (demo_users ''ann'' @ demo_users ''bob'') =
     map Inr [CHR 0x01 # ''7'' @ CHR 0x03 # ''ann'', CHR 0x01 # ''7'' @ CHR 0x03 # ''bob'']"
  by code_simp

abbreviation demo_pair :: "string option list list" where
  "demo_pair \<equiv> demo_users ''ann'' @ demo_users ''bob''"

abbreviation demo_raws :: "Value list list" where
  "demo_raws \<equiv> [[\<lparr>v_Raw = ''7'', v_Null = False\<rparr>, \<lparr>v_Raw = ''ann'', v_Null = False\<rparr>],
     [\<lparr>v_Raw = ''7'', v_Null = False\<rparr>, \<lparr>v_Raw = ''bob'', v_Null = False\<rparr>]]"

lemma demo_pair_decoded:
  "list_all2 (decoded demo_lib [demo_field ''id'', demo_field ''email''])
     [CHR 0x01 # ''7'' @ CHR 0x03 # ''ann'', CHR 0x01 # ''7'' @ CHR 0x03 # ''bob''] demo_raws"
  by (simp add: decoded_def demo_lib_def fieldValueBytes_def)

lemma demo_masked:
  "masked_rows demo_lib (Mask id demo_policy) (fh_decision (demo_forwarding 0 demo_pair))
     [demo_field ''id'', demo_field ''email''] demo_raws =
   [CHR 0x01 # ''7'' @ CHR 0x0C # ''***MASKED***'', CHR 0x01 # ''7'' @ CHR 0x0C # ''***MASKED***'']"
  by code_simp

text \<open>Two rows of six bytes: within two rows; not within thirteen bytes once masked.\<close>

theorem bounded_select_exact_witness:
  "(\<exists>r. fst (forwarding_HandleQuery demo_lib demo_session ''q'' (demo_forwarding 2 demo_pair)) = Inr (Some r)
      \<and> resultRowCount (Some r) = 2)
   \<and> fst (forwarding_HandleQuery demo_lib demo_session ''q'' ((demo_forwarding 0 demo_pair)
        \<lparr>fh_limits := \<lparr>rl_maxQueryBytes = 0, rl_maxResultRows = 0, rl_maxResultBytes = 13\<rparr>\<rparr>)) = Inl unsupportedError"
proof -
  let ?F = "[demo_field ''id'', demo_field ''email'']"
  let ?lim = "\<lparr>rl_maxQueryBytes = 0, rl_maxResultRows = 0, rl_maxResultBytes = 13\<rparr>"
  let ?rds = "[CHR 0x01 # ''7'' @ CHR 0x03 # ''ann'', CHR 0x01 # ''7'' @ CHR 0x03 # ''bob'']"
  let ?d = "fh_decision (demo_forwarding 0 demo_pair)"
  let ?m = "masked_rows demo_lib (Mask id demo_policy) ?d ?F demo_raws"
  have d: "fh_decision (demo_forwarding n u) = ?d" for n u
    by (simp add: demo_forwarding_def newForwardingHandlerWithLimits_def)
  have k: "dec_Kind ?d \<noteq> AllowSetup" by code_simp
  have st: "us_ExecuteSelectStreaming demo_session = Some (\<lambda>_ u. row_stream u (demo_result []) u)"
    "\<not> has_more_results (Some (demo_result []))"
    by (simp_all add: demo_session_def has_more_results_def demo_result_def SERVER_MORE_RESULTS_EXISTS_def)
  have par: "\<forall>rd \<in> set ?m. \<exists>vs. lib_Parse demo_lib rd ?F = Inr vs"
    "\<forall>(r :: string option Result) rs. r_Resultset r = Some rs \<and> rs_Streaming rs = StreamingNone \<longrightarrow> \<not> lib_IsStreaming demo_lib r"
    by (simp_all add: demo_lib_def)
  have fit: "within_limits (fh_limits (demo_forwarding 2 demo_pair)) ?rds"
    "within_limits (fh_limits (demo_forwarding 2 demo_pair)) ?m" "\<not> within_limits ?lim ?m"
    unfolding demo_masked demo_state by (simp_all add: within_limits_def)
  have F: "rs_Fields (the (r_Resultset (demo_result []))) = ?F" by (simp add: demo_result_def)
  note a = bounded_select_exact[where lib = demo_lib and up = demo_session and query = "''q''" and masker = "Mask id demo_policy"
      and stream = "\<lambda>_ u. row_stream u (demo_result []) u" and rows = demo_pair and result = "demo_result []" and u = demo_pair
      and rs = "the (r_Resultset (demo_result []))" and rds = ?rds and rawss = demo_raws, unfolded F]
  have "\<exists>r. fst (forwarding_HandleQuery demo_lib demo_session ''q'' (demo_forwarding 2 demo_pair)) = Inr (Some r)
      \<and> resultRowCount (Some r) = 2"
  proof -
    have "fh_upstream (demo_forwarding 2 demo_pair) = demo_pair" by (rule demo_state)
    then have str: "row_stream (fh_upstream (demo_forwarding 2 demo_pair)) (demo_result []) (fh_upstream (demo_forwarding 2 demo_pair))
        = row_stream demo_pair (demo_result []) demo_pair" by simp
    have lim: "rl_maxResultRows (fh_limits (demo_forwarding 2 demo_pair)) > 0 \<or> rl_maxResultBytes (fh_limits (demo_forwarding 2 demo_pair)) > 0"
      "\<not> fh_closed (demo_forwarding 2 demo_pair)" "fh_terminal (demo_forwarding 2 demo_pair) = None"
      by (simp_all add: demo_state)
    have ne: "?F \<noteq> []" by simp
    note b = a[where h = "demo_forwarding 2 demo_pair", unfolded d[of 2 demo_pair], OF st(1) str lim(1) demo_resultset(1) ne lim(2,3) st(2) k
        demo_forwarding_masker demo_rows_encode demo_pair_decoded par]
    then obtain vss h' where "forwarding_HandleQuery demo_lib demo_session ''q'' (demo_forwarding 2 demo_pair) =
        (Inr (Some ((demo_result [])\<lparr>r_Resultset := Some ((the (r_Resultset (demo_result [])))\<lparr>rs_RowDatas := ?m,
           rs_Values := vss, rs_Streaming := StreamingNone, rs_StreamingDone := False\<rparr>)\<rparr>)), h')"
      unfolding if_P[OF conjI[OF fit(1,2)]] by blast
    then show ?thesis by (simp add: resultRowCount_def demo_masked)
  qed
  moreover have "fst (forwarding_HandleQuery demo_lib demo_session ''q''
      ((demo_forwarding 0 demo_pair)\<lparr>fh_limits := ?lim\<rparr>)) = Inl unsupportedError"
  proof -
    let ?h = "(demo_forwarding 0 demo_pair)\<lparr>fh_limits := ?lim\<rparr>"
    have h: "fh_upstream ?h = demo_pair" "\<not> fh_closed ?h" "fh_terminal ?h = None" "fh_limits ?h = ?lim"
      "fh_decision ?h = ?d" "fh_masker ?h = Some (Mask id demo_policy)"
      by (simp_all add: demo_state demo_forwarding_masker)
    have str: "row_stream (fh_upstream ?h) (demo_result []) (fh_upstream ?h) = row_stream demo_pair (demo_result []) demo_pair"
      by (simp only: h)
    have lim: "rl_maxResultRows (fh_limits ?h) > 0 \<or> rl_maxResultBytes (fh_limits ?h) > 0" by (simp add: h)
    have ne: "?F \<noteq> []" by simp
    note b = a[where h = ?h, unfolded h(5), OF st(1) str lim demo_resultset(1) ne h(2,3) st(2) k h(6)
        demo_rows_encode demo_pair_decoded par]
    have "\<not> (within_limits (fh_limits ?h) ?rds \<and> within_limits (fh_limits ?h) ?m)" unfolding h(4) using fit(3) by blast
    from b[unfolded if_not_P[OF this]] show ?thesis by auto
  qed
  ultimately show ?thesis ..
qed

lemma failure_closes_witness:
  "fh_closed (snd (forwarding_HandleQuery demo_lib demo_session ''q'' (demo_forwarding 1 (demo_users ''ann'' @ demo_users ''bob''))))"
proof -
  let ?h = "demo_forwarding 1 (demo_users ''ann'' @ demo_users ''bob'')"
  obtain h' where h': "forwarding_HandleQuery demo_lib demo_session ''q'' ?h = (Inl unsupportedError, h')"
  proof -
    have "fst (forwarding_HandleQuery demo_lib demo_session ''q'' ?h) = Inl unsupportedError" by code_simp
    then show ?thesis using that by (cases "forwarding_HandleQuery demo_lib demo_session ''q'' ?h") auto
  qed
  have "fst (forwarding_execute demo_lib demo_session ''q'' (?h\<lparr>fh_maskedFields := 0\<rparr>)) \<noteq> Inl unsupportedError"
    by code_simp
  then show ?thesis using failure_closes[OF h'] h' by auto
qed

end
