(* ===== verification/MaskTypes.thy ===== *)
theory MaskTypes
  imports ForwardingProperties
begin

text \<open>
  Masked rows keep the types of their columns: \<open>maskingTypeFamily\<close> of
  \<open>internal/mysqlproxy/forwarding_handler.go\<close> and the placeholders of \<open>internal/masking/policy.go\<close>
  fit together.  \<open>text_form\<close> is the form of a value in the text protocol, for the numeric and
  the temporal types; the other types (strings, ENUM, SET, BIT, VECTOR, JSON, spatial) have none
  here, and a hidden value of such a column is the placeholder that the documentation names, whether
  or not it is a value of the column's type: \<open>***MASKED***\<close> is no JSON document.
\<close>

subsection \<open>Values in the text protocol\<close>

definition digits :: "bytes \<Rightarrow> bool" where
  "digits s \<longleftrightarrow> s \<noteq> [] \<and> list_all (\<lambda>c. c \<in> set ''0123456789'') s"

definition unsigned :: "bytes \<Rightarrow> bytes" where
  "unsigned s = (case s of c # t \<Rightarrow> if c = CHR ''-'' then t else s | [] \<Rightarrow> [])"

definition before :: "char \<Rightarrow> bytes \<Rightarrow> bytes" where
  "before c s = takeWhile (\<lambda>d. d \<noteq> c) s"

definition after :: "char \<Rightarrow> bytes \<Rightarrow> bytes option" where
  "after c s = (case dropWhile (\<lambda>d. d \<noteq> c) s of [] \<Rightarrow> None | _ # t \<Rightarrow> Some t)"

definition optionally :: "(bytes \<Rightarrow> bool) \<Rightarrow> bytes option \<Rightarrow> bool" where
  "optionally ok s \<longleftrightarrow> (case s of None \<Rightarrow> True | Some t \<Rightarrow> ok t)"

definition integer_text :: "bytes \<Rightarrow> bool" where
  "integer_text s \<longleftrightarrow> digits (unsigned s)"

definition decimal_text :: "bytes \<Rightarrow> bool" where
  "decimal_text s \<longleftrightarrow> digits (before CHR ''.'' (unsigned s)) \<and> optionally digits (after CHR ''.'' s)"

definition float_text :: "bytes \<Rightarrow> bool" where
  "float_text s \<longleftrightarrow> decimal_text (before CHR ''e'' s)
     \<and> optionally (\<lambda>t. integer_text t \<or> (hd t = CHR ''+'' \<and> digits (tl t))) (after CHR ''e'' s)"

definition date_text :: "bytes \<Rightarrow> bool" where
  "date_text s \<longleftrightarrow> length s = 10 \<and> digits (take 4 s) \<and> s ! 4 = CHR ''-'' \<and> digits (take 2 (drop 5 s))
     \<and> s ! 7 = CHR ''-'' \<and> digits (drop 8 s)"

definition clock_text :: "bytes \<Rightarrow> bool" where
  "clock_text s \<longleftrightarrow> (case after CHR '':'' s of None \<Rightarrow> False | Some t \<Rightarrow>
     digits (before CHR '':'' s) \<and> digits (before CHR '':'' t)
     \<and> (case after CHR '':'' t of None \<Rightarrow> False | Some u \<Rightarrow>
          digits (before CHR ''.'' u) \<and> optionally digits (after CHR ''.'' u)))"

definition timestamp_text :: "bytes \<Rightarrow> bool" where
  "timestamp_text s \<longleftrightarrow> date_text (take 10 s) \<and> s ! 10 = CHR '' '' \<and> clock_text (drop 11 s)"

definition text_form :: "mysql_type \<Rightarrow> (bytes \<Rightarrow> bool) option" where
  "text_form t = (case t of
     MYSQL_TYPE_TINY \<Rightarrow> Some integer_text | MYSQL_TYPE_SHORT \<Rightarrow> Some integer_text
   | MYSQL_TYPE_LONG \<Rightarrow> Some integer_text
   | MYSQL_TYPE_LONGLONG \<Rightarrow> Some integer_text
   | MYSQL_TYPE_INT24 \<Rightarrow> Some integer_text | MYSQL_TYPE_YEAR \<Rightarrow> Some integer_text
   | MYSQL_TYPE_FLOAT \<Rightarrow> Some float_text | MYSQL_TYPE_DOUBLE \<Rightarrow> Some float_text
   | MYSQL_TYPE_DECIMAL \<Rightarrow> Some decimal_text
   | MYSQL_TYPE_NEWDECIMAL \<Rightarrow> Some decimal_text
   | MYSQL_TYPE_DATE \<Rightarrow> Some date_text | MYSQL_TYPE_NEWDATE \<Rightarrow> Some date_text
   | MYSQL_TYPE_TIME \<Rightarrow> Some (\<lambda>s. clock_text (unsigned s))
   | MYSQL_TYPE_TIME2 \<Rightarrow> Some (\<lambda>s. clock_text (unsigned s))
   | MYSQL_TYPE_TIMESTAMP \<Rightarrow> Some timestamp_text
   | MYSQL_TYPE_TIMESTAMP2 \<Rightarrow> Some timestamp_text
   | MYSQL_TYPE_DATETIME \<Rightarrow> Some timestamp_text
   | MYSQL_TYPE_DATETIME2 \<Rightarrow> Some timestamp_text
   | _ \<Rightarrow> None)"

text \<open>Columns of bytes: string, blob, bit and vector columns with the binary flag.\<close>

definition binary_column :: "MySQLField \<Rightarrow> bool" where
  "binary_column f \<longleftrightarrow> mf_Flag f AND BINARY_FLAG \<noteq> 0
     \<and> (case mf_Type f of MYSQL_TYPE_OTHER _ \<Rightarrow> False | _ \<Rightarrow> text_form (mf_Type f) = None)"

definition hidden_text :: "MySQLField \<Rightarrow> bytes \<Rightarrow> bool" where
  "hidden_text f s \<longleftrightarrow> (case text_form (mf_Type f) of Some ok \<Rightarrow> ok s
     | None \<Rightarrow> s = (if binary_column f then '''' else ''***MASKED***''))"

lemma placeholder_hidden: "hidden_text f (placeholder (maskingTypeFamily (mf_Type f) (mf_Flag f)))"
  by (cases "mf_Type f") (simp_all add: hidden_text_def text_form_def binary_column_def maskingTypeFamily_def
      integer_text_def float_text_def decimal_text_def date_text_def clock_text_def timestamp_text_def digits_def
      unsigned_def before_def after_def optionally_def)

subsection \<open>Rows\<close>

definition typed_value :: "MySQLField option \<Rightarrow> Value \<Rightarrow> bool" where
  "typed_value field v \<longleftrightarrow> v_Null v \<or> (case field of None \<Rightarrow> True | Some f \<Rightarrow>
     (case text_form (mf_Type f) of None \<Rightarrow> True | Some ok \<Rightarrow> ok (v_Raw v)))"

definition typed_row :: "fields \<Rightarrow> Value list \<Rightarrow> bool" where
  "typed_row flds raws \<longleftrightarrow> length raws = length flds \<and> (\<forall>i<length raws. typed_value (flds ! i) (raws ! i))"

text \<open>\<open>shown_as\<close>: what a value may become: itself, NULL if it was NULL, or a text that its column can hide it by.\<close>

definition shown_as :: "MySQLField option \<Rightarrow> Value \<Rightarrow> Value \<Rightarrow> bool" where
  "shown_as field raw v \<longleftrightarrow> v_Null v = v_Null raw \<and> (v_Null raw \<or> v_Raw v = v_Raw raw
     \<or> (case field of None \<Rightarrow> v_Raw v = ''***MASKED***'' | Some f \<Rightarrow> hidden_text f (v_Raw v)))"

definition row_shown_as :: "fields \<Rightarrow> Value list \<Rightarrow> Value list \<Rightarrow> bool" where
  "row_shown_as flds raws out \<longleftrightarrow> length out = length raws
     \<and> (\<forall>i<length raws. shown_as (flds ! i) (raws ! i) (out ! i))"

lemma mask_shown_as: "shown_as field v (Mask ul p (maskingField field) v)"
  by (auto simp: shown_as_def Mask_def maskingField_def placeholder_hidden split: option.splits)

lemma shown_as_typed: "shown_as field raw v \<Longrightarrow> typed_value field raw \<Longrightarrow> typed_value field v"
  by (auto simp: shown_as_def typed_value_def hidden_text_def split: option.splits)

lemma all_less_two: "(\<forall>i<Suc (Suc 0). P i) \<longleftrightarrow> P 0 \<and> P (Suc 0)"
  by (auto simp: less_Suc_eq)

lemma shown_row_shown_as: "row_shown_as flds raws (shown_row (Mask ul p) d flds 0 raws)"
  using mask_shown_as by (auto simp: row_shown_as_def shown_row_nth shown_def shown_as_def)

lemma shown_row_typed: "typed_row flds raws \<Longrightarrow> typed_row flds (shown_row (Mask ul p) d flds 0 raws)"
  using shown_row_shown_as[of flds raws ul p d] shown_as_typed unfolding typed_row_def row_shown_as_def by metis

lemma shown_row_nulls: "map v_Null (shown_row (Mask ul p) d flds i raws) = map v_Null raws"
  by (induction raws arbitrary: i) (auto simp: shown_def Mask_def)

text \<open>
  C13.  A masked result is still a result of its columns: it has the fields of the upstream's result and rows of
  the same width with the same NULLs, and each value shown is the upstream's own or hidden; a hidden value
  of a numeric or temporal column is a text of that very type, so a result whose numbers and times
  were well-formed stays so; a hidden value of any other column (strings, ENUM, SET, BIT, VECTOR, JSON, spatial)
  is the documented placeholder, no bytes for a binary column and \<open>***MASKED***\<close> otherwise,
  of which no more is claimed.
\<close>

theorem masked_rows_typed:
  assumes "forwarding_HandleQuery lib up query h = (Inr (Some r), h')"
    and "fh_masker h = Some (Mask ul p)"
    and "forwarding_execute lib up query (h\<lparr>fh_maskedFields := 0\<rparr>) = (Inr (Some r0), h0)"
    and "r_Resultset r0 = Some rs0" "rs_Fields rs0 \<noteq> []"
    and "upstream_rows lib rs0 = Inr rows" "list_all2 (decoded lib (rs_Fields rs0)) rows rawss"
    and "list_all (typed_row (rs_Fields rs0)) rawss"
  shows "\<exists>rs shown_rows. r_Resultset r = Some rs \<and> rs_Fields rs = rs_Fields rs0
    \<and> rs_RowDatas rs = map (encode_row lib) shown_rows
    \<and> list_all2 (row_shown_as (rs_Fields rs)) rawss shown_rows
    \<and> list_all (typed_row (rs_Fields rs)) shown_rows
    \<and> map (map v_Null) shown_rows = map (map v_Null) rawss"
proof -
  obtain rs where rs: "r_Resultset r = Some rs" "rs_Fields rs = rs_Fields rs0"
      "rs_RowDatas rs = map (\<lambda>raws. encode_row lib (shown_row (Mask ul p) (fh_decision h) (rs_Fields rs0) 0 raws)) rawss"
    using masked_rows_of[OF assms(1-7)] by auto
  show ?thesis
    by (rule exI[of _ rs], rule exI[of _ "map (shown_row (Mask ul p) (fh_decision h) (rs_Fields rs0) 0) rawss"])
       (use rs assms(8) shown_row_typed shown_row_shown_as in
         \<open>auto simp: list_all_iff list_all2_map2 list_all2_same shown_row_nulls\<close>)
qed

definition pay_field :: "MySQLField option" where
  "pay_field = Some \<lparr>mf_Name = ''pay'', mf_Schema = ''app'', mf_OrgTable = ''users'', mf_OrgName = ''pay'',
     mf_Type = MYSQL_TYPE_NEWDECIMAL, mf_Flag = 0\<rparr>"

definition pay_result :: "string option Result" where
  "pay_result = \<lparr>r_Status = 2, r_Resultset = Some \<lparr>rs_Fields = [demo_field ''id'', pay_field],
     rs_Values = [[Some ''7'', Some ''-12.50'']], rs_RowDatas = [], rs_Streaming = StreamingNone, rs_StreamingDone = False\<rparr>\<rparr>"

definition pay_session :: "(string option, unit) upstreamSession" where
  "pay_session = \<lparr>us_UseDB = (\<lambda>_ u. (None, u)), us_Execute = (\<lambda>_ u. (Inr (Some pay_result), u)),
     us_Close = (\<lambda>u. (None, u)), us_ExecuteSelectStreaming = None\<rparr>"

definition pay_handler :: "unit forwardingHandler" where
  "pay_handler = newForwardingHandlerWithLimits () (Some (Mask id demo_policy))
     \<lparr>rl_maxQueryBytes = 0, rl_maxResultRows = 0, rl_maxResultBytes = 0\<rparr>"

text \<open>The hidden amount arrives as the number 0.\<close>

theorem masked_rows_typed_witness:
  "\<exists>r h' rs row. forwarding_HandleQuery demo_lib pay_session ''q'' pay_handler = (Inr (Some r), h') \<and> r_Resultset r = Some rs
     \<and> rs_RowDatas rs = [encode_row demo_lib row] \<and> typed_row [demo_field ''id'', pay_field] row
     \<and> row_shown_as [demo_field ''id'', pay_field]
         [\<lparr>v_Raw = ''7'', v_Null = False\<rparr>, \<lparr>v_Raw = ''-12.50'', v_Null = False\<rparr>] row"
proof -
  let ?rs = "the (r_Resultset pay_result)"
  have "answered (fst (forwarding_HandleQuery demo_lib pay_session ''q'' pay_handler))" by code_simp
  then obtain r h' where r: "forwarding_HandleQuery demo_lib pay_session ''q'' pay_handler = (Inr (Some r), h')"
    using answered_pair by blast
  have masker: "fh_masker pay_handler = Some (Mask id demo_policy)" by (simp add: pay_handler_def newForwardingHandlerWithLimits_def)
  have ex: "forwarding_execute demo_lib pay_session ''q'' (pay_handler\<lparr>fh_maskedFields := 0\<rparr>)
      = (Inr (Some pay_result), pay_handler\<lparr>fh_maskedFields := 0\<rparr>)"
    by (simp add: forwarding_execute_def pay_session_def pay_handler_def newForwardingHandlerWithLimits_def)
  have rs: "r_Resultset pay_result = Some ?rs" "rs_Fields ?rs = [demo_field ''id'', pay_field]" by (simp_all add: pay_result_def)
  have rows: "upstream_rows demo_lib ?rs = Inr [CHR 0x01 # ''7'' @ CHR 0x06 # ''-12.50'']" by code_simp
  let ?raws = "[[\<lparr>v_Raw = ''7'', v_Null = False\<rparr>, \<lparr>v_Raw = ''-12.50'', v_Null = False\<rparr>]]"
  have dec: "list_all2 (decoded demo_lib (rs_Fields ?rs)) [CHR 0x01 # ''7'' @ CHR 0x06 # ''-12.50''] ?raws"
    unfolding rs(2) by (simp add: decoded_def demo_lib_def fieldValueBytes_def)
  have typed: "list_all (typed_row (rs_Fields ?rs)) ?raws"
    unfolding rs(2) by (simp add: typed_row_def all_less_two typed_value_def pay_field_def demo_field_def text_form_def decimal_text_def
        digits_def unsigned_def before_def after_def optionally_def)
  have ne: "rs_Fields ?rs \<noteq> []" by (simp add: rs(2))
  obtain rs' shown_rows where s: "r_Resultset r = Some rs'" "rs_RowDatas rs' = map (encode_row demo_lib) shown_rows"
      "list_all (typed_row (rs_Fields ?rs)) shown_rows" "list_all2 (row_shown_as (rs_Fields ?rs)) ?raws shown_rows"
    using masked_rows_typed[OF r masker ex rs(1) ne rows dec typed] by metis
  then obtain row where "shown_rows = [row]" "row_shown_as (rs_Fields ?rs) (hd ?raws) row"
    by (auto simp: list_all2_Cons1)
  then show ?thesis using r s rs(2) by auto
qed

end
