(* ===== verification/PolicyHandler.thy ===== *)
theory PolicyHandler
  imports Forwarding AuditNormalize AuditLog
begin

text \<open>
  \<open>internal/mysqlproxy/policy_handler.go\<close>: the handler that classifies a statement, refuses what
  is not allowed, hands the rest to the handler behind it and records every statement in
  the audit log.  The classifier, the audit logger and the next handler are Go interfaces: a
  function, a function on the state \<open>'a\<close> behind the logger, and a \<open>server_handler\<close> over its
  state \<open>'s\<close>.  The argument \<open>now\<close> is the clock reading of the one audit event an operation writes.
\<close>

definition queryPolicyPrivilege :: string where
  "queryPolicyPrivilege = ''Masqman query policy''"

record auditIdentity =
  ai_userID :: string
  ai_sourceAddr :: string

type_synonym 'a audit_logger = "Event \<Rightarrow> 'a \<Rightarrow> go_error option \<times> 'a"

record ('v, 's, 'a) policyHandler =
  ph_classifier :: "string \<Rightarrow> Decision"
  ph_allowedSchemas :: "string set"
  ph_limits :: resourceLimits
  ph_auditor :: "'a audit_logger option"
  ph_identity :: auditIdentity
  ph_handler :: "('v, 's) server_handler"
  ph_next :: 's
  ph_audit :: 'a

definition allowedSchemaSet :: "string list \<Rightarrow> string set" where
  "allowedSchemaSet schemas = set schemas"

definition newPolicyHandlerWithAudit :: "(rune \<Rightarrow> rune) \<Rightarrow> parser \<Rightarrow> ClassifierConfig \<Rightarrow> resourceLimits
    \<Rightarrow> ('v, 's) server_handler option \<Rightarrow> 's \<Rightarrow> 'a audit_logger option \<Rightarrow> 'a \<Rightarrow> auditIdentity
    \<Rightarrow> ('v, 's, 'a) policyHandler" where
  "newPolicyHandlerWithAudit ul ParseSQL config limits next s auditor a identity = \<lparr>
     ph_classifier = Classify ul ParseSQL (NewClassifier config),
     ph_allowedSchemas = allowedSchemaSet (cc_AllowedSchemas config),
     ph_limits = limits, ph_auditor = auditor, ph_identity = identity,
     ph_handler = (case next of None \<Rightarrow> unsupportedHandler | Some h \<Rightarrow> h),
     ph_next = s, ph_audit = a\<rparr>"

definition isAllowedSchema :: "('v, 's, 'a) policyHandler \<Rightarrow> string \<Rightarrow> bool" where
  "isAllowedSchema p database \<longleftrightarrow> database \<in> ph_allowedSchemas p"

definition isAllowedDecision :: "Decision \<Rightarrow> bool" where
  "isAllowedDecision decision \<longleftrightarrow> dec_Kind decision = AllowRead
     \<or> dec_Kind decision = AllowOperationalRead \<or> dec_Kind decision = AllowSetup"

definition policyError :: go_error where
  "policyError = MyError ER_SPECIFIC_ACCESS_DENIED_ERROR [queryPolicyPrivilege]"

definition queryTooLargeError :: go_error where
  "queryTooLargeError = MyError ER_NET_PACKET_TOO_LARGE []"

fun decision_text :: "DecisionKind \<Rightarrow> string" where
  "decision_text AllowRead = ''allow_read''"
| "decision_text AllowOperationalRead = ''allow_operational_read''"
| "decision_text AllowSetup = ''allow_setup''"
| "decision_text Reject = ''reject''"

definition queryErrorClass :: "go_error option \<Rightarrow> string" where
  "queryErrorClass err = (case err of None \<Rightarrow> ''''
   | Some e \<Rightarrow> if errors_As_MyError e then ''mysql_error'' else ''proxy_error'')"

definition policy_UseDB :: "string \<Rightarrow> ('v, 's, 'a) policyHandler \<Rightarrow> go_error option \<times> ('v, 's, 'a) policyHandler" where
  "policy_UseDB database p =
     (if \<not> isAllowedSchema p database then (Some policyError, p)
      else case sh_UseDB (ph_handler p) database (ph_next p) of (err, s) \<Rightarrow> (err, p\<lparr>ph_next := s\<rparr>))"

definition setAuditIdentity :: "auditIdentity \<Rightarrow> ('v, 's, 'a) policyHandler \<Rightarrow> ('v, 's, 'a) policyHandler" where
  "setAuditIdentity identity p = p\<lparr>ph_identity := identity\<rparr>"

definition query_event :: "('v, 's, 'a) policyHandler \<Rightarrow> time \<Rightarrow> string \<Rightarrow> Decision \<Rightarrow> string \<Rightarrow> Event" where
  "query_event p now query decision errorClass = \<lparr>ev_Time = now, ev_Kind = EventQuery,
     ev_UserID = ai_userID (ph_identity p), ev_SourceAddr = ai_sourceAddr (ph_identity p),
     ev_NormalizedStatement = NormalizeStatement query, ev_Decision = decision_text (dec_Kind decision),
     ev_MaskedFields = (case sh_maskedFieldCount (ph_handler p) of None \<Rightarrow> 0 | Some count \<Rightarrow> count (ph_next p)),
     ev_ErrorClass = errorClass\<rparr>"

definition auditQuery :: "time \<Rightarrow> string \<Rightarrow> Decision \<Rightarrow> string \<Rightarrow> ('v, 's, 'a) policyHandler
    \<Rightarrow> go_error option \<times> ('v, 's, 'a) policyHandler" where
  "auditQuery now query decision errorClass p = (case ph_auditor p of
     None \<Rightarrow> (None, p)
   | Some log \<Rightarrow> (case log (query_event p now query decision errorClass) (ph_audit p) of
       (err, a) \<Rightarrow> (err, p\<lparr>ph_audit := a\<rparr>)))"

definition closeAfterAuditFailure :: "('v, 's, 'a) policyHandler \<Rightarrow> ('v, 's, 'a) policyHandler" where
  "closeAfterAuditFailure p = (case sh_closeTerminal (ph_handler p) of
     Some closeTerminal \<Rightarrow> p\<lparr>ph_next := snd (closeTerminal ErrAuditFailure (ph_next p))\<rparr>
   | None \<Rightarrow> (case sh_Close (ph_handler p) of
       Some close \<Rightarrow> p\<lparr>ph_next := snd (close (ph_next p))\<rparr>
     | None \<Rightarrow> p))"

definition shouldSynthesizeMaxAllowedPacket :: "('v, 's, 'a) policyHandler \<Rightarrow> Decision \<Rightarrow> bool" where
  "shouldSynthesizeMaxAllowedPacket p decision \<longleftrightarrow>
     rl_maxQueryBytes (ph_limits p) > 0 \<and> dec_Kind decision = AllowOperationalRead
     \<and> length (dec_ExpressionContext decision) = 1
     \<and> ec_FunctionName (dec_ExpressionContext decision ! 0) = ''@@max_allowed_packet''"

definition maxAllowedPacketResult :: "'v mysql_lib \<Rightarrow> int \<Rightarrow> 'v Result" where
  "maxAllowedPacketResult lib limit =
     (let field = \<lparr>mf_Name = ''@@max_allowed_packet'', mf_Schema = '''', mf_OrgTable = '''', mf_OrgName = '''',
            mf_Type = MYSQL_TYPE_LONGLONG, mf_Flag = 0\<rparr>;
          resultset = lib_NewResultset lib 1;
          resultset = resultset\<lparr>rs_Fields := (rs_Fields resultset)[0 := Some field]\<rparr>;
          rowData = lib_PutLengthEncodedString lib (Itoa (nat limit));
          resultset = resultset\<lparr>rs_RowDatas := rs_RowDatas resultset @ [rowData]\<rparr>;
          resultset = (case lib_Parse lib rowData (rs_Fields resultset) of
            Inl _ \<Rightarrow> resultset
          | Inr vals \<Rightarrow> resultset\<lparr>rs_Values := rs_Values resultset @ [vals]\<rparr>)
      in lib_NewResult lib resultset)"

text \<open>Every path of \<open>HandleQuery\<close> ends by auditing the statement and, when that fails, by
  closing instead of answering.\<close>

definition audited :: "time \<Rightarrow> string \<Rightarrow> Decision \<Rightarrow> string \<Rightarrow> (go_error + 'v Result option)
    \<Rightarrow> ('v, 's, 'a) policyHandler \<Rightarrow> (go_error + 'v Result option) \<times> ('v, 's, 'a) policyHandler" where
  "audited now query decision errorClass answer p =
     (case auditQuery now query decision errorClass p of
        (Some _, p) \<Rightarrow> (Inl unsupportedError, closeAfterAuditFailure p)
      | (None, p) \<Rightarrow> (answer, p))"

definition policy_setDecision :: "Decision \<Rightarrow> ('v, 's, 'a) policyHandler \<Rightarrow> ('v, 's, 'a) policyHandler" where
  "policy_setDecision decision p = (case sh_setQueryDecision (ph_handler p) of
     None \<Rightarrow> p | Some set_decision \<Rightarrow> p\<lparr>ph_next := set_decision decision (ph_next p)\<rparr>)"

fun result_error :: "go_error + 'v Result option \<Rightarrow> go_error option" where
  "result_error (Inl err) = Some err"
| "result_error (Inr _) = None"

definition policy_HandleQuery :: "'v mysql_lib \<Rightarrow> time \<Rightarrow> string \<Rightarrow> ('v, 's, 'a) policyHandler
    \<Rightarrow> (go_error + 'v Result option) \<times> ('v, 's, 'a) policyHandler" where
  "policy_HandleQuery lib now query p =
     (if rl_maxQueryBytes (ph_limits p) > 0 \<and> int (length query) > rl_maxQueryBytes (ph_limits p) then
        audited now query (decide Reject '''') ''query_too_large'' (Inl queryTooLargeError) p
      else let decision = ph_classifier p query in
      if \<not> isAllowedDecision decision then
        audited now query decision ''policy_reject'' (Inl policyError) p
      else if shouldSynthesizeMaxAllowedPacket p decision then
        audited now query decision ''''
          (Inr (Some (maxAllowedPacketResult lib (rl_maxQueryBytes (ph_limits p))))) p
      else let p = policy_setDecision decision p in
        case sh_HandleQuery (ph_handler p) query (ph_next p) of
          (answer, s) \<Rightarrow>
            audited now query decision (queryErrorClass (result_error answer)) answer (p\<lparr>ph_next := s\<rparr>))"

definition policy_command :: "other_command \<Rightarrow> ('v, 's, 'a) policyHandler
    \<Rightarrow> go_error \<times> ('v, 's, 'a) policyHandler" where
  "policy_command c p = (unsupported_command c, p)"

end
