(* ===== verification/DeferredSession.thy ===== *)
theory DeferredSession
  imports PolicyHandler
begin

text \<open>
  \<open>internal/mysqlproxy/deferred_session_handler.go\<close>: the handler of one client session.  It is
  built before the client has authenticated, with no upstream connection behind it, gets one by
  \<open>Activate\<close> and loses it when it is closed.  When the Go code drops its reference to a
  connection, the model keeps the connection, as it was left, in \<open>df_released\<close>: the field is
  not part of the program's state, it is the record of what was done to the outside.
\<close>

record 'u deferredForwarding =
  df_pendingDatabase :: string
  df_masker :: "(Field \<Rightarrow> Value \<Rightarrow> Value) option"
  df_limits :: resourceLimits
  df_decision :: Decision
  df_forwarding :: "'u forwardingHandler option"
  df_closed :: bool
  df_terminal :: "go_error option"
  df_released :: "'u list"

definition release :: "'u \<Rightarrow> 'u deferredForwarding \<Rightarrow> 'u deferredForwarding" where
  "release u d = d\<lparr>df_released := u # df_released d\<rparr>"

definition deactivate :: "go_error option \<Rightarrow> 'u deferredForwarding \<Rightarrow> 'u deferredForwarding" where
  "deactivate err d = (let d = d\<lparr>df_forwarding := None, df_closed := True\<rparr> in
     if df_terminal d = None then d\<lparr>df_terminal := err\<rparr> else d)"

definition deferred_Activate :: "('v, 'u) upstreamSession \<Rightarrow> 'u \<Rightarrow> 'u deferredForwarding
    \<Rightarrow> go_error option \<times> 'u deferredForwarding" where
  "deferred_Activate up upstream d =
     (if df_closed d then (Some unsupportedError, release (snd (us_Close up upstream)) d)
      else let forwarding = forwarding_setQueryDecision (df_decision d)
                 (newForwardingHandlerWithLimits upstream (df_masker d) (df_limits d)) in
      case (if df_pendingDatabase d \<noteq> '''' then forwarding_UseDB up (df_pendingDatabase d) forwarding
            else (None, forwarding)) of
        (Some err, forwarding) \<Rightarrow>
          (Some err, release (fh_upstream (snd (forwarding_Close up forwarding))) d)
      | (None, forwarding) \<Rightarrow>
          (None, (case df_forwarding d of None \<Rightarrow> d | Some old \<Rightarrow> release (fh_upstream old) d)
                   \<lparr>df_forwarding := Some forwarding\<rparr>))"

definition deferred_Close :: "('v, 'u) upstreamSession \<Rightarrow> 'u deferredForwarding
    \<Rightarrow> go_error option \<times> 'u deferredForwarding" where
  "deferred_Close up d = (case df_forwarding d of
     None \<Rightarrow> (None, d)
   | Some forwarding \<Rightarrow> (let d = deactivate None d in
       case forwarding_Close up forwarding of (err, forwarding) \<Rightarrow> (err, release (fh_upstream forwarding) d)))"

definition deferred_closeTerminal :: "('v, 'u) upstreamSession \<Rightarrow> go_error \<Rightarrow> 'u deferredForwarding
    \<Rightarrow> go_error option \<times> 'u deferredForwarding" where
  "deferred_closeTerminal up err d = (case df_forwarding d of
     None \<Rightarrow> (None, deactivate (Some err) d)
   | Some forwarding \<Rightarrow> (let d = deactivate (Some err) d in
       case forwarding_Close up forwarding of (e, forwarding) \<Rightarrow> (e, release (fh_upstream forwarding) d)))"

text \<open>After a call to the forwarding handler: drop it when it has closed itself, keep it otherwise.\<close>

definition settle :: "'u forwardingHandler \<Rightarrow> 'u deferredForwarding \<Rightarrow> 'u deferredForwarding" where
  "settle forwarding d = (if fh_closed forwarding
     then release (fh_upstream forwarding) (deactivate (fh_terminal forwarding) d)
     else d\<lparr>df_forwarding := Some forwarding\<rparr>)"

definition deferred_UseDB :: "('v, 'u) upstreamSession \<Rightarrow> string \<Rightarrow> 'u deferredForwarding
    \<Rightarrow> go_error option \<times> 'u deferredForwarding" where
  "deferred_UseDB up database d = (case df_forwarding d of
     None \<Rightarrow> if df_closed d then (Some unsupportedError, d)
             else (None, d\<lparr>df_pendingDatabase := database\<rparr>)
   | Some forwarding \<Rightarrow> (case forwarding_UseDB up database forwarding of
       (err, forwarding) \<Rightarrow> (err, settle forwarding d)))"

definition deferred_HandleQuery :: "'v mysql_lib \<Rightarrow> ('v, 'u) upstreamSession \<Rightarrow> string
    \<Rightarrow> 'u deferredForwarding \<Rightarrow> (go_error + 'v Result option) \<times> 'u deferredForwarding" where
  "deferred_HandleQuery lib up query d = (case df_forwarding d of
     None \<Rightarrow> (Inl unsupportedError, d)
   | Some forwarding \<Rightarrow> (case forwarding_HandleQuery lib up query forwarding of
       (answer, forwarding) \<Rightarrow> (answer, settle forwarding d)))"

definition deferred_maskedFieldCount :: "'u deferredForwarding \<Rightarrow> int" where
  "deferred_maskedFieldCount d = (case df_forwarding d of None \<Rightarrow> 0 | Some f \<Rightarrow> fh_maskedFields f)"

definition deferred_setQueryDecision :: "Decision \<Rightarrow> 'u deferredForwarding \<Rightarrow> 'u deferredForwarding" where
  "deferred_setQueryDecision decision d =
     d\<lparr>df_decision := decision, df_forwarding := map_option (forwarding_setQueryDecision decision) (df_forwarding d)\<rparr>"

definition deferred_handler :: "'v mysql_lib \<Rightarrow> ('v, 'u) upstreamSession
    \<Rightarrow> ('v, 'u deferredForwarding) server_handler" where
  "deferred_handler lib up = \<lparr>
     sh_UseDB = deferred_UseDB up,
     sh_HandleQuery = deferred_HandleQuery lib up,
     sh_setQueryDecision = Some deferred_setQueryDecision,
     sh_maskedFieldCount = Some deferred_maskedFieldCount,
     sh_closeTerminal = Some (deferred_closeTerminal up),
     sh_Close = Some (deferred_Close up)\<rparr>"

subsection \<open>The session handler\<close>

text \<open>\<open>deferredSessionHandler\<close> holds a policy handler and the deferred handler behind it.\<close>

type_synonym ('v, 'u, 'a) deferredSession = "('v, 'u deferredForwarding, 'a) policyHandler"

definition newDeferredSessionHandlerWithAudit :: "(rune \<Rightarrow> rune) \<Rightarrow> parser \<Rightarrow> 'v mysql_lib
    \<Rightarrow> ('v, 'u) upstreamSession \<Rightarrow> ClassifierConfig \<Rightarrow> (Field \<Rightarrow> Value \<Rightarrow> Value) option \<Rightarrow> resourceLimits
    \<Rightarrow> 'a audit_logger option \<Rightarrow> 'a \<Rightarrow> auditIdentity \<Rightarrow> ('v, 'u, 'a) deferredSession" where
  "newDeferredSessionHandlerWithAudit ul ParseSQL lib up config masker limits auditor a identity =
     newPolicyHandlerWithAudit ul ParseSQL config limits (Some (deferred_handler lib up))
       \<lparr>df_pendingDatabase = '''', df_masker = masker, df_limits = limits, df_decision = zero_decision,
        df_forwarding = None, df_closed = False, df_terminal = None, df_released = []\<rparr> auditor a identity"

definition session_Activate :: "('v, 'u) upstreamSession \<Rightarrow> 'u \<Rightarrow> ('v, 'u, 'a) deferredSession
    \<Rightarrow> go_error option \<times> ('v, 'u, 'a) deferredSession" where
  "session_Activate up upstream p =
     (case deferred_Activate up upstream (ph_next p) of (err, d) \<Rightarrow> (err, p\<lparr>ph_next := d\<rparr>))"

definition session_Close :: "('v, 'u) upstreamSession \<Rightarrow> ('v, 'u, 'a) deferredSession
    \<Rightarrow> go_error option \<times> ('v, 'u, 'a) deferredSession" where
  "session_Close up p = (case deferred_Close up (ph_next p) of (err, d) \<Rightarrow> (err, p\<lparr>ph_next := d\<rparr>))"

definition session_TerminalError :: "('v, 'u, 'a) deferredSession \<Rightarrow> go_error option" where
  "session_TerminalError p = df_terminal (ph_next p)"

definition session_SetAuditIdentity :: "auditIdentity \<Rightarrow> ('v, 'u, 'a) deferredSession \<Rightarrow> ('v, 'u, 'a) deferredSession" where
  "session_SetAuditIdentity identity p = setAuditIdentity identity p"

definition session_UseDB :: "string \<Rightarrow> ('v, 'u, 'a) deferredSession \<Rightarrow> go_error option \<times> ('v, 'u, 'a) deferredSession" where
  "session_UseDB database p = policy_UseDB database p"

definition session_HandleQuery :: "'v mysql_lib \<Rightarrow> time \<Rightarrow> string \<Rightarrow> ('v, 'u, 'a) deferredSession
    \<Rightarrow> (go_error + 'v Result option) \<times> ('v, 'u, 'a) deferredSession" where
  "session_HandleQuery lib now query p = policy_HandleQuery lib now query p"

definition session_command :: "other_command \<Rightarrow> ('v, 'u, 'a) deferredSession
    \<Rightarrow> go_error \<times> ('v, 'u, 'a) deferredSession" where
  "session_command c p = policy_command c p"

end
