(* ===== verification/PolicyProperties.thy ===== *)
theory PolicyProperties
  imports DeferredSession AuditLogProperties ForwardingProperties
begin

text \<open>
  What the policy handler promises over any handler behind it: only allowed statements are
  handed on, nothing is answered without its audit event, and a failing audit log stops the
  session.  The locale \<open>next_handler\<close> is the contract the last point rests on; the forwarding
  handler and the deferred handler meet it.
\<close>

subsection \<open>Auditing\<close>

lemma auditQuery_keeps [simp]:
  assumes "auditQuery now query decision cls p = (err, p')"
  shows "ph_next p' = ph_next p" "ph_handler p' = ph_handler p" "ph_classifier p' = ph_classifier p"
    "ph_limits p' = ph_limits p" "ph_allowedSchemas p' = ph_allowedSchemas p" "ph_auditor p' = ph_auditor p"
    "ph_identity p' = ph_identity p"
  using assms by (auto simp: auditQuery_def split: option.splits prod.splits)

lemma audited_Inr:
  assumes "audited now query decision cls answer p = (Inr res, p')"
  shows "answer = Inr res \<and> auditQuery now query decision cls p = (None, p')"
  using assms by (auto simp: audited_def split: prod.splits option.splits)

lemma audited_next:
  assumes "audited now query decision cls answer p = (res, p')"
  shows "ph_next p' = ph_next p \<or>
     (res = Inl unsupportedError \<and> (\<exists>p0. ph_next p0 = ph_next p \<and> ph_handler p0 = ph_handler p
        \<and> p' = closeAfterAuditFailure p0))"
  using assms by (auto simp: audited_def split: prod.splits option.splits dest: auditQuery_keeps(1,2))

text \<open>The event written for a statement and the verdict on it.\<close>

definition verdict :: "('v, 's, 'a) policyHandler \<Rightarrow> string \<Rightarrow> Decision" where
  "verdict p query =
     (if rl_maxQueryBytes (ph_limits p) > 0 \<and> int (length query) > rl_maxQueryBytes (ph_limits p)
      then decide Reject '''' else ph_classifier p query)"

lemma setDecision_keeps [simp]:
  "ph_handler (policy_setDecision d p) = ph_handler p" "ph_audit (policy_setDecision d p) = ph_audit p"
  "ph_auditor (policy_setDecision d p) = ph_auditor p" "ph_identity (policy_setDecision d p) = ph_identity p"
  "ph_limits (policy_setDecision d p) = ph_limits p" "ph_classifier (policy_setDecision d p) = ph_classifier p"
  "ph_allowedSchemas (policy_setDecision d p) = ph_allowedSchemas p"
  by (auto simp: policy_setDecision_def split: option.splits)

lemma HandleQuery_audited:
  "\<exists>answer cls p1. policy_HandleQuery lib now query p = audited now query (verdict p query) cls answer p1
     \<and> ph_audit p1 = ph_audit p \<and> ph_auditor p1 = ph_auditor p \<and> ph_identity p1 = ph_identity p
     \<and> ph_handler p1 = ph_handler p
     \<and> (is_ok answer \<longrightarrow> isAllowedDecision (verdict p query) \<and> cls = '''')
     \<and> ph_classifier p1 = ph_classifier p \<and> ph_limits p1 = ph_limits p \<and> ph_allowedSchemas p1 = ph_allowedSchemas p
     \<and> (ph_next p1 = ph_next p \<or> isAllowedDecision (verdict p query)
        \<and> sh_HandleQuery (ph_handler p) query (ph_next (policy_setDecision (verdict p query) p)) = (answer, ph_next p1))"
proof -
  let ?d = "verdict p query"
  consider (large) "policy_HandleQuery lib now query p =
        audited now query ?d ''query_too_large'' (Inl queryTooLargeError) p"
    | (reject) "policy_HandleQuery lib now query p = audited now query ?d ''policy_reject'' (Inl policyError) p"
    | (packet) "isAllowedDecision ?d" "policy_HandleQuery lib now query p = audited now query ?d ''''
          (Inr (Some (maxAllowedPacketResult lib (rl_maxQueryBytes (ph_limits p))))) p"
    | (handed) answer s where "isAllowedDecision ?d"
        "sh_HandleQuery (ph_handler p) query (ph_next (policy_setDecision ?d p)) = (answer, s)" "policy_HandleQuery lib now query p =
        audited now query ?d (queryErrorClass (result_error answer)) answer ((policy_setDecision ?d p)\<lparr>ph_next := s\<rparr>)"
  proof (cases "rl_maxQueryBytes (ph_limits p) > 0 \<and> int (length query) > rl_maxQueryBytes (ph_limits p)")
    case True
    then show ?thesis using large by (simp add: policy_HandleQuery_def verdict_def)
  next
    case small: False
    then have d: "?d = ph_classifier p query" unfolding verdict_def by (rule if_not_P)
    have step: "policy_HandleQuery lib now query p = (if \<not> isAllowedDecision ?d then
        audited now query ?d ''policy_reject'' (Inl policyError) p
      else if shouldSynthesizeMaxAllowedPacket p ?d then audited now query ?d ''''
          (Inr (Some (maxAllowedPacketResult lib (rl_maxQueryBytes (ph_limits p))))) p
      else case sh_HandleQuery (ph_handler (policy_setDecision ?d p)) query (ph_next (policy_setDecision ?d p)) of
          (answer, s) \<Rightarrow> audited now query ?d (queryErrorClass (result_error answer)) answer
             ((policy_setDecision ?d p)\<lparr>ph_next := s\<rparr>))"
      unfolding d policy_HandleQuery_def if_not_P[OF small] Let_def by (rule refl)
    show ?thesis
    proof (cases "isAllowedDecision ?d \<and> \<not> shouldSynthesizeMaxAllowedPacket p ?d")
      case True
      obtain answer s where "sh_HandleQuery (ph_handler p) query (ph_next (policy_setDecision ?d p)) = (answer, s)"
        by fastforce
      then show ?thesis using step True handed[of answer s] by simp
    next
      case False
      show ?thesis
      proof (cases "isAllowedDecision ?d")
        case True
        then have "shouldSynthesizeMaxAllowedPacket p ?d" using False by simp
        then show ?thesis using step True packet by simp
      next
        case False
        then show ?thesis using step reject by simp
      qed
    qed
  qed
  then show ?thesis
  proof cases
    case large
    then show ?thesis by (intro exI[of _ "Inl queryTooLargeError"] exI[of _ "''query_too_large''"] exI[of _ p]) simp
  next
    case reject
    then show ?thesis by (intro exI[of _ "Inl policyError"] exI[of _ "''policy_reject''"] exI[of _ p]) simp
  next
    case packet
    then show ?thesis by (intro exI[of _ "Inr _"] exI[of _ "''''"] exI[of _ p]) simp
  next
    case handed
    then show ?thesis
      by (intro exI[of _ answer] exI[of _ "queryErrorClass (result_error answer)"]
          exI[of _ "(policy_setDecision ?d p)\<lparr>ph_next := s\<rparr>"])
         (cases answer; simp add: queryErrorClass_def)
  qed
qed

lemma auditQuery_None:
  assumes "auditQuery now query d cls p = (None, p')" "ph_auditor p = Some log"
  shows "log (query_event p now query d cls) (ph_audit p) = (None, ph_audit p')"
  using assms by (auto simp: auditQuery_def split: prod.splits)

lemma query_event_sel [simp]:
  "ev_Time (query_event p now query d cls) = now" "ev_Kind (query_event p now query d cls) = EventQuery"
  "ev_UserID (query_event p now query d cls) = ai_userID (ph_identity p)"
  "ev_SourceAddr (query_event p now query d cls) = ai_sourceAddr (ph_identity p)"
  "ev_NormalizedStatement (query_event p now query d cls) = NormalizeStatement query"
  "ev_Decision (query_event p now query d cls) = decision_text (dec_Kind d)"
  "ev_ErrorClass (query_event p now query d cls) = cls"
  by (simp_all add: query_event_def)

lemma HandleQuery_Inr_audited:
  assumes "policy_HandleQuery lib now query p = (Inr res, p')" "ph_auditor p = Some log"
  shows "isAllowedDecision (verdict p query)
    \<and> (\<exists>ev. log ev (ph_audit p) = (None, ph_audit p') \<and> ev_Time ev = now \<and> ev_Kind ev = EventQuery
        \<and> ev_UserID ev = ai_userID (ph_identity p) \<and> ev_SourceAddr ev = ai_sourceAddr (ph_identity p)
        \<and> ev_NormalizedStatement ev = NormalizeStatement query
        \<and> ev_Decision ev = decision_text (dec_Kind (verdict p query)) \<and> ev_ErrorClass ev = '''')"
proof -
  obtain answer cls p1 where a: "audited now query (verdict p query) cls answer p1 = (Inr res, p')"
      "ph_audit p1 = ph_audit p" "ph_auditor p1 = Some log" "ph_identity p1 = ph_identity p"
      "is_ok answer \<longrightarrow> isAllowedDecision (verdict p query) \<and> cls = ''''"
    using HandleQuery_audited[of lib now query p] assms by auto
  have ok: "answer = Inr res" "auditQuery now query (verdict p query) cls p1 = (None, p')"
    using audited_Inr[OF a(1)] by simp_all
  show ?thesis
    using auditQuery_None[OF ok(2) a(3)] a(2,4,5) ok(1)
    by (auto intro!: exI[of _ "query_event p1 now query (verdict p query) cls"])
qed

subsection \<open>The contract of the next handler\<close>

locale next_handler =
  fixes H :: "('v, 's) server_handler" and stopped :: "'s \<Rightarrow> bool"
    and stop :: "go_error \<Rightarrow> 's \<Rightarrow> go_error option \<times> 's"
  assumes closes: "sh_closeTerminal H = Some stop"
    and stop_stops: "stopped (snd (stop err s))"
    and stopped_query: "stopped s \<Longrightarrow> sh_HandleQuery H query s = (Inl unsupportedError, s)"
    and stopped_UseDB: "stopped s \<Longrightarrow> sh_UseDB H db s = (Some unsupportedError, s)"
    and stopped_decide: "stopped s \<Longrightarrow> sh_setQueryDecision H = Some f \<Longrightarrow> stopped (f d s)"
begin

lemma close_stops: "ph_handler p = H \<Longrightarrow> stopped (ph_next (closeAfterAuditFailure p))"
  by (simp add: closeAfterAuditFailure_def closes stop_stops)

lemma failed_audit_stops:
  assumes "ph_handler p = H" "auditQuery now query d cls p = (Some err, p1)"
  shows "audited now query d cls answer p = (Inl unsupportedError, closeAfterAuditFailure p1)
     \<and> stopped (ph_next (closeAfterAuditFailure p1))"
  using assms close_stops[of p1] auditQuery_keeps[OF assms(2)] by (simp add: audited_def)

lemma audited_stopped:
  assumes "ph_handler p = H" "stopped (ph_next p)" "audited now query d cls answer p = (res, p')"
  shows "stopped (ph_next p')"
  using audited_next[OF assms(3)] assms(1,2) close_stops by auto

lemma decide_stopped:
  "ph_handler p = H \<Longrightarrow> stopped (ph_next p) \<Longrightarrow> stopped (ph_next (policy_setDecision d p))"
  by (auto simp: policy_setDecision_def stopped_decide split: option.splits)

lemma stopped_HandleQuery:
  assumes "ph_handler p = H" "stopped (ph_next p)" "policy_HandleQuery lib now query p = (res, p')"
  shows "stopped (ph_next p') \<and> (case res of Inl _ \<Rightarrow> True
     | Inr r \<Rightarrow> r = Some (maxAllowedPacketResult lib (rl_maxQueryBytes (ph_limits p))))"
proof -
  let ?d = "ph_classifier p query" and ?q = "policy_setDecision (ph_classifier p query) p"
  have q: "stopped (ph_next ?q)" using assms(1,2) by (rule decide_stopped)
  have run: "sh_HandleQuery (ph_handler ?q) query (ph_next ?q) = (Inl unsupportedError, ph_next ?q)"
    using stopped_query[OF q] assms(1) by simp
  consider (refused) d cls err where "audited now query d cls (Inl err) p = (res, p')"
    | (packet) d cls where
        "audited now query d cls (Inr (Some (maxAllowedPacketResult lib (rl_maxQueryBytes (ph_limits p))))) p = (res, p')"
    | (handed) "audited now query ?d (queryErrorClass (Some unsupportedError)) (Inl unsupportedError) ?q = (res, p')"
    using assms(3) run by (auto simp: policy_HandleQuery_def Let_def split: if_splits)
  then show ?thesis
  proof cases
    case refused
    then show ?thesis using audited_stopped[OF assms(1,2)] by (auto dest: audited_Inr split: sum.splits)
  next
    case packet
    then show ?thesis using audited_stopped[OF assms(1,2)] by (auto dest: audited_Inr split: sum.splits)
  next
    case handed
    then show ?thesis using audited_stopped[OF _ q] assms(1) by (auto dest: audited_Inr split: sum.splits)
  qed
qed

end

interpretation forwarding: next_handler "forwarding_handler lib up" fh_closed "forwarding_closeTerminal up"
  for lib up
  by unfold_locales
     (auto simp: forwarding_handler_def forwarding_HandleQuery_def forwarding_UseDB_def forwarding_setQueryDecision_def)

definition deferred_stopped :: "'u deferredForwarding \<Rightarrow> bool" where
  "deferred_stopped d \<longleftrightarrow> df_closed d \<and> df_forwarding d = None"

lemma deactivate_simps [simp]:
  "df_forwarding (deactivate err d) = None" "df_closed (deactivate err d)"
  "df_released (deactivate err d) = df_released d" "df_pendingDatabase (deactivate err d) = df_pendingDatabase d"
  "df_terminal (deactivate err d) = (case df_terminal d of None \<Rightarrow> err | Some e \<Rightarrow> Some e)"
  by (auto simp: deactivate_def Let_def split: option.splits)

lemma release_simps [simp]:
  "df_forwarding (release u d) = df_forwarding d" "df_closed (release u d) = df_closed d"
  "df_released (release u d) = u # df_released d" "df_terminal (release u d) = df_terminal d"
  "df_pendingDatabase (release u d) = df_pendingDatabase d"
  by (simp_all add: release_def)

interpretation deferred: next_handler "deferred_handler lib up" deferred_stopped "deferred_closeTerminal up"
  for lib up
  by unfold_locales
     (auto simp: deferred_handler_def deferred_stopped_def deferred_closeTerminal_def deferred_HandleQuery_def
        deferred_UseDB_def deferred_setQueryDecision_def Let_def split: option.splits prod.splits)


subsection \<open>Properties\<close>

text \<open>\<open>audit.FileLogger\<close> as the logger of a handler.\<close>

definition file_audit :: "(Event \<Rightarrow> string option) \<Rightarrow> (FileLogger \<times> OS) audit_logger" where
  "file_audit Marshal ev s = (case s of (l, os) \<Rightarrow>
     (case Log Marshal ev l os of (err, l, os) \<Rightarrow> (map_option (\<lambda>_. ErrorText ''audit'') err, (l, os))))"

text \<open>
  C4.  No answer without its record: when a session with a file audit log returns a result for a
  statement, the statement was allowed and the last line of the audit file is the record of
  it, with its time, user, source address, verdict and redacted text.
\<close>

theorem answers_are_audited:
  assumes "session_HandleQuery lib now query p = (Inr res, p')"
    and "ph_auditor p = Some (file_audit Marshal)" and "ph_audit p = (l, os)" and "sink_ok l os"
  shows "isAllowedDecision (verdict p query)
    \<and> (\<exists>ev body d. Marshal ev = Some body
        \<and> os_files (snd (ph_audit p')) (lg_path l) = Some \<lparr>f_data = d @ body @ [CHR 0x0A], f_mode = 384\<rparr>
        \<and> ev_Time ev = now \<and> ev_Kind ev = EventQuery \<and> ev_UserID ev = ai_userID (ph_identity p)
        \<and> ev_SourceAddr ev = ai_sourceAddr (ph_identity p)
        \<and> ev_NormalizedStatement ev = NormalizeStatement query
        \<and> ev_Decision ev = decision_text (dec_Kind (verdict p query)) \<and> ev_ErrorClass ev = '''')"
proof -
  obtain ev where ev: "isAllowedDecision (verdict p query)" "file_audit Marshal ev (l, os) = (None, ph_audit p')"
      "ev_Time ev = now \<and> ev_Kind ev = EventQuery \<and> ev_UserID ev = ai_userID (ph_identity p)
        \<and> ev_SourceAddr ev = ai_sourceAddr (ph_identity p) \<and> ev_NormalizedStatement ev = NormalizeStatement query
        \<and> ev_Decision ev = decision_text (dec_Kind (verdict p query)) \<and> ev_ErrorClass ev = ''''"
    using HandleQuery_Inr_audited[OF assms(1)[unfolded session_HandleQuery_def] assms(2)] assms(3) by auto
  obtain l' os' where log: "Log Marshal ev l os = (None, l', os')" "ph_audit p' = (l', os')"
    using ev(2) by (cases "ph_audit p'") (auto simp: file_audit_def split: prod.splits)
  from Log_last_line[OF assms(4) log(1)] show ?thesis using ev(1,3) log(2) by auto
qed

text \<open>A run of statements on a session, each with the time of its record.\<close>

fun session_queries :: "'v mysql_lib \<Rightarrow> (time \<times> string) list \<Rightarrow> ('v, 'u, 'a) deferredSession
    \<Rightarrow> (go_error + 'v Result option) list \<times> ('v, 'u, 'a) deferredSession" where
  "session_queries lib [] p = ([], p)"
| "session_queries lib ((now, query) # qs) p = (case session_HandleQuery lib now query p of
     (answer, p) \<Rightarrow> (case session_queries lib qs p of (answers, p) \<Rightarrow> (answer # answers, p)))"

lemma HandleQuery_keeps_policy:
  assumes "policy_HandleQuery lib now query p = (res, p')"
  shows "ph_handler p' = ph_handler p" "ph_limits p' = ph_limits p" "ph_auditor p' = ph_auditor p"
proof -
  obtain answer cls p1 p2 err where p1: "policy_HandleQuery lib now query p = audited now query (verdict p query) cls answer p1"
      "ph_handler p1 = ph_handler p" "ph_limits p1 = ph_limits p" "ph_auditor p1 = ph_auditor p"
      "auditQuery now query (verdict p query) cls p1 = (err, p2)"
    using HandleQuery_audited[of lib now query p] by (metis prod.exhaust)
  have "ph_handler (closeAfterAuditFailure p2) = ph_handler p2" "ph_limits (closeAfterAuditFailure p2) = ph_limits p2"
    "ph_auditor (closeAfterAuditFailure p2) = ph_auditor p2"
    by (simp_all add: closeAfterAuditFailure_def split: option.splits)
  then show "ph_handler p' = ph_handler p" "ph_limits p' = ph_limits p" "ph_auditor p' = ph_auditor p"
    using assms p1 auditQuery_keeps[OF p1(5)] by (cases err; simp add: audited_def)+
qed

lemma stopped_queries:
  assumes "ph_handler p = deferred_handler lib' up" "deferred_stopped (ph_next p)"
    and "session_queries lib qs p = (answers, p')"
  shows "list_all (\<lambda>answer. is_ok answer \<longrightarrow>
     answer = Inr (Some (maxAllowedPacketResult lib (rl_maxQueryBytes (ph_limits p))))) answers
     \<and> deferred_stopped (ph_next p')"
  using assms
proof (induction qs arbitrary: p answers)
  case (Cons nq qs)
  obtain now query where nq: "nq = (now, query)" by fastforce
  obtain answer p1 where p1: "policy_HandleQuery lib now query p = (answer, p1)" by fastforce
  obtain rest where rest: "session_queries lib qs p1 = (rest, p')" "answers = answer # rest"
    using Cons.prems(3) nq p1 by (auto simp: session_HandleQuery_def split: prod.splits)
  note stop = deferred.stopped_HandleQuery[OF Cons.prems(1,2) p1]
  have "list_all (\<lambda>answer. is_ok answer \<longrightarrow>
     answer = Inr (Some (maxAllowedPacketResult lib (rl_maxQueryBytes (ph_limits p))))) rest
     \<and> deferred_stopped (ph_next p')"
    using Cons.IH[OF _ _ rest(1)] HandleQuery_keeps_policy[OF p1] Cons.prems(1) stop by simp
  then show ?case using stop rest(2) by (cases answer) auto
qed simp

text \<open>
  The count of masked fields in an audit record is that of the handler behind: a statement
  that is refused before it is executed is recorded with the count the statement executed before it has left.
\<close>

lemma stale_masked_count:
  assumes "\<not> isAllowedDecision (verdict p query)" "ph_handler p = deferred_handler lib' up"
    and "df_forwarding (ph_next p) = Some f" "ph_auditor p = Some log"
  shows "\<exists>ev. ev_MaskedFields ev = fh_maskedFields f \<and> ph_audit (snd (policy_HandleQuery lib now query p)) = snd (log ev (ph_audit p))"
proof -
  obtain answer cls p1 where a: "policy_HandleQuery lib now query p = audited now query (verdict p query) cls answer p1"
      "ph_audit p1 = ph_audit p" "ph_auditor p1 = ph_auditor p" "ph_handler p1 = ph_handler p"
      "ph_next p1 = ph_next p \<or> isAllowedDecision (verdict p query) \<and> sh_HandleQuery (ph_handler p) query
         (ph_next (policy_setDecision (verdict p query) p)) = (answer, ph_next p1)"
    using HandleQuery_audited[of lib now query p] by (elim exE conjE) (rule that)
  then have n: "ph_next p1 = ph_next p" using assms(1) by blast
  let ?ev = "query_event p1 now query (verdict p query) cls"
  have "ev_MaskedFields ?ev = fh_maskedFields f"
    using a(4) n assms(2,3) by (simp add: query_event_def deferred_handler_def deferred_maskedFieldCount_def)
  moreover have "ph_audit (snd (audited now query (verdict p query) cls answer p1)) = snd (log ?ev (ph_audit p))"
  proof -
    obtain e l where l: "log ?ev (ph_audit p) = (e, l)" by fastforce
    have q: "auditQuery now query (verdict p query) cls p1 = (e, p1\<lparr>ph_audit := l\<rparr>)"
      using a(2,3) assms(4) l by (simp add: auditQuery_def)
    show ?thesis
      by (cases e) (simp_all add: audited_def q l closeAfterAuditFailure_def a(4) assms(2) deferred_handler_def)
  qed
  ultimately show ?thesis unfolding a(1) by blast
qed

text \<open>A statement whose record cannot be written stops the session, with a cause.\<close>

lemma failed_audit_cause:
  assumes "ph_handler p = deferred_handler lib up" and "ph_auditor p = Some log"
    and "\<And>ev. fst (log ev (ph_audit p)) \<noteq> None"
    and "session_HandleQuery lib now query p = (res, p')"
  shows "res = Inl unsupportedError \<and> deferred_stopped (ph_next p') \<and> session_TerminalError p' \<noteq> None"
proof -
  have run: "policy_HandleQuery lib now query p = (res, p')" using assms(4) by (simp add: session_HandleQuery_def)
  obtain answer cls p1 where p1: "audited now query (verdict p query) cls answer p1 = (res, p')"
      "ph_audit p1 = ph_audit p" "ph_auditor p1 = Some log" "ph_handler p1 = deferred_handler lib up"
    using HandleQuery_audited[of lib now query p] run assms(1,2) by auto
  obtain err p2 where p2: "auditQuery now query (verdict p query) cls p1 = (Some err, p2)"
    using p1(2,3) assms(3)[of "query_event p1 now query (verdict p query) cls"]
    by (cases "log (query_event p1 now query (verdict p query) cls) (ph_audit p)") (auto simp: auditQuery_def)
  note stop = deferred.failed_audit_stops[OF p1(4) p2, of answer]
  have p': "res = Inl unsupportedError" "p' = closeAfterAuditFailure p2" "deferred_stopped (ph_next p')"
    using stop p1(1) by auto
  have "session_TerminalError p' \<noteq> None"
    using p'(2) auditQuery_keeps(2)[OF p2] p1(4)
    by (auto simp: session_TerminalError_def closeAfterAuditFailure_def deferred_handler_def
        deferred_closeTerminal_def Let_def split: option.splits prod.splits)
  then show ?thesis using p'(1,3) by simp
qed

text \<open>
  C10.  Auditing fails closed: when the audit log takes no record, the client of the statement gets an
  error, even if the statement was already executed, the session is stopped with a cause on
  record, and no later statement reaches a connection: it gets an error or, for the packet
  limit, the constant the proxy answers itself.
\<close>

theorem audit_failure_stops:
  assumes "ph_handler p = deferred_handler lib up" and "ph_auditor p = Some log"
    and "\<And>ev. fst (log ev (ph_audit p)) \<noteq> None"
    and "session_HandleQuery lib now query p = (res, p')" and "session_queries lib qs p' = (answers, p'')"
  shows "res = Inl unsupportedError \<and> deferred_stopped (ph_next p') \<and> session_TerminalError p' \<noteq> None
    \<and> deferred_stopped (ph_next p'')
    \<and> list_all (\<lambda>answer. is_ok answer \<longrightarrow>
         answer = Inr (Some (maxAllowedPacketResult lib (rl_maxQueryBytes (ph_limits p))))) answers"
proof -
  have run: "policy_HandleQuery lib now query p = (res, p')" using assms(4) by (simp add: session_HandleQuery_def)
  note stop = failed_audit_cause[OF assms(1-4)]
  then show ?thesis
    using stopped_queries[OF _ _ assms(5)] HandleQuery_keeps_policy[OF run] assms(1) by simp
qed


subsection \<open>Witnesses\<close>

text \<open>A parser that reads every text as a plain SELECT of one column of the configured table.\<close>

definition demo_parser :: parser where
  "demo_parser s = Some [SelectStmt \<lparr>sel_Kind = SelectStmtKindSelect, sel_hasInto = False,
     sel_LockInfo = None, sel_Fields = Some [FieldExpr ColumnNameExpr]\<rparr> []]"

definition demo_marshal :: "Event \<Rightarrow> string option" where
  "demo_marshal ev = Some (ev_Decision ev @ '' '' @ ev_NormalizedStatement ev)"

definition demo_log :: FileLogger where
  "demo_log = \<lparr>lg_path = ''audit'', lg_config = \<lparr>fc_Path = ''audit'', fc_MaxBytes = 0, fc_MaxBackups = 0\<rparr>,
     lg_file = \<lparr>h_path = ''audit'', h_closed = False\<rparr>\<rparr>"

definition demo_disk :: "nat option list \<Rightarrow> OS" where
  "demo_disk faults = \<lparr>os_files = [''audit'' \<mapsto> \<lparr>f_data = '''', f_mode = 384\<rparr>], os_faults = faults\<rparr>"

definition demo_session_handler :: "nat option list
    \<Rightarrow> (string option, string option list list, FileLogger \<times> OS) deferredSession" where
  "demo_session_handler faults = newDeferredSessionHandlerWithAudit id demo_parser demo_lib demo_session
     \<lparr>cc_AllowedSchemas = [''app''], cc_AllowDefaultSetup = True\<rparr> (Some (Mask id demo_policy))
     \<lparr>rl_maxQueryBytes = 100, rl_maxResultRows = 0, rl_maxResultBytes = 0\<rparr>
     (Some (file_audit demo_marshal)) (demo_log, demo_disk faults) \<lparr>ai_userID = ''u'', ai_sourceAddr = ''::1''\<rparr>"

definition demo_active :: "nat option list
    \<Rightarrow> (string option, string option list list, FileLogger \<times> OS) deferredSession" where
  "demo_active faults = snd (session_Activate demo_session (demo_users ''ann'') (demo_session_handler faults))"


lemma demo_handler: "ph_handler (demo_active faults) = deferred_handler demo_lib demo_session"
  "ph_auditor (demo_active faults) = Some (file_audit demo_marshal)"
  "ph_audit (demo_active faults) = (demo_log, demo_disk faults)"
  by (simp_all add: demo_active_def session_Activate_def demo_session_handler_def
      newDeferredSessionHandlerWithAudit_def newPolicyHandlerWithAudit_def split: prod.splits)

lemma demo_sink: "sink_ok demo_log (demo_disk faults)"
  by (simp add: sink_ok_def demo_log_def demo_disk_def)

theorem answers_are_audited_witness:
  "\<exists>body d. os_files (snd (ph_audit (snd (session_HandleQuery demo_lib 5 ''select email'' (demo_active []))))) ''audit''
     = Some \<lparr>f_data = d @ body @ [CHR 0x0A], f_mode = 384\<rparr>"
proof -
  have "answered (fst (session_HandleQuery demo_lib 5 ''select email'' (demo_active [])))" by code_simp
  then obtain r p' where r: "session_HandleQuery demo_lib 5 ''select email'' (demo_active []) = (Inr (Some r), p')"
    using answered_pair by blast
  have path: "lg_path demo_log = ''audit''" by (simp add: demo_log_def)
  show ?thesis
    using answers_are_audited[OF r demo_handler(2) demo_handler(3) demo_sink, unfolded path] r by auto
qed

definition demo_unaudited :: "(string option, string option list list, unit) deferredSession" where
  "demo_unaudited = snd (session_Activate demo_session (demo_users ''ann'')
     (newDeferredSessionHandlerWithAudit id demo_parser demo_lib demo_session
       \<lparr>cc_AllowedSchemas = [''app''], cc_AllowDefaultSetup = True\<rparr> None
       \<lparr>rl_maxQueryBytes = 100, rl_maxResultRows = 0, rl_maxResultBytes = 0\<rparr>
       (Some (\<lambda>_ _. (Some (ErrorText ''disk full''), ()))) () \<lparr>ai_userID = ''u'', ai_sourceAddr = ''''\<rparr>))"

theorem audit_failure_stops_witness:
  "fst (session_HandleQuery demo_lib 5 ''select email'' demo_unaudited) = Inl unsupportedError"
proof -
  have h: "ph_handler demo_unaudited = deferred_handler demo_lib demo_session"
    "ph_auditor demo_unaudited = Some (\<lambda>_ _. (Some (ErrorText ''disk full''), ()))"
    by (simp_all add: demo_unaudited_def session_Activate_def
        newDeferredSessionHandlerWithAudit_def newPolicyHandlerWithAudit_def split: prod.splits)
  obtain res p' where r: "session_HandleQuery demo_lib 5 ''select email'' demo_unaudited = (res, p')" by fastforce
  obtain answers p'' where s: "session_queries demo_lib [(6, ''select id'')] p' = (answers, p'')" by fastforce
  show ?thesis using audit_failure_stops[OF h _ r s] r by simp
qed

end
