(* ===== verification/SessionLifecycle.thy ===== *)
theory SessionLifecycle
  imports PolicyProperties
begin

text \<open>
  The life of a client session, from the handler without a connection to the closed one, under
  any sequence of commands.  An upstream session is observed through a tap that records the
  calls made on it; the invariants say that only allowed statements and schemas reach a
  connection, that each connection is closed exactly once and not used afterwards, and that
  a session only moves forward through its phases.
\<close>

subsection \<open>Observing an upstream session\<close>

datatype up_event = UpUseDB string | UpQuery string | UpClose

record 'u tapped =
  tp_log :: "up_event list"
  tp_conn :: 'u

definition noted :: "up_event \<Rightarrow> 'u tapped \<Rightarrow> 'u \<Rightarrow> 'u tapped" where
  "noted ev t u = \<lparr>tp_log = ev # tp_log t, tp_conn = u\<rparr>"

primrec map_stream :: "('u \<Rightarrow> 'w) \<Rightarrow> ('v, 'u) select_stream \<Rightarrow> ('v, 'w) select_stream" where
  "map_stream f (StreamFinished err result u) = StreamFinished err result (f u)"
| "map_stream f (StreamRow row k) = StreamRow row (\<lambda>err. map_stream f (k err))"

definition tap :: "('v, 'u) upstreamSession \<Rightarrow> ('v, 'u tapped) upstreamSession" where
  "tap up = \<lparr>
     us_UseDB = (\<lambda>db t. case us_UseDB up db (tp_conn t) of (err, u) \<Rightarrow> (err, noted (UpUseDB db) t u)),
     us_Execute = (\<lambda>q t. case us_Execute up q (tp_conn t) of (res, u) \<Rightarrow> (res, noted (UpQuery q) t u)),
     us_Close = (\<lambda>t. case us_Close up (tp_conn t) of (err, u) \<Rightarrow> (err, noted UpClose t u)),
     us_ExecuteSelectStreaming = map_option (\<lambda>stream q t.
       map_stream (noted (UpQuery q) t) (stream q (tp_conn t))) (us_ExecuteSelectStreaming up)\<rparr>"

lemma noted_log [simp]: "tp_log (noted ev t u) = ev # tp_log t"
  by (simp add: noted_def)

lemma run_map_stream:
  "run_stream callback acc (map_stream f st) =
     (case run_stream callback acc st of (err, result, acc, u) \<Rightarrow> (err, result, acc, f u))"
  by (induction st arbitrary: acc) (auto split: prod.splits)

subsection \<open>What the forwarding handler does to a connection\<close>

abbreviation flog :: "'u tapped forwardingHandler \<Rightarrow> up_event list" where
  "flog h \<equiv> tp_log (fh_upstream h)"

lemma tap_Close: "flog (snd (forwarding_Close (tap up) h)) = (if fh_closed h then [] else [UpClose]) @ flog h"
  by (auto simp: forwarding_Close_def tap_def Let_def split: prod.splits)

lemma tap_closeTerminal:
  "flog (snd (forwarding_closeTerminal (tap up) err h)) = (if fh_closed h then [] else [UpClose]) @ flog h"
  by (simp add: forwarding_closeTerminal_def tap_Close)

lemma tap_refuse:
  "refuse (tap up) err h = (res, h') \<Longrightarrow> flog h' = (if fh_closed h then [] else [UpClose]) @ flog h"
  by (auto simp: refuse_def tap_closeTerminal)

lemma tap_UseDB:
  assumes "forwarding_UseDB (tap up) db h = (err, h')" "\<not> fh_closed h"
  shows "flog h' = (if fh_closed h' then [UpClose] else []) @ UpUseDB db # flog h"
proof -
  obtain e u where use: "us_UseDB (tap up) db (fh_upstream h) = (e, u)" "tp_log u = UpUseDB db # flog h"
    by (cases "us_UseDB up db (tp_conn (fh_upstream h))") (simp add: tap_def)
  then show ?thesis using assms
    by (cases e) (auto simp: forwarding_UseDB_def Let_def tap_closeTerminal split: if_splits)
qed

lemma tap_bounded:
  assumes "executeBoundedSelect lib (\<lambda>q t. map_stream (noted (UpQuery q) t) (stream q (tp_conn t))) q h = (res, h')"
  shows "flog h' = UpQuery q # flog h \<and> fh_closed h' = fh_closed h"
proof -
  obtain err result acc u where "run_stream (bounded_row lib (fh_limits h))
      \<lparr>br_rows = [], br_rowDatas = [], br_resultBytes = 0\<rparr> (stream q (tp_conn (fh_upstream h))) = (err, result, acc, u)"
    by (metis prod_cases4)
  then show ?thesis using assms
    by (cases err) (auto simp: executeBoundedSelect_def run_map_stream)
qed

lemma tap_execute:
  assumes "forwarding_execute lib (tap up) q h = (res, h')"
  shows "flog h' = UpQuery q # flog h \<and> fh_closed h' = fh_closed h"
proof (cases "us_ExecuteSelectStreaming (tap up)")
  case None
  then show ?thesis using assms
    by (cases "us_Execute up q (tp_conn (fh_upstream h))") (auto simp: forwarding_execute_def tap_def)
next
  case (Some str)
  then obtain stream where str: "str = (\<lambda>q t. map_stream (noted (UpQuery q) t) (stream q (tp_conn t)))"
    by (auto simp: tap_def)
  show ?thesis
  proof (cases "rl_maxResultRows (fh_limits h) > 0 \<or> rl_maxResultBytes (fh_limits h) > 0")
    case True
    then show ?thesis using assms Some tap_bounded[of lib stream q h res h'] str
      by (simp add: forwarding_execute_def)
  next
    case False
    then show ?thesis using assms Some
      by (cases "us_Execute up q (tp_conn (fh_upstream h))") (auto simp: forwarding_execute_def tap_def)
  qed
qed

lemma check_cases:
  assumes "check_result lib up r h = (res, h')"
  shows "(\<exists>e k. refuse up e k = (res, h') \<and> fh_upstream k = fh_upstream h \<and> fh_closed k = fh_closed h)
    \<or> (fh_upstream h' = fh_upstream h \<and> fh_closed h' = fh_closed h)"
proof (cases "\<exists>e. check_result lib up r h = refuse up e h")
  case False
  then obtain buf where buf: "check_result lib up r h = (case maskResult lib buf h of
        (Inl err, h) \<Rightarrow> refuse up err h
      | (Inr result, h) \<Rightarrow> if resultBytesOverLimit (fh_limits h) result then refuse up unsupportedError h
          else (Inr result, h))"
    unfolding check_result_def by (auto split: if_splits sum.splits)
  obtain m k where m: "maskResult lib buf h = (m, k)" by fastforce
  show ?thesis
  proof (cases m)
    case (Inl e)
    then show ?thesis using assms buf m maskResult_keeps(1,6)[OF m] by auto
  next
    case (Inr x)
    then show ?thesis using assms buf m maskResult_keeps(1,6)[OF m]
      by (cases "resultBytesOverLimit (fh_limits k) x") auto
  qed
next
  case True
  then obtain e where "refuse up e h = (res, h')" using assms by auto
  then show ?thesis by blast
qed

lemma tap_check:
  assumes "check_result lib (tap up) r h = (res, h')" "\<not> fh_closed h"
  shows "flog h' = (if fh_closed h' then [UpClose] else []) @ flog h"
proof -
  consider e k where "refuse (tap up) e k = (res, h')" "flog k = flog h" "\<not> fh_closed k"
    | "flog h' = flog h" "\<not> fh_closed h'"
    using check_cases[OF assms(1)] assms(2) by auto
  then show ?thesis
  proof cases
    case 1
    then show ?thesis using tap_refuse[OF 1(1)] refuse_pair[OF 1(1)] by simp
  qed simp
qed

lemma tap_HandleQuery:
  assumes "forwarding_HandleQuery lib (tap up) q h = (res, h')" "\<not> fh_closed h"
  shows "flog h' = (if fh_closed h' then [UpClose] else []) @ UpQuery q # flog h"
proof -
  obtain r k where ex: "forwarding_execute lib (tap up) q (h\<lparr>fh_maskedFields := 0\<rparr>) = (r, k)" by fastforce
  have k: "flog k = UpQuery q # flog h" "\<not> fh_closed k" using tap_execute[OF ex] assms(2) by simp_all
  show ?thesis
  proof (cases r)
    case (Inl e)
    then show ?thesis using assms ex k
      by (auto simp: forwarding_HandleQuery_def Let_def tap_closeTerminal split: if_splits
          dest: tap_refuse refuse_pair)
  next
    case (Inr x)
    then have "check_result lib (tap up) (normalizeBufferedResultset x) k = (res, h')"
      using assms ex by (simp add: forwarding_HandleQuery_def)
    from tap_check[OF this k(2)] show ?thesis using k(1) by simp
  qed
qed


subsection \<open>The invariant of the deferred handler\<close>

definition in_use :: "(up_event \<Rightarrow> bool) \<Rightarrow> up_event list \<Rightarrow> bool" where
  "in_use ok log \<longleftrightarrow> UpClose \<notin> set log \<and> list_all ok log"

definition finished :: "(up_event \<Rightarrow> bool) \<Rightarrow> up_event list \<Rightarrow> bool" where
  "finished ok log \<longleftrightarrow> log \<noteq> [] \<and> hd log = UpClose \<and> in_use ok (tl log)"

definition d_inv :: "(up_event \<Rightarrow> bool) \<Rightarrow> 'u tapped deferredForwarding \<Rightarrow> bool" where
  "d_inv ok d \<longleftrightarrow> (df_pendingDatabase d = '''' \<or> ok (UpUseDB (df_pendingDatabase d)))
     \<and> (case df_forwarding d of None \<Rightarrow> True
        | Some f \<Rightarrow> \<not> df_closed d \<and> \<not> fh_closed f \<and> in_use ok (flog f))
     \<and> list_all (\<lambda>t. finished ok (tp_log t)) (df_released d)"

lemma finished_Close: "in_use ok (flog h) \<Longrightarrow> \<not> fh_closed h \<Longrightarrow> finished ok (flog (snd (forwarding_Close (tap up) h)))"
  by (simp add: tap_Close finished_def)

lemma in_use_Cons: "in_use ok log \<Longrightarrow> ok ev \<Longrightarrow> ev \<noteq> UpClose \<Longrightarrow> in_use ok (ev # log)"
  by (auto simp: in_use_def)

lemma settle_inv:
  assumes "d_inv ok d" "df_forwarding d = Some f0" "in_use ok log"
    and "flog f = (if fh_closed f then [UpClose] else []) @ log"
  shows "d_inv ok (settle f d)"
  using assms by (auto simp: d_inv_def settle_def finished_def)

lemma deferred_UseDB_inv:
  assumes "d_inv ok d" "ok (UpUseDB db)"
  shows "d_inv ok (snd (deferred_UseDB (tap up) db d))"
proof (cases "df_forwarding d")
  case None
  then show ?thesis using assms by (auto simp: deferred_UseDB_def d_inv_def)
next
  case (Some f)
  obtain e f' where f': "forwarding_UseDB (tap up) db f = (e, f')" by fastforce
  have f: "\<not> fh_closed f" "in_use ok (flog f)" using assms(1) Some by (auto simp: d_inv_def)
  show ?thesis
    using settle_inv[OF assms(1) Some in_use_Cons[OF f(2) assms(2)] tap_UseDB[OF f' f(1)]] Some f'
    by (simp add: deferred_UseDB_def)
qed

lemma deferred_HandleQuery_inv:
  assumes "d_inv ok d" "ok (UpQuery q)"
  shows "d_inv ok (snd (deferred_HandleQuery lib (tap up) q d))"
proof (cases "df_forwarding d")
  case None
  then show ?thesis using assms by (simp add: deferred_HandleQuery_def)
next
  case (Some f)
  obtain e f' where f': "forwarding_HandleQuery lib (tap up) q f = (e, f')" by fastforce
  have f: "\<not> fh_closed f" "in_use ok (flog f)" using assms(1) Some by (auto simp: d_inv_def)
  show ?thesis
    using settle_inv[OF assms(1) Some in_use_Cons[OF f(2) assms(2)] tap_HandleQuery[OF f' f(1)]] Some f'
    by (simp add: deferred_HandleQuery_def)
qed

lemma deferred_close_inv:
  assumes "d_inv ok d"
  shows "d_inv ok (snd (deferred_closeTerminal (tap up) err d))" "d_inv ok (snd (deferred_Close (tap up) d))"
  using assms finished_Close[of ok _ up]
  by (auto simp: d_inv_def deferred_closeTerminal_def deferred_Close_def Let_def
      split: option.splits prod.splits) (metis snd_conv)+

lemma deferred_setDecision_inv: "d_inv ok d \<Longrightarrow> d_inv ok (deferred_setQueryDecision decision d)"
  by (auto simp: d_inv_def deferred_setQueryDecision_def forwarding_setQueryDecision_def split: option.splits)

lemma deferred_Activate_inv:
  assumes "d_inv ok d" "df_forwarding d = None" "tp_log u = []"
  shows "d_inv ok (snd (deferred_Activate (tap up) u d))"
proof (cases "df_closed d")
  case True
  then show ?thesis using assms
    by (auto simp: d_inv_def deferred_Activate_def tap_def finished_def in_use_def split: prod.splits)
next
  case False
  define f where "f = forwarding_setQueryDecision (df_decision d)
     (newForwardingHandlerWithLimits u (df_masker d) (df_limits d))"
  have f: "\<not> fh_closed f" "flog f = []"
    using assms(3) by (simp_all add: f_def forwarding_setQueryDecision_def newForwardingHandlerWithLimits_def)
  show ?thesis
  proof (cases "df_pendingDatabase d = ''''")
    case True
    then show ?thesis using assms False f
      by (simp add: deferred_Activate_def f_def[symmetric] d_inv_def in_use_def)
  next
    case pending: False
    obtain e f' where f': "forwarding_UseDB (tap up) (df_pendingDatabase d) f = (e, f')" by fastforce
    note log = tap_UseDB[OF f' f(1), unfolded f(2)]
    have ok: "ok (UpUseDB (df_pendingDatabase d))" using assms(1) pending by (simp add: d_inv_def)
    show ?thesis
    proof (cases e)
      case None
      then have "\<not> fh_closed f'" using f' f(1) by (auto simp: forwarding_UseDB_def Let_def split: option.splits prod.splits if_splits)
      then show ?thesis using assms False pending f' None log ok
        by (simp add: deferred_Activate_def f_def[symmetric] d_inv_def in_use_def)
    next
      case (Some err)
      have "finished ok (flog (snd (forwarding_Close (tap up) f')))"
        using log ok by (auto simp: tap_Close finished_def in_use_def)
      then show ?thesis using assms False pending f' Some
        by (simp add: deferred_Activate_def f_def[symmetric] d_inv_def)
    qed
  qed
qed

text \<open>Activation always finds a home for the connection: in the session or released.\<close>

lemma deferred_Close_none: "df_forwarding (snd (deferred_Close up d)) = None"
  by (auto simp: deferred_Close_def Let_def split: option.splits prod.splits)


subsection \<open>Runs of a session\<close>

definition audit_stop :: "('v, 'u) upstreamSession \<Rightarrow> 'u deferredForwarding \<Rightarrow> 'u deferredForwarding" where
  "audit_stop up d = snd (deferred_closeTerminal up ErrAuditFailure d)"

lemma session_HandleQuery_next:
  assumes "ph_handler p = deferred_handler lib up" "session_HandleQuery lib now q p = (res, p')"
  shows "\<exists>d. (ph_next p' = d \<or> ph_next p' = audit_stop up d)
     \<and> (d = ph_next p \<or> isAllowedDecision (verdict p q)
         \<and> d = snd (deferred_HandleQuery lib up q (deferred_setQueryDecision (verdict p q) (ph_next p))))
     \<and> ph_handler p' = ph_handler p \<and> ph_classifier p' = ph_classifier p \<and> ph_limits p' = ph_limits p
     \<and> ph_allowedSchemas p' = ph_allowedSchemas p"
proof -
  obtain answer cls p1 where p1: "audited now q (verdict p q) cls answer p1 = (res, p')"
      "ph_handler p1 = ph_handler p" "ph_classifier p1 = ph_classifier p" "ph_limits p1 = ph_limits p"
      "ph_allowedSchemas p1 = ph_allowedSchemas p"
      "ph_next p1 = ph_next p \<or> isAllowedDecision (verdict p q)
        \<and> sh_HandleQuery (ph_handler p) q (ph_next (policy_setDecision (verdict p q) p)) = (answer, ph_next p1)"
    using HandleQuery_audited[of lib now q p] assms(2) by (auto simp: session_HandleQuery_def)
  obtain err p2 where p2: "auditQuery now q (verdict p q) cls p1 = (err, p2)" by fastforce
  have p': "p' = (case err of None \<Rightarrow> p2 | Some _ \<Rightarrow> closeAfterAuditFailure p2)"
    using p1(1) p2 by (cases err) (simp_all add: audited_def)
  have stop: "closeAfterAuditFailure p2 = p2\<lparr>ph_next := audit_stop up (ph_next p2)\<rparr>"
    using auditQuery_keeps(2)[OF p2] p1(2) assms(1)
    by (simp add: closeAfterAuditFailure_def audit_stop_def deferred_handler_def)
  have "ph_next p' = ph_next p1 \<or> ph_next p' = audit_stop up (ph_next p1)"
    "ph_handler p' = ph_handler p \<and> ph_classifier p' = ph_classifier p \<and> ph_limits p' = ph_limits p
       \<and> ph_allowedSchemas p' = ph_allowedSchemas p"
    using p1(2-5) auditQuery_keeps[OF p2] by (simp_all add: p' stop split: option.splits)
  moreover have "ph_next p1 = ph_next p \<or> isAllowedDecision (verdict p q)
      \<and> ph_next p1 = snd (deferred_HandleQuery lib up q (deferred_setQueryDecision (verdict p q) (ph_next p)))"
    using p1(6) assms(1) by (auto simp: deferred_handler_def policy_setDecision_def)
  ultimately show ?thesis by blast
qed

text \<open>One command to a session: the client's commands, the activation after the authentication (the
  protocol server reports one success per connection), the end of the connection.\<close>

inductive session_step :: "'v mysql_lib \<Rightarrow> ('v, 'u) upstreamSession \<Rightarrow> ('v, 'u tapped, 'a) deferredSession
    \<Rightarrow> ('v, 'u tapped, 'a) deferredSession \<Rightarrow> bool" for lib up where
  step_Activate: "df_forwarding (ph_next p) = None \<Longrightarrow> tp_log u = []
     \<Longrightarrow> session_step lib up p (snd (session_Activate (tap up) u p))"
| step_UseDB: "session_step lib up p (snd (session_UseDB db p))"
| step_HandleQuery: "session_step lib up p (snd (session_HandleQuery lib now q p))"
| step_command: "session_step lib up p (snd (session_command c p))"
| step_SetAuditIdentity: "session_step lib up p (session_SetAuditIdentity identity p)"
| step_Close: "session_step lib up p (snd (session_Close (tap up) p))"

definition same_policy :: "('v, 's, 'a) policyHandler \<Rightarrow> ('v, 's, 'a) policyHandler \<Rightarrow> bool" where
  "same_policy p p' \<longleftrightarrow> ph_handler p' = ph_handler p \<and> ph_classifier p' = ph_classifier p
     \<and> ph_limits p' = ph_limits p \<and> ph_allowedSchemas p' = ph_allowedSchemas p"

lemmas session_ops = session_Activate_def session_UseDB_def session_Close_def session_command_def
  session_SetAuditIdentity_def setAuditIdentity_def policy_command_def policy_UseDB_def

lemma step_same_policy:
  assumes "session_step lib up p p'" "ph_handler p = deferred_handler lib (tap up)"
  shows "same_policy p p'"
  using assms(1)
proof (cases rule: session_step.cases)
  case (step_HandleQuery now q)
  then show ?thesis
    using session_HandleQuery_next[OF assms(2), of now q "fst (session_HandleQuery lib now q p)" p']
    by (auto simp: same_policy_def)
qed (auto simp: same_policy_def session_ops split: prod.splits)

text \<open>What a session lets through to its connection.\<close>

definition event_allowed :: "('v, 's, 'a) policyHandler \<Rightarrow> up_event \<Rightarrow> bool" where
  "event_allowed p ev = (case ev of UpUseDB db \<Rightarrow> isAllowedSchema p db
     | UpQuery q \<Rightarrow> isAllowedDecision (verdict p q) | UpClose \<Rightarrow> True)"

lemma same_policy_events: "same_policy p p' \<Longrightarrow> event_allowed p' = event_allowed p"
  by (auto simp: same_policy_def event_allowed_def verdict_def isAllowedSchema_def fun_eq_iff split: up_event.splits)

lemma step_inv:
  assumes "session_step lib up p p'" "ph_handler p = deferred_handler lib (tap up)"
    and "d_inv (event_allowed p) (ph_next p)"
  shows "d_inv (event_allowed p) (ph_next p')"
  using assms(1)
proof (cases rule: session_step.cases)
  case (step_Activate u)
  then show ?thesis using deferred_Activate_inv[OF assms(3), of u up]
    by (auto simp: session_Activate_def split: prod.splits)
next
  case (step_UseDB db)
  then show ?thesis using deferred_UseDB_inv[OF assms(3), of db up] assms(2,3)
    by (auto simp: session_UseDB_def policy_UseDB_def deferred_handler_def event_allowed_def split: prod.splits)
next
  case (step_HandleQuery now q)
  obtain d where d: "ph_next p' = d \<or> ph_next p' = audit_stop (tap up) d"
      "d = ph_next p \<or> isAllowedDecision (verdict p q) \<and> d = snd (deferred_HandleQuery lib (tap up) q
          (deferred_setQueryDecision (verdict p q) (ph_next p)))"
    using session_HandleQuery_next[OF assms(2), of now q "fst (session_HandleQuery lib now q p)" p'] step_HandleQuery
    by auto
  have "d_inv (event_allowed p) d"
    using d(2) assms(3) deferred_HandleQuery_inv[OF deferred_setDecision_inv[OF assms(3)], of q]
    by (auto simp: event_allowed_def)
  then show ?thesis using d(1) deferred_close_inv(1) by (auto simp: audit_stop_def)
next
  case step_Close
  then show ?thesis using deferred_close_inv(2)[OF assms(3), of up]
    by (auto simp: session_Close_def split: prod.splits)
qed (use assms(3) in \<open>auto simp: session_ops\<close>)

lemma run_inv:
  assumes "(session_step lib up)\<^sup>*\<^sup>* p0 p" "ph_handler p0 = deferred_handler lib (tap up)"
    and "d_inv (event_allowed p0) (ph_next p0)"
  shows "same_policy p0 p \<and> d_inv (event_allowed p0) (ph_next p)"
  using assms(1)
proof (induction rule: rtranclp_induct)
  case base
  then show ?case using assms(3) by (simp add: same_policy_def)
next
  case (step p p')
  then have h: "ph_handler p = deferred_handler lib (tap up)" using assms(2) by (simp add: same_policy_def)
  have "same_policy p0 p'"
    using step.IH step_same_policy[OF step.hyps(2) h] by (simp add: same_policy_def)
  then show ?case
    using step_inv[OF step.hyps(2) h] step.IH same_policy_events[of p0 p] by simp
qed

lemma new_session:
  assumes "p0 = newDeferredSessionHandlerWithAudit ul ParseSQL lib up config masker limits auditor a identity"
  shows "ph_handler p0 = deferred_handler lib up" "df_forwarding (ph_next p0) = None"
    "df_closed (ph_next p0) = False" "df_terminal (ph_next p0) = None" "df_released (ph_next p0) = []"
    "df_pendingDatabase (ph_next p0) = ''''" "ph_limits p0 = limits" "ph_audit p0 = a" "ph_auditor p0 = auditor"
    "ph_classifier p0 = Classify ul ParseSQL (NewClassifier config)"
    "ph_allowedSchemas p0 = set (cc_AllowedSchemas config)" "ph_identity p0 = identity"
  by (simp_all add: assms newDeferredSessionHandlerWithAudit_def newPolicyHandlerWithAudit_def allowedSchemaSet_def)

lemma new_session_inv:
  "d_inv ok (ph_next (newDeferredSessionHandlerWithAudit ul ParseSQL lib up config masker limits auditor a identity))"
  by (simp add: d_inv_def new_session[OF refl])


lemma new_run_inv:
  fixes p :: "('v, 'u tapped, 'a) deferredSession"
  assumes "(session_step lib up)\<^sup>*\<^sup>*
      (newDeferredSessionHandlerWithAudit ul ParseSQL lib (tap up) config masker limits auditor a identity) p"
  shows "same_policy (newDeferredSessionHandlerWithAudit ul ParseSQL lib (tap up) config masker limits auditor a identity) p"
    and "d_inv (event_allowed (newDeferredSessionHandlerWithAudit ul ParseSQL lib (tap up) config masker limits
      auditor a identity)) (ph_next p)"
  using run_inv[OF assms new_session(1)[OF refl] new_session_inv] by simp_all

subsection \<open>Phases\<close>

datatype phase = Pending | Active | Ended

instantiation phase :: linorder
begin

fun rank :: "phase \<Rightarrow> nat" where
  "rank Pending = 0" | "rank Active = 1" | "rank Ended = 2"

definition less_eq_phase :: "phase \<Rightarrow> phase \<Rightarrow> bool" where
  "p \<le> q \<longleftrightarrow> rank p \<le> rank q"

definition less_phase :: "phase \<Rightarrow> phase \<Rightarrow> bool" where
  "p < q \<longleftrightarrow> rank p < rank q"

lemma rank_inj: "rank p = rank q \<Longrightarrow> p = q"
  by (cases p; cases q) auto

instance
  by standard (auto simp: less_eq_phase_def less_phase_def intro: rank_inj)

end

definition phase_of :: "'u deferredForwarding \<Rightarrow> phase" where
  "phase_of d = (if df_closed d then Ended else case df_forwarding d of None \<Rightarrow> Pending | Some _ \<Rightarrow> Active)"

text \<open>\<open>moves\<close>: forward in the phases, and what has ended stays as it is, its cause included.\<close>

definition moves :: "'u deferredForwarding \<Rightarrow> 'u deferredForwarding \<Rightarrow> bool" where
  "moves d d' \<longleftrightarrow> phase_of d \<le> phase_of d'
     \<and> (df_closed d \<longrightarrow> df_forwarding d = None \<longrightarrow> df_forwarding d' = None)
     \<and> (df_terminal d \<noteq> None \<longrightarrow> df_terminal d' = df_terminal d)"

lemma moves_refl: "moves d d"
  by (simp add: moves_def)

lemma moves_trans: "moves d d' \<Longrightarrow> moves d' d'' \<Longrightarrow> df_closed d' \<longrightarrow> df_forwarding d' = None \<Longrightarrow> moves d d''"
  by (auto simp: moves_def phase_of_def less_eq_phase_def split: if_splits option.splits)

lemma phase_le [simp]: "p \<le> Ended" "Pending \<le> p" "Ended \<le> p \<longleftrightarrow> p = Ended" "Active \<le> Pending \<longleftrightarrow> False"
  by (cases p; simp add: less_eq_phase_def)+

lemma settle_moves: "df_forwarding d = Some f0 \<Longrightarrow> \<not> df_closed d \<Longrightarrow> moves d (settle f d)"
  by (auto simp: moves_def settle_def phase_of_def split: option.splits)

lemma deferred_moves:
  assumes "d_inv ok d"
  shows "moves d (snd (deferred_UseDB up db d))" "moves d (snd (deferred_HandleQuery lib up q d))"
    "moves d (deferred_setQueryDecision dec d)" "moves d (snd (deferred_closeTerminal up err d))"
    "moves d (snd (deferred_Close up d))" "df_forwarding d = None \<Longrightarrow> moves d (snd (deferred_Activate up u d))"
proof -
  have open_: "df_forwarding d = Some f \<Longrightarrow> \<not> df_closed d" for f using assms by (auto simp: d_inv_def)
  show "moves d (snd (deferred_UseDB up db d))"
    using settle_moves open_
    by (auto simp: deferred_UseDB_def moves_refl split: option.splits prod.splits)
       (simp add: moves_def phase_of_def)
  show "moves d (snd (deferred_HandleQuery lib up q d))"
    using settle_moves open_ by (auto simp: deferred_HandleQuery_def moves_refl split: option.splits prod.splits)
  show "moves d (deferred_setQueryDecision dec d)"
    by (auto simp: moves_def phase_of_def deferred_setQueryDecision_def split: option.splits)
  show "moves d (snd (deferred_closeTerminal up err d))" "moves d (snd (deferred_Close up d))"
    by (auto simp: moves_def phase_of_def deferred_closeTerminal_def deferred_Close_def Let_def
        split: option.splits prod.splits)
  show "df_forwarding d = None \<Longrightarrow> moves d (snd (deferred_Activate up u d))"
    by (auto simp: moves_def phase_of_def deferred_Activate_def Let_def split: option.splits prod.splits)
qed


lemma inv_closed: "d_inv ok d \<Longrightarrow> df_closed d \<Longrightarrow> df_forwarding d = None"
  by (auto simp: d_inv_def split: option.splits)

lemma step_moves:
  assumes "session_step lib up p p'" "ph_handler p = deferred_handler lib (tap up)"
    and inv: "d_inv (event_allowed p) (ph_next p)"
  shows "moves (ph_next p) (ph_next p')"
  using assms(1)
proof (cases rule: session_step.cases)
  case (step_Activate u)
  then show ?thesis using deferred_moves(6)[OF inv, of "tap up" u]
    by (auto simp: session_Activate_def split: prod.splits)
next
  case (step_UseDB db)
  then show ?thesis using deferred_moves(1)[OF inv, of "tap up" db] assms(2)
    by (auto simp: session_UseDB_def policy_UseDB_def deferred_handler_def moves_refl split: prod.splits)
next
  case (step_HandleQuery now q)
  obtain d where d: "ph_next p' = d \<or> ph_next p' = audit_stop (tap up) d"
      "d = ph_next p \<or> isAllowedDecision (verdict p q) \<and> d = snd (deferred_HandleQuery lib (tap up) q
          (deferred_setQueryDecision (verdict p q) (ph_next p)))"
    using session_HandleQuery_next[OF assms(2), of now q "fst (session_HandleQuery lib now q p)" p'] step_HandleQuery
    by auto
  note set_inv = deferred_setDecision_inv[OF inv, of "verdict p q"]
  have d_inv: "d_inv (event_allowed p) d" "moves (ph_next p) d"
  proof -
    have "moves (ph_next p) (snd (deferred_HandleQuery lib (tap up) q
          (deferred_setQueryDecision (verdict p q) (ph_next p))))"
      by (rule moves_trans[OF deferred_moves(3)[OF inv] deferred_moves(2)[OF set_inv]])
         (use inv_closed[OF set_inv] in blast)
    then show "moves (ph_next p) d" using d(2) moves_refl by auto
    show "d_inv (event_allowed p) d" using d(2) inv deferred_HandleQuery_inv[OF set_inv, of q]
      by (auto simp: event_allowed_def)
  qed
  have "moves (ph_next p) (audit_stop (tap up) d)" unfolding audit_stop_def
    by (rule moves_trans[OF d_inv(2) deferred_moves(4)[OF d_inv(1)]]) (use inv_closed[OF d_inv(1)] in blast)
  then show ?thesis using d(1) d_inv(2) by auto
next
  case step_Close
  then show ?thesis using deferred_moves(5)[OF inv, of "tap up"]
    by (auto simp: session_Close_def split: prod.splits)
qed (auto simp: session_ops moves_refl)

subsection \<open>Properties\<close>

text \<open>Every connection the session has had: those it has let go of and the one it has.\<close>

definition connections :: "'u deferredForwarding \<Rightarrow> 'u list" where
  "connections d = df_released d @ (case df_forwarding d of None \<Rightarrow> [] | Some f \<Rightarrow> [fh_upstream f])"

lemma inv_connections:
  assumes "d_inv ok d" "ok UpClose"
  shows "list_all (\<lambda>t. list_all ok (tp_log t)) (connections d)"
proof -
  have "finished ok log \<Longrightarrow> list_all ok log" for log
    using assms(2) by (cases log) (auto simp: finished_def in_use_def)
  then show ?thesis using assms(1)
    by (auto simp: d_inv_def connections_def list_all_iff in_use_def split: option.splits)
qed

text \<open>
  C3.  Nothing reaches a connection that the policy does not allow: in any run of a session, each
  statement executed upstream was within the size limit and classified as a read, a probe or a
  setup statement, and each schema selected upstream, before or after the
  activation, is a configured one.
\<close>

theorem upstream_sees_only_allowed:
  assumes "(session_step lib up)\<^sup>*\<^sup>*
      (newDeferredSessionHandlerWithAudit ul ParseSQL lib (tap up) config masker limits auditor a identity) p"
  shows "list_all (\<lambda>t. list_all (\<lambda>ev. case ev of
       UpQuery q \<Rightarrow> dec_Kind (Classify ul ParseSQL (NewClassifier config) q) \<noteq> Reject
         \<and> (0 < rl_maxQueryBytes limits \<longrightarrow> int (length q) \<le> rl_maxQueryBytes limits)
     | UpUseDB db \<Rightarrow> db \<in> set (cc_AllowedSchemas config)
     | UpClose \<Rightarrow> True) (tp_log t)) (connections (ph_next p))"
proof -
  let ?p0 = "newDeferredSessionHandlerWithAudit ul ParseSQL lib (tap up) config masker limits auditor a identity"
  from inv_connections[OF new_run_inv(2)[OF assms]]
  have "list_all (\<lambda>t. list_all (event_allowed ?p0) (tp_log t)) (connections (ph_next p))"
    by (simp add: event_allowed_def)
  then show ?thesis
    by (rule list.pred_mono_strong, elim list.pred_mono_strong)
       (auto simp: event_allowed_def verdict_def new_session[OF refl] isAllowedDecision_def isAllowedSchema_def
         split: up_event.splits if_splits)
qed

text \<open>
  Connections are neither leaked nor reused: in any run, a connection that the session no longer
  holds was closed exactly once, as the last thing done with it, the one it holds was not closed,
  and ending the session leaves it none.
\<close>

lemma connections_closed_once:
  assumes "(session_step lib up)\<^sup>*\<^sup>*
      (newDeferredSessionHandlerWithAudit ul ParseSQL lib (tap up) config masker limits auditor a identity) p"
  shows "list_all (\<lambda>t. \<exists>evs. tp_log t = UpClose # evs \<and> UpClose \<notin> set evs) (df_released (ph_next p))
    \<and> (case df_forwarding (ph_next p) of None \<Rightarrow> True
       | Some f \<Rightarrow> \<not> fh_closed f \<and> UpClose \<notin> set (tp_log (fh_upstream f)))
    \<and> df_forwarding (ph_next (snd (session_Close (tap up) p))) = None"
proof -
  let ?p0 = "newDeferredSessionHandlerWithAudit ul ParseSQL lib (tap up) config masker limits auditor a identity"
  note inv = new_run_inv(2)[OF assms]
  have fin: "finished ok log \<Longrightarrow> \<exists>evs. log = UpClose # evs \<and> UpClose \<notin> set evs" for ok log
    by (cases log) (auto simp: finished_def in_use_def)
  have "df_forwarding (ph_next (snd (session_Close (tap up) p))) = None"
    using deferred_Close_none[of "tap up" "ph_next p"] by (auto simp: session_Close_def split: prod.splits)
  then show ?thesis using inv fin
    by (auto simp: d_inv_def in_use_def list_all_iff split: option.splits)
qed

text \<open>
  C34.  A session only moves forward, from pending to active to ended: no command takes it back to an
  earlier phase, gives an ended session a connection again, or replaces the recorded cause.
\<close>

theorem session_moves_forward:
  assumes "(session_step lib up)\<^sup>*\<^sup>*
      (newDeferredSessionHandlerWithAudit ul ParseSQL lib (tap up) config masker limits auditor a identity) p"
    and "session_step lib up p p'"
  shows "phase_of (ph_next p) \<le> phase_of (ph_next p')
    \<and> (phase_of (ph_next p) = Ended \<longrightarrow> df_forwarding (ph_next p') = None)
    \<and> (session_TerminalError p \<noteq> None \<longrightarrow> session_TerminalError p' = session_TerminalError p)"
proof -
  let ?p0 = "newDeferredSessionHandlerWithAudit ul ParseSQL lib (tap up) config masker limits auditor a identity"
  note inv = new_run_inv[OF assms(1)]
  have h: "ph_handler p = deferred_handler lib (tap up)"
    using inv(1) new_session(1)[OF refl] by (simp add: same_policy_def)
  have "moves (ph_next p) (ph_next p')"
    using step_moves[OF assms(2) h] inv(2) same_policy_events[OF inv(1)] by simp
  then show ?thesis using inv_closed[OF inv(2)]
    by (auto simp: moves_def session_TerminalError_def phase_of_def split: if_splits option.splits)
qed

subsection \<open>Witnesses\<close>

text \<open>A session that selects a schema, is activated, runs one statement and is closed.\<close>

definition demo_fresh :: "(string option, string option list list tapped, unit) deferredSession" where
  "demo_fresh = newDeferredSessionHandlerWithAudit id demo_parser demo_lib (tap demo_session)
     \<lparr>cc_AllowedSchemas = [''app''], cc_AllowDefaultSetup = True\<rparr> None
     \<lparr>rl_maxQueryBytes = 100, rl_maxResultRows = 0, rl_maxResultBytes = 0\<rparr> None () \<lparr>ai_userID = ''u'', ai_sourceAddr = ''''\<rparr>"

definition demo_run :: "(string option, string option list list tapped, unit) deferredSession" where
  "demo_run = snd (session_HandleQuery demo_lib 5 ''select email''
     (snd (session_Activate (tap demo_session) \<lparr>tp_log = [], tp_conn = demo_users ''ann''\<rparr>
        (snd (session_UseDB ''app'' demo_fresh)))))"

definition demo_closed :: "(string option, string option list list tapped, unit) deferredSession" where
  "demo_closed = snd (session_Close (tap demo_session) demo_run)"

lemma demo_steps: "(session_step demo_lib demo_session)\<^sup>*\<^sup>* demo_fresh demo_run"
  "session_step demo_lib demo_session demo_run demo_closed"
proof -
  let ?p1 = "snd (session_UseDB ''app'' demo_fresh)"
  let ?u = "\<lparr>tp_log = [], tp_conn = demo_users ''ann''\<rparr>"
  have "df_forwarding (ph_next ?p1) = None" by code_simp
  then have "session_step demo_lib demo_session ?p1 (snd (session_Activate (tap demo_session) ?u ?p1))"
    by (rule step_Activate) simp
  moreover have "session_step demo_lib demo_session demo_fresh ?p1" by (rule step_UseDB)
  moreover have "session_step demo_lib demo_session (snd (session_Activate (tap demo_session) ?u ?p1)) demo_run"
    unfolding demo_run_def by (rule step_HandleQuery)
  ultimately show "(session_step demo_lib demo_session)\<^sup>*\<^sup>* demo_fresh demo_run" by (meson converse_rtranclp_into_rtranclp r_into_rtranclp)
  show "session_step demo_lib demo_session demo_run demo_closed"
    unfolding demo_closed_def by (rule step_Close)
qed

lemma demo_run_log: "map tp_log (connections (ph_next demo_run)) = [[UpQuery ''select email'', UpUseDB ''app'']]"
  by code_simp

lemma demo_closed_log: "map tp_log (df_released (ph_next demo_closed)) = [[UpClose, UpQuery ''select email'', UpUseDB ''app'']]"
  by code_simp

theorem upstream_sees_only_allowed_witness:
  "map tp_log (connections (ph_next demo_run)) = [[UpQuery ''select email'', UpUseDB ''app'']]
   \<and> dec_Kind (Classify id demo_parser (NewClassifier \<lparr>cc_AllowedSchemas = [''app''], cc_AllowDefaultSetup = True\<rparr>)
        ''select email'') \<noteq> Reject"
proof -
  obtain t where t: "connections (ph_next demo_run) = [t]" "tp_log t = [UpQuery ''select email'', UpUseDB ''app'']"
    using demo_run_log by (auto simp: map_eq_Cons_conv)
  show ?thesis
    using upstream_sees_only_allowed[OF demo_steps(1)[unfolded demo_fresh_def]] t by simp
qed

lemma connections_closed_once_witness:
  "map tp_log (df_released (ph_next demo_closed)) = [[UpClose, UpQuery ''select email'', UpUseDB ''app'']]
   \<and> list_all (\<lambda>t. \<exists>evs. tp_log t = UpClose # evs \<and> UpClose \<notin> set evs) (df_released (ph_next demo_closed))"
proof -
  have "(session_step demo_lib demo_session)\<^sup>*\<^sup>* demo_fresh demo_closed" using demo_steps by (rule rtranclp.rtrancl_into_rtrancl)
  from connections_closed_once[OF this[unfolded demo_fresh_def]] show ?thesis using demo_closed_log by simp
qed

theorem session_moves_forward_witness:
  "phase_of (ph_next demo_run) = Active \<and> phase_of (ph_next demo_run) \<le> phase_of (ph_next demo_closed)"
proof -
  have "phase_of (ph_next demo_run) = Active" by code_simp
  then show ?thesis using session_moves_forward[OF demo_steps(1)[unfolded demo_fresh_def] demo_steps(2)] by simp
qed

end
