(* ===== verification/SessionHandlers.thy ===== *)
theory SessionHandlers
  imports SessionLifecycle
begin

text \<open>
  The constructors of the session handlers with fewer arguments, and what a session that is
  activated after it was built (\<open>deferred_session_handler.go\<close>) has in common with one that is
  built over its upstream connection (\<open>newSessionHandler\<close> and its variants in
  \<open>forwarding_handler.go\<close>): the same answers to the same statements, on the same connection.
\<close>

subsection \<open>Constructors\<close>

definition no_limits :: resourceLimits where
  "no_limits = \<lparr>rl_maxQueryBytes = 0, rl_maxResultRows = 0, rl_maxResultBytes = 0\<rparr>"

definition no_identity :: auditIdentity where
  "no_identity = \<lparr>ai_userID = '''', ai_sourceAddr = ''''\<rparr>"

definition newForwardingHandlerWithMasking :: "'u \<Rightarrow> (Field \<Rightarrow> Value \<Rightarrow> Value) option \<Rightarrow> 'u forwardingHandler" where
  "newForwardingHandlerWithMasking upstream masker = newForwardingHandlerWithLimits upstream masker no_limits"

definition newForwardingHandler :: "'u \<Rightarrow> 'u forwardingHandler" where
  "newForwardingHandler upstream = newForwardingHandlerWithMasking upstream None"

definition newPolicyHandlerWithLimits :: "(rune \<Rightarrow> rune) \<Rightarrow> parser \<Rightarrow> ClassifierConfig \<Rightarrow> resourceLimits
    \<Rightarrow> ('v, 's) server_handler option \<Rightarrow> 's \<Rightarrow> ('v, 's, unit) policyHandler" where
  "newPolicyHandlerWithLimits ul ParseSQL config limits next s =
     newPolicyHandlerWithAudit ul ParseSQL config limits next s None () no_identity"

definition newPolicyHandler :: "(rune \<Rightarrow> rune) \<Rightarrow> parser \<Rightarrow> ClassifierConfig
    \<Rightarrow> ('v, 's) server_handler option \<Rightarrow> 's \<Rightarrow> ('v, 's, unit) policyHandler" where
  "newPolicyHandler ul ParseSQL config next s = newPolicyHandlerWithLimits ul ParseSQL config no_limits next s"

definition newSessionHandlerWithAudit :: "(rune \<Rightarrow> rune) \<Rightarrow> parser \<Rightarrow> 'v mysql_lib \<Rightarrow> ('v, 'u) upstreamSession
    \<Rightarrow> ClassifierConfig \<Rightarrow> (Field \<Rightarrow> Value \<Rightarrow> Value) option \<Rightarrow> resourceLimits \<Rightarrow> 'u
    \<Rightarrow> 'a audit_logger option \<Rightarrow> 'a \<Rightarrow> auditIdentity \<Rightarrow> ('v, 'u forwardingHandler, 'a) policyHandler" where
  "newSessionHandlerWithAudit ul ParseSQL lib up config masker limits upstream auditor a identity =
     newPolicyHandlerWithAudit ul ParseSQL config limits (Some (forwarding_handler lib up))
       (newForwardingHandlerWithLimits upstream masker limits) auditor a identity"

definition newSessionHandlerWithLimits :: "(rune \<Rightarrow> rune) \<Rightarrow> parser \<Rightarrow> 'v mysql_lib \<Rightarrow> ('v, 'u) upstreamSession
    \<Rightarrow> ClassifierConfig \<Rightarrow> (Field \<Rightarrow> Value \<Rightarrow> Value) option \<Rightarrow> resourceLimits \<Rightarrow> 'u
    \<Rightarrow> ('v, 'u forwardingHandler, unit) policyHandler" where
  "newSessionHandlerWithLimits ul ParseSQL lib up config masker limits upstream =
     newPolicyHandlerWithLimits ul ParseSQL config limits (Some (forwarding_handler lib up))
       (newForwardingHandlerWithLimits upstream masker limits)"

definition newSessionHandlerWithMasking :: "(rune \<Rightarrow> rune) \<Rightarrow> parser \<Rightarrow> 'v mysql_lib \<Rightarrow> ('v, 'u) upstreamSession
    \<Rightarrow> ClassifierConfig \<Rightarrow> (Field \<Rightarrow> Value \<Rightarrow> Value) option \<Rightarrow> 'u \<Rightarrow> ('v, 'u forwardingHandler, unit) policyHandler" where
  "newSessionHandlerWithMasking ul ParseSQL lib up config masker upstream =
     newSessionHandlerWithLimits ul ParseSQL lib up config masker no_limits upstream"

definition newSessionHandler :: "(rune \<Rightarrow> rune) \<Rightarrow> parser \<Rightarrow> 'v mysql_lib \<Rightarrow> ('v, 'u) upstreamSession
    \<Rightarrow> ClassifierConfig \<Rightarrow> 'u \<Rightarrow> ('v, 'u forwardingHandler, unit) policyHandler" where
  "newSessionHandler ul ParseSQL lib up config upstream =
     newSessionHandlerWithMasking ul ParseSQL lib up config None upstream"

definition newDeferredSessionHandlerWithLimits :: "(rune \<Rightarrow> rune) \<Rightarrow> parser \<Rightarrow> 'v mysql_lib
    \<Rightarrow> ('v, 'u) upstreamSession \<Rightarrow> ClassifierConfig \<Rightarrow> (Field \<Rightarrow> Value \<Rightarrow> Value) option \<Rightarrow> resourceLimits
    \<Rightarrow> ('v, 'u, unit) deferredSession" where
  "newDeferredSessionHandlerWithLimits ul ParseSQL lib up config masker limits =
     newDeferredSessionHandlerWithAudit ul ParseSQL lib up config masker limits None () no_identity"

definition newDeferredSessionHandlerWithMasking :: "(rune \<Rightarrow> rune) \<Rightarrow> parser \<Rightarrow> 'v mysql_lib
    \<Rightarrow> ('v, 'u) upstreamSession \<Rightarrow> ClassifierConfig \<Rightarrow> (Field \<Rightarrow> Value \<Rightarrow> Value) option
    \<Rightarrow> ('v, 'u, unit) deferredSession" where
  "newDeferredSessionHandlerWithMasking ul ParseSQL lib up config masker =
     newDeferredSessionHandlerWithLimits ul ParseSQL lib up config masker no_limits"

definition newDeferredSessionHandler :: "(rune \<Rightarrow> rune) \<Rightarrow> parser \<Rightarrow> 'v mysql_lib
    \<Rightarrow> ('v, 'u) upstreamSession \<Rightarrow> ClassifierConfig \<Rightarrow> ('v, 'u, unit) deferredSession" where
  "newDeferredSessionHandler ul ParseSQL lib up config =
     newDeferredSessionHandlerWithMasking ul ParseSQL lib up config None"

subsection \<open>The simulation\<close>

datatype statement = Statement string | Switch string

datatype 'v answer = Answer "go_error + 'v Result option" | Switched "go_error option"

fun drive :: "'v mysql_lib \<Rightarrow> (time \<times> statement) list \<Rightarrow> ('v, 's, 'a) policyHandler
    \<Rightarrow> 'v answer list \<times> ('v, 's, 'a) policyHandler" where
  "drive lib [] p = ([], p)"
| "drive lib ((now, Statement query) # ss) p = (case policy_HandleQuery lib now query p of
     (r, p) \<Rightarrow> (case drive lib ss p of (rs, p) \<Rightarrow> (Answer r # rs, p)))"
| "drive lib ((now, Switch database) # ss) p = (case policy_UseDB database p of
     (r, p) \<Rightarrow> (case drive lib ss p of (rs, p) \<Rightarrow> (Switched r # rs, p)))"

definition last_connection :: "'u deferredForwarding \<Rightarrow> 'u" where
  "last_connection d = (case df_forwarding d of Some f \<Rightarrow> fh_upstream f | None \<Rightarrow> hd (df_released d))"

text \<open>The deferred handler and the handler of the connection behind it.\<close>

definition behind :: "'u deferredForwarding \<Rightarrow> 'u forwardingHandler \<Rightarrow> bool" where
  "behind d f \<longleftrightarrow> (if fh_closed f then df_forwarding d = None \<and> df_closed d \<and> hd (df_released d) = fh_upstream f
     else df_forwarding d = Some f)"

definition same_session :: "'v mysql_lib \<Rightarrow> ('v, 'u) upstreamSession \<Rightarrow> ('v, 'u, 'a) deferredSession
    \<Rightarrow> ('v, 'u forwardingHandler, 'a) policyHandler \<Rightarrow> bool" where
  "same_session lib up p q \<longleftrightarrow> ph_classifier p = ph_classifier q \<and> ph_allowedSchemas p = ph_allowedSchemas q
     \<and> ph_limits p = ph_limits q \<and> ph_auditor p = None \<and> ph_auditor q = None
     \<and> ph_handler p = deferred_handler lib up \<and> ph_handler q = forwarding_handler lib up
     \<and> behind (ph_next p) (ph_next q)"

lemma settle_behind: "behind (settle f d) f"
  by (simp add: behind_def settle_def release_def deactivate_def Let_def)

lemma behind_last: "behind d f \<Longrightarrow> last_connection d = fh_upstream f"
  by (simp add: behind_def last_connection_def split: if_splits)

lemma behind_UseDB:
  assumes "behind d f"
  shows "fst (deferred_UseDB up database d) = fst (forwarding_UseDB up database f)
    \<and> behind (snd (deferred_UseDB up database d)) (snd (forwarding_UseDB up database f))"
proof (cases "fh_closed f")
  case True
  then show ?thesis using assms by (simp add: behind_def deferred_UseDB_def forwarding_UseDB_def)
next
  case False
  then show ?thesis using assms settle_behind
    by (cases "forwarding_UseDB up database f") (simp add: behind_def[of d] deferred_UseDB_def)
qed

lemma behind_HandleQuery:
  assumes "behind d f"
  shows "fst (deferred_HandleQuery lib up query d) = fst (forwarding_HandleQuery lib up query f)
    \<and> behind (snd (deferred_HandleQuery lib up query d)) (snd (forwarding_HandleQuery lib up query f))"
proof (cases "fh_closed f")
  case True
  then show ?thesis using assms by (simp add: behind_def deferred_HandleQuery_def forwarding_HandleQuery_def)
next
  case False
  then show ?thesis using assms settle_behind
    by (cases "forwarding_HandleQuery lib up query f") (simp add: behind_def[of d] deferred_HandleQuery_def)
qed

lemma behind_setQueryDecision:
  "behind d f \<Longrightarrow> behind (deferred_setQueryDecision c d) (forwarding_setQueryDecision c f)"
  by (simp add: behind_def deferred_setQueryDecision_def forwarding_setQueryDecision_def split: if_splits)

lemma audited_off: "ph_auditor p = None \<Longrightarrow> audited now query d cls answer p = (answer, p)"
  by (simp add: audited_def auditQuery_def)

lemma same_UseDB:
  assumes "same_session lib up p q"
  shows "fst (policy_UseDB database p) = fst (policy_UseDB database q)
    \<and> same_session lib up (snd (policy_UseDB database p)) (snd (policy_UseDB database q))"
  using assms behind_UseDB[of "ph_next p" "ph_next q" up database]
  by (auto simp: same_session_def policy_UseDB_def isAllowedSchema_def deferred_handler_def forwarding_handler_def
      split: prod.splits)

lemma same_HandleQuery:
  assumes "same_session lib up p q"
  shows "fst (policy_HandleQuery lib now query p) = fst (policy_HandleQuery lib now query q)
    \<and> same_session lib up (snd (policy_HandleQuery lib now query p)) (snd (policy_HandleQuery lib now query q))"
proof -
  have eqs: "ph_classifier p = ph_classifier q" "ph_limits p = ph_limits q" "ph_auditor p = None" "ph_auditor q = None"
    "shouldSynthesizeMaxAllowedPacket p d = shouldSynthesizeMaxAllowedPacket q d" for d
    using assms by (auto simp: same_session_def shouldSynthesizeMaxAllowedPacket_def)
  let ?d = "ph_classifier q query"
  have set: "policy_setDecision ?d p = p\<lparr>ph_next := deferred_setQueryDecision ?d (ph_next p)\<rparr>"
    "policy_setDecision ?d q = q\<lparr>ph_next := forwarding_setQueryDecision ?d (ph_next q)\<rparr>"
    using assms by (auto simp: same_session_def policy_setDecision_def deferred_handler_def forwarding_handler_def)
  have "behind (deferred_setQueryDecision ?d (ph_next p)) (forwarding_setQueryDecision ?d (ph_next q))"
    using assms behind_setQueryDecision by (auto simp: same_session_def)
  from behind_HandleQuery[OF this, of lib up query] show ?thesis
    using assms eqs
    by (auto simp: policy_HandleQuery_def Let_def audited_off set same_session_def deferred_handler_def
        forwarding_handler_def split: prod.splits)
qed

lemma same_drive:
  assumes "same_session lib up p q"
  shows "fst (drive lib ss p) = fst (drive lib ss q) \<and> same_session lib up (snd (drive lib ss p)) (snd (drive lib ss q))"
  using assms
proof (induction ss arbitrary: p q)
  case (Cons e ss)
  obtain now s where e: "e = (now, s)" by fastforce
  show ?case
  proof (cases s)
    case (Statement query)
    obtain r p' where p: "policy_HandleQuery lib now query p = (r, p')" by fastforce
    obtain r' q' where q: "policy_HandleQuery lib now query q = (r', q')" by fastforce
    have "r = r'" "same_session lib up p' q'" using same_HandleQuery[OF Cons.prems, of now query] p q by simp_all
    then show ?thesis using Cons.IH[of p' q'] by (auto simp: e Statement p q split: prod.splits)
  next
    case (Switch database)
    obtain r p' where p: "policy_UseDB database p = (r, p')" by fastforce
    obtain r' q' where q: "policy_UseDB database q = (r', q')" by fastforce
    have "r = r'" "same_session lib up p' q'" using same_UseDB[OF Cons.prems, of database] p q by simp_all
    then show ?thesis using Cons.IH[of p' q'] by (auto simp: e Switch p q split: prod.splits)
  qed
qed simp

text \<open>
  C9.  A session that waited for its upstream connection is as good as one that was built over it: after
  \<open>Activate\<close> it gives every sequence of statements and schema switches the same answers as
  the session handler made for that connection, errors and refusals included, and leaves
  the connection in the same state.
\<close>

theorem activated_session_refines_direct:
  shows "fst (drive lib ss (snd (session_Activate up upstream
        (newDeferredSessionHandlerWithLimits ul ParseSQL lib up config masker limits))))
      = fst (drive lib ss (newSessionHandlerWithLimits ul ParseSQL lib up config masker limits upstream))
    \<and> last_connection (ph_next (snd (drive lib ss (snd (session_Activate up upstream
        (newDeferredSessionHandlerWithLimits ul ParseSQL lib up config masker limits))))))
      = fh_upstream (ph_next (snd (drive lib ss (newSessionHandlerWithLimits ul ParseSQL lib up config masker limits upstream))))"
proof -
  have "same_session lib up
      (snd (session_Activate up upstream (newDeferredSessionHandlerWithLimits ul ParseSQL lib up config masker limits)))
      (newSessionHandlerWithLimits ul ParseSQL lib up config masker limits upstream)"
    by (simp add: same_session_def behind_def session_Activate_def deferred_Activate_def
        newDeferredSessionHandlerWithLimits_def newDeferredSessionHandlerWithAudit_def newSessionHandlerWithLimits_def
        newPolicyHandlerWithLimits_def newPolicyHandlerWithAudit_def newForwardingHandlerWithLimits_def
        forwarding_setQueryDecision_def)
  from same_drive[OF this, of ss] show ?thesis by (simp add: same_session_def behind_last)
qed

end
