(* ===== verification/MySQLAuth.thy ===== *)
theory MySQLAuth
  imports DeferredSession
begin

text \<open>
  \<open>internal/mysqlproxy/authentication_handler.go\<close> and \<open>session_authentication_handler.go\<close>: what the
  protocol server asks while a client authenticates.  \<open>otp.Verifier\<close> is a record of operations on
  the state \<open>'c\<close> of the credentials, the server's credential cache is any state \<open>'k\<close> with the
  operation that invalidates an entry, and the connector is a function on the state \<open>'w\<close> of the
  network.  \<open>clk i\<close> is the \<open>i\<close>-th clock reading of an operation.
\<close>

subsection \<open>Credentials\<close>

record 'c verifier =
  vf_PendingCredential :: "string \<Rightarrow> string \<Rightarrow> time \<Rightarrow> 'c \<Rightarrow> (go_error + PendingCredential_rec) \<times> 'c"
  vf_Consume :: "string \<Rightarrow> time \<Rightarrow> 'c \<Rightarrow> (go_error + User) \<times> 'c"
  vf_RecordFailure :: "string \<Rightarrow> string \<Rightarrow> time \<Rightarrow> 'c \<Rightarrow> 'c"

text \<open>The OTP store as a verifier.\<close>

definition store_verifier :: "Store verifier" where
  "store_verifier = \<lparr>
     vf_PendingCredential = (\<lambda>username sourceAddr now s. case PendingCredential username sourceAddr now s of
       (Inl err, s) \<Rightarrow> (Inl (OtpError err), s) | (Inr pending, s) \<Rightarrow> (Inr pending, s)),
     vf_Consume = (\<lambda>username now s. case Consume username now s of
       (Inl err, s) \<Rightarrow> (Inl (OtpError err), s) | (Inr user, s) \<Rightarrow> (Inr user, s)),
     vf_RecordFailure = RecordFailure\<rparr>"

record ('c, 'k) otpAuthenticationHandler =
  oa_verifier :: "'c verifier"
  oa_sourceAddr :: string
  oa_cacheInvalidator :: "(string \<Rightarrow> string \<Rightarrow> 'k \<Rightarrow> 'k) option"
  oa_lastUsername :: string
  oa_credentials :: 'c
  oa_cache :: 'k

datatype auth_plugin = AUTH_CACHING_SHA2_PASSWORD

record AuthCredential =
  ac_Passwords :: "string list"
  ac_AuthPluginName :: auth_plugin

definition sourceAddress :: "string \<Rightarrow> string" where
  "sourceAddress remoteAddr = (case SplitHostPort remoteAddr of None \<Rightarrow> remoteAddr | Some (host, _) \<Rightarrow> host)"

definition newOTPAuthenticationHandler :: "'c verifier \<Rightarrow> 'c \<Rightarrow> string
    \<Rightarrow> (string \<Rightarrow> string \<Rightarrow> 'k \<Rightarrow> 'k) option \<Rightarrow> 'k \<Rightarrow> ('c, 'k) otpAuthenticationHandler" where
  "newOTPAuthenticationHandler verifier c remoteAddr cacheInvalidator k = \<lparr>oa_verifier = verifier,
     oa_sourceAddr = sourceAddress remoteAddr, oa_cacheInvalidator = cacheInvalidator, oa_lastUsername = '''',
     oa_credentials = c, oa_cache = k\<rparr>"

definition isUnavailableCredential :: "go_error \<Rightarrow> bool" where
  "isUnavailableCredential err \<longleftrightarrow> errors_Is (OtpError ErrCredentialNotFound) err
     \<or> errors_Is (OtpError ErrCredentialExpired) err \<or> errors_Is (OtpError ErrCredentialLocked) err
     \<or> errors_Is (OtpError ErrSourceRateLimited) err"

text \<open>\<open>Inr None\<close> is the answer that there is no such credential.\<close>

definition GetCredential :: "string \<Rightarrow> time \<Rightarrow> ('c, 'k) otpAuthenticationHandler
    \<Rightarrow> (go_error + AuthCredential option) \<times> ('c, 'k) otpAuthenticationHandler" where
  "GetCredential username now h =
     (let h = h\<lparr>oa_lastUsername := username\<rparr> in
      case vf_PendingCredential (oa_verifier h) username (oa_sourceAddr h) now (oa_credentials h) of
        (Inl err, c) \<Rightarrow>
          (if isUnavailableCredential err then Inr None else Inl err, h\<lparr>oa_credentials := c\<rparr>)
      | (Inr pending, c) \<Rightarrow>
          (Inr (Some \<lparr>ac_Passwords = [pc_AuthVerifierMaterial pending],
                      ac_AuthPluginName = AUTH_CACHING_SHA2_PASSWORD\<rparr>),
           h\<lparr>oa_credentials := c\<rparr>))"

definition consumeAuthSuccess :: "string \<Rightarrow> string \<Rightarrow> time \<Rightarrow> ('c, 'k) otpAuthenticationHandler
    \<Rightarrow> (go_error + User) \<times> ('c, 'k) otpAuthenticationHandler" where
  "consumeAuthSuccess username localAddr now h =
     (let username = (if username = '''' then oa_lastUsername h else username) in
      case vf_Consume (oa_verifier h) username now (oa_credentials h) of
        (Inl err, c) \<Rightarrow> (Inl err, h\<lparr>oa_credentials := c\<rparr>)
      | (Inr user, c) \<Rightarrow>
          (Inr user, h\<lparr>oa_credentials := c, oa_cache := (case oa_cacheInvalidator h of
             None \<Rightarrow> oa_cache h | Some InvalidateCache \<Rightarrow> InvalidateCache username localAddr (oa_cache h))\<rparr>))"

definition otp_recordAuthSuccess :: "string \<Rightarrow> string \<Rightarrow> time \<Rightarrow> ('c, 'k) otpAuthenticationHandler
    \<Rightarrow> go_error option \<times> ('c, 'k) otpAuthenticationHandler" where
  "otp_recordAuthSuccess username localAddr now h = (case consumeAuthSuccess username localAddr now h of
     (Inl err, h) \<Rightarrow> (Some err, h) | (Inr _, h) \<Rightarrow> (None, h))"

definition recordAuthFailure :: "string \<Rightarrow> time \<Rightarrow> ('c, 'k) otpAuthenticationHandler
    \<Rightarrow> ('c, 'k) otpAuthenticationHandler" where
  "recordAuthFailure username now h =
     (let username = (if username = '''' then oa_lastUsername h else username) in
      h\<lparr>oa_credentials := vf_RecordFailure (oa_verifier h) username (oa_sourceAddr h) now (oa_credentials h)\<rparr>)"

subsection \<open>Connections of package server\<close>

datatype net_conn = TLSConn | OtherConn

text \<open>\<open>cx_Conn\<close> is the network connection inside the packet connection of a \<open>server.Conn\<close>, which
  may be nil.\<close>

record server_conn =
  cx_User :: string
  cx_LocalAddr :: string
  cx_Conn :: "net_conn option"

definition isTLSConnection :: "server_conn option \<Rightarrow> bool" where
  "isTLSConnection conn = (case conn of None \<Rightarrow> False
   | Some c \<Rightarrow> (case cx_Conn c of None \<Rightarrow> False | Some n \<Rightarrow> n = TLSConn))"

definition otp_OnAuthSuccess :: "server_conn \<Rightarrow> time \<Rightarrow> ('c, 'k) otpAuthenticationHandler
    \<Rightarrow> go_error option \<times> ('c, 'k) otpAuthenticationHandler" where
  "otp_OnAuthSuccess conn now h = otp_recordAuthSuccess (cx_User conn) (cx_LocalAddr conn) now h"

definition otp_OnAuthFailure :: "server_conn \<Rightarrow> time \<Rightarrow> ('c, 'k) otpAuthenticationHandler
    \<Rightarrow> ('c, 'k) otpAuthenticationHandler" where
  "otp_OnAuthFailure conn now h = recordAuthFailure (cx_User conn) now h"

subsection \<open>The authentication of a session\<close>

text \<open>The session and its authentication share the audit logger; its state is the \<open>ph_audit\<close> of the session.\<close>

record ('v, 'u, 'a, 'c, 'k, 'w) sessionAuthenticationHandler =
  sa_credentials :: "('c, 'k) otpAuthenticationHandler"
  sa_connector :: "'w \<Rightarrow> (go_error + 'u) \<times> 'w"
  sa_session :: "('v, 'u, 'a) deferredSession"
  sa_requireTLS :: bool
  sa_auditor :: "'a audit_logger option"
  sa_network :: 'w

definition newSessionAuthenticationHandlerWithAudit :: "('c, 'k) otpAuthenticationHandler \<Rightarrow> ('w \<Rightarrow> (go_error + 'u) \<times> 'w)
    \<Rightarrow> ('v, 'u, 'a) deferredSession \<Rightarrow> bool \<Rightarrow> 'a audit_logger option \<Rightarrow> 'w
    \<Rightarrow> ('v, 'u, 'a, 'c, 'k, 'w) sessionAuthenticationHandler" where
  "newSessionAuthenticationHandlerWithAudit credentials connector session requireTLS auditor w =
     \<lparr>sa_credentials = credentials, sa_connector = connector, sa_session = session, sa_requireTLS = requireTLS,
      sa_auditor = auditor, sa_network = w\<rparr>"

definition newSessionAuthenticationHandler :: "('c, 'k) otpAuthenticationHandler \<Rightarrow> ('w \<Rightarrow> (go_error + 'u) \<times> 'w)
    \<Rightarrow> ('v, 'u, 'a) deferredSession \<Rightarrow> bool \<Rightarrow> 'w \<Rightarrow> ('v, 'u, 'a, 'c, 'k, 'w) sessionAuthenticationHandler" where
  "newSessionAuthenticationHandler credentials connector session requireTLS w =
     newSessionAuthenticationHandlerWithAudit credentials connector session requireTLS None w"

definition session_GetCredential :: "string \<Rightarrow> time \<Rightarrow> ('v, 'u, 'a, 'c, 'k, 'w) sessionAuthenticationHandler
    \<Rightarrow> (go_error + AuthCredential option) \<times> ('v, 'u, 'a, 'c, 'k, 'w) sessionAuthenticationHandler" where
  "session_GetCredential username now h =
     (case GetCredential username now (sa_credentials h) of (res, c) \<Rightarrow> (res, h\<lparr>sa_credentials := c\<rparr>))"

definition auth_event :: "('v, 'u, 'a, 'c, 'k, 'w) sessionAuthenticationHandler \<Rightarrow> time \<Rightarrow> string \<Rightarrow> string
    \<Rightarrow> string \<Rightarrow> Event" where
  "auth_event h now userID decision errorClass = \<lparr>ev_Time = now, ev_Kind = EventAuth, ev_UserID = userID,
     ev_SourceAddr = oa_sourceAddr (sa_credentials h), ev_NormalizedStatement = '''', ev_Decision = decision,
     ev_MaskedFields = 0, ev_ErrorClass = errorClass\<rparr>"

definition auditAuth :: "time \<Rightarrow> string \<Rightarrow> string \<Rightarrow> string \<Rightarrow> ('v, 'u, 'a, 'c, 'k, 'w) sessionAuthenticationHandler
    \<Rightarrow> go_error option \<times> ('v, 'u, 'a, 'c, 'k, 'w) sessionAuthenticationHandler" where
  "auditAuth now userID decision errorClass h = (case sa_auditor h of
     None \<Rightarrow> (None, h)
   | Some log \<Rightarrow> (case log (auth_event h now userID decision errorClass) (ph_audit (sa_session h)) of
       (err, a) \<Rightarrow> (err, h\<lparr>sa_session := (sa_session h)\<lparr>ph_audit := a\<rparr>\<rparr>)))"

definition close_session :: "('v, 'u) upstreamSession \<Rightarrow> ('v, 'u, 'a, 'c, 'k, 'w) sessionAuthenticationHandler
    \<Rightarrow> ('v, 'u, 'a, 'c, 'k, 'w) sessionAuthenticationHandler" where
  "close_session up h = h\<lparr>sa_session := snd (session_Close up (sa_session h))\<rparr>"

definition recordAuthSuccess :: "('v, 'u) upstreamSession \<Rightarrow> (nat \<Rightarrow> time) \<Rightarrow> string \<Rightarrow> string
    \<Rightarrow> ('v, 'u, 'a, 'c, 'k, 'w) sessionAuthenticationHandler
    \<Rightarrow> go_error option \<times> ('v, 'u, 'a, 'c, 'k, 'w) sessionAuthenticationHandler" where
  "recordAuthSuccess up clk username localAddr h = (case sa_connector h (sa_network h) of
     (Inl err, w) \<Rightarrow> (Some err, h\<lparr>sa_network := w\<rparr>)
   | (Inr upstream, w) \<Rightarrow>
   (case session_Activate up upstream (sa_session h) of
     (Some err, s) \<Rightarrow> (Some err, h\<lparr>sa_network := w, sa_session := s\<rparr>)
   | (None, s) \<Rightarrow>
   (case consumeAuthSuccess username localAddr (clk 0) (sa_credentials h) of
     (Inl err, c) \<Rightarrow>
       (Some err, close_session up (h\<lparr>sa_network := w, sa_session := s, sa_credentials := c\<rparr>))
   | (Inr user, c) \<Rightarrow>
       (let h = h\<lparr>sa_network := w, sa_session := s, sa_credentials := c\<rparr>;
            identity = \<lparr>ai_userID = user_ID user, ai_sourceAddr = oa_sourceAddr (sa_credentials h)\<rparr>
        in case auditAuth (clk 1) (ai_userID identity) ''allow'' '''' h of
          (Some err, h) \<Rightarrow> (Some err, close_session up h)
        | (None, h) \<Rightarrow> (None, h\<lparr>sa_session := session_SetAuditIdentity identity (sa_session h)\<rparr>)))))"

definition OnAuthSuccess :: "('v, 'u) upstreamSession \<Rightarrow> (nat \<Rightarrow> time) \<Rightarrow> server_conn
    \<Rightarrow> ('v, 'u, 'a, 'c, 'k, 'w) sessionAuthenticationHandler
    \<Rightarrow> go_error option \<times> ('v, 'u, 'a, 'c, 'k, 'w) sessionAuthenticationHandler" where
  "OnAuthSuccess up clk conn h =
     (if sa_requireTLS h \<and> \<not> isTLSConnection (Some conn) then (Some (MyError ER_INSECURE_PLAIN_TEXT []), h)
      else recordAuthSuccess up clk (cx_User conn) (cx_LocalAddr conn) h)"

definition OnAuthFailure :: "(nat \<Rightarrow> time) \<Rightarrow> server_conn
    \<Rightarrow> ('v, 'u, 'a, 'c, 'k, 'w) sessionAuthenticationHandler
    \<Rightarrow> ('v, 'u, 'a, 'c, 'k, 'w) sessionAuthenticationHandler" where
  "OnAuthFailure clk conn h =
     (let h = h\<lparr>sa_credentials := otp_OnAuthFailure conn (clk 0) (sa_credentials h)\<rparr> in
      snd (auditAuth (clk 1) '''' ''reject'' ''auth_failure'' h))"

end
