(* ===== verification/UpstreamConnector.thy ===== *)
theory UpstreamConnector
  imports MySQLAuth ConfigProperties
begin

text \<open>
  \<open>internal/mysqlproxy/upstream_connector.go\<close> and \<open>mysqlServerTLSConfig\<close> of \<open>server.go\<close>: how a connection
  to the upstream database is opened and with which TLS settings.  The environment, the files, the
  parsing of certificates and the MySQL client of \<open>go-mysql\<close> are parameters; \<open>'p\<close> is the type
  of certificate pools.
\<close>

text \<open>\<open>tls.VersionTLS12\<close> is 0x0303.\<close>

definition VersionTLS12 :: nat where "VersionTLS12 = 771"

definition upstreamConnectTimeout :: duration where "upstreamConnectTimeout = 10 * Second"

record 'p clientTLS =
  ct_MinVersion :: nat
  ct_ServerName :: string
  ct_InsecureSkipVerify :: bool
  ct_RootCAs :: "'p option"

record 'p upstreamConnectionSpec =
  cs_Addr :: string
  cs_Username :: string
  cs_Password :: string
  cs_Database :: string
  cs_TLSConfig :: "'p clientTLS option"

definition upstreamTLSServerName :: "Upstream \<Rightarrow> string" where
  "upstreamTLSServerName upstream =
     (if up_TLSServerName upstream \<noteq> '''' then up_TLSServerName upstream
      else case SplitHostPort (up_Addr upstream) of None \<Rightarrow> up_Addr upstream | Some (host, _) \<Rightarrow> host)"

text \<open>\<open>AppendCertsFromPEM\<close> gives the pool of the certificates in a file, or \<open>None\<close> when there are none.\<close>

definition upstreamTLSConfig :: "(string \<Rightarrow> string option) \<Rightarrow> (string \<Rightarrow> 'p option) \<Rightarrow> Config
    \<Rightarrow> go_error + 'p clientTLS option \<times> bool" where
  "upstreamTLSConfig ReadFile AppendCertsFromPEM config =
     (let upstream = c_Upstream config in
      if \<not> up_TLSEnabled upstream then Inr (None, False)
      else let tlsConfig = \<lparr>ct_MinVersion = VersionTLS12, ct_ServerName = upstreamTLSServerName upstream,
                 ct_InsecureSkipVerify = up_TLSSkipVerify upstream, ct_RootCAs = None\<rparr> in
      if up_TLSCAFile upstream = '''' then Inr (Some tlsConfig, True)
      else case ReadFile (up_TLSCAFile upstream) of
        None \<Rightarrow> Inl (Wrapped ''read upstream TLS CA file'' ErrInvalid)
      | Some caPEM \<Rightarrow> (case AppendCertsFromPEM caPEM of
          None \<Rightarrow> Inl (Wrapped ''upstream TLS CA file contains no certificates'' ErrInvalid)
        | Some roots \<Rightarrow> Inr (Some (tlsConfig\<lparr>ct_RootCAs := Some roots\<rparr>), True)))"

text \<open>An option of \<open>client.ConnectWithContext\<close>: the function that calls \<open>SetTLSConfig\<close>.\<close>

datatype 'p client_option = SetTLSConfig "'p clientTLS"

record ('u, 'w, 'p) network =
  nw_ConnectWithContext :: "string \<Rightarrow> string \<Rightarrow> string \<Rightarrow> string \<Rightarrow> duration \<Rightarrow> 'p client_option list
     \<Rightarrow> 'w \<Rightarrow> (go_error + 'u) \<times> 'w"

definition connectUpstreamSession :: "('u, 'w, 'p) network \<Rightarrow> 'p upstreamConnectionSpec \<Rightarrow> 'w
    \<Rightarrow> (go_error + 'u) \<times> 'w" where
  "connectUpstreamSession net spec w =
     (let options = (case cs_TLSConfig spec of None \<Rightarrow> [] | Some t \<Rightarrow> [SetTLSConfig t]) in
      nw_ConnectWithContext net (cs_Addr spec) (cs_Username spec) (cs_Password spec) (cs_Database spec)
        upstreamConnectTimeout options w)"

record ('u, 'w, 'p) upstreamConnector =
  uc_config :: Config
  uc_connect :: "('p upstreamConnectionSpec \<Rightarrow> 'w \<Rightarrow> (go_error + 'u) \<times> 'w) option"

definition newUpstreamConnector :: "('u, 'w, 'p) network \<Rightarrow> Config \<Rightarrow> ('u, 'w, 'p) upstreamConnector" where
  "newUpstreamConnector net config = \<lparr>uc_config = config, uc_connect = Some (connectUpstreamSession net)\<rparr>"

definition Connect :: "(string \<Rightarrow> string option) \<Rightarrow> (string \<Rightarrow> string option) \<Rightarrow> (string \<Rightarrow> 'p option)
    \<Rightarrow> ('u, 'w, 'p) network \<Rightarrow> ('u, 'w, 'p) upstreamConnector \<Rightarrow> 'w \<Rightarrow> (go_error + 'u) \<times> 'w" where
  "Connect LookupEnv ReadFile AppendCertsFromPEM net connector w =
     (case UpstreamPassword LookupEnv ReadFile (uc_config connector) of
        Inl err \<Rightarrow> (Inl (ConfigError err), w)
      | Inr password \<Rightarrow>
      (case upstreamTLSConfig ReadFile AppendCertsFromPEM (uc_config connector) of
        Inl err \<Rightarrow> (Inl err, w)
      | Inr (tlsConfig, _) \<Rightarrow>
          (let connect = (case uc_connect connector of None \<Rightarrow> connectUpstreamSession net | Some f \<Rightarrow> f);
               upstream = c_Upstream (uc_config connector)
           in connect \<lparr>cs_Addr = up_Addr upstream, cs_Username = up_Username upstream,
                cs_Password = password, cs_Database = up_Database upstream, cs_TLSConfig = tlsConfig\<rparr> w)))"

subsection \<open>TLS of the listener\<close>

record 'cert serverTLS =
  st_MinVersion :: nat
  st_Certificates :: "'cert list"

definition mysqlServerTLSConfig :: "(string \<Rightarrow> string \<Rightarrow> go_error + 'cert) \<Rightarrow> TLS
    \<Rightarrow> go_error + 'cert serverTLS option \<times> bool" where
  "mysqlServerTLSConfig LoadX509KeyPair config =
     (if \<not> tls_Enabled config then Inr (None, False)
      else case LoadX509KeyPair (tls_CertFile config) (tls_KeyFile config) of
        Inl err \<Rightarrow> Inl (Wrapped ''load MySQL TLS certificate'' err)
      | Inr cert \<Rightarrow> Inr (Some \<lparr>st_MinVersion = VersionTLS12, st_Certificates = [cert]\<rparr>, True))"

subsection \<open>Properties\<close>

text \<open>
  C35.  A production proxy opens an upstream connection only with the resolved, non-empty secret and,
  where TLS is configured, only with a verified certificate: at least TLS 1.2, a server name, no
  skipped verification, and the configured authorities when a CA file is named.
\<close>

theorem upstream_dial_verified:
  assumes "Validate LookupEnv ReadFile c0 = Inr c" "c_Environment c = EnvironmentProduction"
    and "Connect LookupEnv ReadFile AppendCertsFromPEM net (newUpstreamConnector net c) w = (Inr u, w')"
  shows "\<exists>password options. UpstreamPassword LookupEnv ReadFile c = Inr password \<and> password \<noteq> ''''
    \<and> nw_ConnectWithContext net (up_Addr (c_Upstream c)) (up_Username (c_Upstream c)) password
        (up_Database (c_Upstream c)) (10 * Second) options w = (Inr u, w')
    \<and> (if up_TLSEnabled (c_Upstream c)
       then \<exists>t. options = [SetTLSConfig t] \<and> ct_MinVersion t = VersionTLS12 \<and> \<not> ct_InsecureSkipVerify t
          \<and> ct_ServerName t = upstreamTLSServerName (c_Upstream c)
          \<and> (up_TLSCAFile (c_Upstream c) \<noteq> '''' \<longrightarrow> (\<exists>pem roots. ReadFile (up_TLSCAFile (c_Upstream c)) = Some pem
               \<and> AppendCertsFromPEM pem = Some roots \<and> ct_RootCAs t = Some roots))
       else options = [])"
proof -
  have "hardened LookupEnv ReadFile c"
    using assms(1,2) unfolding Validate_iff acceptable_def by auto
  then have hard: "\<not> up_TLSSkipVerify (c_Upstream c)"
      "\<exists>password. UpstreamPassword LookupEnv ReadFile c = Inr password \<and> password \<noteq> ''''"
    by (simp_all add: hardened_def)
  then obtain password where pw: "UpstreamPassword LookupEnv ReadFile c = Inr password" "password \<noteq> ''''" by blast
  obtain t b where t: "upstreamTLSConfig ReadFile AppendCertsFromPEM c = Inr (t, b)"
    using assms(3) pw by (auto simp: Connect_def newUpstreamConnector_def split: sum.splits)
  define options where "options = (case t of None \<Rightarrow> [] | Some t \<Rightarrow> [SetTLSConfig t])"
  have "nw_ConnectWithContext net (up_Addr (c_Upstream c)) (up_Username (c_Upstream c)) password
        (up_Database (c_Upstream c)) (10 * Second) options w = (Inr u, w')"
    using assms(3) pw t
    by (simp add: Connect_def newUpstreamConnector_def connectUpstreamSession_def options_def
        upstreamConnectTimeout_def Let_def)
  moreover have "if up_TLSEnabled (c_Upstream c)
       then \<exists>t. options = [SetTLSConfig t] \<and> ct_MinVersion t = VersionTLS12 \<and> \<not> ct_InsecureSkipVerify t
          \<and> ct_ServerName t = upstreamTLSServerName (c_Upstream c)
          \<and> (up_TLSCAFile (c_Upstream c) \<noteq> '''' \<longrightarrow> (\<exists>pem roots. ReadFile (up_TLSCAFile (c_Upstream c)) = Some pem
               \<and> AppendCertsFromPEM pem = Some roots \<and> ct_RootCAs t = Some roots))
       else options = []"
    using t hard(1)
    by (auto simp: upstreamTLSConfig_def options_def Let_def split: if_splits option.splits)
  ultimately show ?thesis using pw by blast
qed

definition demo_network :: "(string, unit, string) network" where
  "demo_network = \<lparr>nw_ConnectWithContext = (\<lambda>_ _ password _ _ _ w. (Inr password, w))\<rparr>"

theorem upstream_dial_verified_witness:
  "Connect (\<lambda>_. None) secret_file Some demo_network
     (newUpstreamConnector demo_network (applyDefaults Default production_config)) () = (Inr ''hunter2'', ())"
proof -
  let ?c = "applyDefaults Default production_config"
  have env: "c_Environment ?c = EnvironmentProduction"
    by (simp add: applyDefaults_def production_config_def or_default_def EnvironmentProduction_def)
  have pw: "UpstreamPassword (\<lambda>_. None) secret_file ?c = Inr ''hunter2''"
    by (simp add: UpstreamPassword_def applyDefaults_def production_config_def Default_def secret_file_def
        TrimRight_def Let_def)
  obtain u where u: "Connect (\<lambda>_. None) secret_file Some demo_network (newUpstreamConnector demo_network ?c) () = (Inr u, ())"
    using pw by (simp add: Connect_def newUpstreamConnector_def connectUpstreamSession_def upstreamTLSConfig_def
        applyDefaults_def production_config_def Default_def demo_network_def Let_def)
  from upstream_dial_verified[OF production_config_valid env u] pw show ?thesis
    using u by (auto simp: demo_network_def)
qed

end
