(* ===== verification/ClientConnection.thy ===== *)
theory ClientConnection
  imports UpstreamConnector
begin

text \<open>
  \<open>internal/mysqlproxy/client_connection.go\<close> and \<open>newClientSession\<close>: one client connection from
  accept to close.  The protocol server of \<open>go-mysql\<close> is a parameter: what it does in a handshake or
  with a command is a tree of calls to the handlers, each with the reply it goes on with, so
  nothing is assumed of which calls it makes.  The loop over commands may run for ever;
  it is a partial function, with \<open>None\<close> for a connection that never ends.
\<close>

subsection \<open>The protocol server\<close>

datatype handler_call = CallGetCredential string | CallAuthSuccess server_conn | CallAuthFailure server_conn
  | CallUseDB string | CallQuery string | CallOther other_command

datatype 'v handler_reply = ReplyCredential "go_error + AuthCredential option" | ReplyError "go_error option"
  | ReplyResult "go_error + 'v Result option"

text \<open>\<open>ProtoDone err x\<close>: the operation has returned, the protocol connection is in state \<open>x\<close>.
  \<open>ProtoCall c clk k\<close>: it calls a handler, at the clock readings \<open>clk\<close>, and goes on with the reply.\<close>

datatype ('v, 'x) protocol_run =
    ProtoDone "go_error option" 'x
  | ProtoCall handler_call "nat \<Rightarrow> time" "'v handler_reply \<Rightarrow> ('v, 'x) protocol_run"

record ('v, 'x, 'k) protocolServer =
  ps_InvalidateCache :: "string \<Rightarrow> string \<Rightarrow> 'k \<Rightarrow> 'k"
  ps_NewConn :: "('v, 'x) protocol_run"
  ps_HandleCommand :: "'x \<Rightarrow> ('v, 'x) protocol_run"
  ps_Closed :: "'x \<Rightarrow> bool"

subsection \<open>A client session\<close>

type_synonym ('v, 'u, 'a, 'c, 'k, 'w) clientSession = "('v, 'u, 'a, 'c, 'k, 'w) sessionAuthenticationHandler"

definition newClientSession :: "(rune \<Rightarrow> rune) \<Rightarrow> parser \<Rightarrow> 'v mysql_lib \<Rightarrow> ('v, 'u) upstreamSession
    \<Rightarrow> Config \<Rightarrow> 'c verifier \<Rightarrow> 'c \<Rightarrow> string \<Rightarrow> (string \<Rightarrow> string \<Rightarrow> 'k \<Rightarrow> 'k) option \<Rightarrow> 'k
    \<Rightarrow> ('w \<Rightarrow> (go_error + 'u) \<times> 'w) option \<Rightarrow> ('w \<Rightarrow> (go_error + 'u) \<times> 'w) \<Rightarrow> 'w \<Rightarrow> bool
    \<Rightarrow> 'a audit_logger option \<Rightarrow> 'a \<Rightarrow> ('v, 'u, 'a, 'c, 'k, 'w) clientSession" where
  "newClientSession ul ParseSQL lib up config verifier c remoteAddr cacheInvalidator k connector
     defaultConnector w requireTLS auditor a =
     (let sessionHandler = newDeferredSessionHandlerWithAudit ul ParseSQL lib up (SQLPolicyConfig config)
            (Some (Mask ul (NewPolicy ul (c_Masking config))))
            \<lparr>rl_maxQueryBytes = rl_MaxQueryBytes (c_RateLimits config),
             rl_maxResultRows = rl_MaxResultRows (c_RateLimits config),
             rl_maxResultBytes = rl_MaxResultBytes (c_RateLimits config)\<rparr>
            auditor a \<lparr>ai_userID = '''', ai_sourceAddr = sourceAddress remoteAddr\<rparr>;
          connector = (case connector of None \<Rightarrow> defaultConnector | Some f \<Rightarrow> f)
      in newSessionAuthenticationHandlerWithAudit (newOTPAuthenticationHandler verifier c remoteAddr cacheInvalidator k)
           connector sessionHandler requireTLS auditor w)"

definition handle_call :: "'v mysql_lib \<Rightarrow> ('v, 'u) upstreamSession \<Rightarrow> handler_call \<Rightarrow> (nat \<Rightarrow> time)
    \<Rightarrow> ('v, 'u, 'a, 'c, 'k, 'w) clientSession \<Rightarrow> 'v handler_reply \<times> ('v, 'u, 'a, 'c, 'k, 'w) clientSession" where
  "handle_call lib up c clk h = (case c of
     CallGetCredential username \<Rightarrow> (case session_GetCredential username (clk 0) h of (r, h) \<Rightarrow> (ReplyCredential r, h))
   | CallAuthSuccess conn \<Rightarrow> (case OnAuthSuccess up clk conn h of (err, h) \<Rightarrow> (ReplyError err, h))
   | CallAuthFailure conn \<Rightarrow> (ReplyError None, OnAuthFailure clk conn h)
   | CallUseDB database \<Rightarrow> (case session_UseDB database (sa_session h) of
       (err, s) \<Rightarrow> (ReplyError err, h\<lparr>sa_session := s\<rparr>))
   | CallQuery query \<Rightarrow> (case session_HandleQuery lib (clk 0) query (sa_session h) of
       (r, s) \<Rightarrow> (ReplyResult r, h\<lparr>sa_session := s\<rparr>))
   | CallOther command \<Rightarrow> (case session_command command (sa_session h) of
       (err, s) \<Rightarrow> (ReplyError (Some err), h\<lparr>sa_session := s\<rparr>)))"

primrec run_protocol :: "'v mysql_lib \<Rightarrow> ('v, 'u) upstreamSession \<Rightarrow> ('v, 'x) protocol_run
    \<Rightarrow> ('v, 'u, 'a, 'c, 'k, 'w) clientSession \<Rightarrow> go_error option \<times> 'x \<times> ('v, 'u, 'a, 'c, 'k, 'w) clientSession" where
  "run_protocol lib up (ProtoDone err x) h = (err, x, h)"
| "run_protocol lib up (ProtoCall c clk k) h =
     (case handle_call lib up c clk h of (reply, h) \<Rightarrow> run_protocol lib up (k reply) h)"

subsection \<open>Serving a connection\<close>

text \<open>The outcome: what \<open>ServeConn\<close> returns, the session as it leaves it, and whether it closed the
  network connection.\<close>

partial_function (option) serve_loop :: "'v mysql_lib \<Rightarrow> ('v, 'u) upstreamSession
    \<Rightarrow> ('x \<Rightarrow> ('v, 'x) protocol_run) \<Rightarrow> ('x \<Rightarrow> bool) \<Rightarrow> 'x \<Rightarrow> ('v, 'u, 'a, 'c, 'k, 'w) clientSession
    \<Rightarrow> (go_error option \<times> ('v, 'u, 'a, 'c, 'k, 'w) clientSession \<times> bool) option" where
  "serve_loop lib up command ended x h = (case run_protocol lib up (command x) h of
     (Some err, x, h) \<Rightarrow> Some (Some err, close_session up h, True)
   | (None, x, h) \<Rightarrow> (case session_TerminalError (sa_session h) of
       Some err \<Rightarrow> Some (Some err, close_session up h, True)
     | None \<Rightarrow> if ended x then Some (None, close_session up h, False)
               else serve_loop lib up command ended x h))"

declare serve_loop.simps [code]

record ('v, 'u, 'a, 'c, 'k, 'w, 'x) clientConnectionHandler =
  ch_config :: Config
  ch_verifier :: "'c verifier"
  ch_auditor :: "'a audit_logger option"
  ch_protocolServer :: "('v, 'x, 'k) protocolServer option"
  ch_upstreamConnector :: "('w \<Rightarrow> (go_error + 'u) \<times> 'w) option"

record ('v, 'u, 'a, 'c, 'k, 'w, 'x) clientConnectionHandlerConfig =
  cc_Config :: Config
  cc_Verifier :: "'c verifier"
  cc_AuditLogger :: "'a audit_logger option"
  cc_ProtocolServer :: "('v, 'x, 'k) protocolServer option"
  cc_UpstreamConnector :: "('w \<Rightarrow> (go_error + 'u) \<times> 'w) option"

definition newClientConnectionHandler :: "('v, 'u, 'a, 'c, 'k, 'w, 'x) clientConnectionHandlerConfig
    \<Rightarrow> ('v, 'u, 'a, 'c, 'k, 'w, 'x) clientConnectionHandler" where
  "newClientConnectionHandler config = \<lparr>ch_config = cc_Config config, ch_verifier = cc_Verifier config,
     ch_auditor = cc_AuditLogger config, ch_protocolServer = cc_ProtocolServer config,
     ch_upstreamConnector = cc_UpstreamConnector config\<rparr>"

text \<open>The states behind the shared parts, as a connection finds them: the credentials, the
  audit log, the protocol server's cache and the network.\<close>

record ('c, 'a, 'k, 'w) shared =
  sh_credentials :: 'c
  sh_audit :: 'a
  sh_cache :: 'k
  sh_network :: 'w

text \<open>\<open>dial\<close> is \<open>Connect\<close> of the connector that is made when none is configured.\<close>

definition connection_session :: "(rune \<Rightarrow> rune) \<Rightarrow> parser \<Rightarrow> 'v mysql_lib \<Rightarrow> ('v, 'u) upstreamSession
    \<Rightarrow> ('w \<Rightarrow> (go_error + 'u) \<times> 'w) \<Rightarrow> ('v, 'u, 'a, 'c, 'k, 'w, 'x) clientConnectionHandler
    \<Rightarrow> ('v, 'x, 'k) protocolServer \<Rightarrow> string \<Rightarrow> ('c, 'a, 'k, 'w) shared
    \<Rightarrow> ('v, 'u, 'a, 'c, 'k, 'w) clientSession" where
  "connection_session ul ParseSQL lib up dial ch ps remoteAddr sh =
     newClientSession ul ParseSQL lib up (ch_config ch) (ch_verifier ch) (sh_credentials sh) remoteAddr
       (Some (ps_InvalidateCache ps)) (sh_cache sh) (ch_upstreamConnector ch) dial (sh_network sh)
       (tls_Enabled (ls_TLS (c_MySQL (ch_config ch)))) (ch_auditor ch) (sh_audit sh)"

definition ServeConn :: "(rune \<Rightarrow> rune) \<Rightarrow> parser \<Rightarrow> 'v mysql_lib \<Rightarrow> ('v, 'u) upstreamSession
    \<Rightarrow> ('w \<Rightarrow> (go_error + 'u) \<times> 'w) \<Rightarrow> ('v, 'u, 'a, 'c, 'k, 'w, 'x) clientConnectionHandler
    \<Rightarrow> string \<Rightarrow> ('c, 'a, 'k, 'w) shared
    \<Rightarrow> (go_error option \<times> ('v, 'u, 'a, 'c, 'k, 'w) clientSession option \<times> bool) option" where
  "ServeConn ul ParseSQL lib up dial ch remoteAddr sh = (case ch_protocolServer ch of
     None \<Rightarrow> Some (Some (Wrapped ''MySQL protocol server is required'' ErrInvalid), None, True)
   | Some ps \<Rightarrow>
     (let session = connection_session ul ParseSQL lib up dial ch ps remoteAddr sh in
      case run_protocol lib up (ps_NewConn ps) session of
        (Some err, _, session) \<Rightarrow> Some (Some err, Some (close_session up session), True)
      | (None, protocolConn, session) \<Rightarrow>
          map_option (\<lambda>(err, session, conn_closed). (err, Some session, conn_closed))
            (serve_loop lib up (ps_HandleCommand ps) (ps_Closed ps) protocolConn session)))"

end
