(* ===== verification/ProxyServer.thy ===== *)
theory ProxyServer
  imports ClientConnection
begin

text \<open>
  \<open>internal/mysqlproxy/server.go\<close>: the construction of the MySQL server and its accept loop.  In
  \<open>ServeContext\<close> the loop, the goroutine that waits for the cancellation and one goroutine per
  connection run concurrently; each section under the mutex, each channel operation and each call
  of the listener is one step of a transition relation, and the steps of different
  goroutines interleave freely.  Connections are names of any type \<open>'c\<close>; \<open>ServeConn\<close> on a connection
  may return at any time, but nothing that is shown relies on its returning before the connection is closed.
\<close>

subsection \<open>Construction\<close>

record ('rsa, 'cert) goMySQLServer =
  gs_Version :: string
  gs_RSAKey :: "'rsa option"
  gs_TLSConfig :: "'cert serverTLS option"

definition newGoMySQLProtocolServer :: "(string \<Rightarrow> string \<Rightarrow> go_error + 'cert) \<Rightarrow> (go_error + 'rsa) \<Rightarrow> Config
    \<Rightarrow> go_error + ('rsa, 'cert) goMySQLServer" where
  "newGoMySQLProtocolServer LoadX509KeyPair generated config =
     (case mysqlServerTLSConfig LoadX509KeyPair (ls_TLS (c_MySQL config)) of
        Inl err \<Rightarrow> Inl err
      | Inr (tlsConfig, tlsEnabled) \<Rightarrow>
          if \<not> tlsEnabled then
            (case generated of
               Inl err \<Rightarrow> Inl (Wrapped ''generate MySQL auth RSA key'' err)
             | Inr rsaKey \<Rightarrow> Inr \<lparr>gs_Version = ''8.0.11'', gs_RSAKey = Some rsaKey, gs_TLSConfig = tlsConfig\<rparr>)
          else Inr \<lparr>gs_Version = ''8.0.11'', gs_RSAKey = None, gs_TLSConfig = tlsConfig\<rparr>)"

record ('v, 'u, 'a, 'c, 'k, 'w, 'x, 'l) serverConfig =
  sc_Config :: Config
  sc_Verifier :: "'c verifier"
  sc_AuditLogger :: "'a audit_logger option"
  sc_ProtocolServer :: "('v, 'x, 'k) protocolServer option"
  sc_UpstreamConnector :: "('w \<Rightarrow> (go_error + 'u) \<times> 'w) option"
  sc_Listen :: "(string \<Rightarrow> string \<Rightarrow> go_error + 'l) option"

record ('v, 'u, 'a, 'c, 'k, 'w, 'x, 'l) Server =
  srv_config :: Config
  srv_verifier :: "'c verifier"
  srv_auditor :: "'a audit_logger option"
  srv_protocolServer :: "('v, 'x, 'k) protocolServer option"
  srv_upstreamConnector :: "('w \<Rightarrow> (go_error + 'u) \<times> 'w) option"
  srv_listen :: "string \<Rightarrow> string \<Rightarrow> go_error + 'l"

definition newServer :: "(string \<Rightarrow> string \<Rightarrow> go_error + 'l) \<Rightarrow> ('v, 'u, 'a, 'c, 'k, 'w, 'x, 'l) serverConfig
    \<Rightarrow> ('v, 'u, 'a, 'c, 'k, 'w, 'x, 'l) Server" where
  "newServer net_Listen config = \<lparr>srv_config = sc_Config config, srv_verifier = sc_Verifier config,
     srv_auditor = sc_AuditLogger config, srv_protocolServer = sc_ProtocolServer config,
     srv_upstreamConnector = sc_UpstreamConnector config,
     srv_listen = (case sc_Listen config of None \<Rightarrow> net_Listen | Some f \<Rightarrow> f)\<rparr>"

text \<open>\<open>protocol\<close> is the behaviour of a \<open>go-mysql\<close> server with the given settings.\<close>

definition NewServer :: "(string \<Rightarrow> string \<Rightarrow> go_error + 'cert) \<Rightarrow> (go_error + 'rsa)
    \<Rightarrow> (string \<Rightarrow> string \<Rightarrow> go_error + 'l) \<Rightarrow> (('rsa, 'cert) goMySQLServer \<Rightarrow> ('v, 'x, 'k) protocolServer)
    \<Rightarrow> Config \<Rightarrow> 'c verifier \<Rightarrow> 'a audit_logger list
    \<Rightarrow> go_error + ('v, 'u, 'a, 'c, 'k, 'w, 'x, 'l) Server" where
  "NewServer LoadX509KeyPair generated net_Listen protocol config verifier auditors =
     (case newGoMySQLProtocolServer LoadX509KeyPair generated config of
        Inl err \<Rightarrow> Inl err
      | Inr ps \<Rightarrow> Inr (newServer net_Listen \<lparr>sc_Config = config, sc_Verifier = verifier,
          sc_AuditLogger = (case auditors of [] \<Rightarrow> None | auditor # _ \<Rightarrow> Some auditor),
          sc_ProtocolServer = Some (protocol ps), sc_UpstreamConnector = None, sc_Listen = None\<rparr>))"

text \<open>The handler that \<open>ServeContext\<close> makes for its connections.\<close>

definition connection_handler :: "('v, 'u, 'a, 'c, 'k, 'w, 'x, 'l) Server
    \<Rightarrow> ('v, 'u, 'a, 'c, 'k, 'w, 'x) clientConnectionHandler" where
  "connection_handler server = newClientConnectionHandler \<lparr>cc_Config = srv_config server,
     cc_Verifier = srv_verifier server, cc_AuditLogger = srv_auditor server,
     cc_ProtocolServer = srv_protocolServer server, cc_UpstreamConnector = srv_upstreamConnector server\<rparr>"

text \<open>\<open>serve\<close> is \<open>Serve\<close> on the listener.\<close>

definition ListenAndServe :: "('v, 'u, 'a, 'c, 'k, 'w, 'x, 'l) Server \<Rightarrow> ('l \<Rightarrow> go_error option) \<Rightarrow> go_error option" where
  "ListenAndServe server serve =
     (case srv_listen server ''tcp'' (ls_ListenAddr (c_MySQL (srv_config server))) of
        Inl err \<Rightarrow> Some err
      | Inr listener \<Rightarrow> serve listener)"

subsection \<open>The accept loop\<close>

text \<open>Where the accept loop is: waiting for a connection; holding one it has no slot for yet; holding
  one with its slot; returning, waiting for the sessions; returned.\<close>

datatype 'c accept_pc = Accepting | Accepted 'c | Slotted 'c | Returning "go_error option" | Returned "go_error option"

text \<open>Where the goroutine of a connection is: in \<open>ServeConn\<close>; off the active set but with its slot;
  with the slot given back.\<close>

datatype session_pc = Serving | Removed | Released

record 'c server_state =
  sv_pc :: "'c accept_pc"
  sv_cancelled :: bool
  sv_watching :: bool
  sv_listening :: bool
  sv_slots :: nat
  sv_active :: "'c set"
  sv_sessions :: "'c \<rightharpoonup> session_pc"
  sv_closed :: "'c set"

definition server_start :: "'c server_state" where
  "server_start = \<lparr>sv_pc = Accepting, sv_cancelled = False, sv_watching = True, sv_listening = True,
     sv_slots = 0, sv_active = {}, sv_sessions = Map.empty, sv_closed = {}\<rparr>"

definition return_of :: "go_error \<Rightarrow> go_error option" where
  "return_of err = (if errors_Is ErrNetClosed err then None else Some err)"

inductive server_step :: "nat \<Rightarrow> 'c server_state \<Rightarrow> 'c server_state \<Rightarrow> bool" for limit where
  cancel: "server_step limit s (s\<lparr>sv_cancelled := True\<rparr>)"
| watch: "sv_cancelled s \<Longrightarrow> sv_watching s \<Longrightarrow>
    server_step limit s (s\<lparr>sv_watching := False, sv_listening := False, sv_closed := sv_closed s \<union> sv_active s\<rparr>)"
| accept: "sv_pc s = Accepting \<Longrightarrow> sv_listening s \<Longrightarrow> c \<notin> dom (sv_sessions s) \<Longrightarrow> c \<notin> sv_closed s \<Longrightarrow>
    server_step limit s (s\<lparr>sv_pc := Accepted c\<rparr>)"
| accept_error: "sv_pc s = Accepting \<Longrightarrow> server_step limit s (s\<lparr>sv_pc := Returning (return_of err)\<rparr>)"
| full: "sv_pc s = Accepted c \<Longrightarrow> sv_slots s = limit \<Longrightarrow>
    server_step limit s (s\<lparr>sv_pc := Accepting, sv_closed := insert c (sv_closed s)\<rparr>)"
| slot: "sv_pc s = Accepted c \<Longrightarrow> sv_slots s < limit \<Longrightarrow>
    server_step limit s (s\<lparr>sv_pc := Slotted c, sv_slots := sv_slots s + 1\<rparr>)"
| late: "sv_pc s = Slotted c \<Longrightarrow> sv_cancelled s \<Longrightarrow>
    server_step limit s (s\<lparr>sv_pc := Accepting, sv_slots := sv_slots s - 1, sv_closed := insert c (sv_closed s)\<rparr>)"
| start: "sv_pc s = Slotted c \<Longrightarrow> \<not> sv_cancelled s \<Longrightarrow>
    server_step limit s (s\<lparr>sv_pc := Accepting, sv_active := insert c (sv_active s),
      sv_sessions := (sv_sessions s)(c \<mapsto> Serving)\<rparr>)"
| served: "sv_sessions s c = Some Serving \<Longrightarrow>
    server_step limit s (s\<lparr>sv_active := sv_active s - {c}, sv_sessions := (sv_sessions s)(c \<mapsto> Removed)\<rparr>)"
| release_slot: "sv_sessions s c = Some Removed \<Longrightarrow>
    server_step limit s (s\<lparr>sv_slots := sv_slots s - 1, sv_sessions := (sv_sessions s)(c \<mapsto> Released)\<rparr>)"
| session_done: "sv_sessions s c = Some Released \<Longrightarrow>
    server_step limit s (s\<lparr>sv_sessions := (sv_sessions s)(c := None)\<rparr>)"
| finish: "sv_pc s = Returning err \<Longrightarrow> sv_sessions s = Map.empty \<Longrightarrow>
    server_step limit s (s\<lparr>sv_pc := Returned err\<rparr>)"
| unwatch: "sv_pc s = Returned err \<Longrightarrow> server_step limit s (s\<lparr>sv_watching := False\<rparr>)"

inductive_cases server_stepE: "server_step limit s s'"

subsection \<open>The invariant\<close>

definition holding :: "('c \<rightharpoonup> session_pc) \<Rightarrow> 'c set" where
  "holding m = {c. m c = Some Serving \<or> m c = Some Removed}"

definition held_slot :: "'c accept_pc \<Rightarrow> nat" where
  "held_slot pc = (case pc of Slotted _ \<Rightarrow> 1 | _ \<Rightarrow> 0)"

definition server_inv :: "nat \<Rightarrow> 'c server_state \<Rightarrow> bool" where
  "server_inv limit s \<longleftrightarrow> finite (dom (sv_sessions s))
     \<and> sv_slots s = card (holding (sv_sessions s)) + held_slot (sv_pc s) \<and> sv_slots s \<le> limit
     \<and> sv_active s = {c. sv_sessions s c = Some Serving}
     \<and> (\<not> sv_watching s \<longrightarrow> (sv_cancelled s \<or> (\<exists>err. sv_pc s = Returned err)) \<and> sv_active s \<subseteq> sv_closed s
          \<and> (sv_listening s \<longrightarrow> (\<exists>err. sv_pc s = Returned err)))
     \<and> (\<forall>c. sv_pc s = Accepted c \<or> sv_pc s = Slotted c \<longrightarrow> c \<notin> dom (sv_sessions s))
     \<and> (\<forall>err. sv_pc s = Returned err \<longrightarrow> sv_sessions s = Map.empty)"

lemma holding_finite: "server_inv limit s \<Longrightarrow> finite (holding (sv_sessions s))"
  by (rule finite_subset[of _ "dom (sv_sessions s)"]) (auto simp: holding_def server_inv_def)

lemma holding_upd:
  "holding (m(c \<mapsto> Serving)) = insert c (holding m)"
  "m c = Some Serving \<Longrightarrow> holding (m(c \<mapsto> Removed)) = holding m"
  "holding (m(c \<mapsto> Released)) = holding m - {c}"
  "m c = Some Released \<Longrightarrow> holding (m(c := None)) = holding m"
  by (auto simp: holding_def split: if_splits)

lemma start_inv: "server_inv limit server_start"
  by (simp add: server_inv_def server_start_def holding_def held_slot_def)

lemma card_holding:
  assumes "server_inv limit s" "sv_sessions s c = Some Removed"
  shows "card (holding (sv_sessions s)) = Suc (card (holding (sv_sessions s) - {c}))"
proof -
  have "c \<in> holding (sv_sessions s)" using assms(2) by (simp add: holding_def)
  then show ?thesis using holding_finite[OF assms(1)] by (rule card.remove[rotated])
qed

lemma server_step_inv:
  assumes "server_step limit s s'" "server_inv limit s"
  shows "server_inv limit s'"
  using assms(1)
proof (cases rule: server_step.cases)
  case (start c)
  have "c \<notin> holding (sv_sessions s)" using start(2) assms(2) by (auto simp: server_inv_def holding_def)
  then show ?thesis using start assms(2) holding_finite[OF assms(2)]
    by (auto simp: server_inv_def held_slot_def holding_upd split: if_splits)
next
  case (served c)
  then show ?thesis using assms(2) by (auto simp: server_inv_def held_slot_def holding_upd split: if_splits)
next
  case (release_slot c)
  then show ?thesis using assms(2) card_holding[OF assms(2) release_slot(2)]
    by (auto simp: server_inv_def held_slot_def holding_upd split: if_splits)
next
  case (session_done c)
  then show ?thesis using assms(2) by (auto simp: server_inv_def held_slot_def holding_upd split: if_splits)
next
  case (slot c)
  then show ?thesis using assms(2) by (auto simp: server_inv_def held_slot_def split: if_splits)
next
  case (late c)
  then show ?thesis using assms(2) by (auto simp: server_inv_def held_slot_def split: if_splits)
next
  case (full c)
  then show ?thesis using assms(2) by (auto simp: server_inv_def held_slot_def split: if_splits)
qed (use assms(2) in \<open>auto simp: server_inv_def held_slot_def\<close>)

lemma server_run_inv: "(server_step limit)\<^sup>*\<^sup>* server_start s \<Longrightarrow> server_inv limit s"
  by (induction rule: rtranclp_induct) (auto intro: start_inv server_step_inv)

subsection \<open>Properties\<close>

text \<open>
  C8.  In every interleaving, the server serves at most the configured number of connections at a
  time; once the cancellation has been acted on, each connection still being served has been closed
  and none is added; and \<open>ServeContext\<close> has returned only when no connection goroutine is left.
  This is what the code does and not what the documents promise: they let sessions in flight go on
  until \<open>shutdown_drain_deadline\<close>, which the code applies to the HTTP server only.
\<close>

theorem server_bounded_and_drained:
  assumes "(server_step limit)\<^sup>*\<^sup>* server_start s"
  shows "card {c. sv_sessions s c = Some Serving} \<le> limit
    \<and> (\<not> sv_watching s \<longrightarrow> {c. sv_sessions s c = Some Serving} \<subseteq> sv_closed s)
    \<and> (\<not> sv_watching s \<longrightarrow> server_step limit s s' \<longrightarrow>
         {c. sv_sessions s' c = Some Serving} \<subseteq> {c. sv_sessions s c = Some Serving} \<and> \<not> sv_watching s')
    \<and> (sv_pc s = Returned err \<longrightarrow> sv_sessions s = Map.empty)"
proof -
  note inv = server_run_inv[OF assms]
  have "card {c. sv_sessions s c = Some Serving} \<le> card (holding (sv_sessions s))"
    by (rule card_mono[OF holding_finite[OF inv]]) (auto simp: holding_def)
  then have le: "card {c. sv_sessions s c = Some Serving} \<le> limit" using inv by (simp add: server_inv_def)
  have "{c. sv_sessions s' c = Some Serving} \<subseteq> {c. sv_sessions s c = Some Serving} \<and> \<not> sv_watching s'"
    if "\<not> sv_watching s" "server_step limit s s'"
    using that(2)
  proof (cases rule: server_step.cases)
    case (start c)
    then show ?thesis using inv that(1) by (auto simp: server_inv_def)
  qed (use that(1) in \<open>auto split: if_splits\<close>)
  then show ?thesis using le inv by (auto simp: server_inv_def)
qed

text \<open>A run with one slot: the first client is served, the second is turned away, the
  cancellation closes the first.\<close>

definition demo_server :: "nat server_state" where
  "demo_server = \<lparr>sv_pc = Accepting, sv_cancelled = True, sv_watching = False, sv_listening = False,
     sv_slots = 1, sv_active = {0}, sv_sessions = [0 \<mapsto> Serving], sv_closed = {0, 1}\<rparr>"

lemma demo_server_run: "(server_step 1)\<^sup>*\<^sup>* server_start demo_server"
proof -
  let ?s0 = "server_start :: nat server_state"
  let ?s1 = "?s0\<lparr>sv_pc := Accepted 0\<rparr>" let ?s2 = "?s1\<lparr>sv_pc := Slotted 0, sv_slots := 1\<rparr>"
  let ?s3 = "?s2\<lparr>sv_pc := Accepting, sv_active := {0}, sv_sessions := [0 \<mapsto> Serving]\<rparr>"
  let ?s4 = "?s3\<lparr>sv_pc := Accepted 1\<rparr>" let ?s5 = "?s4\<lparr>sv_pc := Accepting, sv_closed := {1}\<rparr>"
  let ?s6 = "?s5\<lparr>sv_cancelled := True\<rparr>"
  have "server_step 1 ?s0 ?s1" by (rule accept) (simp_all add: server_start_def)
  moreover have "server_step 1 ?s1 ?s2" using slot[of ?s1 0 1] by (simp add: server_start_def)
  moreover have "server_step 1 ?s2 ?s3" using start[of ?s2 0 1] by (simp add: server_start_def)
  moreover have "server_step 1 ?s3 ?s4" by (rule accept) (simp_all add: server_start_def)
  moreover have "server_step 1 ?s4 ?s5" using full[of ?s4 1 1] by (simp add: server_start_def)
  moreover have "server_step 1 ?s5 ?s6" by (rule cancel)
  moreover have "server_step 1 ?s6 demo_server"
    using watch[of ?s6 1] by (simp add: server_start_def demo_server_def insert_commute)
  ultimately show ?thesis by (meson converse_rtranclp_into_rtranclp rtranclp.rtrancl_refl)
qed

theorem server_bounded_and_drained_witness:
  "card {c. sv_sessions demo_server c = Some Serving} \<le> 1
   \<and> {c. sv_sessions demo_server c = Some Serving} \<subseteq> sv_closed demo_server"
  using server_bounded_and_drained[OF demo_server_run] by (simp add: demo_server_def)

subsection \<open>Draining\<close>

text \<open>How many steps the server may still make once it no longer listens.\<close>

definition session_work :: "session_pc option \<Rightarrow> nat" where
  "session_work x = (case x of Some Serving \<Rightarrow> 3 | Some Removed \<Rightarrow> 2 | Some Released \<Rightarrow> 1 | None \<Rightarrow> 0)"

definition loop_work :: "'c accept_pc \<Rightarrow> nat" where
  "loop_work pc = (case pc of Slotted _ \<Rightarrow> 3 | Accepted _ \<Rightarrow> 4 | Accepting \<Rightarrow> 2 | Returning _ \<Rightarrow> 1 | Returned _ \<Rightarrow> 0)"

definition remaining_work :: "'c server_state \<Rightarrow> nat" where
  "remaining_work s = loop_work (sv_pc s) + (\<Sum>c\<in>dom (sv_sessions s). session_work (sv_sessions s c))"

definition moves :: "nat \<Rightarrow> 'c server_state \<Rightarrow> 'c server_state \<Rightarrow> bool" where
  "moves limit s s' \<longleftrightarrow> server_step limit s s' \<and> s' \<noteq> s"

text \<open>The steps that the program takes by itself, without waiting for a client: \<open>ServeConn\<close> is only relied on to
  return when its connection has been closed, and \<open>Accept\<close> to fail when the listener has been.\<close>

definition prompted :: "nat \<Rightarrow> 'c server_state \<Rightarrow> 'c server_state \<Rightarrow> bool" where
  "prompted limit s s' \<longleftrightarrow> moves limit s s'
     \<and> (\<forall>c. sv_sessions s c = Some Serving \<longrightarrow> sv_sessions s' c \<noteq> Some Serving \<longrightarrow> c \<in> sv_closed s)
     \<and> (\<forall>err. sv_pc s = Accepting \<longrightarrow> sv_pc s' = Returning err \<longrightarrow> \<not> sv_listening s)"

definition draining :: "nat \<Rightarrow> 'c server_state \<Rightarrow> bool" where
  "draining limit s \<longleftrightarrow> server_inv limit s \<and> sv_cancelled s \<and> \<not> sv_watching s"

lemma work_upd:
  assumes "finite (dom m)" "m c = Some x"
  shows "(\<Sum>d\<in>dom m. session_work (m d)) + session_work y
    = (\<Sum>d\<in>dom (m(c := y)). session_work ((m(c := y)) d)) + session_work (Some x)"
proof -
  have "(\<Sum>d\<in>dom m. session_work (m d)) = session_work (Some x) + (\<Sum>d\<in>dom m - {c}. session_work (m d))"
    using assms by (subst sum.remove[of _ c]) auto
  moreover have "(\<Sum>d\<in>dom (m(c := y)). session_work ((m(c := y)) d)) = session_work y + (\<Sum>d\<in>dom m - {c}. session_work (m d))"
  proof (cases y)
    case None
    then show ?thesis by (simp add: session_work_def)
  next
    case (Some z)
    have "(\<Sum>d\<in>dom (m(c := y)). session_work ((m(c := y)) d))
        = session_work y + (\<Sum>d\<in>dom (m(c := y)) - {c}. session_work ((m(c := y)) d))"
      using assms(1) Some by (subst sum.remove[of _ c]) auto
    also have "(\<Sum>d\<in>dom (m(c := y)) - {c}. session_work ((m(c := y)) d)) = (\<Sum>d\<in>dom m - {c}. session_work (m d))"
      by (rule sum.cong) auto
    finally show ?thesis .
  qed
  ultimately show ?thesis by simp
qed

lemma draining_moves:
  assumes "draining limit s" "moves limit s s'"
  shows "draining limit s' \<and> remaining_work s' < remaining_work s"
proof -
  have st: "server_step limit s s'" "s' \<noteq> s" and inv: "server_inv limit s" "sv_cancelled s" "\<not> sv_watching s"
    using assms by (auto simp: moves_def draining_def)
  have fin: "finite (dom (sv_sessions s))" using inv(1) by (simp add: server_inv_def)
  have listening: "sv_listening s \<Longrightarrow> \<exists>err. sv_pc s = Returned err" using inv by (simp add: server_inv_def)
  have "sv_cancelled s' \<and> \<not> sv_watching s' \<and> remaining_work s' < remaining_work s"
    using st(1)
  proof (cases rule: server_step.cases)
    case (served c)
    then show ?thesis using inv work_upd[OF fin served(2), of "Some Removed"]
      by (simp add: remaining_work_def session_work_def)
  next
    case (release_slot c)
    then show ?thesis using inv work_upd[OF fin release_slot(2), of "Some Released"]
      by (simp add: remaining_work_def session_work_def)
  next
    case (session_done c)
    then show ?thesis using inv work_upd[OF fin session_done(2), of None]
      by (simp add: remaining_work_def session_work_def)
  next
    case (accept c)
    then show ?thesis using listening by simp
  qed (use inv st(2) in \<open>auto simp: remaining_work_def loop_work_def\<close>)
  then show ?thesis using server_step_inv[OF st(1) inv(1)] by (simp add: draining_def)
qed

lemma draining_stuck:
  assumes "draining limit s" "\<nexists>s'. prompted limit s s'"
  shows "\<exists>err. sv_pc s = Returned err"
proof (rule ccontr)
  assume running: "\<nexists>err. sv_pc s = Returned err"
  have inv: "server_inv limit s" "sv_cancelled s" using assms(1) by (auto simp: draining_def)
  have closed: "\<not> sv_listening s" "sv_sessions s c = Some Serving \<Longrightarrow> c \<in> sv_closed s" for c
    using assms(1) running by (auto simp: draining_def server_inv_def)
  have differ: "s' = s" if "server_step limit s s'" for s'
    using assms(2) that closed by (auto simp: prompted_def moves_def)
  have sessions: "sv_sessions s = Map.empty"
  proof
    fix c
    show "sv_sessions s c = None"
    proof (cases "sv_sessions s c")
      case (Some x)
      have "\<exists>s'. server_step limit s s' \<and> sv_sessions s' c \<noteq> sv_sessions s c"
      proof (cases x)
        case Serving then show ?thesis using Some served[of s c limit] by fastforce
      next
        case Removed then show ?thesis using Some release_slot[of s c limit] by fastforce
      next
        case Released then show ?thesis using Some session_done[of s c limit] by fastforce
      qed
      then show ?thesis using differ by blast
    qed simp
  qed
  have "\<exists>s'. server_step limit s s' \<and> sv_pc s' \<noteq> sv_pc s"
  proof (cases "sv_pc s")
    case Accepting then show ?thesis using accept_error[of s limit] by fastforce
  next
    case (Accepted c)
    then have "sv_slots s = limit \<or> sv_slots s < limit" using inv(1) by (auto simp: server_inv_def)
    then show ?thesis
    proof
      assume "sv_slots s = limit" then show ?thesis using Accepted full[of s c limit] by fastforce
    next
      assume "sv_slots s < limit" then show ?thesis using Accepted slot[of s c limit] by fastforce
    qed
  next
    case (Slotted c) then show ?thesis using inv(2) late[of s c limit] by fastforce
  next
    case (Returning err) then show ?thesis using sessions finish[of s err limit] by fastforce
  next
    case (Returned err) then show ?thesis using running by blast
  qed
  then show False using differ by blast
qed

text \<open>
  C36.  The shutdown comes to its end by itself: once the cancellation has been acted on, the server can make
  only a bounded number of further steps, however they interleave, and until \<open>ServeContext\<close> has returned it
  can always make one for which it need not wait for a client: a session is only relied on to end when its
  connection has been closed, and the accept loop when the listener has been, and both have been.
\<close>

theorem server_drains:
  assumes "(server_step limit)\<^sup>*\<^sup>* server_start s" "sv_cancelled s" "\<not> sv_watching s"
    and "(moves limit ^^ n) s s'"
  shows "n \<le> remaining_work s \<and> ((\<nexists>s''. prompted limit s' s'') \<longrightarrow> (\<exists>err. sv_pc s' = Returned err))"
proof -
  have start: "draining limit s" using server_run_inv[OF assms(1)] assms(2,3) by (simp add: draining_def)
  have "draining limit s' \<and> n + remaining_work s' \<le> remaining_work s"
    using assms(4)
  proof (induction n arbitrary: s')
    case (Suc n)
    then obtain t where t: "(moves limit ^^ n) s t" "moves limit t s'" by auto
    from Suc.IH[OF t(1)] draining_moves[OF _ t(2)] show ?case by fastforce
  qed (use start in simp)
  then show ?thesis using draining_stuck by fastforce
qed

text \<open>The run of \<open>demo_server\<close> goes on: the listener reports its end, the client goes.\<close>

definition demo_stopped :: "nat server_state" where
  "demo_stopped = demo_server\<lparr>sv_pc := Returned None, sv_active := {}, sv_slots := 0, sv_sessions := Map.empty\<rparr>"

lemma demo_stops: "(moves 1 ^^ 5) demo_server demo_stopped"
proof -
  let ?s0 = demo_server
  let ?s1 = "?s0\<lparr>sv_pc := Returning None\<rparr>"
  let ?s2 = "?s1\<lparr>sv_active := {}, sv_sessions := [0 \<mapsto> Removed]\<rparr>"
  let ?s3 = "?s2\<lparr>sv_slots := 0, sv_sessions := [0 \<mapsto> Released]\<rparr>"
  let ?s4 = "?s3\<lparr>sv_sessions := Map.empty\<rparr>"
  have "moves 1 ?s0 ?s1" using accept_error[of ?s0 1 ErrNetClosed] by (simp add: moves_def demo_server_def return_of_def)
  moreover have "moves 1 ?s1 ?s2" using served[of ?s1 0 1] by (simp add: moves_def demo_server_def)
  moreover have "moves 1 ?s2 ?s3" using release_slot[of ?s2 0 1] by (simp add: moves_def demo_server_def)
  moreover have "moves 1 ?s3 ?s4" using session_done[of ?s3 0 1] by (simp add: moves_def demo_server_def fun_eq_iff exI[of _ 0])
  moreover have "moves 1 ?s4 demo_stopped"
    using finish[of ?s4 None 1] by (simp add: moves_def demo_server_def demo_stopped_def)
  ultimately have "(moves 1 ^^ Suc (Suc (Suc (Suc (Suc 0))))) ?s0 demo_stopped"
    by (intro relpowp_Suc_I2) auto
  then show ?thesis by (simp add: eval_nat_numeral)
qed

theorem server_drains_witness:
  "(moves 1 ^^ 5) demo_server demo_stopped \<and> 5 \<le> remaining_work demo_server \<and> (\<exists>s. prompted 1 demo_server s)"
proof -
  have "(moves 1 ^^ 0) demo_server demo_server" by simp
  from server_drains[OF demo_server_run _ _ this] have "\<exists>s. prompted 1 demo_server s" by (auto simp: demo_server_def)
  then show ?thesis using server_drains[OF demo_server_run _ _ demo_stops] demo_stops by (simp add: demo_server_def)
qed

text \<open>A MySQL listener without TLS has a key for the full authentication, one with TLS its
  certificate; the sessions of the latter require TLS.\<close>

lemma protocol_server_tls:
  assumes "newGoMySQLProtocolServer load generated config = Inr ps"
  shows "if tls_Enabled (ls_TLS (c_MySQL config))
    then \<exists>cert. load (tls_CertFile (ls_TLS (c_MySQL config))) (tls_KeyFile (ls_TLS (c_MySQL config))) = Inr cert
       \<and> gs_TLSConfig ps = Some \<lparr>st_MinVersion = VersionTLS12, st_Certificates = [cert]\<rparr> \<and> gs_RSAKey ps = None
    else \<exists>key. generated = Inr key \<and> gs_RSAKey ps = Some key \<and> gs_TLSConfig ps = None"
  using assms by (auto simp: newGoMySQLProtocolServer_def mysqlServerTLSConfig_def split: sum.splits if_splits)

end
