(* ===== verification/MySQLAuthProperties.thy ===== *)
theory MySQLAuthProperties
  imports MySQLAuth SessionLifecycle
begin

text \<open>
  The authentication of MySQL clients: which password the protocol server is given to check
  against, what a successful login does and that it uses up its credential, and that a failed
  one leaves no connection behind.  The locale \<open>one_time_verifier\<close> is the contract of the Go
  interface \<open>otp.Verifier\<close> as the authentication handlers rely on it.
\<close>

subsection \<open>The contract of otp.Verifier\<close>

text \<open>\<open>live c u now\<close> is the password and the user of the credential that \<open>u\<close> can use at \<open>now\<close>.\<close>

locale one_time_verifier =
  fixes vf :: "'c verifier" and live :: "'c \<Rightarrow> string \<Rightarrow> time \<Rightarrow> (string \<times> User) option"
  assumes pending_live: "vf_PendingCredential vf u src now c = (Inr p, c') \<Longrightarrow>
      live c u now = Some (pc_AuthVerifierMaterial p, pc_User p)"
    and pending_unavailable: "vf_PendingCredential vf u src now c = (Inl err, c') \<Longrightarrow> isUnavailableCredential err"
    and consume_live: "vf_Consume vf u now c = (Inr user, c') \<Longrightarrow> \<exists>pw. live c u now = Some (pw, user)"
    and consume_gone: "vf_Consume vf u now c = (Inr user, c') \<Longrightarrow> live c' u t = None"
begin

abbreviation spent :: "'c \<Rightarrow> string \<Rightarrow> bool" where
  "spent c u \<equiv> \<forall>t. live c u t = None"

lemma spent_not_offered:
  assumes "oa_verifier h = vf" "spent (oa_credentials h) u"
  shows "fst (GetCredential u now h) = Inr None"
proof -
  obtain res c where r: "vf_PendingCredential vf u (oa_sourceAddr h) now (oa_credentials h) = (res, c)" by fastforce
  then obtain err where "res = Inl err"
    using pending_live[of u "oa_sourceAddr h" now "oa_credentials h"] assms(2) by (cases res) auto
  then show ?thesis using r assms(1) pending_unavailable[of u _ now "oa_credentials h" err c]
    by (simp add: GetCredential_def)
qed

lemma spent_not_consumed:
  assumes "oa_verifier h = vf" "spent (oa_credentials h) (if u = '''' then oa_lastUsername h else u)"
  shows "\<exists>err h'. consumeAuthSuccess u addr now h = (Inl err, h')"
proof -
  let ?u = "if u = '''' then oa_lastUsername h else u"
  obtain res c where r: "vf_Consume vf ?u now (oa_credentials h) = (res, c)" by fastforce
  then obtain err where "res = Inl err"
    using consume_live[of ?u now "oa_credentials h"] assms(2) by (cases res) fastforce+
  then show ?thesis using r assms(1) by (simp add: consumeAuthSuccess_def Let_def)
qed

lemma consumed_spent:
  assumes "oa_verifier h = vf" "consumeAuthSuccess u addr now h = (Inr user, h')"
  shows "spent (oa_credentials h') (if u = '''' then oa_lastUsername h else u)"
    "\<exists>pw. live (oa_credentials h) (if u = '''' then oa_lastUsername h else u) now = Some (pw, user)"
    "oa_verifier h' = vf" "oa_sourceAddr h' = oa_sourceAddr h"
proof -
  let ?u = "if u = '''' then oa_lastUsername h else u"
  obtain c where c: "vf_Consume vf ?u now (oa_credentials h) = (Inr user, c)" "oa_credentials h' = c"
      "oa_verifier h' = vf" "oa_sourceAddr h' = oa_sourceAddr h"
    using assms by (auto simp: consumeAuthSuccess_def Let_def split: prod.splits sum.splits)
  show "spent (oa_credentials h') ?u" using consume_gone[OF c(1)] c(2) by simp
  show "\<exists>pw. live (oa_credentials h) ?u now = Some (pw, user)" by (rule consume_live[OF c(1)])
  show "oa_verifier h' = vf" "oa_sourceAddr h' = oa_sourceAddr h" by fact+
qed

end

definition store_live :: "Store \<Rightarrow> string \<Rightarrow> time \<Rightarrow> (string \<times> User) option" where
  "store_live s u now = (case st_credentials s u of None \<Rightarrow> None
     | Some c \<Rightarrow> if now < sc_expiresAt c \<and> \<not> sc_locked c then Some (sc_password c, sc_user c) else None)"

lemma limited_credentials: "sourceLimitedLocked src now s = (b, s') \<Longrightarrow> st_credentials s' = st_credentials s"
  by (auto simp: sourceLimitedLocked_def split: prod.splits)

lemma Pending_cases:
  "fst (PendingCredential u src now s) =
     (if fst (sourceLimitedLocked src now s) then Inl ErrSourceRateLimited
      else case st_credentials s u of None \<Rightarrow> Inl ErrCredentialNotFound
      | Some c \<Rightarrow> if \<not> now < sc_expiresAt c then Inl ErrCredentialExpired
          else if sc_locked c then Inl ErrCredentialLocked
          else Inr \<lparr>pc_Username = u, pc_User = sc_user c, pc_ExpiresAt = sc_expiresAt c,
                    pc_AuthVerifierMaterial = sc_password c\<rparr>)"
  by (cases "sourceLimitedLocked src now s")
     (auto simp: PendingCredential_def limited_credentials split: option.splits)

lemma Consume_cases:
  "Consume u now s = (case st_credentials s u of None \<Rightarrow> (Inl ErrCredentialNotFound, s)
     | Some c \<Rightarrow> if \<not> now < sc_expiresAt c then (Inl ErrCredentialExpired, s\<lparr>st_credentials := (st_credentials s)(u := None)\<rparr>)
         else if sc_locked c then (Inl ErrCredentialLocked, s)
         else (Inr (sc_user c), s\<lparr>st_credentials := (st_credentials s)(u := None)\<rparr>))"
  by (auto simp: Consume_def split: option.splits)

lemma store_pending:
  "fst (vf_PendingCredential store_verifier u src now s) = (case fst (PendingCredential u src now s) of
     Inl err \<Rightarrow> Inl (OtpError err) | Inr p \<Rightarrow> Inr p)"
  by (auto simp: store_verifier_def split: prod.splits sum.splits)

lemma store_consume:
  "vf_Consume store_verifier u now s = (Inr user, s') \<longleftrightarrow> Consume u now s = (Inr user, s')"
  by (auto simp: store_verifier_def split: prod.splits sum.splits)

interpretation store: one_time_verifier store_verifier store_live
proof
  fix u src now c p c'
  assume "vf_PendingCredential store_verifier u src now c = (Inr p, c')"
  then have "fst (PendingCredential u src now c) = Inr p"
    using store_pending[of u src now c] by (auto split: sum.splits)
  then show "store_live c u now = Some (pc_AuthVerifierMaterial p, pc_User p)"
    by (auto simp: Pending_cases store_live_def split: if_splits option.splits)
next
  fix u src now c err c'
  assume "vf_PendingCredential store_verifier u src now c = (Inl err, c')"
  then obtain e where "fst (PendingCredential u src now c) = Inl e" "err = OtpError e"
    using store_pending[of u src now c] by (auto split: sum.splits)
  then show "isUnavailableCredential err"
    by (auto simp: Pending_cases isUnavailableCredential_def split: if_splits option.splits)
next
  fix u now c user c' t
  assume "vf_Consume store_verifier u now c = (Inr user, c')"
  then show "\<exists>pw. store_live c u now = Some (pw, user)" "store_live c' u t = None"
    by (auto simp: store_consume Consume_cases store_live_def split: option.splits if_splits)
qed


subsection \<open>The steps of a login\<close>

text \<open>A successful login went through every step; each step's result is named.\<close>

definition login_recorded :: "'a audit_logger option \<Rightarrow> 'a \<Rightarrow> string \<Rightarrow> string \<Rightarrow> bool" where
  "login_recorded auditor a userID sourceAddr \<longleftrightarrow> (case auditor of None \<Rightarrow> True
     | Some log \<Rightarrow> \<exists>ev a0. log ev a0 = (None, a) \<and> ev_Kind ev = EventAuth \<and> ev_UserID ev = userID
         \<and> ev_SourceAddr ev = sourceAddr \<and> ev_Decision ev = ''allow'')"

lemma auditAuth_None:
  assumes "auditAuth now userID ''allow'' cls h = (None, h')"
  shows "login_recorded (sa_auditor h) (ph_audit (sa_session h')) userID (oa_sourceAddr (sa_credentials h))
     \<and> sa_credentials h' = sa_credentials h \<and> ph_next (sa_session h') = ph_next (sa_session h)"
proof (cases "sa_auditor h")
  case None
  then show ?thesis using assms by (simp add: auditAuth_def login_recorded_def)
next
  case (Some log)
  let ?ev = "auth_event h now userID ''allow'' cls"
  obtain a where a: "log ?ev (ph_audit (sa_session h)) = (None, a)" "h' = h\<lparr>sa_session := (sa_session h)\<lparr>ph_audit := a\<rparr>\<rparr>"
    using assms Some by (auto simp: auditAuth_def split: prod.splits)
  have "ev_Kind ?ev = EventAuth \<and> ev_UserID ?ev = userID \<and> ev_SourceAddr ?ev = oa_sourceAddr (sa_credentials h)
      \<and> ev_Decision ?ev = ''allow''" by (simp add: auth_event_def)
  then show ?thesis using a Some unfolding login_recorded_def by auto
qed

lemma recordAuthSuccess_None:
  assumes "recordAuthSuccess up clk username localAddr h = (None, h')"
  shows "\<exists>upstream w s user c. sa_connector h (sa_network h) = (Inr upstream, w)
     \<and> session_Activate up upstream (sa_session h) = (None, s)
     \<and> consumeAuthSuccess username localAddr (clk 0) (sa_credentials h) = (Inr user, c)
     \<and> sa_credentials h' = c \<and> ph_next (sa_session h') = ph_next s
     \<and> ph_identity (sa_session h') = \<lparr>ai_userID = user_ID user, ai_sourceAddr = oa_sourceAddr c\<rparr>
     \<and> login_recorded (sa_auditor h) (ph_audit (sa_session h')) (user_ID user) (oa_sourceAddr c)"
proof -
  obtain upstream w where con: "sa_connector h (sa_network h) = (Inr upstream, w)"
    using assms by (auto simp: recordAuthSuccess_def split: prod.splits sum.splits)
  obtain s where act: "session_Activate up upstream (sa_session h) = (None, s)"
    using assms con by (auto simp: recordAuthSuccess_def split: prod.splits option.splits)
  obtain user c where cons: "consumeAuthSuccess username localAddr (clk 0) (sa_credentials h) = (Inr user, c)"
    using assms con act by (auto simp: recordAuthSuccess_def split: prod.splits sum.splits)
  let ?h = "h\<lparr>sa_network := w, sa_session := s, sa_credentials := c\<rparr>"
  obtain k where aud: "auditAuth (clk 1) (user_ID user) ''allow'' '''' ?h = (None, k)"
      "h' = k\<lparr>sa_session := session_SetAuditIdentity \<lparr>ai_userID = user_ID user, ai_sourceAddr = oa_sourceAddr c\<rparr> (sa_session k)\<rparr>"
    using assms con act cons by (auto simp: recordAuthSuccess_def Let_def split: prod.splits option.splits)
  show ?thesis
    using con act cons aud(2) auditAuth_None[OF aud(1)]
    by (simp add: session_SetAuditIdentity_def setAuditIdentity_def)
qed

lemma session_Activate_None:
  assumes "session_Activate up u s = (None, s')"
  shows "df_forwarding (ph_next s') \<noteq> None"
  using assms by (auto simp: session_Activate_def deferred_Activate_def Let_def
      split: prod.splits option.splits if_splits)

lemma login_outcome:
  assumes "OnAuthSuccess up clk conn h = (None, h')" and "oa_verifier (sa_credentials h) = store_verifier"
    and "name = (if cx_User conn = '''' then oa_lastUsername (sa_credentials h) else cx_User conn)"
  shows "(sa_requireTLS h \<longrightarrow> isTLSConnection (Some conn))
    \<and> (\<exists>c. st_credentials (oa_credentials (sa_credentials h)) name = Some c \<and> clk 0 < sc_expiresAt c \<and> \<not> sc_locked c
        \<and> oa_credentials (sa_credentials h') = (oa_credentials (sa_credentials h))
             \<lparr>st_credentials := (st_credentials (oa_credentials (sa_credentials h)))(name := None)\<rparr>
        \<and> ph_identity (sa_session h') = \<lparr>ai_userID = user_ID (sc_user c), ai_sourceAddr = oa_sourceAddr (sa_credentials h)\<rparr>
        \<and> login_recorded (sa_auditor h) (ph_audit (sa_session h')) (user_ID (sc_user c)) (oa_sourceAddr (sa_credentials h)))
    \<and> df_forwarding (ph_next (sa_session h')) \<noteq> None"
proof -
  have tls: "sa_requireTLS h \<longrightarrow> isTLSConnection (Some conn)"
    and rec: "recordAuthSuccess up clk (cx_User conn) (cx_LocalAddr conn) h = (None, h')"
    using assms(1) by (auto simp: OnAuthSuccess_def split: if_splits)
  obtain upstream w s user c where r:
      "session_Activate up upstream (sa_session h) = (None, s)"
      "consumeAuthSuccess (cx_User conn) (cx_LocalAddr conn) (clk 0) (sa_credentials h) = (Inr user, c)"
      "sa_credentials h' = c" "ph_next (sa_session h') = ph_next s"
      "ph_identity (sa_session h') = \<lparr>ai_userID = user_ID user, ai_sourceAddr = oa_sourceAddr c\<rparr>"
      "login_recorded (sa_auditor h) (ph_audit (sa_session h')) (user_ID user) (oa_sourceAddr c)"
    using recordAuthSuccess_None[OF rec] by blast
  obtain st where st: "vf_Consume store_verifier name (clk 0) (oa_credentials (sa_credentials h)) = (Inr user, st)"
      "oa_credentials c = st" "oa_sourceAddr c = oa_sourceAddr (sa_credentials h)"
    using r(2) assms(2,3) by (auto simp: consumeAuthSuccess_def Let_def split: prod.splits sum.splits if_splits)
  have "Consume name (clk 0) (oa_credentials (sa_credentials h)) = (Inr user, st)" using st(1) by (simp add: store_consume)
  then obtain cred where cred: "st_credentials (oa_credentials (sa_credentials h)) name = Some cred"
      "clk 0 < sc_expiresAt cred" "\<not> sc_locked cred" "user = sc_user cred"
      "st = (oa_credentials (sa_credentials h))\<lparr>st_credentials := (st_credentials (oa_credentials (sa_credentials h)))(name := None)\<rparr>"
    by (auto simp: Consume_cases split: option.splits if_splits)
  have "df_forwarding (ph_next (sa_session h')) \<noteq> None"
    using session_Activate_None[OF r(1)] r(4) by simp
  then show ?thesis using tls r(3,5,6) st(2,3) cred by simp
qed

text \<open>
  C14.  A login succeeds only for a live credential and uses it up: on a listener with TLS the
  connection is encrypted, the client's name (or the name last looked up, when the protocol
  reports none) has an unexpired and unlocked credential, which is removed from the store and is the
  only change to it; from then on the session has an upstream connection and acts, in
  the audit log too, as the user the credential was issued to.
\<close>

theorem login_effects:
  assumes "OnAuthSuccess up clk conn h = (None, h')" and "oa_verifier (sa_credentials h) = store_verifier"
    and "name = (if cx_User conn = '''' then oa_lastUsername (sa_credentials h) else cx_User conn)"
  shows "(sa_requireTLS h \<longrightarrow> isTLSConnection (Some conn))
    \<and> (\<exists>c. st_credentials (oa_credentials (sa_credentials h)) name = Some c \<and> clk 0 < sc_expiresAt c \<and> \<not> sc_locked c
        \<and> oa_credentials (sa_credentials h') = (oa_credentials (sa_credentials h))
             \<lparr>st_credentials := (st_credentials (oa_credentials (sa_credentials h)))(name := None)\<rparr>
        \<and> ph_identity (sa_session h') = \<lparr>ai_userID = user_ID (sc_user c), ai_sourceAddr = oa_sourceAddr (sa_credentials h)\<rparr>
        \<and> login_recorded (sa_auditor h) (ph_audit (sa_session h')) (user_ID (sc_user c)) (oa_sourceAddr (sa_credentials h)))
    \<and> df_forwarding (ph_next (sa_session h')) \<noteq> None"
  using assms by (rule login_outcome)

text \<open>
  C6.  A credential works once: after a login has used it, no connection that shares the credential
  store is offered its password any more, and no further login with the name succeeds.
\<close>

theorem credential_single_use:
  assumes "OnAuthSuccess up clk conn h = (None, h')" and "oa_verifier (sa_credentials h) = store_verifier"
    and "cx_User conn = name" "name \<noteq> ''''"
    and "oa_verifier (sa_credentials k) = store_verifier"
    and "oa_credentials (sa_credentials k) = oa_credentials (sa_credentials h')"
  shows "fst (session_GetCredential name now k) = Inr None
    \<and> (cx_User conn' = name \<longrightarrow> fst (OnAuthSuccess up' clk' conn' k) \<noteq> None)"
proof -
  have "recordAuthSuccess up clk name (cx_LocalAddr conn) h = (None, h')"
    using assms(1,3) by (auto simp: OnAuthSuccess_def split: if_splits)
  then obtain user c where "consumeAuthSuccess name (cx_LocalAddr conn) (clk 0) (sa_credentials h) = (Inr user, c)"
      "sa_credentials h' = c"
    using recordAuthSuccess_None by blast
  then have spent: "store.spent (oa_credentials (sa_credentials k)) name"
    using store.consumed_spent(1)[OF assms(2), of name] assms(4,6) by auto
  have "fst (session_GetCredential name now k) = Inr None"
    using store.spent_not_offered[OF assms(5) spent, of now]
    by (cases "GetCredential name now (sa_credentials k)") (simp add: session_GetCredential_def)
  moreover have "fst (OnAuthSuccess up' clk' conn' k) \<noteq> None" if un: "cx_User conn' = name"
  proof
    assume "fst (OnAuthSuccess up' clk' conn' k) = None"
    then obtain k' where "recordAuthSuccess up' clk' name (cx_LocalAddr conn') k = (None, k')"
      using un by (cases "OnAuthSuccess up' clk' conn' k") (auto simp: OnAuthSuccess_def split: if_splits)
    then obtain user c where "consumeAuthSuccess name (cx_LocalAddr conn') (clk' 0) (sa_credentials k) = (Inr user, c)"
      using recordAuthSuccess_None by blast
    then show False using store.spent_not_consumed[OF assms(5), of name "cx_LocalAddr conn'" "clk' 0"] spent assms(4) by auto
  qed
  ultimately show ?thesis by blast
qed

text \<open>
  The protocol server is told to check exactly the password of the store: the look-up of a name
  never fails, offers nothing to a source with too many failures or for a name without
  an unexpired and unlocked credential, and otherwise offers the password of that credential.
\<close>

lemma offered_live:
  assumes "oa_verifier (sa_credentials h) = store_verifier"
  shows "fst (session_GetCredential name now h) =
    (if fst (sourceLimitedLocked (oa_sourceAddr (sa_credentials h)) now (oa_credentials (sa_credentials h))) then Inr None
     else case store_live (oa_credentials (sa_credentials h)) name now of
       None \<Rightarrow> Inr None
     | Some (password, _) \<Rightarrow> Inr (Some \<lparr>ac_Passwords = [password], ac_AuthPluginName = AUTH_CACHING_SHA2_PASSWORD\<rparr>))"
proof -
  let ?c = "sa_credentials h"
  let ?p = "fst (PendingCredential name (oa_sourceAddr ?c) now (oa_credentials ?c))"
  obtain r c where r: "vf_PendingCredential store_verifier name (oa_sourceAddr ?c) now (oa_credentials ?c) = (r, c)"
    by fastforce
  have "r = (case ?p of Inl err \<Rightarrow> Inl (OtpError err) | Inr p \<Rightarrow> Inr p)"
    using store_pending[of name "oa_sourceAddr ?c" now "oa_credentials ?c"] r by simp
  then show ?thesis using r assms
    by (auto simp: session_GetCredential_def GetCredential_def Pending_cases store_live_def isUnavailableCredential_def
        split: option.splits prod.splits)
qed


subsection \<open>Failed logins\<close>

definition closed_once :: "up_event list \<Rightarrow> bool" where
  "closed_once log \<longleftrightarrow> (\<exists>evs. log = UpClose # evs \<and> UpClose \<notin> set evs)"

lemma Activate_outcome:
  assumes "deferred_Activate (tap up) u d = (err, d')" "df_forwarding d = None" "tp_log u = []"
  shows "case err of
      Some _ \<Rightarrow> df_forwarding d' = None \<and> (\<exists>t. df_released d' = t # df_released d \<and> closed_once (tp_log t))
    | None \<Rightarrow> (\<exists>f. df_forwarding d' = Some f \<and> \<not> fh_closed f \<and> UpClose \<notin> set (flog f)) \<and> df_released d' = df_released d"
proof (cases "df_closed d")
  case True
  then show ?thesis using assms
    by (auto simp: deferred_Activate_def tap_def closed_once_def split: prod.splits)
next
  case False
  define f where "f = forwarding_setQueryDecision (df_decision d)
     (newForwardingHandlerWithLimits u (df_masker d) (df_limits d))"
  have f: "\<not> fh_closed f" "flog f = []"
    using assms(3) by (simp_all add: f_def forwarding_setQueryDecision_def newForwardingHandlerWithLimits_def)
  show ?thesis
  proof (cases "df_pendingDatabase d = ''''")
    case True
    then show ?thesis using assms False f
      by (auto simp: deferred_Activate_def f_def[symmetric])
  next
    case pending: False
    obtain e f' where f': "forwarding_UseDB (tap up) (df_pendingDatabase d) f = (e, f')" by fastforce
    note log = tap_UseDB[OF f' f(1), unfolded f(2)]
    show ?thesis
    proof (cases e)
      case None
      then have "\<not> fh_closed f'" using f' f(1)
        by (auto simp: forwarding_UseDB_def Let_def split: option.splits prod.splits if_splits)
      then show ?thesis using assms False pending f' None log
        by (auto simp: deferred_Activate_def f_def[symmetric])
    next
      case (Some e')
      have "closed_once (flog (snd (forwarding_Close (tap up) f')))"
        using log by (auto simp: tap_Close closed_once_def)
      then show ?thesis using assms False pending f' Some
        by (auto simp: deferred_Activate_def f_def[symmetric])
    qed
  qed
qed

lemma close_session_outcome:
  assumes "df_forwarding (ph_next (sa_session h)) = Some f" "\<not> fh_closed f" "UpClose \<notin> set (flog f)"
  shows "df_forwarding (ph_next (sa_session (close_session (tap up) h))) = None
    \<and> (\<exists>t. df_released (ph_next (sa_session (close_session (tap up) h))) = t # df_released (ph_next (sa_session h))
        \<and> closed_once (tp_log t))
    \<and> sa_credentials (close_session (tap up) h) = sa_credentials h"
proof -
  obtain e g where g: "forwarding_Close (tap up) f = (e, g)" by fastforce
  have "closed_once (flog g)" using tap_Close[of up f] g assms(2,3) by (simp add: closed_once_def)
  then show ?thesis using g assms(1)
    by (simp add: close_session_def session_Close_def deferred_Close_def)
qed

text \<open>
  C12.  A failed login leaves nothing behind: the session has no connection, a connection that was
  opened for the login is closed, once and last, and when no connection could be opened the
  credentials are untouched, so that the user can try again.
\<close>

theorem failed_login_leaves_nothing:
  assumes "OnAuthSuccess (tap up) clk conn h = (Some err, h')"
    and "df_forwarding (ph_next (sa_session h)) = None"
    and "case sa_connector h (sa_network h) of (Inr u, _) \<Rightarrow> tp_log u = [] | _ \<Rightarrow> True"
  shows "df_forwarding (ph_next (sa_session h')) = None
    \<and> ((df_released (ph_next (sa_session h')) = df_released (ph_next (sa_session h)) \<and> sa_credentials h' = sa_credentials h)
       \<or> (\<exists>t. df_released (ph_next (sa_session h')) = t # df_released (ph_next (sa_session h)) \<and> closed_once (tp_log t)
          \<and> is_ok (fst (sa_connector h (sa_network h)))))"
proof (cases "sa_requireTLS h \<and> \<not> isTLSConnection (Some conn)")
  case True
  then show ?thesis using assms(1,2) by (simp add: OnAuthSuccess_def)
next
  case False
  then have rec: "recordAuthSuccess (tap up) clk (cx_User conn) (cx_LocalAddr conn) h = (Some err, h')"
    using assms(1) by (auto simp: OnAuthSuccess_def)
  obtain r w where con: "sa_connector h (sa_network h) = (r, w)" by fastforce
  show ?thesis
  proof (cases r)
    case (Inl e)
    then show ?thesis using rec con assms(2) by (auto simp: recordAuthSuccess_def)
  next
    case (Inr u)
    then have fresh: "tp_log u = []" using assms(3) con by simp
    obtain e d where act: "deferred_Activate (tap up) u (ph_next (sa_session h)) = (e, d)" by fastforce
    note out = Activate_outcome[OF act assms(2) fresh]
    let ?s = "(sa_session h)\<lparr>ph_next := d\<rparr>"
    have s: "session_Activate (tap up) u (sa_session h) = (e, ?s)" using act by (simp add: session_Activate_def)
    show ?thesis
    proof (cases e)
      case (Some e')
      then have "h' = h\<lparr>sa_network := w, sa_session := ?s\<rparr>" using rec con Inr s by (simp add: recordAuthSuccess_def)
      then show ?thesis using out Some con Inr by auto
    next
      case None
      obtain f where f: "df_forwarding d = Some f" "\<not> fh_closed f" "UpClose \<notin> set (flog f)"
          "df_released d = df_released (ph_next (sa_session h))"
        using out None by auto
      obtain k where k: "h' = close_session (tap up) k" "ph_next (sa_session k) = d"
      proof -
        obtain cr c where cons: "consumeAuthSuccess (cx_User conn) (cx_LocalAddr conn) (clk 0) (sa_credentials h) = (cr, c)"
          by fastforce
        let ?k = "h\<lparr>sa_network := w, sa_session := ?s, sa_credentials := c\<rparr>"
        show thesis
        proof (cases cr)
          case (Inl ce)
          then have "h' = close_session (tap up) ?k"
            using rec con Inr s None cons by (simp add: recordAuthSuccess_def)
          then show thesis using that[of ?k] by simp
        next
          case cr: (Inr user)
          obtain ae k where aud: "auditAuth (clk 1) (user_ID user) ''allow'' '''' ?k = (ae, k)" by fastforce
          have "ph_next (sa_session k) = d"
            using aud by (auto simp: auditAuth_def split: option.splits prod.splits)
          moreover have "h' = close_session (tap up) k"
            using rec con Inr s None cons cr aud by (cases ae) (simp_all add: recordAuthSuccess_def Let_def)
          ultimately show thesis using that by blast
        qed
      qed
      show ?thesis
        using close_session_outcome[of k f up] f k con Inr by simp
    qed
  qed
qed


subsection \<open>Witnesses\<close>

definition demo_store :: Store where
  "demo_store = (NewStore \<lparr>oc_TTL = 0, oc_CredentialFailureLimit = 0, oc_SourceFailureLimit = 0,
     oc_SourceFailureWindow = 0, oc_CredentialIssuanceUserLimit = 0, oc_CredentialIssuanceSessionLimit = 0,
     oc_CredentialIssuanceWindow = 0, oc_CredentialUsernameBytes = 0, oc_CredentialPasswordBytes = 0\<rparr> [])
     \<lparr>st_credentials := [''k1'' \<mapsto> \<lparr>sc_user = \<lparr>user_ID = ''ann'', user_DisplayName = ''Ann''\<rparr>, sc_password = ''pw'',
        sc_expiresAt = 100, sc_failures = 0, sc_locked = False\<rparr>]\<rparr>"

definition demo_auth :: "(string option, string option list list tapped, unit, Store, unit, unit) sessionAuthenticationHandler" where
  "demo_auth = \<lparr>sa_credentials = newOTPAuthenticationHandler store_verifier demo_store ''127.0.0.1:5000'' None (),
     sa_connector = (\<lambda>w. (Inr \<lparr>tp_log = [], tp_conn = demo_users ''ann''\<rparr>, w)), sa_session = demo_fresh,
     sa_requireTLS = True, sa_auditor = None, sa_network = ()\<rparr>"

definition demo_conn :: "string \<Rightarrow> server_conn" where
  "demo_conn name = \<lparr>cx_User = name, cx_LocalAddr = ''127.0.0.1:3307'', cx_Conn = Some TLSConn\<rparr>"

definition demo_login :: "string \<Rightarrow> go_error option
    \<times> (string option, string option list list tapped, unit, Store, unit, unit) sessionAuthenticationHandler" where
  "demo_login name = OnAuthSuccess (tap demo_session) (\<lambda>_. 5) (demo_conn name) demo_auth"

lemma demo_auth_simps: "oa_verifier (sa_credentials demo_auth) = store_verifier"
  "sa_requireTLS demo_auth" "df_forwarding (ph_next (sa_session demo_auth)) = None"
  "oa_credentials (sa_credentials demo_auth) = demo_store"
  "df_released (ph_next (sa_session demo_auth)) = []"
  by (simp_all add: demo_auth_def newOTPAuthenticationHandler_def demo_fresh_def new_session[OF refl])

lemma demo_login_ok: "\<exists>h'. demo_login ''k1'' = (None, h')"
proof -
  have "fst (demo_login ''k1'') = None" by code_simp
  then show ?thesis by (cases "demo_login ''k1''") auto
qed

lemma demo_login_fails: "\<exists>err h'. demo_login ''k2'' = (Some err, h')"
proof -
  have "fst (demo_login ''k2'') \<noteq> None" by code_simp
  then show ?thesis by (cases "demo_login ''k2''") auto
qed

theorem login_effects_witness:
  "\<exists>h'. demo_login ''k1'' = (None, h') \<and> st_credentials (oa_credentials (sa_credentials h')) ''k1'' = None
     \<and> ai_userID (ph_identity (sa_session h')) = ''ann''"
proof -
  obtain h' where h': "demo_login ''k1'' = (None, h')" using demo_login_ok by blast
  from login_effects[OF h'[unfolded demo_login_def] demo_auth_simps(1) refl]
  show ?thesis using h' unfolding demo_auth_simps(4) by (auto simp: demo_conn_def demo_store_def)
qed

theorem credential_single_use_witness:
  "\<exists>h'. demo_login ''k1'' = (None, h')
     \<and> fst (session_GetCredential ''k1'' 6 (demo_auth\<lparr>sa_credentials := sa_credentials h'\<rparr>)) = Inr None"
proof -
  obtain h' where h': "demo_login ''k1'' = (None, h')" using demo_login_ok by blast
  let ?k = "demo_auth\<lparr>sa_credentials := sa_credentials h'\<rparr>"
  have name: "cx_User (demo_conn ''k1'') = ''k1''" by (simp add: demo_conn_def)
  have "oa_verifier (sa_credentials h') = store_verifier"
    using h' recordAuthSuccess_None store.consumed_spent(3)[OF demo_auth_simps(1)]
    by (metis OnAuthSuccess_def demo_login_def option.distinct(1) prod.inject)
  then show ?thesis
    using credential_single_use[OF h'[unfolded demo_login_def] demo_auth_simps(1) name _, of ?k 6] h' by simp
qed

lemma offered_live_witness:
  "fst (session_GetCredential ''k1'' 6 demo_auth) =
     Inr (Some \<lparr>ac_Passwords = [''pw''], ac_AuthPluginName = AUTH_CACHING_SHA2_PASSWORD\<rparr>)"
proof -
  have "\<not> fst (sourceLimitedLocked (oa_sourceAddr (sa_credentials demo_auth)) 6 demo_store)" by code_simp
  then show ?thesis
    using offered_live[OF demo_auth_simps(1), of "''k1''" 6] unfolding demo_auth_simps(4)
    by (simp add: store_live_def demo_store_def)
qed

theorem failed_login_leaves_nothing_witness:
  "\<exists>err h' t. demo_login ''k2'' = (Some err, h') \<and> df_forwarding (ph_next (sa_session h')) = None
     \<and> df_released (ph_next (sa_session h')) = [t] \<and> closed_once (tp_log t)"
proof -
  obtain err h' where h': "demo_login ''k2'' = (Some err, h')" using demo_login_fails by blast
  have con: "case sa_connector demo_auth (sa_network demo_auth) of (Inr u, _) \<Rightarrow> tp_log u = [] | _ \<Rightarrow> True"
    by (simp add: demo_auth_def)
  have "df_released (ph_next (sa_session (snd (demo_login ''k2'')))) \<noteq> []" by code_simp
  then show ?thesis
    using failed_login_leaves_nothing[OF h'[unfolded demo_login_def] demo_auth_simps(3) con] h'
    unfolding demo_auth_simps(5) by auto
qed

end
