(* ===== verification/ConnectionProperties.thy ===== *)
theory ConnectionProperties
  imports ClientConnection MySQLAuthProperties
begin

text \<open>
  What holds of a whole client connection, whatever the client and the protocol server do on it: it
  ends when the client's commands end, it leaves no upstream connection open, and nothing
  that the configuration does not allow was executed over it.
\<close>

subsection \<open>Behaviours of the protocol server\<close>

text \<open>\<open>no_auth\<close>: no authentication succeeds in the run; \<open>auth_once\<close>: at most one does.\<close>

primrec no_auth :: "('v, 'x) protocol_run \<Rightarrow> bool" where
  "no_auth (ProtoDone err x) \<longleftrightarrow> True"
| "no_auth (ProtoCall c clk k) \<longleftrightarrow> (\<forall>conn. c \<noteq> CallAuthSuccess conn) \<and> (\<forall>r. no_auth (k r))"

primrec auth_once :: "('v, 'x) protocol_run \<Rightarrow> bool" where
  "auth_once (ProtoDone err x) \<longleftrightarrow> True"
| "auth_once (ProtoCall c clk k) \<longleftrightarrow>
     (if \<exists>conn. c = CallAuthSuccess conn then \<forall>r. no_auth (k r) else \<forall>r. auth_once (k r))"

text \<open>\<open>leads P\<close>: whatever the replies, the run makes a query, fails or ends in a state with \<open>P\<close>.\<close>

primrec leads :: "('x \<Rightarrow> bool) \<Rightarrow> ('v, 'x) protocol_run \<Rightarrow> bool" where
  "leads P (ProtoDone err x) \<longleftrightarrow> err \<noteq> None \<or> P x"
| "leads P (ProtoCall c clk k) \<longleftrightarrow> (\<exists>query. c = CallQuery query) \<or> (\<forall>r. leads P (k r))"

lemma leads_mono [mono]: "(\<And>x. P x \<longrightarrow> Q x) \<Longrightarrow> leads P t \<longrightarrow> leads Q t"
  by (induction t) auto

text \<open>\<open>will_query ps x\<close>: from the state \<open>x\<close> on the client sends a query, fails or leaves after finitely many
  commands, whatever it is answered.\<close>

inductive will_query :: "('v, 'x, 'k) protocolServer \<Rightarrow> 'x \<Rightarrow> bool" for ps where
  "leads (\<lambda>y. ps_Closed ps y \<or> will_query ps y) (ps_HandleCommand ps x) \<Longrightarrow> will_query ps x"

subsection \<open>The invariant of a connection\<close>

definition conn_inv :: "'v mysql_lib \<Rightarrow> ('v, 'u) upstreamSession \<Rightarrow> (up_event \<Rightarrow> bool)
    \<Rightarrow> ('v, 'u tapped, 'a, 'c, 'k, 'w) clientSession \<Rightarrow> bool" where
  "conn_inv lib up ok h \<longleftrightarrow> ph_handler (sa_session h) = deferred_handler lib (tap up)
     \<and> event_allowed (sa_session h) = ok \<and> d_inv ok (ph_next (sa_session h))
     \<and> (\<forall>w u w'. sa_connector h w = (Inr u, w') \<longrightarrow> tp_log u = [])"

lemma session_step_conn_inv:
  assumes "conn_inv lib up ok h" "session_step lib up (sa_session h) s"
  shows "conn_inv lib up ok (h\<lparr>sa_session := s\<rparr>)"
proof -
  have h: "ph_handler (sa_session h) = deferred_handler lib (tap up)" "d_inv (event_allowed (sa_session h)) (ph_next (sa_session h))"
    using assms(1) by (auto simp: conn_inv_def)
  note same = step_same_policy[OF assms(2) h(1)]
  have "event_allowed s = event_allowed (sa_session h)" by (rule same_policy_events[OF same])
  then show ?thesis using assms(1) same step_inv[OF assms(2) h]
    by (simp add: conn_inv_def same_policy_def)
qed

lemma conn_inv_cong:
  assumes "conn_inv lib up ok h" "ph_next (sa_session k) = ph_next (sa_session h)"
    "same_policy (sa_session h) (sa_session k)" "sa_connector k = sa_connector h"
  shows "conn_inv lib up ok k"
  using assms same_policy_events[OF assms(3)] by (simp add: conn_inv_def same_policy_def)

lemma auditAuth_keeps:
  assumes "auditAuth now uid dec cls h = (err, k)"
  shows "ph_next (sa_session k) = ph_next (sa_session h) \<and> same_policy (sa_session h) (sa_session k)
     \<and> sa_connector k = sa_connector h"
  using assms by (auto simp: auditAuth_def same_policy_def split: option.splits prod.splits)

lemma close_session_inv:
  "conn_inv lib up ok h \<Longrightarrow> conn_inv lib up ok (close_session (tap up) h)
     \<and> df_forwarding (ph_next (sa_session (close_session (tap up) h))) = None"
  using session_step_conn_inv[OF _ step_Close, of lib up ok h] deferred_Close_none[of "tap up" "ph_next (sa_session h)"]
  by (auto simp: close_session_def session_Close_def split: prod.splits)

lemma recordAuthSuccess_inv:
  assumes "conn_inv lib up ok h" "df_forwarding (ph_next (sa_session h)) = None"
  shows "conn_inv lib up ok (snd (recordAuthSuccess (tap up) clk name addr h))"
proof -
  obtain r w where con: "sa_connector h (sa_network h) = (r, w)" by fastforce
  show ?thesis
  proof (cases r)
    case (Inl e)
    have "conn_inv lib up ok (h\<lparr>sa_network := w\<rparr>)" by (rule conn_inv_cong[OF assms(1)]) (simp_all add: same_policy_def)
    then show ?thesis using con Inl by (simp add: recordAuthSuccess_def)
  next
    case (Inr u)
    then have fresh: "tp_log u = []" using assms(1) con by (auto simp: conn_inv_def)
    obtain e s where act: "session_Activate (tap up) u (sa_session h) = (e, s)" by fastforce
    have "session_step lib up (sa_session h) s" using step_Activate[OF assms(2) fresh, of lib up] act by simp
    then have s: "conn_inv lib up ok (h\<lparr>sa_session := s\<rparr>)" by (rule session_step_conn_inv[OF assms(1)])
    obtain cr c where cons: "consumeAuthSuccess name addr (clk 0) (sa_credentials h) = (cr, c)" by fastforce
    let ?k = "h\<lparr>sa_network := w, sa_session := s, sa_credentials := c\<rparr>"
    have k: "conn_inv lib up ok ?k" "conn_inv lib up ok (h\<lparr>sa_network := w, sa_session := s\<rparr>)"
      by (rule conn_inv_cong[OF s], simp_all add: same_policy_def)+
    show ?thesis
    proof (cases e)
      case (Some e')
      then show ?thesis using con Inr act k(2) by (simp add: recordAuthSuccess_def)
    next
      case None
      show ?thesis
      proof (cases cr)
        case (Inl ce)
        then show ?thesis using con Inr act None cons close_session_inv[OF k(1)] by (simp add: recordAuthSuccess_def)
      next
        case cr: (Inr user)
        obtain ae j where aud: "auditAuth (clk 1) (user_ID user) ''allow'' '''' ?k = (ae, j)" by fastforce
        have j: "conn_inv lib up ok j" using conn_inv_cong[OF k(1)] auditAuth_keeps[OF aud] by blast
        have "conn_inv lib up ok (j\<lparr>sa_session := session_SetAuditIdentity i (sa_session j)\<rparr>)" for i
          by (rule session_step_conn_inv[OF j step_SetAuditIdentity])
        then show ?thesis using con Inr act None cons cr aud close_session_inv[OF j]
          by (cases ae) (simp_all add: recordAuthSuccess_def Let_def)
      qed
    qed
  qed
qed

lemma handle_call_inv:
  assumes "conn_inv lib up ok h" "handle_call lib (tap up) c clk h = (r, h')"
    and "\<And>conn. c = CallAuthSuccess conn \<Longrightarrow> df_forwarding (ph_next (sa_session h)) = None"
  shows "conn_inv lib up ok h'"
proof (cases c)
  case (CallGetCredential name)
  have "conn_inv lib up ok (h\<lparr>sa_credentials := x\<rparr>)" for x
    by (rule conn_inv_cong[OF assms(1)]) (simp_all add: same_policy_def)
  then show ?thesis using assms(2) CallGetCredential
    by (auto simp: handle_call_def session_GetCredential_def split: prod.splits)
next
  case (CallAuthSuccess conn)
  then show ?thesis using assms recordAuthSuccess_inv[OF assms(1)]
    by (auto simp: handle_call_def OnAuthSuccess_def split: prod.splits if_splits) (metis snd_conv)+
next
  case (CallAuthFailure conn)
  let ?k = "h\<lparr>sa_credentials := otp_OnAuthFailure conn (clk 0) (sa_credentials h)\<rparr>"
  have k: "conn_inv lib up ok ?k" by (rule conn_inv_cong[OF assms(1)]) (simp_all add: same_policy_def)
  obtain e j where aud: "auditAuth (clk 1) '''' ''reject'' ''auth_failure'' ?k = (e, j)" by fastforce
  have "conn_inv lib up ok j" using conn_inv_cong[OF k] auditAuth_keeps[OF aud] by blast
  then show ?thesis using assms(2) CallAuthFailure aud by (simp add: handle_call_def OnAuthFailure_def)
next
  case (CallUseDB db)
  then show ?thesis using assms(2) session_step_conn_inv[OF assms(1) step_UseDB, of db]
    by (cases "session_UseDB db (sa_session h)") (simp add: handle_call_def)
next
  case (CallQuery q)
  then show ?thesis using assms(2) session_step_conn_inv[OF assms(1) step_HandleQuery, of "clk 0" q]
    by (cases "session_HandleQuery lib (clk 0) q (sa_session h)") (simp add: handle_call_def)
next
  case (CallOther oc)
  then show ?thesis using assms(2) session_step_conn_inv[OF assms(1) step_command, of oc]
    by (cases "session_command oc (sa_session h)") (simp add: handle_call_def)
qed


lemma deferred_none:
  assumes "df_forwarding d = None"
  shows "df_forwarding (snd (deferred_UseDB up db d)) = None" "df_forwarding (snd (deferred_HandleQuery lib up q d)) = None"
    "df_forwarding (deferred_setQueryDecision dec d) = None"
  using assms by (simp_all add: deferred_UseDB_def deferred_HandleQuery_def deferred_setQueryDecision_def)

lemma audit_stop_none [simp]: "df_forwarding (audit_stop up d) = None"
  by (auto simp: audit_stop_def deferred_closeTerminal_def Let_def split: option.splits prod.splits)

lemma handle_call_none:
  assumes "ph_handler (sa_session h) = deferred_handler lib up" "handle_call lib up c clk h = (r, h')"
    and "\<forall>conn. c \<noteq> CallAuthSuccess conn" "df_forwarding (ph_next (sa_session h)) = None"
  shows "df_forwarding (ph_next (sa_session h')) = None"
proof (cases c)
  case (CallUseDB db)
  then show ?thesis using assms deferred_none(1)[OF assms(4), of up db]
    by (auto simp: handle_call_def session_UseDB_def policy_UseDB_def deferred_handler_def split: prod.splits if_splits)
next
  case (CallQuery q)
  obtain res s where s: "session_HandleQuery lib (clk 0) q (sa_session h) = (res, s)" by fastforce
  then show ?thesis
    using assms(2,4) CallQuery session_HandleQuery_next[OF assms(1) s]
      deferred_none(2)[OF deferred_none(3)[OF assms(4)]]
    by (auto simp: handle_call_def)
next
  case (CallOther oc)
  then show ?thesis using assms(2,4) by (auto simp: handle_call_def session_ops)
next
  case (CallAuthFailure conn)
  let ?k = "h\<lparr>sa_credentials := otp_OnAuthFailure conn (clk 0) (sa_credentials h)\<rparr>"
  obtain e j where aud: "auditAuth (clk 1) '''' ''reject'' ''auth_failure'' ?k = (e, j)" by fastforce
  then show ?thesis using assms(2,4) CallAuthFailure auditAuth_keeps[OF aud]
    by (simp add: handle_call_def OnAuthFailure_def)
next
  case (CallGetCredential name)
  then show ?thesis using assms(2,4) by (auto simp: handle_call_def session_GetCredential_def split: prod.splits)
qed (use assms(3) in simp)

lemma run_no_auth:
  assumes "no_auth t" "conn_inv lib up ok h" "run_protocol lib (tap up) t h = (err, x, h')"
  shows "conn_inv lib up ok h'"
  using assms
proof (induction t arbitrary: h)
  case (ProtoCall c clk k)
  obtain r g where g: "handle_call lib (tap up) c clk h = (r, g)" by fastforce
  have "conn_inv lib up ok g" using handle_call_inv[OF ProtoCall.prems(2) g] ProtoCall.prems(1) by auto
  then show ?case using ProtoCall.IH[of "k r" g] ProtoCall.prems(1,3) g by auto
qed simp

lemma run_auth_once:
  assumes "auth_once t" "conn_inv lib up ok h" "df_forwarding (ph_next (sa_session h)) = None"
    and "run_protocol lib (tap up) t h = (err, x, h')"
  shows "conn_inv lib up ok h'"
  using assms
proof (induction t arbitrary: h)
  case (ProtoCall c clk k)
  obtain r g where g: "handle_call lib (tap up) c clk h = (r, g)" by fastforce
  have inv: "conn_inv lib up ok g" using handle_call_inv[OF ProtoCall.prems(2) g] ProtoCall.prems(3) by blast
  have run: "run_protocol lib (tap up) (k r) g = (err, x, h')" using ProtoCall.prems(4) g by simp
  show ?case
  proof (cases "\<exists>conn. c = CallAuthSuccess conn")
    case True
    then show ?thesis using run_no_auth[OF _ inv run] ProtoCall.prems(1) by simp
  next
    case False
    have "df_forwarding (ph_next (sa_session g)) = None"
      by (rule handle_call_none[OF _ g]) (use ProtoCall.prems False in \<open>auto simp: conn_inv_def\<close>)
    then show ?thesis using ProtoCall.IH[of "k r" g] ProtoCall.prems(1) False inv run by auto
  qed
qed simp

lemma serve_loop_inv:
  assumes "serve_loop lib (tap up) command ended x h = Some (err, h', b)"
    and "\<And>x. no_auth (command x)" "conn_inv lib up ok h"
  shows "\<exists>k. conn_inv lib up ok k \<and> h' = close_session (tap up) k"
proof -
  let ?P = "\<lambda>lib' up' command' ended' x h y. lib' = lib \<longrightarrow> up' = tap up \<longrightarrow> command' = command \<longrightarrow>
     conn_inv lib up ok h \<longrightarrow> (\<exists>k. conn_inv lib up ok k \<and> fst (snd y) = close_session (tap up) k)"
  have "?P lib (tap up) command ended x h (err, h', b)"
  proof (rule serve_loop.raw_induct[where P = ?P and xa = "(((((lib, tap up), command), ended), x), h)",
        simplified prod.case])
    fix loop lib' up' command' ended' x h y
    assume IH: "\<And>lib' up' command' ended' x h y. loop lib' up' command' ended' x h = Some y \<Longrightarrow> ?P lib' up' command' ended' x h y"
      and body: "(case run_protocol lib' up' (command' x) h of
          (None, x, h) \<Rightarrow> (case session_TerminalError (sa_session h) of
            None \<Rightarrow> if ended' x then Some (None, close_session up' h, False) else loop lib' up' command' ended' x h
          | Some err \<Rightarrow> Some (Some err, close_session up' h, True))
        | (Some err, x, h) \<Rightarrow> Some (Some err, close_session up' h, True)) = Some y"
    show "?P lib' up' command' ended' x h y"
    proof (intro impI)
      assume eq: "lib' = lib" "up' = tap up" "command' = command" and inv: "conn_inv lib up ok h"
      obtain e x1 h1 where run: "run_protocol lib (tap up) (command x) h = (e, x1, h1)" by (metis prod_cases3)
      have h1: "conn_inv lib up ok h1" by (rule run_no_auth[OF assms(2) inv run])
      show "\<exists>k. conn_inv lib up ok k \<and> fst (snd y) = close_session (tap up) k"
      proof (cases "e = None \<and> session_TerminalError (sa_session h1) = None \<and> \<not> ended' x1")
        case True
        then have "loop lib (tap up) command ended' x1 h1 = Some y" using body run eq by simp
        from IH[OF this] show ?thesis using h1 by simp
      next
        case False
        then have "fst (snd y) = close_session (tap up) h1" using body run eq by (auto split: option.splits if_splits)
        then show ?thesis using h1 by blast
      qed
    qed
  qed (use assms(1) in simp)
  then show ?thesis using assms(3) by simp
qed


subsection \<open>Properties\<close>

lemma connection_session_simps:
  "sa_session (connection_session ul ParseSQL lib up dial ch ps remoteAddr sh) =
     newDeferredSessionHandlerWithAudit ul ParseSQL lib up (SQLPolicyConfig (ch_config ch))
        (Some (Mask ul (NewPolicy ul (c_Masking (ch_config ch)))))
        \<lparr>rl_maxQueryBytes = rl_MaxQueryBytes (c_RateLimits (ch_config ch)),
         rl_maxResultRows = rl_MaxResultRows (c_RateLimits (ch_config ch)),
         rl_maxResultBytes = rl_MaxResultBytes (c_RateLimits (ch_config ch))\<rparr>
        (ch_auditor ch) (sh_audit sh) \<lparr>ai_userID = '''', ai_sourceAddr = sourceAddress remoteAddr\<rparr>"
  "sa_connector (connection_session ul ParseSQL lib up dial ch ps remoteAddr sh) =
     (case ch_upstreamConnector ch of None \<Rightarrow> dial | Some f \<Rightarrow> f)"
  by (simp_all add: connection_session_def newClientSession_def newSessionAuthenticationHandlerWithAudit_def Let_def)

text \<open>What the configuration lets through to the upstream database.\<close>

definition config_allows :: "(rune \<Rightarrow> rune) \<Rightarrow> parser \<Rightarrow> Config \<Rightarrow> up_event \<Rightarrow> bool" where
  "config_allows ul ParseSQL config ev = (case ev of
     UpUseDB db \<Rightarrow> db \<in> set (su_AllowSchemaSelection (c_Setup config))
   | UpQuery q \<Rightarrow> dec_Kind (Classify ul ParseSQL (NewClassifier (SQLPolicyConfig config)) q) \<noteq> Reject
       \<and> (0 < rl_MaxQueryBytes (c_RateLimits config) \<longrightarrow> int (length q) \<le> rl_MaxQueryBytes (c_RateLimits config))
   | UpClose \<Rightarrow> True)"

text \<open>
  C5.  However a served connection ends, no upstream connection survives it: whatever calls the
  protocol server made, as long as it reports at most one successful authentication and that
  during the handshake, the session holds no upstream connection, each one it had was closed,
  once and last, and only statements and schemas that the configuration allows were sent.
\<close>

theorem connection_cleans_up:
  assumes "ServeConn ul ParseSQL lib (tap up) dial ch remoteAddr sh = Some (err, Some session, conn_closed)"
    and "ch_protocolServer ch = Some ps" "auth_once (ps_NewConn ps)" "\<forall>x. no_auth (ps_HandleCommand ps x)"
    and "\<forall>w u w'. (case ch_upstreamConnector ch of None \<Rightarrow> dial | Some f \<Rightarrow> f) w = (Inr u, w') \<longrightarrow> tp_log u = []"
  shows "df_forwarding (ph_next (sa_session session)) = None
    \<and> list_all (\<lambda>t. closed_once (tp_log t) \<and> list_all (config_allows ul ParseSQL (ch_config ch)) (tp_log t))
        (df_released (ph_next (sa_session session)))"
proof -
  let ?s = "connection_session ul ParseSQL lib (tap up) dial ch ps remoteAddr sh"
  let ?ok = "event_allowed (sa_session ?s)"
  note new = new_session[OF connection_session_simps(1)]
  have inv: "conn_inv lib up ?ok ?s"
    unfolding conn_inv_def connection_session_simps(2)
    using assms(5) new(1) by (simp add: connection_session_simps(1) new_session_inv)
  have start: "df_forwarding (ph_next (sa_session ?s)) = None" by (rule new(2))
  obtain e x h1 where run: "run_protocol lib (tap up) (ps_NewConn ps) ?s = (e, x, h1)" by (metis prod_cases3)
  have h1: "conn_inv lib up ?ok h1" by (rule run_auth_once[OF assms(3) inv start run])
  obtain k where k: "conn_inv lib up ?ok k" "session = close_session (tap up) k"
  proof (cases e)
    case None
    then have "serve_loop lib (tap up) (ps_HandleCommand ps) (ps_Closed ps) x h1 = Some (err, session, conn_closed)"
      using assms(1,2) run by (auto simp: ServeConn_def Let_def)
    from serve_loop_inv[OF this _ h1] show thesis using assms(4) that by blast
  next
    case (Some e')
    then have "session = close_session (tap up) h1" using assms(1,2) run by (simp add: ServeConn_def Let_def)
    then show thesis using that h1 by blast
  qed
  have fin: "finished ?ok log \<Longrightarrow> closed_once log \<and> list_all ?ok log" for log
    by (cases log) (auto simp: finished_def in_use_def closed_once_def event_allowed_def)
  have ok: "?ok = config_allows ul ParseSQL (ch_config ch)"
    by (auto simp: fun_eq_iff event_allowed_def config_allows_def verdict_def isAllowedDecision_def isAllowedSchema_def
        new(7,10,11) SQLPolicyConfig_def split: up_event.splits) (metis DecisionKind.exhaust)+
  have "d_inv ?ok (ph_next (sa_session session))" "df_forwarding (ph_next (sa_session session)) = None"
    using close_session_inv[OF k(1)] k(2) by (simp_all add: conn_inv_def)
  then show ?thesis using fin unfolding ok by (auto simp: d_inv_def list_all_iff)
qed

subsection \<open>The end of a connection without an audit log\<close>

text \<open>\<open>wired\<close>: the session is the one that \<open>ServeConn\<close> has built, with this log.\<close>

definition wired :: "'v mysql_lib \<Rightarrow> ('v, 'u) upstreamSession \<Rightarrow> 'a audit_logger
    \<Rightarrow> ('v, 'u, 'a, 'c, 'k, 'w) clientSession \<Rightarrow> bool" where
  "wired lib up log h \<longleftrightarrow> ph_handler (sa_session h) = deferred_handler lib up \<and> ph_auditor (sa_session h) = Some log"

definition has_cause :: "('v, 'u, 'a, 'c, 'k, 'w) clientSession \<Rightarrow> bool" where
  "has_cause h \<longleftrightarrow> session_TerminalError (sa_session h) \<noteq> None"

lemma deferred_keeps_cause:
  assumes "df_terminal d \<noteq> None"
  shows "df_terminal (snd (deferred_UseDB up db d)) \<noteq> None" "df_terminal (snd (deferred_HandleQuery lib up q d)) \<noteq> None"
    "df_terminal (deferred_setQueryDecision dec d) \<noteq> None" "df_terminal (snd (deferred_closeTerminal up err d)) \<noteq> None"
    "df_terminal (snd (deferred_Close up d)) \<noteq> None" "df_terminal (snd (deferred_Activate up u d)) \<noteq> None"
  using assms by (auto simp: deferred_UseDB_def deferred_HandleQuery_def deferred_setQueryDecision_def settle_def
      deferred_closeTerminal_def deferred_Close_def deferred_Activate_def deactivate_def release_def Let_def
      split: option.splits prod.splits)

lemma close_session_kept:
  "wired lib up log h \<Longrightarrow> wired lib up log (close_session up h)"
  "has_cause (close_session up h) \<longleftrightarrow> has_cause h"
  "df_forwarding (ph_next (sa_session (close_session up h))) = None"
  using deferred_Close_none[of up "ph_next (sa_session h)"]
  by (auto simp: wired_def has_cause_def close_session_def session_Close_def session_TerminalError_def
      deferred_Close_def deactivate_def release_def Let_def split: prod.splits option.splits)

lemma auditAuth_kept:
  assumes "auditAuth now uid dec cls h = (err, k)"
  shows "wired lib up log h \<Longrightarrow> wired lib up log k" "has_cause k \<longleftrightarrow> has_cause h"
  using assms by (auto simp: auditAuth_def wired_def has_cause_def session_TerminalError_def split: option.splits prod.splits)

lemma recordAuthSuccess_kept:
  assumes "recordAuthSuccess up clk name addr h = (err, k)"
  shows "(wired lib up log h \<longrightarrow> wired lib up log k) \<and> (has_cause h \<longrightarrow> has_cause k)"
proof -
  obtain r w where con: "sa_connector h (sa_network h) = (r, w)" by fastforce
  show ?thesis
  proof (cases r)
    case (Inl e)
    then show ?thesis using assms con by (auto simp: recordAuthSuccess_def wired_def has_cause_def)
  next
    case (Inr u)
    obtain e s where act: "session_Activate up u (sa_session h) = (e, s)" by fastforce
    obtain cr c where cons: "consumeAuthSuccess name addr (clk 0) (sa_credentials h) = (cr, c)" by fastforce
    let ?k = "h\<lparr>sa_network := w, sa_session := s, sa_credentials := c\<rparr>"
    have k: "(wired lib up log h \<longrightarrow> wired lib up log ?k) \<and> (has_cause h \<longrightarrow> has_cause ?k)"
      "(wired lib up log h \<longrightarrow> wired lib up log (h\<lparr>sa_network := w, sa_session := s\<rparr>))
         \<and> (has_cause h \<longrightarrow> has_cause (h\<lparr>sa_network := w, sa_session := s\<rparr>))"
      using act deferred_keeps_cause(6)[of "ph_next (sa_session h)" up u]
      by (auto simp: session_Activate_def wired_def has_cause_def session_TerminalError_def split: prod.splits)
    show ?thesis
    proof (cases e)
      case (Some e')
      then show ?thesis using assms con Inr act k(2) by (simp add: recordAuthSuccess_def)
    next
      case None
      show ?thesis
      proof (cases cr)
        case (Inl ce)
        then show ?thesis using assms con Inr act None cons k(1) close_session_kept(1)[of lib up log ?k] close_session_kept(2)[of up ?k]
          by (auto simp: recordAuthSuccess_def)
      next
        case cr: (Inr user)
        obtain ae j where aud: "auditAuth (clk 1) (user_ID user) ''allow'' '''' ?k = (ae, j)" by fastforce
        have j: "(wired lib up log h \<longrightarrow> wired lib up log j) \<and> (has_cause h \<longrightarrow> has_cause j)"
          using auditAuth_kept[OF aud] k(1) by blast
        have "k = (case ae of None \<Rightarrow> j\<lparr>sa_session := session_SetAuditIdentity
              \<lparr>ai_userID = user_ID user, ai_sourceAddr = oa_sourceAddr c\<rparr> (sa_session j)\<rparr>
            | Some _ \<Rightarrow> close_session up j)"
          using assms con Inr act None cons cr aud by (cases ae) (auto simp: recordAuthSuccess_def Let_def)
        then show ?thesis using j close_session_kept(1)[of lib up log j] close_session_kept(2)[of up j]
          by (cases ae) (auto simp: wired_def has_cause_def session_TerminalError_def session_SetAuditIdentity_def setAuditIdentity_def)
      qed
    qed
  qed
qed

lemma query_kept:
  assumes "wired lib up log h" "session_HandleQuery lib now q (sa_session h) = (r, s)"
  shows "wired lib up log (h\<lparr>sa_session := s\<rparr>)" "has_cause h \<Longrightarrow> has_cause (h\<lparr>sa_session := s\<rparr>)"
    and "(\<And>ev a. fst (log ev a) \<noteq> None) \<Longrightarrow> has_cause (h\<lparr>sa_session := s\<rparr>)"
proof -
  have h: "ph_handler (sa_session h) = deferred_handler lib up" "ph_auditor (sa_session h) = Some log"
    using assms(1) by (simp_all add: wired_def)
  show "wired lib up log (h\<lparr>sa_session := s\<rparr>)"
    using HandleQuery_keeps_policy[OF assms(2)[unfolded session_HandleQuery_def]] h by (simp add: wired_def)
  show "has_cause (h\<lparr>sa_session := s\<rparr>)" if "has_cause h"
  proof -
    have c: "df_terminal (ph_next (sa_session h)) \<noteq> None" using that by (simp add: has_cause_def session_TerminalError_def)
    obtain d where d: "ph_next s = d \<or> ph_next s = audit_stop up d"
        "d = ph_next (sa_session h) \<or> d = snd (deferred_HandleQuery lib up q
           (deferred_setQueryDecision (verdict (sa_session h) q) (ph_next (sa_session h))))"
      using session_HandleQuery_next[OF h(1) assms(2)] by blast
    have "df_terminal d \<noteq> None" using d(2) c deferred_keeps_cause(2)[OF deferred_keeps_cause(3)[OF c]] by blast
    then show ?thesis using d(1) deferred_keeps_cause(4)[of d up ErrAuditFailure]
      by (auto simp: has_cause_def session_TerminalError_def audit_stop_def)
  qed
  show "has_cause (h\<lparr>sa_session := s\<rparr>)" if "\<And>ev a. fst (log ev a) \<noteq> None"
    using failed_audit_cause[OF h that assms(2)] by (simp add: has_cause_def)
qed

lemma handle_call_kept:
  assumes "wired lib up log h" "handle_call lib up c clk h = (r, k)"
  shows "wired lib up log k \<and> (has_cause h \<longrightarrow> has_cause k)
    \<and> ((\<exists>query. c = CallQuery query) \<and> (\<forall>ev a. fst (log ev a) \<noteq> None) \<longrightarrow> has_cause k)"
proof (cases c)
  case (CallGetCredential name)
  then show ?thesis using assms
    by (auto simp: handle_call_def session_GetCredential_def wired_def has_cause_def split: prod.splits)
next
  case (CallAuthSuccess conn)
  then show ?thesis using assms recordAuthSuccess_kept[of up clk "cx_User conn" "cx_LocalAddr conn" h]
    by (auto simp: handle_call_def OnAuthSuccess_def split: prod.splits if_splits)
next
  case (CallAuthFailure conn)
  let ?k = "h\<lparr>sa_credentials := otp_OnAuthFailure conn (clk 0) (sa_credentials h)\<rparr>"
  have k: "wired lib up log ?k" "has_cause ?k \<longleftrightarrow> has_cause h" using assms(1) by (simp_all add: wired_def has_cause_def)
  obtain e j where aud: "auditAuth (clk 1) '''' ''reject'' ''auth_failure'' ?k = (e, j)" by fastforce
  then show ?thesis using assms(2) CallAuthFailure auditAuth_kept[OF aud] k by (simp add: handle_call_def OnAuthFailure_def)
next
  case (CallUseDB db)
  then show ?thesis using assms deferred_keeps_cause(1)[of "ph_next (sa_session h)" up db]
    by (auto simp: handle_call_def session_UseDB_def policy_UseDB_def deferred_handler_def wired_def has_cause_def
        session_TerminalError_def split: prod.splits if_splits)
next
  case (CallQuery q)
  obtain res s where s: "session_HandleQuery lib (clk 0) q (sa_session h) = (res, s)" by fastforce
  then have "k = h\<lparr>sa_session := s\<rparr>" using assms(2) CallQuery by (simp add: handle_call_def)
  then show ?thesis using query_kept[OF assms(1) s] by blast
next
  case (CallOther oc)
  then show ?thesis using assms
    by (auto simp: handle_call_def session_command_def policy_command_def wired_def has_cause_def)
qed

lemma run_kept:
  assumes "wired lib up log h" "run_protocol lib up t h = (err, x, k)"
  shows "wired lib up log k \<and> (has_cause h \<longrightarrow> has_cause k)"
  using assms
proof (induction t arbitrary: h)
  case (ProtoCall c clk t)
  obtain r g where g: "handle_call lib up c clk h = (r, g)" by fastforce
  then show ?case using handle_call_kept[OF ProtoCall.prems(1) g] ProtoCall.IH[of "t r" g] ProtoCall.prems(2) by auto
qed simp

lemma run_leads:
  assumes "leads P t" "wired lib up log h" "\<And>ev a. fst (log ev a) \<noteq> None" "run_protocol lib up t h = (err, x, k)"
  shows "err \<noteq> None \<or> has_cause k \<or> P x"
  using assms(1,2,4)
proof (induction t arbitrary: h)
  case (ProtoCall c clk t)
  obtain r g where g: "handle_call lib up c clk h = (r, g)" by fastforce
  note kept = handle_call_kept[OF ProtoCall.prems(2) g]
  have run: "run_protocol lib up (t r) g = (err, x, k)" using ProtoCall.prems(3) g by simp
  show ?case
  proof (cases "\<exists>query. c = CallQuery query")
    case True
    then show ?thesis using kept assms(3) run_kept[OF _ run, of log] by blast
  next
    case False
    then show ?thesis using ProtoCall.IH[of "t r" g] ProtoCall.prems(1) kept run by auto
  qed
qed auto

text \<open>How a connection should end: nothing upstream is left, and a session with a cause is
  reported and its connection closed.\<close>

definition well_ended :: "go_error option \<times> ('v, 'u, 'a, 'c, 'k, 'w) clientSession \<times> bool \<Rightarrow> bool" where
  "well_ended outcome \<longleftrightarrow> (case outcome of (err, k, conn_closed) \<Rightarrow>
     df_forwarding (ph_next (sa_session k)) = None \<and> (has_cause k \<longrightarrow> err \<noteq> None \<and> conn_closed))"

lemma serve_loop_stops:
  assumes "run_protocol lib up (command x) h = (err, y, k)" "err \<noteq> None \<or> has_cause k \<or> ended y"
  shows "\<exists>outcome. serve_loop lib up command ended x h = Some outcome \<and> well_ended outcome"
proof -
  have "serve_loop lib up command ended x h = Some (case err of Some e \<Rightarrow> (Some e, close_session up k, True)
    | None \<Rightarrow> (case session_TerminalError (sa_session k) of Some e \<Rightarrow> (Some e, close_session up k, True)
        | None \<Rightarrow> (None, close_session up k, False)))"
    using assms by (subst serve_loop.simps) (auto simp: has_cause_def split: option.splits)
  then show ?thesis using close_session_kept(2,3)[of up k]
    by (auto simp: well_ended_def has_cause_def split: option.splits)
qed

lemma serve_loop_goes_on:
  assumes "run_protocol lib up (command x) h = (None, y, k)" "\<not> has_cause k" "\<not> ended y"
  shows "serve_loop lib up command ended x h = serve_loop lib up command ended y k"
  using assms by (subst serve_loop.simps) (simp add: has_cause_def)

lemma serve_loop_ends:
  assumes "will_query ps x" "wired lib up log h" "\<And>ev a. fst (log ev a) \<noteq> None"
  shows "\<exists>outcome. serve_loop lib up (ps_HandleCommand ps) (ps_Closed ps) x h = Some outcome \<and> well_ended outcome"
  using assms(1,2)
proof (induction arbitrary: h rule: will_query.induct)
  case (1 x)
  obtain err y k where run: "run_protocol lib up (ps_HandleCommand ps x) h = (err, y, k)" by (metis prod_cases3)
  have k: "wired lib up log k" using run_kept[OF 1(2) run] by blast
  from run_leads[OF 1(1) 1(2) assms(3) run]
  consider "err \<noteq> None \<or> has_cause k \<or> ps_Closed ps y"
    | "err = None" "\<not> has_cause k" "\<not> ps_Closed ps y"
      "\<exists>outcome. serve_loop lib up (ps_HandleCommand ps) (ps_Closed ps) y k = Some outcome \<and> well_ended outcome"
    using k by blast
  then show ?case
  proof cases
    case 1
    then show ?thesis by (rule serve_loop_stops[where command = "ps_HandleCommand ps", OF run])
  next
    case 2
    then show ?thesis using serve_loop_goes_on[where command = "ps_HandleCommand ps", of lib up x h y k "ps_Closed ps"] run by simp
  qed
qed

text \<open>
  C33.  An audit outage ends every connection that sends a query: when the log takes no record and the
  client, after finitely many commands, sends a query, fails or leaves, even if it would then go on
  for ever, \<open>ServeConn\<close> returns; it leaves no upstream connection, and if the session was stopped, it
  returns an error and has closed the client's connection.
\<close>

theorem audit_outage_ends_serving:
  assumes "ch_protocolServer ch = Some ps" "ch_auditor ch = Some log" "\<And>ev a. fst (log ev a) \<noteq> None"
    and "leads (will_query ps) (ps_NewConn ps)"
  shows "\<exists>err session conn_closed.
     ServeConn ul ParseSQL lib up dial ch remoteAddr sh = Some (err, Some session, conn_closed)
     \<and> df_forwarding (ph_next (sa_session session)) = None
     \<and> (session_TerminalError (sa_session session) \<noteq> None \<longrightarrow> err \<noteq> None \<and> conn_closed)"
proof -
  let ?s = "connection_session ul ParseSQL lib up dial ch ps remoteAddr sh"
  have s: "wired lib up log ?s"
    by (simp add: wired_def connection_session_simps(1) newDeferredSessionHandlerWithAudit_def newPolicyHandlerWithAudit_def assms(2))
  obtain err x k where run: "run_protocol lib up (ps_NewConn ps) ?s = (err, x, k)" by (metis prod_cases3)
  have k: "wired lib up log k" using run_kept[OF s run] by blast
  show ?thesis
  proof (cases err)
    case (Some e)
    then show ?thesis using assms(1) run close_session_kept(3)[of up k] by (auto simp: ServeConn_def Let_def)
  next
    case None
    have "\<exists>outcome. serve_loop lib up (ps_HandleCommand ps) (ps_Closed ps) x k = Some outcome \<and> well_ended outcome"
    proof (cases "has_cause k")
      case True
      obtain e y j where next_run: "run_protocol lib up (ps_HandleCommand ps x) k = (e, y, j)" by (metis prod_cases3)
      have "e \<noteq> None \<or> has_cause j \<or> ps_Closed ps y" using run_kept[OF k next_run] True by blast
      then show ?thesis by (rule serve_loop_stops[where command = "ps_HandleCommand ps", OF next_run])
    next
      case False
      have "will_query ps x" using run_leads[OF assms(4) s assms(3) run] None False by simp
      then show ?thesis by (rule serve_loop_ends[OF _ k assms(3)])
    qed
    then obtain e j b where loop: "serve_loop lib up (ps_HandleCommand ps) (ps_Closed ps) x k = Some (e, j, b)" "well_ended (e, j, b)"
      by (metis prod_cases3)
    have "ServeConn ul ParseSQL lib up dial ch remoteAddr sh = Some (e, Some j, b)"
      using assms(1) run None loop(1) by (simp add: ServeConn_def Let_def)
    then show ?thesis using loop(2) by (auto simp: well_ended_def has_cause_def)
  qed
qed


subsection \<open>Witnesses\<close>

text \<open>A client that logs in as \<open>k1\<close>, sends as many statements as the state says and leaves.\<close>

definition demo_protocol :: "nat \<Rightarrow> (string option, nat, unit) protocolServer" where
  "demo_protocol n = \<lparr>ps_InvalidateCache = (\<lambda>_ _ k. k),
     ps_NewConn = ProtoCall (CallAuthSuccess (demo_conn ''k1'')) (\<lambda>_. 5) (\<lambda>_. ProtoDone None n),
     ps_HandleCommand = (\<lambda>x. ProtoCall (CallQuery ''select email'') (\<lambda>_. 6) (\<lambda>_. ProtoDone None (x - 1))),
     ps_Closed = (\<lambda>x. x = 0)\<rparr>"

definition demo_ch :: "(string option, string option list list tapped, unit, Store, unit, unit, nat) clientConnectionHandler" where
  "demo_ch = \<lparr>ch_config = Default, ch_verifier = store_verifier, ch_auditor = None,
     ch_protocolServer = Some (demo_protocol 1),
     ch_upstreamConnector = Some (\<lambda>w. (Inr \<lparr>tp_log = [], tp_conn = demo_users ''ann''\<rparr>, w))\<rparr>"

definition demo_served :: "(go_error option
    \<times> (string option, string option list list tapped, unit, Store, unit, unit) clientSession option \<times> bool) option" where
  "demo_served = ServeConn id demo_parser demo_lib (tap demo_session)
     (\<lambda>w. (Inr \<lparr>tp_log = [], tp_conn = demo_users ''ann''\<rparr>, w)) demo_ch ''127.0.0.1:5000''
     \<lparr>sh_credentials = demo_store, sh_audit = (), sh_cache = (), sh_network = ()\<rparr>"

fun served_log :: "(go_error option \<times> ('v, 'u tapped, 'a, 'c, 'k, 'w) clientSession option \<times> bool) option
    \<Rightarrow> up_event list list" where
  "served_log (Some (_, Some session, _)) = map tp_log (df_released (ph_next (sa_session session)))"
| "served_log _ = []"

lemma served_log_Some: "served_log outcome \<noteq> [] \<Longrightarrow> \<exists>err session b. outcome = Some (err, Some session, b)"
  by (cases outcome rule: served_log.cases) auto

lemma demo_served_log: "served_log demo_served = [[UpClose, UpQuery ''select email'']]"
  by code_simp

theorem connection_cleans_up_witness:
  "served_log demo_served = [[UpClose, UpQuery ''select email'']]
   \<and> list_all (list_all (config_allows id demo_parser Default)) (served_log demo_served)"
proof -
  obtain err session b where s: "demo_served = Some (err, Some session, b)"
    using served_log_Some[of demo_served] demo_served_log by auto
  have ch: "ch_protocolServer demo_ch = Some (demo_protocol 1)" "ch_config demo_ch = Default" by (simp_all add: demo_ch_def)
  have tree: "auth_once (ps_NewConn (demo_protocol 1))" "\<forall>x. no_auth (ps_HandleCommand (demo_protocol 1) x)"
    by (simp_all add: demo_protocol_def)
  have "list_all (\<lambda>t. closed_once (tp_log t) \<and> list_all (config_allows id demo_parser Default) (tp_log t))
      (df_released (ph_next (sa_session session)))"
    using connection_cleans_up[OF s[unfolded demo_served_def] ch(1) tree] unfolding ch(2) by (simp add: demo_ch_def)
  then have "list_all (list_all (config_allows id demo_parser Default)) (served_log demo_served)"
    unfolding s by (simp add: list_all_iff)
  then show ?thesis using demo_served_log by simp
qed

text \<open>A client that logs in and sends the same statement for ever; the log fails.\<close>

definition endless_protocol :: "(string option, unit, unit) protocolServer" where
  "endless_protocol = \<lparr>ps_InvalidateCache = (\<lambda>_ _ k. k),
     ps_NewConn = ProtoCall (CallAuthSuccess (demo_conn ''k1'')) (\<lambda>_. 5) (\<lambda>_. ProtoDone None ()),
     ps_HandleCommand = (\<lambda>x. ProtoCall (CallQuery ''select email'') (\<lambda>_. 6) (\<lambda>_. ProtoDone None ())),
     ps_Closed = (\<lambda>x. False)\<rparr>"

definition outage_ch :: "(string option, string option list list tapped, unit, Store, unit, unit, unit) clientConnectionHandler" where
  "outage_ch = \<lparr>ch_config = Default, ch_verifier = store_verifier, ch_auditor = Some (\<lambda>ev a. (Some ErrInvalid, a)),
     ch_protocolServer = Some endless_protocol,
     ch_upstreamConnector = Some (\<lambda>w. (Inr \<lparr>tp_log = [], tp_conn = demo_users ''ann''\<rparr>, w))\<rparr>"

theorem audit_outage_ends_serving_witness:
  "\<exists>err session conn_closed. ServeConn id demo_parser demo_lib (tap demo_session)
     (\<lambda>w. (Inr \<lparr>tp_log = [], tp_conn = demo_users ''ann''\<rparr>, w)) outage_ch ''127.0.0.1:5000''
     \<lparr>sh_credentials = demo_store, sh_audit = (), sh_cache = (), sh_network = ()\<rparr> = Some (err, Some session, conn_closed)
     \<and> df_forwarding (ph_next (sa_session session)) = None"
proof -
  have "leads (will_query endless_protocol) (ps_NewConn endless_protocol)"
    by (auto simp: endless_protocol_def intro!: will_query.intros)
  then show ?thesis
    using audit_outage_ends_serving[of outage_ch endless_protocol "\<lambda>ev a. (Some ErrInvalid, a)"]
    by (simp add: outage_ch_def) blast
qed

end
