(* ===== verification/Masqman.thy ===== *)
theory Masqman
  imports ProxyServer AuthHandlerProperties ConnectionProperties
begin

text \<open>
  \<open>cmd/masqman/main.go\<close> and \<open>internal/app/app.go\<close>: the command line, the start of the program and the
  wiring of its parts.  The listeners, the random sources and the certificate loader are
  parameters, and so is how long the two servers run and in which order they end.
\<close>

subsection \<open>internal/app\<close>

definition app_Name :: string where "app_Name = ''masqman''"

definition Banner :: "string \<Rightarrow> string" where
  "Banner Version = app_Name @ '' '' @ Version"

subsection \<open>The command line\<close>

record Flags =
  fl_showVersion :: bool
  fl_configPath :: string

text \<open>\<open>strconv.ParseBool\<close>.\<close>

definition ParseBool :: "string \<Rightarrow> bool option" where
  "ParseBool s = (if s \<in> {''1'', ''t'', ''T'', ''TRUE'', ''true'', ''True''} then Some True
     else if s \<in> {''0'', ''f'', ''F'', ''FALSE'', ''false'', ''False''} then Some False else None)"

text \<open>Package \<open>flag\<close> on the two flags of the program: an argument that is no flag, or \<open>--\<close>,
  ends the flags; \<open>None\<close> is a parse error (a request for help is one).\<close>

definition flag_name :: "string \<Rightarrow> string option" where
  "flag_name s = (let name = (if take 2 s = ''--'' then drop 2 s else drop 1 s) in
     if name = '''' \<or> hd name = CHR ''-'' \<or> hd name = CHR ''='' then None else Some name)"

definition split_value :: "string \<Rightarrow> string \<times> string option" where
  "split_value name = (case dropWhile (\<lambda>c. c \<noteq> CHR ''='') (tl name) of
     [] \<Rightarrow> (name, None)
   | _ # v \<Rightarrow> (hd name # takeWhile (\<lambda>c. c \<noteq> CHR ''='') (tl name), Some v))"

function parse_flags :: "string list \<Rightarrow> Flags \<Rightarrow> Flags option" where
  "parse_flags [] f = Some f"
| "parse_flags (s # args) f =
     (if length s < 2 \<or> hd s \<noteq> CHR ''-'' \<or> s = ''--'' then Some f
      else case flag_name s of
        None \<Rightarrow> None
      | Some name \<Rightarrow> (case split_value name of (name, val) \<Rightarrow>
          if name = ''version'' then
            (case val of
               None \<Rightarrow> parse_flags args (f\<lparr>fl_showVersion := True\<rparr>)
             | Some v \<Rightarrow> (case ParseBool v of
                 None \<Rightarrow> None | Some b \<Rightarrow> parse_flags args (f\<lparr>fl_showVersion := b\<rparr>)))
          else if name = ''config'' then
            (case val of
               Some v \<Rightarrow> parse_flags args (f\<lparr>fl_configPath := v\<rparr>)
             | None \<Rightarrow> (case args of
                 [] \<Rightarrow> None
               | v # args \<Rightarrow> parse_flags args (f\<lparr>fl_configPath := v\<rparr>)))
          else None))"
  by pat_completeness auto
termination by (relation "measure (\<lambda>(args, f). length args)") auto

text \<open>The exit code and what is written to the standard output; messages to the standard error are
  not modelled.  \<open>load\<close> is \<open>config.Load\<close>, \<open>start\<close> what the starter returns.\<close>

definition runWithStarter :: "string \<Rightarrow> (string \<Rightarrow> config_error + Config) \<Rightarrow> string list
    \<Rightarrow> (Config \<Rightarrow> 'e option) \<Rightarrow> nat \<times> string" where
  "runWithStarter Version load args start =
     (case parse_flags args \<lparr>fl_showVersion = False, fl_configPath = ''''\<rparr> of
        None \<Rightarrow> (2, '''')
      | Some flags \<Rightarrow>
          if fl_showVersion flags then (0, Banner Version @ [CHR 0x0A])
          else if fl_configPath flags = '''' then (2, '''')
          else case load (fl_configPath flags) of
            Inl _ \<Rightarrow> (2, '''')
          | Inr cfg \<Rightarrow> (case start cfg of Some _ \<Rightarrow> (1, '''') | None \<Rightarrow> (0, '''')))"

subsection \<open>Wiring\<close>

definition mysqlCommandEndpoint :: "string \<Rightarrow> string \<times> string" where
  "mysqlCommandEndpoint listenAddr = (case SplitHostPort listenAddr of
     None \<Rightarrow> (listenAddr, '''')
   | Some (host, port) \<Rightarrow>
       (if host = '''' \<or> host = ''0.0.0.0'' \<or> host = ''::'' then '''' else host, port))"

text \<open>The fields that the program leaves at zero get their defaults in the constructors; \<open>rd\<close> is the
  system's random source, of which each part reads its own stretch.\<close>

definition newAuthHTTPHandler :: "Config \<Rightarrow> Store \<Rightarrow> reader \<Rightarrow> reader \<Rightarrow> handler_error + (Handler \<times> Web)" where
  "newAuthHTTPHandler cfg issuer rd rd' =
     (case mysqlCommandEndpoint (ls_ListenAddr (c_MySQL cfg)) of (mysqlHost, mysqlPort) \<Rightarrow>
      let sessions = NewSessionStore \<lparr>sn_IdleLifetime = ss_BrowserIdleTimeout (c_Sessions cfg),
            sn_AbsoluteLifetime = ss_BrowserAbsoluteLimit (c_Sessions cfg), sn_TokenBytes = 0\<rparr> rd in
      NewHandler \<lparr>hc_AuthProvider = Some (Authenticate (NewLocalProvider (c_LocalUsers cfg))),
        hc_Sessions = Some sessions, hc_Issuer = Some issuer,
        hc_CookieSecure = (c_Environment cfg = EnvironmentProduction \<or> tls_Enabled (ls_TLS (c_HTTP cfg))),
        hc_MySQLHost = mysqlHost, hc_MySQLPort = mysqlPort, hc_TokenBytes = 0, hc_Random = rd'\<rparr>)"

datatype serve_call = ServeTLS string string | ServePlain

text \<open>How serving ends: the server returns first, or the context is done first, and then
  \<open>Shutdown\<close> returns and, if that went well, the server.\<close>

datatype http_end = ServerEnded "go_error option" | ContextDone "go_error option" "go_error option"

definition unless_closed :: "go_error option \<Rightarrow> go_error option" where
  "unless_closed err = (case err of None \<Rightarrow> None
   | Some e \<Rightarrow> if errors_Is ErrServerClosed e then None else Some e)"

definition serveHTTPContext :: "(serve_call \<Rightarrow> http_end) \<Rightarrow> TLS \<Rightarrow> go_error option" where
  "serveHTTPContext serve_http tlsConfig =
     (case serve_http (if tls_Enabled tlsConfig then ServeTLS (tls_CertFile tlsConfig) (tls_KeyFile tlsConfig)
                else ServePlain) of
        ServerEnded err \<Rightarrow> unless_closed err
      | ContextDone shutdown err \<Rightarrow> (case shutdown of Some e \<Rightarrow> Some e | None \<Rightarrow> unless_closed err))"

text \<open>What the environment does while the program serves: which server ends first, how the HTTP server
  ends, what \<open>ServeContext\<close> returns, whether the context is done when \<open>serveMasqman\<close> and when
  its caller ask, which listeners the servers have closed and in which order (\<open>Serve\<close> and
  \<open>Shutdown\<close> of \<open>net/http\<close> close theirs, \<open>ServeContext\<close> does on cancellation), and the audit log as
  they leave it.\<close>

record 'l serve_run =
  rn_httpFirst :: bool
  rn_http :: "serve_call \<Rightarrow> http_end"
  rn_mysql :: "go_error option"
  rn_done :: bool
  rn_doneAfter :: bool
  rn_closed :: "'l list"
  rn_logger :: FileLogger
  rn_os :: OS

definition serveMasqman :: "Config \<Rightarrow> 'l serve_run \<Rightarrow> go_error option" where
  "serveMasqman cfg rn =
     (let httpErr = serveHTTPContext (rn_http rn) (ls_TLS (c_HTTP cfg));
          (firstErr, secondErr) = (if rn_httpFirst rn then (httpErr, rn_mysql rn) else (rn_mysql rn, httpErr))
      in if rn_done rn then None else case firstErr of Some e \<Rightarrow> Some e | None \<Rightarrow> secondErr)"

subsection \<open>The start\<close>

datatype startup_error = AuditOpenFailed os_error | ServerFailed go_error | HandlerFailed handler_error
  | ListenFailed go_error | ServeFailed go_error | AuditCloseFailed os_error

datatype 'l startup_event = OpenedAudit | Opened 'l | Closed 'l | ClosedAudit

text \<open>A call of \<open>startMasqman\<close>: the deferred functions, the last one first, what was opened and
  closed, the audit log and the file system.  Every return runs the deferred functions; the one of
  the audit log may replace a nil error.\<close>

datatype 'l deferred = CloseAudit | CloseListener 'l

record 'l frame =
  fr_defers :: "'l deferred list"
  fr_events :: "'l startup_event list"
  fr_logger :: "FileLogger option"
  fr_os :: OS

definition push_defer :: "'l deferred \<Rightarrow> 'l frame \<Rightarrow> 'l frame" where
  "push_defer d fr = fr\<lparr>fr_defers := d # fr_defers fr\<rparr>"

definition add_events :: "'l startup_event list \<Rightarrow> 'l frame \<Rightarrow> 'l frame" where
  "add_events evs fr = fr\<lparr>fr_events := fr_events fr @ evs\<rparr>"

fun run_defer :: "'l deferred \<Rightarrow> startup_error option \<times> 'l frame \<Rightarrow> startup_error option \<times> 'l frame" where
  "run_defer CloseAudit (returnErr, fr) = (case fr_logger fr of None \<Rightarrow> (returnErr, fr)
     | Some logger \<Rightarrow> (case Close logger (fr_os fr) of (err, logger, os) \<Rightarrow>
         (case (returnErr, err) of (None, Some e) \<Rightarrow> Some (AuditCloseFailed e) | _ \<Rightarrow> returnErr,
          add_events [ClosedAudit] (fr\<lparr>fr_logger := Some logger, fr_os := os\<rparr>))))"
| "run_defer (CloseListener l) (returnErr, fr) = (returnErr, add_events [Closed l] fr)"

record 'l startup =
  su_err :: "startup_error option"
  su_logger :: "FileLogger option"
  su_events :: "'l startup_event list"
  su_os :: OS

definition leave :: "startup_error option \<Rightarrow> 'l frame \<Rightarrow> 'l startup" where
  "leave returnErr fr = (case fold run_defer (fr_defers fr) (returnErr, fr) of
     (err, fr) \<Rightarrow> \<lparr>su_err = err, su_logger = fr_logger fr, su_events = fr_events fr, su_os = fr_os fr\<rparr>)"

definition after_serving :: "'l serve_run \<Rightarrow> 'l frame \<Rightarrow> 'l frame" where
  "after_serving rn fr = add_events (map Closed (rn_closed rn)) (fr\<lparr>fr_logger := Some (rn_logger rn), fr_os := rn_os rn\<rparr>)"

text \<open>\<open>listen i\<close> is the \<open>i\<close>-th listener asked for; \<open>serve\<close> is the run of the servers.
  \<open>Marshal\<close> is that of the audit log.\<close>

definition startMasqman :: "(string \<Rightarrow> string \<Rightarrow> go_error + 'cert) \<Rightarrow> (go_error + 'rsa)
    \<Rightarrow> (string \<Rightarrow> string \<Rightarrow> go_error + 'l) \<Rightarrow> (('rsa, 'cert) goMySQLServer \<Rightarrow> ('v, 'x, 'k) protocolServer)
    \<Rightarrow> (Event \<Rightarrow> string option) \<Rightarrow> (nat \<Rightarrow> string \<Rightarrow> go_error + 'l) \<Rightarrow> reader \<Rightarrow> reader \<Rightarrow> reader
    \<Rightarrow> (Handler \<times> Web \<Rightarrow> ('v, 'u, FileLogger \<times> OS, Store, 'k, 'w, 'x, 'l) Server \<Rightarrow> 'l \<Rightarrow> 'l
         \<Rightarrow> FileLogger \<Rightarrow> OS \<Rightarrow> 'l serve_run)
    \<Rightarrow> Config \<Rightarrow> OS \<Rightarrow> 'l startup" where
  "startMasqman LoadX509KeyPair generated net_Listen protocol Marshal listen rd1 rd2 rd3 serve cfg os =
     (let fr = \<lparr>fr_defers = [], fr_events = [], fr_logger = None, fr_os = os\<rparr> in
      case NewFileLoggerWithConfig \<lparr>fc_Path = as_FilePath (c_Audit cfg), fc_MaxBytes = as_MaxBytes (c_Audit cfg),
             fc_MaxBackups = as_MaxBackups (c_Audit cfg)\<rparr> os of
        (Inl err, os) \<Rightarrow> leave (Some (AuditOpenFailed err)) (fr\<lparr>fr_os := os\<rparr>)
      | (Inr auditLogger, os) \<Rightarrow>
      let fr = push_defer CloseAudit (add_events [OpenedAudit] (fr\<lparr>fr_logger := Some auditLogger, fr_os := os\<rparr>));
          otpStore = NewStore (OTPStoreConfig cfg) rd1 in
      case NewServer LoadX509KeyPair generated net_Listen protocol cfg store_verifier [file_audit Marshal] of
        Inl err \<Rightarrow> leave (Some (ServerFailed err)) fr
      | Inr mysqlServer \<Rightarrow>
      case newAuthHTTPHandler cfg otpStore rd2 rd3 of
        Inl err \<Rightarrow> leave (Some (HandlerFailed err)) fr
      | Inr httpHandler \<Rightarrow>
      case listen 0 (ls_ListenAddr (c_HTTP cfg)) of
        Inl err \<Rightarrow> leave (Some (ListenFailed err)) fr
      | Inr httpListener \<Rightarrow>
      let fr = push_defer (CloseListener httpListener) (add_events [Opened httpListener] fr) in
      case listen 1 (ls_ListenAddr (c_MySQL cfg)) of
        Inl err \<Rightarrow> leave (Some (ListenFailed err)) fr
      | Inr mysqlListener \<Rightarrow>
      let fr = push_defer (CloseListener mysqlListener) (add_events [Opened mysqlListener] fr);
          rn = serve httpHandler mysqlServer httpListener mysqlListener auditLogger os;
          fr = after_serving rn fr;
          err = serveMasqman cfg rn in
      if rn_doneAfter rn then leave None fr
      else leave (map_option ServeFailed err) fr)"

end
