(* ===== verification/MasqmanProperties.thy ===== *)
theory MasqmanProperties
  imports Masqman
begin

text \<open>
  The command line and the start of the program (\<open>cmd/masqman/main.go\<close>): the exit codes, that
  whatever is opened is closed again in the reverse order, and what the wiring gives the
  browser side.
\<close>

subsection \<open>The exit code\<close>

text \<open>Nothing is started without a configuration that was loaded, and the exit code is 1 exactly when
  the start reported an error.\<close>

lemma exit_code_of_start:
  "fst (runWithStarter Version load args start) = 1 \<longleftrightarrow> (\<exists>flags cfg e.
     parse_flags args \<lparr>fl_showVersion = False, fl_configPath = ''''\<rparr> = Some flags \<and> \<not> fl_showVersion flags
     \<and> fl_configPath flags \<noteq> '''' \<and> load (fl_configPath flags) = Inr cfg \<and> start cfg = Some e)"
  by (auto simp: runWithStarter_def split: option.splits sum.splits)

subsection \<open>What the start leaves behind\<close>

fun closing :: "'l startup_event \<Rightarrow> 'l startup_event" where
  "closing OpenedAudit = ClosedAudit"
| "closing (Opened l) = Closed l"
| "closing e = e"

fun closer :: "'l startup_event \<Rightarrow> 'l deferred" where
  "closer (Opened l) = CloseListener l"
| "closer _ = CloseAudit"

lemma Close_file_closed: "Close_file f os = (err, f', os') \<Longrightarrow> h_closed f'"
  by (auto simp: Close_file_def split: if_splits prod.splits option.splits)

lemma Close_closed: "Close l os = (err, l', os') \<Longrightarrow> h_closed (lg_file l')"
  by (auto simp: Close_def split: prod.splits option.splits dest: Close_file_closed)

text \<open>\<open>owes fr opened served\<close>: the call has opened \<open>opened\<close>, the servers have closed \<open>served\<close>, and the closers
  of what was opened are deferred.\<close>

definition owes :: "'l frame \<Rightarrow> 'l startup_event list \<Rightarrow> 'l list \<Rightarrow> bool" where
  "owes fr opened served \<longleftrightarrow> fr_events fr = opened @ map Closed served
     \<and> fr_defers fr = map closer (rev opened) \<and> (fr_logger fr \<noteq> None \<longleftrightarrow> OpenedAudit \<in> set opened)
     \<and> (\<forall>e \<in> set opened. e = OpenedAudit \<or> (\<exists>l. e = Opened l))"

lemma run_defers:
  assumes "fold run_defer (map closer es) (err, fr) = (err', fr')"
    and "\<forall>e \<in> set es. e = OpenedAudit \<or> (\<exists>l. e = Opened l)" "OpenedAudit \<in> set es \<longrightarrow> fr_logger fr \<noteq> None"
  shows "fr_events fr' = fr_events fr @ map closing es
     \<and> (\<forall>l. fr_logger fr' = Some l \<longrightarrow> OpenedAudit \<in> set es \<or> (\<exists>k. fr_logger fr = Some k \<and> h_closed (lg_file k)) \<longrightarrow>
          h_closed (lg_file l))
     \<and> (err' = err \<or> err = None \<and> (\<exists>e. err' = Some (AuditCloseFailed e)))"
  using assms
proof (induction es arbitrary: err fr)
  case (Cons e es)
  show ?case
  proof (cases "e = OpenedAudit")
    case True
    then obtain k where k: "fr_logger fr = Some k" using Cons.prems(3) by auto
    obtain ce l os where c: "Close k (fr_os fr) = (ce, l, os)" by (metis prod_cases3)
    let ?err = "case (err, ce) of (None, Some e) \<Rightarrow> Some (AuditCloseFailed e) | _ \<Rightarrow> err"
    let ?fr = "add_events [ClosedAudit] (fr\<lparr>fr_logger := Some l, fr_os := os\<rparr>)"
    have "fold run_defer (map closer es) (?err, ?fr) = (err', fr')"
      using Cons.prems(1) True k c by simp
    from Cons.IH[OF this] Cons.prems(2) Close_closed[OF c] True
    show ?thesis by (auto simp: add_events_def split: option.splits)
  next
    case False
    then obtain l where l: "e = Opened l" using Cons.prems(2) by auto
    then have "fold run_defer (map closer es) (err, add_events [Closed l] fr) = (err', fr')"
      using Cons.prems(1) by simp
    from Cons.IH[OF this] Cons.prems(2,3) l show ?thesis by (auto simp: add_events_def)
  qed
qed simp

definition released :: "'l startup_event list \<Rightarrow> 'l list \<Rightarrow> 'l startup \<Rightarrow> bool" where
  "released opened served r \<longleftrightarrow> su_events r = opened @ map Closed served @ map closing (rev opened)
     \<and> (\<forall>l. su_logger r = Some l \<longrightarrow> h_closed (lg_file l))"

lemma no_logger_stays:
  "fold run_defer ds (err, fr) = (err', fr') \<Longrightarrow> fr_logger fr = None \<Longrightarrow> fr_logger fr' = None"
proof (induction ds arbitrary: err fr)
  case (Cons d ds)
  obtain e1 g1 where d: "run_defer d (err, fr) = (e1, g1)" by fastforce
  have "fr_logger g1 = None" using d Cons.prems(2) by (cases d) (auto simp: add_events_def)
  then show ?case using Cons.IH[of e1 g1] Cons.prems(1) d by simp
qed simp

lemma leave_released:
  assumes "owes fr opened served"
  shows "released opened served (leave err fr)
     \<and> (su_err (leave err fr) = err \<or> err = None \<and> (\<exists>e. su_err (leave err fr) = Some (AuditCloseFailed e)))"
proof -
  obtain err' fr' where f: "fold run_defer (map closer (rev opened)) (err, fr) = (err', fr')" by fastforce
  have "OpenedAudit \<in> set opened" if "fr_logger fr' \<noteq> None"
    using that no_logger_stays[OF f] assms by (auto simp: owes_def)
  then show ?thesis using run_defers[OF f] assms f by (auto simp: leave_def owes_def released_def)
qed

lemma owes_step:
  "owes fr opened [] \<Longrightarrow> owes (push_defer (CloseListener l) (add_events [Opened l] fr)) (opened @ [Opened l]) []"
  "owes fr opened [] \<Longrightarrow> OpenedAudit \<in> set opened \<Longrightarrow>
     owes (after_serving rn fr) opened (rn_closed rn)"
  "owes (push_defer CloseAudit (add_events [OpenedAudit]
     \<lparr>fr_defers = [], fr_events = [], fr_logger = Some k, fr_os = os\<rparr>)) [OpenedAudit] []"
  "owes \<lparr>fr_defers = [], fr_events = [], fr_logger = None, fr_os = os\<rparr> [] []"
  by (auto simp: owes_def push_defer_def add_events_def after_serving_def)

lemma newAuthHTTPHandler_ok:
  "newAuthHTTPHandler cfg issuer rd rd' = Inr (h, w) \<Longrightarrow>
     h_authProvider h = Authenticate (NewLocalProvider (c_LocalUsers cfg)) \<and> w_issuer w = issuer
     \<and> ses_sessions (w_sessions w) = Map.empty
     \<and> h_cookieSecure h = (c_Environment cfg = EnvironmentProduction \<or> tls_Enabled (ls_TLS (c_HTTP cfg)))"
  "\<exists>hw. newAuthHTTPHandler cfg issuer rd rd' = Inr hw"
  by (auto simp: newAuthHTTPHandler_def NewHandler_def Let_def NewSessionStore_def split: prod.splits)

definition early :: "startup_error \<Rightarrow> bool" where
  "early e \<longleftrightarrow> (\<forall>g. e \<noteq> HandlerFailed g) \<and> (\<forall>g. e \<noteq> AuditCloseFailed g)"

lemma startup_stages:
  assumes "startMasqman LoadX509KeyPair generated net_Listen protocol Marshal listen rd1 rd2 rd3 serve cfg os = r"
  shows "\<exists>opened served. released opened served r
    \<and> (\<exists>l0 l1. prefix opened [OpenedAudit, Opened l0, Opened l1]
        \<and> (2 \<le> length opened \<longrightarrow> listen 0 (ls_ListenAddr (c_HTTP cfg)) = Inr l0)
        \<and> (3 \<le> length opened \<longrightarrow> listen 1 (ls_ListenAddr (c_MySQL cfg)) = Inr l1))
    \<and> (served \<noteq> [] \<or> su_err r = None \<or> (\<exists>e. su_err r = Some (AuditCloseFailed e)) \<longrightarrow> length opened = 3)
    \<and> (\<forall>e. su_err r \<noteq> Some (HandlerFailed e))"
proof -
  obtain hw where hw: "newAuthHTTPHandler cfg (NewStore (OTPStoreConfig cfg) rd1) rd2 rd3 = Inr hw"
    using newAuthHTTPHandler_ok(2) by blast
  obtain al os1 where al: "NewFileLoggerWithConfig \<lparr>fc_Path = as_FilePath (c_Audit cfg), fc_MaxBytes = as_MaxBytes (c_Audit cfg),
       fc_MaxBackups = as_MaxBackups (c_Audit cfg)\<rparr> os = (al, os1)" by fastforce
  show ?thesis
  proof (cases al)
    case (Inl e)
    then have r: "r = leave (Some (AuditOpenFailed e)) \<lparr>fr_defers = [], fr_events = [], fr_logger = None, fr_os = os1\<rparr>"
      using assms al by (simp add: startMasqman_def Let_def)
    show ?thesis unfolding r
      using leave_released[OF owes_step(4), of "Some (AuditOpenFailed e)" os1]
      by (intro exI[of _ "[]"]) auto
  next
    case (Inr k)
    let ?fr1 = "push_defer CloseAudit (add_events [OpenedAudit] \<lparr>fr_defers = [], fr_events = [], fr_logger = Some k, fr_os = os1\<rparr>)"
    let ?fr2 = "\<lambda>l0. push_defer (CloseListener l0) (add_events [Opened l0] ?fr1)"
    let ?fr3 = "\<lambda>l0 l1. push_defer (CloseListener l1) (add_events [Opened l1] (?fr2 l0))"
    have owe1: "owes ?fr1 [OpenedAudit] []" by (rule owes_step(3))
    have owe2: "owes (?fr2 l0) [OpenedAudit, Opened l0] []" for l0 using owes_step(1)[OF owe1] by simp
    have owe3: "owes (?fr3 l0 l1) [OpenedAudit, Opened l0, Opened l1] []" for l0 l1 using owes_step(1)[OF owe2] by simp
    consider (none) e where "r = leave (Some e) ?fr1" "early e"
      | (one) e l0 where "r = leave (Some e) (?fr2 l0)" "early e" "listen 0 (ls_ListenAddr (c_HTTP cfg)) = Inr l0"
      | (both) err l0 l1 rn where "listen 0 (ls_ListenAddr (c_HTTP cfg)) = Inr l0" "listen 1 (ls_ListenAddr (c_MySQL cfg)) = Inr l1"
          "r = leave err (after_serving rn (?fr3 l0 l1))" "err = None \<or> (\<exists>e. err = Some (ServeFailed e))"
    proof -
      note run = assms[unfolded startMasqman_def Let_def al Inr prod.case hw sum.case frame.simps]
      have final: thesis if "listen 0 (ls_ListenAddr (c_HTTP cfg)) = Inr l0" "listen 1 (ls_ListenAddr (c_MySQL cfg)) = Inr l1"
          "(if rn_doneAfter rn then leave None (after_serving rn (?fr3 l0 l1))
            else leave (map_option ServeFailed (serveMasqman cfg rn)) (after_serving rn (?fr3 l0 l1))) = r" for l0 l1 rn
        using both[OF that(1,2), of _ rn] that(3) by (cases "serveMasqman cfg rn") (auto split: if_splits)
      show thesis
      proof (cases "listen 0 (ls_ListenAddr (c_HTTP cfg))")
        case l0: (Inl e)
        then show thesis using run none by (auto simp: early_def split: sum.splits)
      next
        case l0: (Inr l0)
        show thesis
        proof (cases "listen 1 (ls_ListenAddr (c_MySQL cfg))")
          case l1: (Inl e)
          then show thesis using run none one[OF _ _ l0] l0 by (auto simp: early_def split: sum.splits)
        next
          case l1: (Inr l1)
          show thesis using run none final[OF l0 l1] unfolding l0 l1 sum.case by (auto simp: early_def split: sum.splits)
        qed
      qed
    qed
    then show ?thesis
    proof cases
      case none
      then show ?thesis using leave_released[OF owe1, of "Some e"]
        by (intro exI[of _ "[OpenedAudit]"]) (auto simp: early_def)
    next
      case one
      then show ?thesis using leave_released[OF owe2[of l0], of "Some e"]
        by (intro exI[of _ "[OpenedAudit, Opened l0]"]) (auto simp: early_def)
    next
      case both
      have "OpenedAudit \<in> set [OpenedAudit, Opened l0, Opened l1]" by simp
      then show ?thesis
        using leave_released[OF owes_step(2)[OF owe3[of l1 l0]], of rn err] both
        by (intro exI[of _ "[OpenedAudit, Opened l0, Opened l1]"] exI[of _ "rn_closed rn"]) auto
    qed
  qed
qed

text \<open>
  C37.  However the start of the program ends, at whatever step it fails, the closers of the audit log and of
  every listener it opened have run, each once and in the reverse order of opening, after whatever the
  servers closed themselves; the handle of the audit log is closed whatever the file system reports.
  It opens the audit log first, then the listener of the browsers, then the MySQL one.  The browser side never
  fails to be built, the servers run only with both listeners, and a start that reports no error, or
  only that the audit log could not be closed, had both.
\<close>

theorem startup_releases:
  assumes "startMasqman LoadX509KeyPair generated net_Listen protocol Marshal listen rd1 rd2 rd3 serve cfg os = r"
  shows "\<exists>opened served. su_events r = opened @ map Closed served @ map closing (rev opened)
    \<and> (\<forall>l. su_logger r = Some l \<longrightarrow> h_closed (lg_file l))
    \<and> (\<exists>l0 l1. prefix opened [OpenedAudit, Opened l0, Opened l1]
        \<and> (2 \<le> length opened \<longrightarrow> listen 0 (ls_ListenAddr (c_HTTP cfg)) = Inr l0)
        \<and> (3 \<le> length opened \<longrightarrow> listen 1 (ls_ListenAddr (c_MySQL cfg)) = Inr l1))
    \<and> (served \<noteq> [] \<or> su_err r = None \<or> (\<exists>e. su_err r = Some (AuditCloseFailed e)) \<longrightarrow> length opened = 3)
    \<and> (\<forall>e. su_err r \<noteq> Some (HandlerFailed e))"
  using startup_stages[OF assms] unfolding released_def by blast

text \<open>A start that serves until it is interrupted.\<close>

definition interrupted :: "FileLogger \<Rightarrow> OS \<Rightarrow> string serve_run" where
  "interrupted l os = \<lparr>rn_httpFirst = True, rn_http = (\<lambda>_. ContextDone None (Some ErrServerClosed)), rn_mysql = None,
     rn_done = True, rn_doneAfter = True, rn_closed = [''127.0.0.1:8080'', ''127.0.0.1:3307''], rn_logger = l, rn_os = os\<rparr>"

definition demo_startup :: "string startup" where
  "demo_startup = startMasqman (\<lambda>_ _. Inr ()) (Inr ()) (\<lambda>_ address. Inr address)
     (\<lambda>_ :: (unit, unit) goMySQLServer. demo_protocol 1) (\<lambda>ev. Some (ev_UserID ev)) (\<lambda>_ address. Inr address) [] [] []
     (\<lambda>_ (_ :: (string option, unit, FileLogger \<times> OS, Store, unit, unit, nat, string) Server) _ _ l os. interrupted l os)
     Default \<lparr>os_files = Map.empty, os_faults = []\<rparr>"

theorem startup_releases_witness:
  "su_events demo_startup = [OpenedAudit, Opened ''127.0.0.1:8080'', Opened ''127.0.0.1:3307'',
     Closed ''127.0.0.1:8080'', Closed ''127.0.0.1:3307'', Closed ''127.0.0.1:3307'', Closed ''127.0.0.1:8080'', ClosedAudit]
   \<and> (\<exists>l. su_logger demo_startup = Some l \<and> h_closed (lg_file l))"
proof -
  have "su_events demo_startup = [OpenedAudit, Opened ''127.0.0.1:8080'', Opened ''127.0.0.1:3307'',
     Closed ''127.0.0.1:8080'', Closed ''127.0.0.1:3307'', Closed ''127.0.0.1:3307'', Closed ''127.0.0.1:8080'', ClosedAudit]"
    "su_logger demo_startup \<noteq> None"
    by code_simp+
  moreover have "\<forall>l. su_logger demo_startup = Some l \<longrightarrow> h_closed (lg_file l)"
    using startup_releases[OF demo_startup_def[symmetric]] by blast
  ultimately show ?thesis by auto
qed

end
