(* ===== verification/EndToEnd.thy ===== *)
theory EndToEnd
  imports MasqmanProperties
begin

text \<open>
  The two servers of the program on the credential store they share: browser requests
  (\<open>internal/authhttp\<close>) issue credentials, MySQL connections (\<open>internal/mysqlproxy\<close>) use them.
  A run of the system is any interleaving of requests with the operations on the store that
  MySQL connections make.
\<close>

subsection \<open>What a MySQL connection does to the credential store\<close>

definition issuing :: "otp_op \<Rightarrow> bool" where
  "issuing op \<longleftrightarrow> (case op of OpIssue _ _ \<Rightarrow> True | _ \<Rightarrow> False)"

definition store_after :: "Store \<Rightarrow> Store \<Rightarrow> bool" where
  "store_after s s' \<longleftrightarrow> s' = s \<or> (\<exists>op now. \<not> issuing op \<and> s' = snd (exec op now s))"

lemma store_afterI: "\<not> issuing op \<Longrightarrow> s' = snd (exec op now s) \<Longrightarrow> store_after s s'"
  unfolding store_after_def by blast

lemma store_after_ops:
  "vf_PendingCredential store_verifier u src now s = (r, s') \<Longrightarrow> store_after s s'"
  "vf_Consume store_verifier u now s = (r2, s') \<Longrightarrow> store_after s s'"
  "store_after s (vf_RecordFailure store_verifier u src now s)"
  by (rule store_afterI[of "OpPending u src" _ now] store_afterI[of "OpConsume u" _ now] store_afterI[of "OpFailure u src" _ now];
      auto simp: issuing_def store_verifier_def split: prod.splits sum.splits)+

lemma auditAuth_credentials [simp]: "sa_credentials (snd (auditAuth now u d cls h)) = sa_credentials h"
  by (auto simp: auditAuth_def split: option.splits prod.splits)

lemma auditAuth_keeps_credentials: "auditAuth now u d cls h = (err, h') \<Longrightarrow> sa_credentials h' = sa_credentials h"
  by (metis auditAuth_credentials snd_conv)

lemma recordAuthSuccess_store:
  assumes "oa_verifier (sa_credentials h) = store_verifier" "recordAuthSuccess up clk u a h = (err, h')"
  shows "store_after (oa_credentials (sa_credentials h)) (oa_credentials (sa_credentials h'))"
proof -
  have consume: "store_after (oa_credentials (sa_credentials h)) (oa_credentials c)"
    if "consumeAuthSuccess u a (clk 0) (sa_credentials h) = (r, c)" for r c
    using that assms(1) store_after_ops(2)[of "if u = '''' then oa_lastUsername (sa_credentials h) else u" "clk 0" "oa_credentials (sa_credentials h)"]
    by (auto simp: consumeAuthSuccess_def Let_def split: prod.splits sum.splits)
  have same: "store_after s s" for s by (simp add: store_after_def)
  show ?thesis
    using assms(2) consume same
    by (auto simp: recordAuthSuccess_def Let_def close_session_def split: prod.splits sum.splits option.splits
        dest!: auditAuth_keeps_credentials)
qed

text \<open>Whatever the protocol server makes of a connection, each of its calls does at most one
  operation on the store, and never issues.\<close>

lemma handle_call_store:
  assumes "oa_verifier (sa_credentials h) = store_verifier" "handle_call lib up c clk h = (reply, h')"
  shows "store_after (oa_credentials (sa_credentials h)) (oa_credentials (sa_credentials h'))"
proof (cases c)
  case (CallGetCredential username)
  then show ?thesis using assms store_after_ops(1)[of username "oa_sourceAddr (sa_credentials h)" "clk 0" "oa_credentials (sa_credentials h)"]
    by (auto simp: handle_call_def session_GetCredential_def GetCredential_def Let_def split: prod.splits sum.splits)
next
  case (CallAuthSuccess conn)
  then show ?thesis using assms recordAuthSuccess_store[OF assms(1), of up clk "cx_User conn" "cx_LocalAddr conn"]
    by (auto simp: handle_call_def OnAuthSuccess_def store_after_def split: prod.splits if_splits)
next
  case (CallAuthFailure conn)
  show ?thesis using assms CallAuthFailure store_after_ops(3)
    by (auto simp: handle_call_def OnAuthFailure_def otp_OnAuthFailure_def recordAuthFailure_def Let_def)
qed (use assms in \<open>auto simp: handle_call_def store_after_def split: prod.splits\<close>)

lemma store_after_users:
  assumes "store_after s s'" "st_credentials s' n = Some c'"
  shows "\<exists>c. st_credentials s n = Some c \<and> sc_user c' = sc_user c"
proof (cases "s' = s")
  case False
  then obtain op now where op: "\<not> issuing op" "s' = snd (exec op now s)"
    using assms(1) by (auto simp: store_after_def)
  show ?thesis
  proof (cases op)
    case (OpPending u src)
    then show ?thesis using op(2) assms(2) Pending_credentials[of u src now s]
      by (auto split: if_splits)
  next
    case (OpConsume u)
    then show ?thesis using op(2) assms(2) Consume_credentials[of u now s] by (auto split: if_splits)
  next
    case (OpFailure u src)
    then show ?thesis using op(2) assms(2) by (auto simp: store_simps split: if_splits)
  qed (use op(1) in \<open>simp add: issuing_def\<close>)
qed (use assms(2) in simp)

subsection \<open>Runs of the system\<close>

text \<open>\<open>system h format w0 rs w\<close>: from \<open>w0\<close> the requests \<open>rs\<close>, latest first, and the MySQL side lead to \<open>w\<close>.\<close>

inductive system :: "(time \<Rightarrow> string) \<Rightarrow> Handler \<Rightarrow> Web \<Rightarrow> Request list \<Rightarrow> Web \<Rightarrow> bool" for format h w0 where
  start: "system format h w0 [] w0"
| browser: "system format h w0 rs w \<Longrightarrow> ServeHTTP format h clk r w = (resp, w') \<Longrightarrow> system format h w0 (r # rs) w'"
| mysql: "system format h w0 rs w \<Longrightarrow> store_after (w_issuer w) s \<Longrightarrow> system format h w0 rs (w\<lparr>w_issuer := s\<rparr>)"

definition signed_in :: "Handler \<Rightarrow> Request list \<Rightarrow> User \<Rightarrow> bool" where
  "signed_in h rs user \<longleftrightarrow> (\<exists>r\<in>set rs. \<exists>form. rq_Method r = ''POST'' \<and> rq_Path r = ''/login'' \<and> rq_PostForm r = Some form
     \<and> h_authProvider h (PostForm_Get form ''username'') (PostForm_Get form ''password'') = Inr user)"

lemma signed_in_mono: "signed_in h rs user \<Longrightarrow> signed_in h (r # rs) user"
  by (auto simp: signed_in_def)

lemma system_users:
  assumes "system format h w0 rs w" "ses_sessions (w_sessions w0) = Map.empty" "st_credentials (w_issuer w0) = Map.empty"
  shows "(\<forall>i x. ses_sessions (w_sessions w) i = Some x \<longrightarrow> signed_in h rs (s_User x))
    \<and> (\<forall>n c. st_credentials (w_issuer w) n = Some c \<longrightarrow> signed_in h rs (sc_user c))"
  using assms(1)
proof (induction rule: system.induct)
  case start
  then show ?case using assms(2,3) by simp
next
  case (mysql rs w s)
  then show ?case using store_after_users[OF mysql.hyps(2)] by (auto; metis)
next
  case (browser rs w clk r resp w')
  have "signed_in h (r # rs) (s_User x)" if "ses_sessions (w_sessions w') i = Some x" for i x
    using sessions_created[OF browser.hyps(2)]
  proof
    assume "no_new_sessions (w_sessions w) (w_sessions w')"
    then show ?thesis using that browser.IH signed_in_mono unfolding no_new_sessions_def by metis
  next
    assume a: "rq_Method r = ''POST'' \<and> rq_Path r = ''/login'' \<and> login_creates h clk r w resp w'"
    then obtain form y where y: "rq_PostForm r = Some form"
        "h_authProvider h (PostForm_Get form ''username'') (PostForm_Get form ''password'') = Inr (s_User y)"
        "ses_sessions (w_sessions w') = (ses_sessions (w_sessions w))(s_ID y \<mapsto> y)"
      unfolding login_creates_def by blast
    have "signed_in h (r # rs) (s_User y)" using a y(1,2) by (auto simp: signed_in_def)
    then show ?thesis using that y(3) browser.IH signed_in_mono by (auto split: if_splits)
  qed
  moreover have "signed_in h (r # rs) (sc_user c)" if "st_credentials (w_issuer w') n = Some c" for n c
    using ServeHTTP_issues[OF browser.hyps(2)]
  proof
    assume "issues_nothing w resp w'"
    then show ?thesis using that browser.IH signed_in_mono by (metis issues_nothing_def)
  next
    assume "rq_Method r = ''POST'' \<and> rq_Path r = ''/credentials'' \<and>
      (\<exists>x. authorised clk r (w_sessions w) x \<and> issues_to format h r w x resp w')"
    then obtain x cr where x: "authorised clk r (w_sessions w) x"
        "st_credentials (w_issuer w') = (st_credentials (w_issuer w))(cred_Username cr \<mapsto> fresh_credential (s_User x) cr)"
      unfolding issues_to_def by blast
    have "signed_in h rs (s_User x)" using x(1) browser.IH by (auto simp: authorised_def split: option.splits)
    then show ?thesis using that x(2) browser.IH signed_in_mono by (auto simp: fresh_credential_def split: if_splits)
  qed
  ultimately show ?case by blast
qed

lemma find_SomeD: "find P xs = Some x \<Longrightarrow> P x \<and> x \<in> set xs"
  by (induction xs) (auto split: if_splits)

lemma Authenticate_Inr:
  "Authenticate (NewLocalProvider us) name pw = Inr user \<Longrightarrow>
     \<exists>u\<in>set us. lu_Username u = name \<and> lu_Password u = pw \<and> user_ID user = name"
  by (auto simp: Authenticate_def NewLocalProvider_find ConstantTimeEq_def
      split: option.splits if_splits dest!: find_SomeD)

subsection \<open>Properties\<close>

text \<open>
  C1.  Nobody works on the database without having signed in: in every run of the program as it is
  wired from its configuration, when a MySQL login succeeds, a browser has before posted the name and
  the password of a configured user to the login route, and the session, and with it every
  record of it in the audit log, is that user's.
\<close>

theorem logins_signed_in_before:
  assumes "newAuthHTTPHandler cfg (NewStore (OTPStoreConfig cfg) rd) rd1 rd2 = Inr (h, w0)"
    and "system format h w0 rs w"
    and "oa_verifier (sa_credentials k) = store_verifier" "oa_credentials (sa_credentials k) = w_issuer w"
    and "OnAuthSuccess up clk conn k = (None, k')"
  shows "\<exists>r\<in>set rs. \<exists>form. \<exists>u\<in>set (c_LocalUsers cfg). rq_Method r = ''POST'' \<and> rq_Path r = ''/login''
    \<and> rq_PostForm r = Some form \<and> PostForm_Get form ''username'' = lu_Username u
    \<and> PostForm_Get form ''password'' = lu_Password u \<and> ai_userID (ph_identity (sa_session k')) = lu_Username u"
proof -
  note h = newAuthHTTPHandler_ok(1)[OF assms(1)]
  obtain c name where c: "st_credentials (w_issuer w) name = Some c"
      "ai_userID (ph_identity (sa_session k')) = user_ID (sc_user c)"
    using login_outcome[OF assms(5,3) refl] assms(4) by auto
  have "signed_in h rs (sc_user c)"
    using system_users[OF assms(2)] h c(1) by (simp add: NewStore_def)
  then obtain r form where r: "r \<in> set rs" "rq_Method r = ''POST''" "rq_Path r = ''/login''" "rq_PostForm r = Some form"
      "Authenticate (NewLocalProvider (c_LocalUsers cfg)) (PostForm_Get form ''username'') (PostForm_Get form ''password'')
        = Inr (sc_user c)"
    using h by (auto simp: signed_in_def)
  show ?thesis using Authenticate_Inr[OF r(5)] r(1-4) c(2) by metis
qed






subsection \<open>A run\<close>

text \<open>Carol signs in, asks for a credential and logs in to MySQL with it.\<close>

definition carol_config :: Config where
  "carol_config = Default\<lparr>c_LocalUsers := [\<lparr>lu_Username = ''carol'', lu_Password = ''pw'', lu_DisplayName = ''''\<rparr>],
     c_OTP := \<lparr>otp_TTL = 50, otp_UsernameEntropyBits = 24, otp_PasswordEntropyBits = 24\<rparr>\<rparr>"

definition carol_start :: "Handler \<times> Web" where
  "carol_start = projr (newAuthHTTPHandler carol_config
     (NewStore (OTPStoreConfig carol_config) ''abcdef'') (replicate 64 (CHR ''s'')) [])"

text \<open>A rendering of times that can be read back.\<close>

definition ticks :: "time \<Rightarrow> string" where "ticks t = replicate (nat t) (CHR ''x'')"

definition carol_clock :: "nat \<Rightarrow> time" where "carol_clock i = 1"

definition carol_login :: Request where
  "carol_login = \<lparr>rq_Method = ''POST'', rq_Path = ''/login'', rq_Host = ''db:80'',
     rq_Cookies = [(loginCSRFCookieName, ''t'')],
     rq_PostForm = Some [(csrfFormField, ''t''), (''username'', ''carol''), (''password'', ''pw'')]\<rparr>"

definition carol_signed_in :: "Response \<times> Web" where
  "carol_signed_in = ServeHTTP ticks (fst carol_start) carol_clock carol_login (snd carol_start)"

definition carol_token :: string where
  "carol_token = EncodeToString (replicate 32 (CHR ''s''))"

definition carol_ask :: Request where
  "carol_ask = \<lparr>rq_Method = ''POST'', rq_Path = ''/credentials'', rq_Host = ''db:80'',
     rq_Cookies = [(sessionCookieName, carol_token)], rq_PostForm = Some [(csrfFormField, carol_token)]\<rparr>"

definition carol_issued :: "Response \<times> Web" where
  "carol_issued = ServeHTTP ticks (fst carol_start) carol_clock carol_ask (snd carol_signed_in)"

definition carol_name :: string where "carol_name = EncodeToString ''abc''"

definition carol_client :: "(string option, string option list list tapped, unit, Store, unit, unit) sessionAuthenticationHandler" where
  "carol_client = demo_auth\<lparr>sa_credentials := newOTPAuthenticationHandler store_verifier (w_issuer (snd carol_issued))
     ''127.0.0.1:5000'' None ()\<rparr>"


lemma carol_connects: "fst (OnAuthSuccess (tap demo_session) carol_clock (demo_conn carol_name) carol_client) = None"
  by code_simp

lemma carol_runs:
  "newAuthHTTPHandler carol_config (NewStore (OTPStoreConfig carol_config) ''abcdef'') (replicate 64 (CHR ''s'')) []
     = Inr (fst carol_start, snd carol_start)"
  "system ticks (fst carol_start) (snd carol_start) [carol_ask, carol_login] (snd carol_issued)"
proof -
  show "newAuthHTTPHandler carol_config (NewStore (OTPStoreConfig carol_config) ''abcdef'') (replicate 64 (CHR ''s'')) []
     = Inr (fst carol_start, snd carol_start)"
    using newAuthHTTPHandler_ok(2)[of carol_config "NewStore (OTPStoreConfig carol_config) ''abcdef''" "replicate 64 (CHR ''s'')" "[]"]
    unfolding carol_start_def by force
  have "system ticks (fst carol_start) (snd carol_start) [carol_login] (snd carol_signed_in)"
    by (rule browser[OF system.start, where clk = carol_clock and resp = "fst carol_signed_in"]) (simp add: carol_signed_in_def)
  then show "system ticks (fst carol_start) (snd carol_start) [carol_ask, carol_login] (snd carol_issued)"
    by (rule browser[where clk = carol_clock and resp = "fst carol_issued"]) (simp add: carol_issued_def)
qed

lemma carol_client_simps: "oa_verifier (sa_credentials carol_client) = store_verifier"
  "oa_credentials (sa_credentials carol_client) = w_issuer (snd carol_issued)"
  by (simp_all add: carol_client_def newOTPAuthenticationHandler_def)

theorem logins_signed_in_before_witness:
  "\<exists>k'. OnAuthSuccess (tap demo_session) carol_clock (demo_conn carol_name) carol_client = (None, k')
     \<and> ai_userID (ph_identity (sa_session k')) = ''carol''"
proof -
  obtain k' where k': "OnAuthSuccess (tap demo_session) carol_clock (demo_conn carol_name) carol_client = (None, k')"
    using carol_connects by (metis fst_conv surj_pair)
  from logins_signed_in_before[OF carol_runs carol_client_simps k']
  show ?thesis using k' by (auto simp: carol_config_def)
qed


end
