(* ===== verification/Spec2Isabelle.thy ===== *)
theory Spec2Isabelle
  imports SqlPolicyProperties OtpProperties AuditNormalize AuditLogProperties ConfigProperties
    SessionProperties AuthPages MaskTypes SessionHandlers EndToEnd
begin

text \<open>
  Masqman is a MySQL proxy that masks result sets.  A user signs in with a browser, is issued a
  one-time MySQL credential and connects to the proxy with it; the proxy classifies every
  statement, executes the allowed ones over an upstream connection, masks the values of
  columns that are not allowed, and writes an audit log.

  \<^bold>\<open>Parts and their theories.\<close>
  \<^item> \<open>internal/sqlpolicy\<close>: \<open>SqlScan\<close> has the scanners of \<open>classifier.go\<close> (comments, literals,
    statement ends), \<open>SqlPolicy\<close> the classifier over the syntax tree of the TiDB parser,
    \<open>SqlPolicyProperties\<close> what each verdict guarantees.
  \<^item> \<open>internal/masking\<close>: \<open>Masking\<close>, the allow rules, their lookup tables and the placeholders, with the
    locale \<open>masking_policy\<close> for the Go interface \<open>masking.Policy\<close>.
  \<^item> \<open>internal/auth\<close>: \<open>LocalAuth\<close>.  \<open>internal/otp\<close>: \<open>Tokens\<close> (random tokens and base64), \<open>RateWindow\<close>
    (sliding windows), \<open>OtpStore\<close> (the credential store), \<open>OtpTraces\<close> and \<open>OtpProperties\<close> (whole runs of it).
  \<^item> \<open>internal/audit\<close>: \<open>AuditNormalize\<close> (the redacted statement), \<open>AuditLog\<close> (the file logger over a
    file system in which any call may fail), \<open>AuditLogProperties\<close>.
  \<^item> \<open>internal/config\<close>: \<open>Config\<close>, \<open>ConfigProperties\<close>.
  \<^item> \<open>internal/authhttp\<close>: \<open>BrowserSessions\<close> and \<open>SessionProperties\<close> (\<open>session.go\<close>), \<open>AuthHandler\<close>,
    \<open>AuthHandlerProperties\<close> and \<open>AuthPages\<close> (\<open>handler.go\<close>: routes and page templates).
  \<^item> \<open>internal/mysqlproxy\<close>, from the connection inwards: \<open>ProxyServer\<close> (\<open>server.go\<close>: accept loop and
    shutdown), \<open>ClientConnection\<close> and \<open>ConnectionProperties\<close> (\<open>client_connection.go\<close>),
    \<open>MySQLAuth\<close> and \<open>MySQLAuthProperties\<close> (\<open>authentication_handler.go\<close>,
    \<open>session_authentication_handler.go\<close>), \<open>UpstreamConnector\<close>, \<open>DeferredSession\<close>, \<open>PolicyHandler\<close> and
    \<open>PolicyProperties\<close>, \<open>Forwarding\<close>, \<open>ForwardingProperties\<close> and \<open>MaskTypes\<close>, and \<open>Protocol\<close> (\<open>protocol.go\<close> and the view of
    \<open>go-mysql\<close>).  \<open>SessionLifecycle\<close> follows one session through its phases, \<open>SessionHandlers\<close>
    compares it with a session built over its connection.
  \<^item> \<open>cmd/masqman\<close> and \<open>internal/app\<close>: \<open>Masqman\<close>, \<open>MasqmanProperties\<close>.  \<open>EndToEnd\<close> runs the two servers on one
    credential store.
  \<^item> \<open>Prelude\<close> and \<open>GoStrings\<close> hold what the others share: the collections of simplification rules, time,
    and the functions of Go's packages \<open>strings\<close>, \<open>unicode/utf8\<close> and \<open>net\<close> that the code calls.

  \<^bold>\<open>How the code is modelled.\<close>  Definitions keep the names of the source; a method is a function of the
  same name on the record of its receiver, with the receiver's type as a prefix where two methods share a name
  (\<open>forwarding_HandleQuery\<close>, \<open>policy_HandleQuery\<close>, \<open>deferred_HandleQuery\<close>, \<open>session_HandleQuery\<close>).  Go
  strings and byte slices are lists of bytes.  An operation returns its result with the next state;
  an error is a left value of a sum, or \<open>Some\<close> of an optional error.  Objects guarded by a mutex (the two
  stores, the logger) are values that each operation transforms atomically.  The clock, random
  bytes and every call of code outside the repository are arguments: \<open>mysql_lib\<close> and
  \<open>upstreamSession\<close> for \<open>go-mysql\<close>, \<open>parser\<close> for TiDB, readers for random sources.  Callbacks that
  such code makes into the repository are interaction trees: \<open>select_stream\<close> for streamed rows and
  \<open>protocol_run\<close> for what a protocol server does with its handlers, so that the theorems hold
  for every order and number of calls.

  \<^bold>\<open>Interfaces.\<close>  \<open>masking_policy\<close> (interpreted on \<open>StaticPolicy\<close>), \<open>next_handler\<close> (the handler behind the
  policy handler, interpreted on the forwarding and on the deferred handler) and \<open>one_time_verifier\<close>
  (\<open>otp.Verifier\<close>, interpreted on the credential store) state what one part relies on in another.

  \<^bold>\<open>Concurrency.\<close>  \<open>server_step\<close> interleaves the accept loop, the goroutine that waits for the cancellation and
  the connections' goroutines, one channel operation or critical section at a time; \<open>system\<close> interleaves browser
  requests with the store operations of MySQL connections, which \<open>handle_call_store\<close> shows to
  be all that a connection does to the store.

  \<^bold>\<open>Termination.\<close>  The scanners recur on the rest of the statement.  The loop over the commands of a connection
  (\<open>serve_loop\<close>) need not end; it is a partial function whose value \<open>None\<close> stands for that, and
  \<open>audit_outage_ends_serving\<close> shows that it returns when the audit log is lost, however long the client
  would go on.  \<open>server_drains\<close> bounds the steps of a shutdown, relying only on what the program itself
  has closed.  No definition runs on fuel.

  \<^bold>\<open>What is shown.\<close>  End to end: a MySQL login succeeds only after the user it acts for has signed in with the
  browser, and the credential shown to a user is the one that works.  Per statement: what reaches the
  upstream is allowed, what returns is masked (two results that agree on the readable columns
  are indistinguishable), within the limits, in the form of its numeric and temporal columns, and recorded first.
  Per connection and per server: every upstream connection is closed once, a lost audit log
  ends the connections, serving is bounded and the shutdown comes to its end.  Pages show their data, all of it and
  as data.  Per store: single use, expiry, rates and refinement of an abstract
  log.  For scanners, rules and validation: equivalence with declarative readings.

  \<^bold>\<open>Where code and documents part.\<close>  The theorems state what the code does.  On shutdown it closes the MySQL
  connections at once, where the documents promise a drain deadline; the idle timeout and the
  maximum duration of MySQL sessions are configured and never applied; quoted identifiers can leak a literal into the
  audit log (\<open>quoted_identifier_leak\<close>), and a dotted schema can reveal a table that was never configured
  (\<open>dotted_schema_collision\<close>).

  \<^bold>\<open>Not modelled.\<close>  The TOML decoder, the TiDB parser, \<open>go-mysql\<close> (its adapter in \<open>client_connection.go\<close> only forwards),
  TLS, sockets and signals, the \<open>net/http\<close> server, text written to the standard error, the erasing of
  memory that is no longer reachable, and contexts, which the modelled code passes on without looking at
  them.  Integer overflow is modelled where it can be reached from a configuration (\<open>entropyBytes\<close>).
\<close>

end
